(* ===== verification/Prelude.thy ===== *)
theory Prelude
  imports Main "HOL-Library.Word"
begin

text \<open>
  What every component shares: machine-integer types, Rust's \<open>Result\<close> as a sum type, the text
  helpers behind \<open>format!\<close>, \<open>join\<close> and \<open>to_string\<close>, and generic lemmas on lists and maps.
  Rust strings are UTF-8 byte sequences; the model's \<open>string\<close> is a list of \<open>char\<close>, and HOL's
  \<open>char\<close> is a byte, so literals and concatenation agree with the code on ASCII text.
\<close>

type_synonym u8 = "8 word"
type_synonym u16 = "16 word"
type_synonym u32 = "32 word"
type_synonym u64 = "64 word"
type_synonym bytes = "u8 list"

text \<open>\<open>Result<T, E>\<close>: \<open>Inl\<close> is \<open>Err\<close>, \<open>Inr\<close> is \<open>Ok\<close>.\<close>

type_synonym ('e, 'a) result = "'e + 'a"

named_theorems effect_simps \<open>unfoldings of the small effect and command helpers\<close>

subsection \<open>Text\<close>

definition quote_char :: char where
  "quote_char = CHR 0x27"

definition quoted :: "string \<Rightarrow> string" where
  "quoted s = quote_char # s @ [quote_char]"

definition newline :: char where
  "newline = CHR 0x0A"

definition digit_char :: "nat \<Rightarrow> char" where
  "digit_char n = char_of (48 + n)"

fun show_nat :: "nat \<Rightarrow> string" where
  "show_nat n = (if n < 10 then [digit_char n] else show_nat (n div 10) @ [digit_char (n mod 10)])"

declare show_nat.simps [simp del]

text \<open>\<open><[String]>::join(sep)\<close>.\<close>

fun join :: "string \<Rightarrow> string list \<Rightarrow> string" where
  "join sep [] = []"
| "join sep [x] = x"
| "join sep (x # y # xs) = x @ sep @ join sep (y # xs)"

text \<open>\<open>str::split(c)\<close>.\<close>

fun split_on :: "char \<Rightarrow> string \<Rightarrow> string list" where
  "split_on c [] = [[]]"
| "split_on c (x # xs) =
     (if x = c then [] # split_on c xs
      else (case split_on c xs of [] \<Rightarrow> [[x]] | p # ps \<Rightarrow> (x # p) # ps))"

lemma split_on_no_sep: "c \<notin> set t \<Longrightarrow> split_on c t = [t]"
  by (induction t) auto

lemma split_on_append: "c \<notin> set t \<Longrightarrow> split_on c (t @ c # rest) = t # split_on c rest"
  by (induction t) auto

lemma split_on_nonempty [simp]: "split_on c t \<noteq> []"
  by (induction t) (auto split: list.splits)

lemma split_on_append_iff: "split_on c (s @ c # t) = split_on c s @ split_on c t"
  by (induction s) (auto split: list.splits)

subsection \<open>Sums\<close>

definition is_ok :: "('e, 'a) result \<Rightarrow> bool" where
  "is_ok r = (case r of Inl _ \<Rightarrow> False | Inr _ \<Rightarrow> True)"

lemma is_ok_simps [simp]: "is_ok (Inr a)" "\<not> is_ok (Inl e)"
  by (simp_all add: is_ok_def)

text \<open>\<open>iter().map(f).collect::<Result<Vec<_>, _>>()\<close>: stops at the first error.\<close>

fun collect_results :: "('e, 'a) result list \<Rightarrow> ('e, 'a list) result" where
  "collect_results [] = Inr []"
| "collect_results (Inl e # rs) = Inl e"
| "collect_results (Inr a # rs) =
     (case collect_results rs of Inl e \<Rightarrow> Inl e | Inr as \<Rightarrow> Inr (a # as))"

lemma collect_results_map_Inr [simp]: "collect_results (map Inr xs) = Inr xs"
  by (induction xs) auto

lemma collect_results_Inr_length:
  "collect_results rs = Inr as \<Longrightarrow> length as = length rs"
  by (induction rs arbitrary: as rule: collect_results.induct) (auto split: sum.splits)

lemma collect_results_Inr_iff:
  "collect_results rs = Inr as \<longleftrightarrow> rs = map Inr as"
proof (induction rs arbitrary: as rule: collect_results.induct)
  case (3 a rs)
  then show ?case by (cases as) (auto split: sum.splits)
qed auto

lemma collect_results_map:
  "collect_results (map f xs) = Inr ys \<Longrightarrow> (\<And>x y. f x = Inr y \<Longrightarrow> y = g x) \<Longrightarrow> ys = map g xs"
  unfolding collect_results_Inr_iff by (induction xs arbitrary: ys) auto

subsection \<open>Words\<close>

text \<open>An \<open>i32\<close> made from a large \<open>u32\<close> is negative.\<close>

lemma large_u32_negative: "0x80000000 \<le> n \<Longrightarrow> sint n < 0" for n :: u32
proof -
  assume "0x80000000 \<le> n"
  then have l: "2 ^ 31 \<le> uint n" by (simp add: word_le_def)
  have "uint n < 2 ^ 32" using unsigned_less [of n] by simp
  with l have "uint n div 2 ^ 31 = 1" by (intro div_pos_geq [THEN trans]) auto
  then have "bit (uint n) 31" by (simp add: bit_iff_odd)
  then show ?thesis by (simp add: sint_uint)
qed

lemma unat_less_increases: "i < m \<Longrightarrow> unat (i + 1) = Suc (unat i)" for i m :: "'a::len word"
proof -
  assume "i < m"
  then have "unat i < unat m" by (simp add: word_less_nat_alt)
  moreover have "unat m < 2 ^ LENGTH('a)" by (rule unsigned_less)
  ultimately have "Suc (unat i) < 2 ^ LENGTH('a)" by linarith
  then show ?thesis by (simp add: unat_word_ariths)
qed

subsection \<open>Lists\<close>

text \<open>A log numbered by an interval: dropping the numbers up to a bound drops a prefix.\<close>

lemma filter_greater_upt:
  "filter (\<lambda>n. k < n) [a..<b] = [max a (Suc k)..<b]"
  by (induction b) (auto simp: max_def)

lemma map_snd_filter_numbered:
  assumes "map fst es = [Suc a..<Suc (a + length es)]" and "a \<le> k"
  shows "map snd (filter (\<lambda>(n, _). k < n) es) = drop (k - a) (map snd es)"
  using assms
proof (induction es arbitrary: a)
  case Nil
  then show ?case by simp
next
  case (Cons e es)
  obtain n b where e: "e = (n, b)" by (cases e)
  have up: "[Suc a..<Suc (a + length (e # es))] = Suc a # [Suc (Suc a)..<Suc (Suc a + length es)]"
    by (simp add: upt_rec)
  from Cons.prems(1) e have n: "n = Suc a" and tl: "map fst es = [Suc (Suc a)..<Suc (Suc a + length es)]"
    unfolding up by simp_all
  show ?case
  proof (cases "k = a")
    case True
    have "\<forall>x\<in>set (map fst es). k < x" unfolding tl using True by auto
    then have "filter (\<lambda>(n, _). k < n) es = es" by (auto simp: filter_id_conv)
    with e n True show ?thesis by simp
  next
    case False
    with Cons.prems(2) have "Suc a \<le> k" by simp
    from Cons.IH [OF tl this] e n False \<open>Suc a \<le> k\<close> show ?thesis
      by (simp add: Suc_diff_le [symmetric] drop_Cons')
  qed
qed

lemma foldl_invariant:
  assumes "P s" and "\<And>s x. P s \<Longrightarrow> x \<in> set xs \<Longrightarrow> P (f s x)"
  shows "P (foldl f s xs)"
  using assms by (induction xs arbitrary: s) auto

lemma find_Some_in: "find P xs = Some x \<Longrightarrow> x \<in> set xs \<and> P x"
  by (metis find_Some_iff nth_mem)

lemma find_None_all: "find P xs = None \<longleftrightarrow> (\<forall>x\<in>set xs. \<not> P x)"
  by (auto simp: find_None_iff)

end
