(* ===== verification/Models.thy ===== *)
theory Models
  imports Prelude
begin

text \<open>
  The protocol types shared by the crates: the JSON value, the conversation (roles, content parts,
  messages, inputs, results), the streaming agent events, the workflow graph, the runtime tool
  calls, the executor protocol and the daemon job status. The structs and unions are declared in
  \<open>src/fluorite/*.fl\<close>; \<open>src/models/src/lib.rs\<close> adds the constructors modelled at the end.
\<close>

subsection \<open>JSON values\<close>

text \<open>
  \<open>serde_json::Value\<close>. A number is what \<open>as_u64\<close> distinguishes: a non-negative integer, a negative
  one, or a float, whose decimal text is kept opaque. An object is the list of its entries.
\<close>

datatype number = PosInt u64 | NegInt int | Float string

datatype json =
    JNull
  | JBool bool
  | JNumber number
  | JString string
  | JArray "json list"
  | JObject "(string \<times> json) list"

fun json_get :: "json \<Rightarrow> string \<Rightarrow> json option" where
  "json_get (JObject kvs) k = map_of kvs k"
| "json_get _ k = None"

fun json_as_str :: "json \<Rightarrow> string option" where
  "json_as_str (JString s) = Some s"
| "json_as_str _ = None"

fun json_as_u64 :: "json \<Rightarrow> u64 option" where
  "json_as_u64 (JNumber (PosInt n)) = Some n"
| "json_as_u64 _ = None"

fun json_as_bool :: "json \<Rightarrow> bool option" where
  "json_as_bool (JBool b) = Some b"
| "json_as_bool _ = None"

text \<open>\<open>input["key"]\<close>: the entry, or \<open>Null\<close> when there is none.\<close>

definition json_index :: "json \<Rightarrow> string \<Rightarrow> json" where
  "json_index v k = (case json_get v k of None \<Rightarrow> JNull | Some x \<Rightarrow> x)"

subsection \<open>Conversation (\<open>fluorite/agent.fl\<close>)\<close>

datatype role = User | Assistant | Tool

record tool_call_part =
  tc_id :: string
  tc_name :: string
  tc_input :: json

record tool_result_part =
  tr_call_id :: string
  tr_output :: string
  tr_is_error :: bool

datatype content_part =
    TextPart string
  | ToolCallPart tool_call_part
  | ToolResultPart tool_result_part
  | ThinkingPart string "string option"

record message =
  msg_id :: string
  msg_role :: role
  msg_parts :: "content_part list"

record usage =
  input_tokens :: u32
  output_tokens :: u32

datatype agent_input =
    UserMessage string string
  | ToolResultInput string string bool

datatype agent_result =
    Completed string
  | Handoff string json

record agent_output =
  out_result :: agent_result
  out_usage :: usage

subsection \<open>Streaming events (\<open>fluorite/events.fl\<close>)\<close>

datatype agent_event =
    InputMessage string agent_input
  | MessageStart string role
  | MessageStop string
  | MessageComplete string message
  | TextChunk string u32 string
  | ThinkingChunk string u32 string
  | ToolCallStart string u32 string string
  | ToolCallInputDelta string u32 string string
  | ToolCallInputDone string u32 string
  | ToolExecuting string string
  | ToolComplete string string string bool
  | RunComplete string usage u32

subsection \<open>Workflow graph (\<open>fluorite/workflow.fl\<close>)\<close>

record workflow_transition =
  tr_to :: string
  tr_condition :: "string option"

record workflow_agent_def =
  ad_name :: string
  ad_system_prompt :: "string option"
  ad_model :: string
  ad_output_schema :: "json option"
  ad_allow_ask_user :: bool
  ad_transitions :: "workflow_transition list option"
  ad_max_iterations :: "u32 option"
  ad_max_retries :: "u32 option"
  ad_allowed_tools :: "string list option"

record workflow_definition =
  wd_start :: string
  wd_agents :: "workflow_agent_def list"

subsection \<open>Capabilities (\<open>fluorite/capabilities.fl\<close>)\<close>

datatype access = Read | ReadWrite

datatype network_policy = Block | Allow

datatype grant =
    DirGrant string access
  | FileGrant string access
  | WorkingDirGrant access

record capability_spec =
  cs_network :: network_policy
  cs_grants :: "grant list"

subsection \<open>Runtime protocol (\<open>fluorite/runtime.fl\<close>)\<close>

datatype replace_mode = RegexMode string | LinesMode u64 u64

datatype runtime_call =
    CallBash string
  | CallReadFile string "u64 option" "u64 option"
  | CallWriteFile string string
  | CallEditFile string string string
  | CallReplaceInFile string string replace_mode
  | CallListFiles string
  | CallGlob string "string option" "u64 option"
  | CallGrep string "string option" "string option" "u64 option"

text \<open>\<open>exit_code\<close> is an \<open>i32\<close>.\<close>

record tool_output =
  to_stdout :: string
  to_stderr :: string
  to_exit_code :: u32

datatype tool_result = ToolOk tool_output | ToolErr string

subsection \<open>Executor protocol (\<open>fluorite/executor.fl\<close>)\<close>

datatype runtime_state = RsCreating | RsRunning | RsStopping | RsStopped | RsFailed

record runtime_info =
  ri_runtime_id :: string
  ri_state :: runtime_state
  ri_restart_count :: u32

text \<open>A runtime's configuration is its working directory.\<close>

datatype executor_command =
    CreateRuntime string string
  | DestroyRuntime string
  | RestartRuntime string
  | QueryRuntimes
  | ExecToolCall string string runtime_call
  | CancelToolCall string string

datatype executor_event =
    Registered string
  | RuntimeStateChanged string runtime_state
  | RuntimesListed "runtime_info list"
  | CommandFailed string
  | ToolResultEvent string string tool_result

subsection \<open>Daemon job status (\<open>fluorite/daemon.fl\<close>)\<close>

datatype job_status =
    JobRunning
  | JobSuspendedStatus
  | JobAwaitingUserInput
  | JobFinished
  | JobFailedStatus

record job_summary =
  js_job_id :: string
  js_workflow_name :: string
  js_status :: job_status
  js_submitted_at :: u64
  js_workdir :: string

subsection \<open>Message constructors (\<open>models/src/lib.rs\<close>)\<close>

definition result_id :: "string \<Rightarrow> string" where
  "result_id tool_call_id = ''result:'' @ tool_call_id"

definition message_user :: "string \<Rightarrow> string \<Rightarrow> message" where
  "message_user mid text = \<lparr>msg_id = mid, msg_role = User, msg_parts = [TextPart text]\<rparr>"

definition message_tool_result :: "string \<Rightarrow> string \<Rightarrow> bool \<Rightarrow> message" where
  "message_tool_result call out err =
     \<lparr>msg_id = result_id call, msg_role = Tool,
      msg_parts = [ToolResultPart \<lparr>tr_call_id = call, tr_output = out, tr_is_error = err\<rparr>]\<rparr>"

definition input_user_message :: "string \<Rightarrow> string \<Rightarrow> agent_input" where
  "input_user_message mid text = UserMessage mid text"

definition input_tool_result :: "string \<Rightarrow> string \<Rightarrow> bool \<Rightarrow> agent_input" where
  "input_tool_result call out err = ToolResultInput call out err"

fun input_message_id :: "agent_input \<Rightarrow> string" where
  "input_message_id (UserMessage mid _) = mid"
| "input_message_id (ToolResultInput call _ _) = result_id call"

fun input_to_message :: "agent_input \<Rightarrow> message" where
  "input_to_message (UserMessage mid text) =
     \<lparr>msg_id = mid, msg_role = User, msg_parts = [TextPart text]\<rparr>"
| "input_to_message (ToolResultInput call out err) =
     \<lparr>msg_id = result_id call, msg_role = Tool,
      msg_parts = [ToolResultPart \<lparr>tr_call_id = call, tr_output = out, tr_is_error = err\<rparr>]\<rparr>"

lemma input_to_message_id [simp]: "msg_id (input_to_message i) = input_message_id i"
  by (cases i) auto

lemma input_to_message_user [simp]: "input_to_message (UserMessage m t) = message_user m t"
  by (simp add: message_user_def)

lemma input_to_message_tool_result [simp]:
  "input_to_message (ToolResultInput c t e) = message_tool_result c t e"
  by (simp add: message_tool_result_def)

declare input_to_message.simps [simp del]

lemma message_user_sel [simp]:
  "msg_id (message_user m t) = m" "msg_role (message_user m t) = User"
  "msg_parts (message_user m t) = [TextPart t]"
  by (simp_all add: message_user_def)

lemma message_tool_result_sel [simp]:
  "msg_id (message_tool_result c t e) = result_id c" "msg_role (message_tool_result c t e) = Tool"
  "msg_parts (message_tool_result c t e) =
     [ToolResultPart \<lparr>tr_call_id = c, tr_output = t, tr_is_error = e\<rparr>]"
  by (simp_all add: message_tool_result_def)

end
