(* ===== verification/Agentcore.thy ===== *)
theory Agentcore
  imports Models
begin

text \<open>
  The vocabulary of the agent loop: the error enums of \<open>src/agentcore/src/error.rs\<close> with their
  \<open>Display\<close> texts, tools and toolboxes (\<open>tool.rs\<close>), completion requests and providers
  (\<open>provider.rs\<close>), and the toolboxes a workflow builds for its agents
  (\<open>src/workflow/src/context.rs\<close>). A provider and a tool act on a world \<open>'w\<close>, which stands for
  everything outside the program: the network, the file system, the clock.
\<close>

subsection \<open>Errors\<close>

datatype agent_build_error =
    InvalidConfig nat nat
  | HandoffToolNotRegistered string
  | InvalidHandoffSchema string string

text \<open>\<open>RateLimit\<close> carries \<open>retry_after\<close> in whole seconds; the only constructor call passes \<open>None\<close>.\<close>

datatype llm_error =
    RateLimit "u64 option"
  | Overloaded
  | ApiError u16 string
  | Network string

datatype agent_error =
    MaxIterationsExceeded u32
  | StuckInLoop string nat
  | Provider llm_error
  | HandoffValidationFailed string string
  | Cancelled

datatype tool_call_error =
    InvalidInput string
  | Execution string
  | ExecutionFailed string

fun build_error_display :: "agent_build_error \<Rightarrow> string" where
  "build_error_display (InvalidConfig nudge stuck) =
     ''nudge_threshold ('' @ show_nat nudge @ '') must be less than stuck_threshold ('' @ show_nat stuck @ '')''"
| "build_error_display (HandoffToolNotRegistered tool) =
     ''handoff tool '' @ quoted tool @ '' is not present in the toolbox''"
| "build_error_display (InvalidHandoffSchema tool reason) =
     ''handoff tool '' @ quoted tool @ '' has an invalid input schema: '' @ reason"

fun llm_error_display :: "llm_error \<Rightarrow> string" where
  "llm_error_display (RateLimit None) = ''rate limited (retry after None)''"
| "llm_error_display (RateLimit (Some secs)) =
     ''rate limited (retry after Some('' @ show_nat (unat secs) @ ''s))''"
| "llm_error_display Overloaded = ''provider overloaded''"
| "llm_error_display (ApiError status msg) = ''api error '' @ show_nat (unat status) @ '': '' @ msg"
| "llm_error_display (Network e) = ''network error: '' @ e"

fun agent_error_display :: "agent_error \<Rightarrow> string" where
  "agent_error_display (MaxIterationsExceeded m) =
     ''max iterations exceeded (max='' @ show_nat (unat m) @ '')''"
| "agent_error_display (StuckInLoop tool count) =
     ''stuck in loop: tool '' @ quoted tool @ '' called identically '' @ show_nat count @ '' times''"
| "agent_error_display (Provider e) = ''provider error: '' @ llm_error_display e"
| "agent_error_display (HandoffValidationFailed tool reason) =
     ''handoff tool '' @ quoted tool @ '' validation failed after retries: '' @ reason"
| "agent_error_display Cancelled = ''cancelled''"

fun tool_call_error_display :: "tool_call_error \<Rightarrow> string" where
  "tool_call_error_display (InvalidInput s) = ''invalid input: '' @ s"
| "tool_call_error_display (Execution s) = ''execution error: '' @ s"
| "tool_call_error_display (ExecutionFailed s) = ''execution failed: '' @ s"

subsection \<open>Tools and toolboxes\<close>

record tool_spec =
  ts_name :: string
  ts_description :: string
  ts_input_schema :: json

text \<open>\<open>trait Tool\<close> and \<open>trait Toolbox\<close>.\<close>

type_synonym 'w tool_exec = "json \<Rightarrow> 'w \<Rightarrow> (tool_call_error, json) result \<times> 'w"

record 'w tool =
  tool_spec :: tool_spec
  tool_execute :: "'w tool_exec"

record 'w toolbox =
  tb_specs :: "tool_spec list"
  tb_execute :: "string \<Rightarrow> 'w tool_exec"

definition no_tool_named :: "string \<Rightarrow> tool_call_error" where
  "no_tool_named name = InvalidInput (''no tool named '' @ quoted name)"

text \<open>\<open>ToolboxImpl\<close>: the first tool of the name, in the order they were added.\<close>

definition toolbox_add :: "'w tool list \<Rightarrow> 'w tool \<Rightarrow> 'w tool list" where
  "toolbox_add tools t = tools @ [t]"

definition toolbox_impl :: "'w tool list \<Rightarrow> 'w toolbox" where
  "toolbox_impl tools =
     \<lparr>tb_specs = map tool_spec tools,
      tb_execute = (\<lambda>name input w.
        case find (\<lambda>t. ts_name (tool_spec t) = name) tools of
          Some t \<Rightarrow> tool_execute t input w
        | None \<Rightarrow> (Inl (no_tool_named name), w))\<rparr>"

definition empty_toolbox :: "'w toolbox" where
  "empty_toolbox = \<lparr>tb_specs = [], tb_execute = (\<lambda>name input w. (Inl (no_tool_named name), w))\<rparr>"

subsection \<open>Providers\<close>

datatype tool_choice = ToolAuto | ToolAny | ToolRequired string

datatype stop_reason = EndTurn | ToolUse | MaxTokens

record completion_request =
  cr_messages :: "message list"
  cr_system :: "string option"
  cr_tools :: "tool_spec list"
  cr_tool_choice :: tool_choice
  cr_max_tokens :: "u32 option"

record completion_response =
  cp_parts :: "content_part list"
  cp_stop_reason :: stop_reason
  cp_usage :: usage

text \<open>
  \<open>complete(request, message_id, events)\<close>: the answer, the streaming events it emits into the
  sink meanwhile, and the world after it.
\<close>

type_synonym 'w provider =
  "completion_request \<Rightarrow> string \<Rightarrow> 'w \<Rightarrow> (llm_error, completion_response) result \<times> agent_event list \<times> 'w"

subsection \<open>The toolbox of a workflow agent (\<open>workflow/src/context.rs\<close>)\<close>

definition CONCLUDE_TOOL :: string where
  "CONCLUDE_TOOL = ''conclude''"

definition ask_schema :: json where
  "ask_schema =
     JObject
       [(''type'', JString ''object''),
        (''required'', JArray [JString ''question'']),
        (''properties'', JObject
           [(''question'', JObject
               [(''type'', JString ''string''),
                (''description'', JString ''The question to put to the user.'')]),
            (''choices'', JObject
               [(''type'', JString ''array''),
                (''items'', JObject [(''type'', JString ''string'')]),
                (''description'', JString ''Optional suggested answers.'')])])]"

definition both_schema :: "json \<Rightarrow> json" where
  "both_schema output_schema =
     JObject
       [(''type'', JString ''object''),
        (''required'', JArray [JString ''kind'']),
        (''properties'', JObject
           [(''kind'', JObject
               [(''type'', JString ''string''),
                (''enum'', JArray [JString ''submit'', JString ''ask'']),
                (''description'', JString ''submit to deliver final output; ask to pause for user input'')]),
            (''output'', output_schema),
            (''question'', JObject
               [(''type'', JString ''string''),
                (''description'', JString ''Required when kind=ask.'')]),
            (''choices'', JObject
               [(''type'', JString ''array''),
                (''items'', JObject [(''type'', JString ''string'')]),
                (''description'', JString ''Optional when kind=ask.'')])])]"

definition conclude_tool_spec :: "json option \<Rightarrow> bool \<Rightarrow> tool_spec option" where
  "conclude_tool_spec output_schema allow_ask =
     map_option
       (\<lambda>schema.
         \<lparr>ts_name = CONCLUDE_TOOL,
          ts_description =
            ''Finish your turn: deliver your final structured output, or ask the user a question.'',
          ts_input_schema = schema\<rparr>)
       (case (output_schema, allow_ask) of
          (None, False) \<Rightarrow> None
        | (Some out, False) \<Rightarrow> Some out
        | (None, True) \<Rightarrow> Some ask_schema
        | (Some out, True) \<Rightarrow> Some (both_schema out))"

text \<open>\<open>AgentToolbox\<close>: a base plus the \<open>conclude\<close> tool, advertised but never executed.\<close>

definition agent_toolbox :: "'w toolbox \<Rightarrow> tool_spec option \<Rightarrow> 'w toolbox" where
  "agent_toolbox base conclude =
     \<lparr>tb_specs = tb_specs base @ (case conclude of None \<Rightarrow> [] | Some c \<Rightarrow> [c]),
      tb_execute = (\<lambda>name input w.
        case conclude of
          Some c \<Rightarrow>
            if name = ts_name c
            then (Inl (ExecutionFailed ''the conclude tool is terminal and is not executed''), w)
            else tb_execute base name input w
        | None \<Rightarrow> tb_execute base name input w)\<rparr>"

definition filtered_toolbox :: "'w toolbox \<Rightarrow> string set \<Rightarrow> 'w toolbox" where
  "filtered_toolbox inner allowed =
     \<lparr>tb_specs = filter (\<lambda>s. ts_name s \<in> allowed) (tb_specs inner),
      tb_execute = (\<lambda>name input w.
        if name \<notin> allowed
        then (Inl (InvalidInput (''tool '' @ quoted name @ '' is not permitted for this agent'')), w)
        else tb_execute inner name input w)\<rparr>"

text \<open>\<open>DefaultToolboxFactory::for_agent\<close>, given the runtime-backed tools.\<close>

definition for_agent :: "'w tool list \<Rightarrow> workflow_agent_def \<Rightarrow> 'w toolbox" where
  "for_agent runtime_tools agent_def =
     agent_toolbox
       (case ad_allowed_tools agent_def of
          None \<Rightarrow> toolbox_impl runtime_tools
        | Some list \<Rightarrow> filtered_toolbox (toolbox_impl runtime_tools) (set list))
       (conclude_tool_spec (ad_output_schema agent_def) (ad_allow_ask_user agent_def))"

subsection \<open>What a toolbox promises\<close>

text \<open>
  The contract of a toolbox a client may rely on: a tool it does not advertise is refused without
  touching the world. \<open>advertised\<close> is how the agent decides what the model may call.
\<close>

definition advertised :: "'w toolbox \<Rightarrow> string set" where
  "advertised tb = ts_name ` set (tb_specs tb)"

locale toolbox_contract =
  fixes tb :: "'w toolbox"
  assumes refuses: "name \<notin> advertised tb \<Longrightarrow> \<exists>e. tb_execute tb name input w = (Inl e, w)"
begin

lemma world_change_advertised:
  "snd (tb_execute tb name input w) \<noteq> w \<Longrightarrow> name \<in> advertised tb"
  using refuses [of name input w] by (cases "name \<in> advertised tb") auto

lemma ok_advertised:
  "tb_execute tb name input w = (Inr v, w') \<Longrightarrow> name \<in> advertised tb"
  using refuses [of name input w] by (cases "name \<in> advertised tb") auto

end

interpretation ti: toolbox_contract "toolbox_impl tools" for tools :: "'w tool list"
  by unfold_locales
    (auto simp: toolbox_impl_def advertised_def find_None_iff split: option.splits
      dest!: find_Some_in)

interpretation te: toolbox_contract "empty_toolbox :: 'w toolbox"
  by unfold_locales (simp add: empty_toolbox_def)

lemma filtered_execute [simp]:
  "tb_execute (filtered_toolbox inner allowed) name input w =
     (if name \<notin> allowed
      then (Inl (InvalidInput (''tool '' @ quoted name @ '' is not permitted for this agent'')), w)
      else tb_execute inner name input w)"
  by (simp add: filtered_toolbox_def)

lemma agent_toolbox_execute [simp]:
  "tb_execute (agent_toolbox base None) name input w = tb_execute base name input w"
  "tb_execute (agent_toolbox base (Some c)) name input w =
     (if name = ts_name c
      then (Inl (ExecutionFailed ''the conclude tool is terminal and is not executed''), w)
      else tb_execute base name input w)"
  by (simp_all add: agent_toolbox_def)

lemma advertised_filtered [simp]:
  "advertised (filtered_toolbox inner allowed) = advertised inner \<inter> allowed"
  by (auto simp: advertised_def filtered_toolbox_def)

lemma advertised_agent_toolbox [simp]:
  "advertised (agent_toolbox base c) = advertised base \<union> (case c of None \<Rightarrow> {} | Some s \<Rightarrow> {ts_name s})"
  by (auto simp: advertised_def agent_toolbox_def split: option.splits)

lemma filtered_contract:
  assumes "toolbox_contract inner" shows "toolbox_contract (filtered_toolbox inner allowed)"
proof
  fix name input w
  assume n: "name \<notin> advertised (filtered_toolbox inner allowed)"
  show "\<exists>e. tb_execute (filtered_toolbox inner allowed) name input w = (Inl e, w)"
    using n toolbox_contract.refuses [OF assms, of name input w]
    by (cases "name \<in> allowed") simp_all
qed

lemma agent_toolbox_contract:
  assumes "toolbox_contract base" shows "toolbox_contract (agent_toolbox base c)"
proof
  fix name input w
  assume n: "name \<notin> advertised (agent_toolbox base c)"
  show "\<exists>e. tb_execute (agent_toolbox base c) name input w = (Inl e, w)"
    using n toolbox_contract.refuses [OF assms, of name input w]
    by (cases c) auto
qed

interpretation fa: toolbox_contract "for_agent tools d" for tools :: "'w tool list" and d
  unfolding for_agent_def
  by (intro agent_toolbox_contract)
    (auto split: option.splits intro: filtered_contract ti.toolbox_contract_axioms)

text \<open>What a call to an agent's toolbox comes to: a refusal, or a call to a runtime tool it may use.\<close>

lemma for_agent_execute:
  "(\<exists>e. tb_execute (for_agent tools d) name input w = (Inl e, w)) \<or>
   (case ad_allowed_tools d of None \<Rightarrow> True | Some names \<Rightarrow> name \<in> set names) \<and>
   tb_execute (for_agent tools d) name input w = tb_execute (toolbox_impl tools) name input w"
proof -
  let ?c = "conclude_tool_spec (ad_output_schema d) (ad_allow_ask_user d)"
  have e: "tb_execute (agent_toolbox tb c) name input w = tb_execute tb name input w \<or>
      (\<exists>e. tb_execute (agent_toolbox tb c) name input w = (Inl e, w))" for tb :: "'a toolbox" and c
    by (cases c) auto
  show ?thesis
  proof (cases "ad_allowed_tools d")
    case None
    with e [of "toolbox_impl tools" ?c] show ?thesis by (auto simp: for_agent_def)
  next
    case (Some names)
    with e [of "filtered_toolbox (toolbox_impl tools) (set names)" ?c] show ?thesis
      by (cases "name \<in> set names") (auto simp: for_agent_def)
  qed
qed

text \<open>
  Tool confinement: whatever name a model asks for, the toolbox built for an agent touches the
  world only through one of the runtime tools, registered under that name, on the agent's allowlist
  when it has one, and never through \<open>conclude\<close> when the agent has that tool.
\<close>

lemma for_agent_confined:
  assumes "snd (tb_execute (for_agent tools d) name input w) \<noteq> w"
  shows "(\<exists>t\<in>set tools. ts_name (tool_spec t) = name \<and>
            tb_execute (for_agent tools d) name input w = tool_execute t input w) \<and>
         (case ad_allowed_tools d of None \<Rightarrow> True | Some list \<Rightarrow> name \<in> set list) \<and>
         (ad_output_schema d \<noteq> None \<or> ad_allow_ask_user d \<longrightarrow> name \<noteq> CONCLUDE_TOOL)"
  using assms
  by (auto simp: for_agent_def toolbox_impl_def conclude_tool_spec_def find_None_iff
      split: option.splits if_splits bool.splits dest!: find_Some_in)

end
