(* ===== verification/Agent.thy ===== *)
theory Agent
  imports Agentcore
begin

text \<open>
  The agent loop, \<open>src/agentcore/src/agent.rs\<close>: the builder, the helpers on content parts, and
  \<open>Agent::run\<close>. One pass through the loop body is \<open>run_step\<close>; \<open>agent_loop\<close> iterates it and is
  a total function, by the bound on iterations. The record \<open>run_state\<close> holds the run's local
  variables, the history, the events emitted so far and the world. \<open>services\<close> collects what the
  loop takes from other crates: fresh UUIDs, the cancellation token, the \<open>Display\<close> text of a JSON
  value, and the JSON-schema compiler. Usage counters are \<open>u32\<close> and wrap, as in a release build;
  collection lengths and the two thresholds (\<open>usize\<close>) are \<open>nat\<close>.
\<close>

subsection \<open>Configuration and builder\<close>

record agent_config =
  max_iterations :: u32
  stuck_threshold :: nat
  nudge_threshold :: nat
  max_tokens :: "u32 option"
  handoff_max_retries :: u32

definition default_config :: agent_config where
  "default_config =
     \<lparr>max_iterations = 100, stuck_threshold = 5, nudge_threshold = 3, max_tokens = None,
      handoff_max_retries = 2\<rparr>"

text \<open>A compiled \<open>jsonschema::Validator\<close>: \<open>is_valid\<close>, and the texts of the errors \<open>validate\<close> yields.\<close>

record validator =
  va_is_valid :: "json \<Rightarrow> bool"
  va_errors :: "json \<Rightarrow> string list"

record 'w services =
  sv_uuid :: "'w \<Rightarrow> string \<times> 'w"
  sv_cancelled :: "'w \<Rightarrow> bool \<times> 'w"
  sv_show_json :: "json \<Rightarrow> string"
  sv_compile_schema :: "json \<Rightarrow> (string, validator) result"

record 'w agent =
  ag_provider :: "'w provider"
  ag_system_prompt :: string
  ag_toolbox :: "'w toolbox"
  ag_handoff_tool :: "string option"
  ag_handoff_validator :: "validator option"
  ag_config :: agent_config
  ag_history :: "message list"

record 'w agent_builder =
  ab_provider :: "'w provider"
  ab_system_prompt :: string
  ab_toolbox :: "'w toolbox"
  ab_handoff_tool :: "string option"
  ab_config :: agent_config
  ab_history :: "message list"

definition builder_new :: "'w provider \<Rightarrow> 'w toolbox \<Rightarrow> 'w agent_builder" where
  "builder_new p tb =
     \<lparr>ab_provider = p, ab_system_prompt = [], ab_toolbox = tb, ab_handoff_tool = None,
      ab_config = default_config, ab_history = []\<rparr>"

definition with_system_prompt :: "string \<Rightarrow> 'w agent_builder \<Rightarrow> 'w agent_builder" where
  "with_system_prompt s b = b\<lparr>ab_system_prompt := s\<rparr>"

definition with_handoff_tool :: "string \<Rightarrow> 'w agent_builder \<Rightarrow> 'w agent_builder" where
  "with_handoff_tool n b = b\<lparr>ab_handoff_tool := Some n\<rparr>"

definition with_config :: "agent_config \<Rightarrow> 'w agent_builder \<Rightarrow> 'w agent_builder" where
  "with_config c b = b\<lparr>ab_config := c\<rparr>"

definition with_history :: "message list \<Rightarrow> 'w agent_builder \<Rightarrow> 'w agent_builder" where
  "with_history h b = b\<lparr>ab_history := h\<rparr>"

definition build :: "'w services \<Rightarrow> 'w agent_builder \<Rightarrow> (agent_build_error, 'w agent) result" where
  "build S b =
     (if nudge_threshold (ab_config b) \<ge> stuck_threshold (ab_config b)
      then Inl (InvalidConfig (nudge_threshold (ab_config b)) (stuck_threshold (ab_config b)))
      else
        (case (case ab_handoff_tool b of
                 None \<Rightarrow> Inr None
               | Some name \<Rightarrow>
                   (case find (\<lambda>s. ts_name s = name) (tb_specs (ab_toolbox b)) of
                      None \<Rightarrow> Inl (HandoffToolNotRegistered name)
                    | Some spec \<Rightarrow>
                        (case sv_compile_schema S (ts_input_schema spec) of
                           Inl reason \<Rightarrow> Inl (InvalidHandoffSchema name reason)
                         | Inr v \<Rightarrow> Inr (Some v)))) of
           Inl e \<Rightarrow> Inl e
         | Inr validator \<Rightarrow>
             Inr \<lparr>ag_provider = ab_provider b, ag_system_prompt = ab_system_prompt b,
                  ag_toolbox = ab_toolbox b, ag_handoff_tool = ab_handoff_tool b,
                  ag_handoff_validator = validator, ag_config = ab_config b,
                  ag_history = ab_history b\<rparr>))"

subsection \<open>Content parts\<close>

type_synonym tool_call = "string \<times> string \<times> json"

abbreviation call_id :: "tool_call \<Rightarrow> string" where
  "call_id c \<equiv> fst c"

abbreviation call_name :: "tool_call \<Rightarrow> string" where
  "call_name c \<equiv> fst (snd c)"

fun extract_tool_calls :: "content_part list \<Rightarrow> tool_call list" where
  "extract_tool_calls [] = []"
| "extract_tool_calls (ToolCallPart tc # ps) = (tc_id tc, tc_name tc, tc_input tc) # extract_tool_calls ps"
| "extract_tool_calls (TextPart _ # ps) = extract_tool_calls ps"
| "extract_tool_calls (ToolResultPart _ # ps) = extract_tool_calls ps"
| "extract_tool_calls (ThinkingPart _ _ # ps) = extract_tool_calls ps"

fun extract_text :: "content_part list \<Rightarrow> string" where
  "extract_text [] = []"
| "extract_text (TextPart t # ps) = t @ extract_text ps"
| "extract_text (ToolCallPart _ # ps) = extract_text ps"
| "extract_text (ToolResultPart _ # ps) = extract_text ps"
| "extract_text (ThinkingPart _ _ # ps) = extract_text ps"

definition tool_fingerprint :: "'w services \<Rightarrow> tool_call list \<Rightarrow> string" where
  "tool_fingerprint S calls =
     join ''|'' (map (\<lambda>(_, name, input). name @ '':'' @ sv_show_json S input) calls)"

definition validate_handoff :: "'w agent \<Rightarrow> string \<Rightarrow> tool_call list \<Rightarrow> json \<Rightarrow> string option" where
  "validate_handoff ag name calls data =
     (if length calls > 1
      then Some (''The '' @ quoted name @
                 '' tool must be called on its own, with no other tool calls in the same turn.'')
      else
        (case ag_handoff_validator ag of
           None \<Rightarrow> None
         | Some v \<Rightarrow>
             if va_is_valid v data then None
             else Some (''Invalid '' @ quoted name @ '' input: '' @
                        (case va_errors v data of
                           [] \<Rightarrow> ''input does not match the tool'' @ [quote_char] @ ''s schema''
                         | e # _ \<Rightarrow> e))))"

subsection \<open>The run's state\<close>

record 'w run_state =
  rs_world :: 'w
  rs_history :: "message list"
  rs_events :: "agent_event list"
  rs_usage :: usage
  rs_iteration :: u32
  rs_recent :: "string list"
  rs_handoff_retries :: u32
  rs_missing_retries :: u32

definition emit :: "agent_event \<Rightarrow> 'w run_state \<Rightarrow> 'w run_state" where
  "emit ev st = st\<lparr>rs_events := rs_events st @ [ev]\<rparr>"

definition push :: "message \<Rightarrow> 'w run_state \<Rightarrow> 'w run_state" where
  "push m st = st\<lparr>rs_history := rs_history st @ [m]\<rparr>"

definition add_usage :: "usage \<Rightarrow> usage \<Rightarrow> usage" where
  "add_usage a b =
     \<lparr>input_tokens = input_tokens a + input_tokens b, output_tokens = output_tokens a + output_tokens b\<rparr>"

definition poll_cancelled :: "'w services \<Rightarrow> 'w run_state \<Rightarrow> bool \<times> 'w run_state" where
  "poll_cancelled S st = (case sv_cancelled S (rs_world st) of (c, w) \<Rightarrow> (c, st\<lparr>rs_world := w\<rparr>))"

type_synonym run_result = "(agent_error, agent_output) result"

subsection \<open>One turn\<close>

definition turn_request :: "'w agent \<Rightarrow> message list \<Rightarrow> completion_request" where
  "turn_request ag h =
     \<lparr>cr_messages = h,
      cr_system = (if ag_system_prompt ag = [] then None else Some (ag_system_prompt ag)),
      cr_tools = tb_specs (ag_toolbox ag),
      cr_tool_choice = (if ag_handoff_tool ag \<noteq> None then ToolAny else ToolAuto),
      cr_max_tokens = max_tokens (ag_config ag)\<rparr>"

text \<open>From building the request to pushing the assistant's message.\<close>

definition complete_turn ::
  "'w services \<Rightarrow> 'w agent \<Rightarrow> 'w run_state \<Rightarrow> (llm_error, content_part list) result \<times> 'w run_state" where
  "complete_turn S ag st =
     (case sv_uuid S (rs_world st) of
        (mid, w) \<Rightarrow>
          (case ag_provider ag (turn_request ag (rs_history st)) mid w of
             (r, evs, w') \<Rightarrow>
               let st1 = emit (MessageStart mid Assistant) st;
                   st2 = st1\<lparr>rs_events := rs_events st1 @ evs, rs_world := w'\<rparr>
               in case r of
                    Inl e \<Rightarrow> (Inl e, st2)
                  | Inr resp \<Rightarrow>
                      let st3 = emit (MessageStop mid) st2;
                          st4 = st3\<lparr>rs_usage := add_usage (rs_usage st3) (cp_usage resp)\<rparr>;
                          m = \<lparr>msg_id = mid, msg_role = Assistant, msg_parts = cp_parts resp\<rparr>
                      in (Inr (cp_parts resp), push m (emit (MessageComplete mid m) st4))))"

definition finish :: "string \<Rightarrow> agent_result \<Rightarrow> 'w run_state \<Rightarrow> run_result option \<times> 'w run_state" where
  "finish run_id r st =
     (Some (Inr \<lparr>out_result = r, out_usage = rs_usage st\<rparr>),
      emit (RunComplete run_id (rs_usage st) (rs_iteration st)) st)"

definition missing_handoff_reason :: string where
  "missing_handoff_reason = ''model ended its turn with text instead of calling the handoff tool''"

definition missing_handoff_nudge :: "string \<Rightarrow> u32 \<Rightarrow> message" where
  "missing_handoff_nudge name iteration =
     message_user (''nudge-handoff-missing:'' @ show_nat (unat iteration))
       (''You ended your turn without finishing. Call the '' @ quoted name @
        '' tool to deliver your output or ask the user; if there is more work to do, call a tool to do it.'')"

text \<open>The branch \<open>tool_calls.is_empty()\<close>.\<close>

definition end_turn ::
  "'w agent \<Rightarrow> string \<Rightarrow> content_part list \<Rightarrow> 'w run_state \<Rightarrow> run_result option \<times> 'w run_state" where
  "end_turn ag run_id parts st =
     (case ag_handoff_tool ag of
        Some name \<Rightarrow>
          if rs_missing_retries st \<ge> handoff_max_retries (ag_config ag)
          then (Some (Inl (HandoffValidationFailed name missing_handoff_reason)), st)
          else (None, push (missing_handoff_nudge name (rs_iteration st))
                  (st\<lparr>rs_missing_retries := rs_missing_retries st + 1\<rparr>))
      | None \<Rightarrow> finish run_id (Completed (extract_text parts)) st)"

definition rejection_result :: "string \<Rightarrow> string \<Rightarrow> tool_call \<Rightarrow> message" where
  "rejection_result name reason c =
     message_tool_result (call_id c)
       (if call_name c = name then reason
        else ''Ignored: call '' @ quoted name @ '' on its own to finish, with no other tools.'')
       True"

text \<open>The branch of a call to the handoff tool.\<close>

definition handoff_turn ::
  "'w agent \<Rightarrow> string \<Rightarrow> string \<Rightarrow> tool_call list \<Rightarrow> json \<Rightarrow> 'w run_state
     \<Rightarrow> run_result option \<times> 'w run_state" where
  "handoff_turn ag run_id name calls data st =
     (case validate_handoff ag name calls data of
        None \<Rightarrow> finish run_id (Handoff name data) st
      | Some reason \<Rightarrow>
          if rs_handoff_retries st \<ge> handoff_max_retries (ag_config ag)
          then (Some (Inl (HandoffValidationFailed name reason)), st)
          else (None, fold (\<lambda>c. push (rejection_result name reason c)) calls
                  (st\<lparr>rs_handoff_retries := rs_handoff_retries st + 1\<rparr>)))"

definition nudge_result :: "tool_call \<Rightarrow> message" where
  "nudge_result c =
     \<lparr>msg_id = ''nudge:'' @ call_id c, msg_role = Tool,
      msg_parts = [ToolResultPart
        \<lparr>tr_call_id = call_id c,
         tr_output = ''You have called this tool with identical arguments multiple times. Please try a different approach.'',
         tr_is_error = False\<rparr>]\<rparr>"

text \<open>What a nudge is recognised by in a history.\<close>

definition is_nudge :: "message \<Rightarrow> bool" where
  "is_nudge m \<longleftrightarrow> msg_role m = Tool \<and> take 6 (msg_id m) = ''nudge:''"

definition execute_call :: "'w services \<Rightarrow> 'w agent \<Rightarrow> tool_call \<Rightarrow> 'w run_state \<Rightarrow> 'w run_state" where
  "execute_call S ag c st =
     (case c of
        (cid, name, input) \<Rightarrow>
          let st1 = emit (ToolExecuting (result_id cid) cid) st
          in case tb_execute (ag_toolbox ag) name input (rs_world st1) of
               (r, w) \<Rightarrow>
                 let (out, err) = (case r of Inr v \<Rightarrow> (sv_show_json S v, False)
                                           | Inl e \<Rightarrow> (tool_call_error_display e, True));
                     st2 = emit (ToolComplete (result_id cid) cid out err) (st1\<lparr>rs_world := w\<rparr>)
                 in push \<lparr>msg_id = result_id cid, msg_role = Tool,
                          msg_parts = [ToolResultPart \<lparr>tr_call_id = cid, tr_output = out, tr_is_error = err\<rparr>]\<rparr>
                      st2)"

text \<open>\<open>push_back\<close>, then \<open>pop_front\<close> when longer than the threshold.\<close>

definition remember :: "nat \<Rightarrow> string \<Rightarrow> string list \<Rightarrow> string list" where
  "remember limit f recent =
     (let r = recent @ [f] in if length r > limit then tl r else r)"

text \<open>The rest of the body: the fingerprint window, the nudge and the execution of the calls.\<close>

definition tools_turn ::
  "'w services \<Rightarrow> 'w agent \<Rightarrow> tool_call list \<Rightarrow> 'w run_state \<Rightarrow> run_result option \<times> 'w run_state" where
  "tools_turn S ag calls st =
     (let f = tool_fingerprint S calls;
          recent = remember (stuck_threshold (ag_config ag)) f (rs_recent st);
          same = list_all (\<lambda>g. g = f) recent;
          st1 = st\<lparr>rs_recent := recent\<rparr>
      in if length recent \<ge> stuck_threshold (ag_config ag) \<and> same
         then (Some (Inl (StuckInLoop (call_name (hd calls)) (stuck_threshold (ag_config ag)))), st1)
         else if length recent \<ge> nudge_threshold (ag_config ag) \<and> same
         then (None, fold (\<lambda>c. push (nudge_result c)) calls st1)
         else
           (case poll_cancelled S st1 of
              (c, st2) \<Rightarrow>
                if c then (Some (Inl Cancelled), st2)
                else (None, fold (execute_call S ag) calls st2)))"

definition handoff_call :: "'w agent \<Rightarrow> tool_call list \<Rightarrow> (string \<times> json) option" where
  "handoff_call ag calls =
     (case ag_handoff_tool ag of
        None \<Rightarrow> None
      | Some name \<Rightarrow> map_option (\<lambda>(_, _, data). (name, data)) (find (\<lambda>c. call_name c = name) calls))"

definition run_step ::
  "'w services \<Rightarrow> 'w agent \<Rightarrow> string \<Rightarrow> 'w run_state \<Rightarrow> run_result option \<times> 'w run_state" where
  "run_step S ag run_id st =
     (case poll_cancelled S st of
        (c, st1) \<Rightarrow>
          if c then (Some (Inl Cancelled), st1)
          else if rs_iteration st1 \<ge> max_iterations (ag_config ag)
          then (Some (Inl (MaxIterationsExceeded (max_iterations (ag_config ag)))), st1)
          else
            (case complete_turn S ag (st1\<lparr>rs_iteration := rs_iteration st1 + 1\<rparr>) of
               (Inl e, st2) \<Rightarrow> (Some (Inl (Provider e)), st2)
             | (Inr parts, st2) \<Rightarrow>
                 let calls = extract_tool_calls parts in
                 if calls = [] then end_turn ag run_id parts st2
                 else
                   (case handoff_call ag calls of
                      Some (name, data) \<Rightarrow> handoff_turn ag run_id name calls data st2
                    | None \<Rightarrow> tools_turn S ag calls st2)))"


subsection \<open>Frame facts of the helpers\<close>

lemma emit_sel [simp]:
  "rs_world (emit ev st) = rs_world st" "rs_history (emit ev st) = rs_history st"
  "rs_events (emit ev st) = rs_events st @ [ev]" "rs_usage (emit ev st) = rs_usage st"
  "rs_iteration (emit ev st) = rs_iteration st" "rs_recent (emit ev st) = rs_recent st"
  "rs_handoff_retries (emit ev st) = rs_handoff_retries st"
  "rs_missing_retries (emit ev st) = rs_missing_retries st"
  by (simp_all add: emit_def)

lemma push_sel [simp]:
  "rs_world (push m st) = rs_world st" "rs_history (push m st) = rs_history st @ [m]"
  "rs_events (push m st) = rs_events st" "rs_usage (push m st) = rs_usage st"
  "rs_iteration (push m st) = rs_iteration st" "rs_recent (push m st) = rs_recent st"
  "rs_handoff_retries (push m st) = rs_handoff_retries st"
  "rs_missing_retries (push m st) = rs_missing_retries st"
  by (simp_all add: push_def)

lemma fold_push [simp]:
  "fold (\<lambda>c. push (g c)) cs st = st\<lparr>rs_history := rs_history st @ map g cs\<rparr>"
  by (induction cs arbitrary: st) (simp_all add: push_def)

lemma poll_cancelled_sel:
  assumes "poll_cancelled S st = (c, st')"
  shows "\<exists>w. st' = st\<lparr>rs_world := w\<rparr>"
  using assms by (auto simp: poll_cancelled_def split: prod.splits)

text \<open>The counters of a run, which no tool and no provider can touch.\<close>

definition counters :: "'w run_state \<Rightarrow> u32 \<times> string list \<times> u32 \<times> u32" where
  "counters st = (rs_iteration st, rs_recent st, rs_handoff_retries st, rs_missing_retries st)"

lemma counters_iteration: "counters st' = counters st \<Longrightarrow> rs_iteration st' = rs_iteration st"
  by (simp add: counters_def)

lemma execute_call_frame [simp]:
  "counters (execute_call S ag c st) = counters st"
  "rs_usage (execute_call S ag c st) = rs_usage st"
  by (cases c; simp add: counters_def execute_call_def Let_def split: prod.splits sum.splits)+

lemma execute_calls_frame [simp]:
  "counters (fold (execute_call S ag) cs st) = counters st"
  "rs_usage (fold (execute_call S ag) cs st) = rs_usage st"
  by (induction cs arbitrary: st) simp_all

lemmas execute_calls_iteration [simp] =
  counters_iteration [OF execute_calls_frame(1)]

lemma complete_turn_frame:
  "complete_turn S ag st = (r, st') \<Longrightarrow> counters st' = counters st"
  by (auto simp: complete_turn_def counters_def Let_def split: prod.splits sum.splits)

lemma poll_cancelled_frame: "poll_cancelled S st = (c, st') \<Longrightarrow> counters st' = counters st"
  by (auto dest!: poll_cancelled_sel simp: counters_def)

lemma turn_iteration:
  shows "end_turn ag run_id parts st = (r, st') \<Longrightarrow> rs_iteration st' = rs_iteration st"
    and "handoff_turn ag run_id name calls data st = (r, st') \<Longrightarrow> rs_iteration st' = rs_iteration st"
    and "tools_turn S ag calls st = (r, st') \<Longrightarrow> rs_iteration st' = rs_iteration st"
  by (auto simp: end_turn_def handoff_turn_def tools_turn_def finish_def Let_def
      split: option.splits if_splits prod.splits dest!: poll_cancelled_frame counters_iteration)

lemma run_step_continues:
  assumes "run_step S ag run_id st = (None, st')"
  shows "rs_iteration st < max_iterations (ag_config ag) \<and> rs_iteration st' = rs_iteration st + 1"
proof -
  obtain c st1 where p: "poll_cancelled S st = (c, st1)" by fastforce
  then have i: "rs_iteration st1 = rs_iteration st"
    by (rule counters_iteration [OF poll_cancelled_frame])
  obtain r st2 where t: "complete_turn S ag (st1\<lparr>rs_iteration := rs_iteration st1 + 1\<rparr>) = (r, st2)"
    by fastforce
  from counters_iteration [OF complete_turn_frame [OF this]] i
  have "rs_iteration st2 = rs_iteration st + 1" by simp
  with assms p t i show ?thesis
    by (auto simp: run_step_def Let_def not_le dest!: turn_iteration
        split: if_splits sum.splits option.splits)
qed

subsection \<open>The loop\<close>

function agent_loop ::
  "'w services \<Rightarrow> 'w agent \<Rightarrow> string \<Rightarrow> 'w run_state \<Rightarrow> run_result \<times> 'w run_state" where
  "agent_loop S ag run_id st =
     (case run_step S ag run_id st of
        (Some r, st') \<Rightarrow> (r, st')
      | (None, st') \<Rightarrow> agent_loop S ag run_id st')"
  by pat_completeness auto

termination
  by (relation "measure (\<lambda>(S, ag, run_id, st). unat (max_iterations (ag_config ag)) - unat (rs_iteration st))")
    (auto dest!: sym [of _ "run_step S ag run_id st" for S ag run_id st] run_step_continues
      simp: unat_less_increases word_less_nat_alt)

declare agent_loop.simps [simp del]

definition start_state :: "'w agent \<Rightarrow> agent_input \<Rightarrow> 'w \<Rightarrow> 'w run_state" where
  "start_state ag input w =
     push (input_to_message input)
       (emit (InputMessage (input_message_id input) input)
         \<lparr>rs_world = w, rs_history = ag_history ag, rs_events = [],
          rs_usage = \<lparr>input_tokens = 0, output_tokens = 0\<rparr>, rs_iteration = 0, rs_recent = [],
          rs_handoff_retries = 0, rs_missing_retries = 0\<rparr>)"

text \<open>\<open>Agent::run\<close>; the agent's history after it is \<open>rs_history\<close> of the final state.\<close>

definition run :: "'w services \<Rightarrow> 'w agent \<Rightarrow> agent_input \<Rightarrow> 'w \<Rightarrow> run_result \<times> 'w run_state" where
  "run S ag input w =
     (case sv_uuid S w of (run_id, w1) \<Rightarrow> agent_loop S ag run_id (start_state ag input w1))"

text \<open>Invariants of the loop: what every continuing step keeps, every exit sees.\<close>

lemma agent_loop_rule:
  assumes "P st"
    and "\<And>st st'. P st \<Longrightarrow> run_step S ag run_id st = (None, st') \<Longrightarrow> P st'"
    and "\<And>st r st'. P st \<Longrightarrow> run_step S ag run_id st = (Some r, st') \<Longrightarrow> Q r st'"
  shows "Q (fst (agent_loop S ag run_id st)) (snd (agent_loop S ag run_id st))"
  using assms
proof (induction S ag run_id st rule: agent_loop.induct)
  case (1 S ag run_id st)
  obtain r st' where s: "run_step S ag run_id st = (r, st')" by fastforce
  then have eq: "agent_loop S ag run_id st =
      (case r of None \<Rightarrow> agent_loop S ag run_id st' | Some x \<Rightarrow> (x, st'))"
    by (simp add: agent_loop.simps [of S ag run_id st] split: option.splits)
  show ?case
  proof (cases r)
    case None
    with s "1.prems" have "P st'" by blast
    with "1.IH" [of None st'] s None "1.prems" show ?thesis by (simp add: eq)
  next
    case (Some x)
    with s "1.prems" show ?thesis by (simp add: eq)
  qed
qed

end
