(* ===== verification/Agent_Conversation.thy ===== *)
theory Agent_Conversation
  imports Agent
begin

text \<open>
  What a run of the agent loop does to the conversation. A provider accepts a history only when
  every tool call of an assistant message is answered by tool results before the next message;
  \<open>conv\<close> is that rule as an automaton whose state is the list of calls still to be answered. The
  lemmas follow a turn through it; the theorems say what the provider ever gets to see, what a
  finished run leaves behind, and what the toolbox is never asked.
\<close>

subsection \<open>Well-formed conversations\<close>

fun result_ids :: "content_part list \<Rightarrow> string list" where
  "result_ids [] = []"
| "result_ids (ToolResultPart r # ps) = tr_call_id r # result_ids ps"
| "result_ids (TextPart _ # ps) = result_ids ps"
| "result_ids (ToolCallPart _ # ps) = result_ids ps"
| "result_ids (ThinkingPart _ _ # ps) = result_ids ps"

definition conv_step :: "string list \<Rightarrow> message \<Rightarrow> string list option" where
  "conv_step pending m =
     (case msg_role m of
        User \<Rightarrow> if pending = [] then Some [] else None
      | Assistant \<Rightarrow>
          if pending = [] then Some (map call_id (extract_tool_calls (msg_parts m))) else None
      | Tool \<Rightarrow>
          let ids = result_ids (msg_parts m)
          in if take (length ids) pending = ids then Some (drop (length ids) pending) else None)"

fun conv :: "string list \<Rightarrow> message list \<Rightarrow> string list option" where
  "conv pending [] = Some pending"
| "conv pending (m # ms) =
     (case conv_step pending m of None \<Rightarrow> None | Some pending' \<Rightarrow> conv pending' ms)"

definition closed :: "message list \<Rightarrow> bool" where
  "closed h \<longleftrightarrow> conv [] h = Some []"

lemma conv_append:
  "conv p (xs @ ys) = (case conv p xs of None \<Rightarrow> None | Some p' \<Rightarrow> conv p' ys)"
  by (induction xs arbitrary: p) (auto split: option.splits)

text \<open>A message that answers one call.\<close>

definition answers :: "tool_call \<Rightarrow> message \<Rightarrow> bool" where
  "answers c m \<longleftrightarrow> msg_role m = Tool \<and> result_ids (msg_parts m) = [call_id c]"

lemma conv_answers:
  "list_all2 answers cs ms \<Longrightarrow> conv (map call_id cs @ q) ms = Some q"
  by (induction rule: list_all2_induct) (auto simp: answers_def conv_step_def)

lemma list_all2_map_answers:
  "(\<And>c. answers c (g c)) \<Longrightarrow> list_all2 answers cs (map g cs)"
  by (simp add: list_all2_map2 list_all2_refl list.rel_refl)

lemma answers_rejection [simp]: "answers c (rejection_result name reason c)"
  by (simp add: answers_def rejection_result_def)

lemma answers_nudge [simp]: "answers c (nudge_result c)"
  by (simp add: answers_def nudge_result_def)

subsection \<open>A turn\<close>

lemma execute_call_history:
  "\<exists>m. rs_history (execute_call S ag c st) = rs_history st @ [m] \<and> answers c m"
  by (cases c) (auto simp: execute_call_def answers_def Let_def split: prod.splits sum.splits)

lemma execute_calls_history:
  "\<exists>ms. rs_history (fold (execute_call S ag) cs st) = rs_history st @ ms \<and> list_all2 answers cs ms"
proof (induction cs arbitrary: st)
  case Nil
  then show ?case by simp
next
  case (Cons c cs)
  obtain m where m: "rs_history (execute_call S ag c st) = rs_history st @ [m]" "answers c m"
    using execute_call_history by blast
  obtain ms where "rs_history (fold (execute_call S ag) cs (execute_call S ag c st)) =
      rs_history (execute_call S ag c st) @ ms" "list_all2 answers cs ms"
    using Cons.IH by blast
  with m show ?case by (intro exI [of _ "m # ms"]) simp
qed

lemma complete_turn_history:
  assumes "complete_turn S ag st = (r, st')"
  shows "case r of
           Inl e \<Rightarrow> rs_history st' = rs_history st
         | Inr parts \<Rightarrow> \<exists>mid es.
             rs_history st' = rs_history st @ [\<lparr>msg_id = mid, msg_role = Assistant, msg_parts = parts\<rparr>] \<and>
             rs_events st' = es @ [MessageComplete mid \<lparr>msg_id = mid, msg_role = Assistant, msg_parts = parts\<rparr>]"
  using assms by (auto simp: complete_turn_def Let_def split: prod.splits sum.splits)

lemma conv_assistant:
  "closed h \<Longrightarrow> conv [] (h @ [\<lparr>msg_id = mid, msg_role = Assistant, msg_parts = parts\<rparr>]) =
     Some (map call_id (extract_tool_calls parts))"
  by (simp add: closed_def conv_append conv_step_def)

lemma conv_answered:
  assumes "conv [] h = Some (map call_id cs)" and "list_all2 answers cs ms"
  shows "closed (h @ ms)"
  using assms conv_answers [OF assms(2), of "[]"] by (simp add: closed_def conv_append)

text \<open>What an exit of the loop leaves.\<close>

fun exit_history :: "run_result \<Rightarrow> message list \<Rightarrow> bool" where
  "exit_history (Inl e) h = (conv [] h \<noteq> None)"
| "exit_history (Inr out) h =
     (case out_result out of
        Completed text \<Rightarrow> closed h
      | Handoff name data \<Rightarrow> \<exists>cid. conv [] h = Some [cid])"

lemma tools_turn_history:
  assumes "tools_turn S ag calls st = (r, st')" and c: "conv [] (rs_history st) = Some (map call_id calls)"
  shows "case r of None \<Rightarrow> closed (rs_history st') | Some x \<Rightarrow> exit_history x (rs_history st')"
proof -
  note nudge = conv_answered [OF c list_all2_map_answers [of nudge_result]]
  have exec: "closed (rs_history (fold (execute_call S ag) calls st2))" if "rs_history st2 = rs_history st" for st2
    using conv_answered c execute_calls_history [of S ag calls st2] that by metis
  show ?thesis
    using assms nudge
    by (auto simp: tools_turn_def Let_def split: if_splits prod.splits
        dest!: poll_cancelled_sel intro!: exec)
qed

lemma run_step_history:
  assumes "run_step S ag run_id st = (r, st')" and cl: "closed (rs_history st)"
  shows "case r of None \<Rightarrow> closed (rs_history st') | Some x \<Rightarrow> exit_history x (rs_history st')"
proof -
  obtain c st1 where p: "poll_cancelled S st = (c, st1)" by fastforce
  then have h1: "rs_history st1 = rs_history st" by (auto dest!: poll_cancelled_sel)
  obtain x st2 where t: "complete_turn S ag (st1\<lparr>rs_iteration := rs_iteration st1 + 1\<rparr>) = (x, st2)"
    by fastforce
  have cl': "conv [] (rs_history st) \<noteq> None" using cl by (simp add: closed_def)
  show ?thesis
  proof (cases x)
    case (Inl e)
    with assms(1) p t h1 complete_turn_history [OF t] cl' show ?thesis
      by (auto simp: run_step_def split: if_splits)
  next
    case (Inr parts)
    then obtain mid where h2: "rs_history st2 =
        rs_history st @ [\<lparr>msg_id = mid, msg_role = Assistant, msg_parts = parts\<rparr>]"
      using complete_turn_history [OF t] h1 by auto
    let ?calls = "extract_tool_calls parts"
    have c2: "conv [] (rs_history st2) = Some (map call_id ?calls)"
      using conv_assistant [OF cl] h2 by simp
    note tools = tools_turn_history [OF _ c2]
    have rej: "closed (rs_history st2 @ map (rejection_result name reason) ?calls)" for name reason
      by (rule conv_answered [OF c2 list_all2_map_answers]) simp
    have len: "validate_handoff ag name ?calls data = None \<Longrightarrow> \<exists>cid. map call_id ?calls = [cid]"
      if "?calls \<noteq> []" for name data
      using that by (cases ?calls rule: remdups_adj.cases) (auto simp: validate_handoff_def split: if_splits)
    show ?thesis
      using assms(1) p t h1 cl' c2 Inr rej len
      by (auto simp: run_step_def Let_def end_turn_def handoff_turn_def finish_def closed_def
          missing_handoff_nudge_def conv_append conv_step_def
          split: if_splits option.splits dest!: tools)
  qed
qed


lemma agent_loop_history:
  assumes "closed (rs_history st)"
  shows "exit_history (fst (agent_loop S ag run_id st)) (rs_history (snd (agent_loop S ag run_id st)))"
  by (rule agent_loop_rule [where P = "\<lambda>st. closed (rs_history st)"])
    (use assms run_step_history in \<open>fastforce+\<close>)

lemma start_state_history [simp]:
  "rs_history (start_state ag input w) = ag_history ag @ [input_to_message input]"
  "rs_iteration (start_state ag input w) = 0" "rs_recent (start_state ag input w) = []"
  "rs_handoff_retries (start_state ag input w) = 0" "rs_missing_retries (start_state ag input w) = 0"
  "rs_world (start_state ag input w) = w"
  by (simp_all add: start_state_def)

lemma conversation_run:
  assumes "closed (ag_history ag @ [input_to_message input])" and "run S ag input w = (r, st)"
  shows "exit_history r (rs_history st)"
proof -
  obtain rid w1 where u: "sv_uuid S w = (rid, w1)" by fastforce
  with assms agent_loop_history [of "start_state ag input w1" S ag rid] show ?thesis
    by (simp add: run_def)
qed

text \<open>
  C2. A run started on a conversation that its input closes leaves a conversation a provider
  accepts: a completed run leaves no tool call unanswered, a handoff leaves exactly one (the handoff
  itself, which the caller answers when it resumes), and an error leaves a well-formed prefix.
\<close>

theorem run_conversation:
  assumes "closed (ag_history ag @ [input_to_message input])"
  shows "case run S ag input w of
           (Inr out, st) \<Rightarrow>
             (case out_result out of
                Completed text \<Rightarrow> conv [] (rs_history st) = Some []
              | Handoff name data \<Rightarrow> \<exists>cid. conv [] (rs_history st) = Some [cid])
         | (Inl e, st) \<Rightarrow> conv [] (rs_history st) \<noteq> None"
proof -
  obtain r st where l: "run S ag input w = (r, st)" by fastforce
  from conversation_run [OF assms l] l show ?thesis
    by (cases r) (auto simp: closed_def split: agent_result.splits)
qed

subsection \<open>What the provider and the toolbox get to see\<close>

text \<open>
  Two agents that differ only in their provider take the same step when the providers agree on the
  request of that step; likewise for toolboxes and the calls of a step.
\<close>

definition same_on_closed :: "'w provider \<Rightarrow> 'w provider \<Rightarrow> bool" where
  "same_on_closed p p' \<longleftrightarrow> (\<forall>req. closed (cr_messages req) \<longrightarrow> p req = p' req)"

lemma provider_irrelevant [simp]:
  "end_turn (ag\<lparr>ag_provider := p'\<rparr>) = end_turn ag"
  "validate_handoff (ag\<lparr>ag_provider := p'\<rparr>) = validate_handoff ag"
  "handoff_turn (ag\<lparr>ag_provider := p'\<rparr>) = handoff_turn ag"
  "handoff_call (ag\<lparr>ag_provider := p'\<rparr>) = handoff_call ag"
  "execute_call S (ag\<lparr>ag_provider := p'\<rparr>) = execute_call S ag"
  "tools_turn S (ag\<lparr>ag_provider := p'\<rparr>) = tools_turn S ag"
  by (auto simp: fun_eq_iff end_turn_def validate_handoff_def handoff_turn_def handoff_call_def
      execute_call_def [abs_def] tools_turn_def Let_def split: option.splits prod.splits)

lemma run_step_provider:
  assumes "closed (rs_history st)" and "same_on_closed (ag_provider ag) p'"
  shows "run_step S (ag\<lparr>ag_provider := p'\<rparr>) run_id st = run_step S ag run_id st"
proof -
  obtain c st1 where p: "poll_cancelled S st = (c, st1)" by fastforce
  then have h1: "rs_history st1 = rs_history st" by (auto dest!: poll_cancelled_sel)
  have req: "turn_request (ag\<lparr>ag_provider := p'\<rparr>) h = turn_request ag h" for h
    by (simp add: turn_request_def)
  have "complete_turn S (ag\<lparr>ag_provider := p'\<rparr>) (st1\<lparr>rs_iteration := i\<rparr>) =
        complete_turn S ag (st1\<lparr>rs_iteration := i\<rparr>)" for i
    using assms h1 by (simp add: complete_turn_def req same_on_closed_def turn_request_def)
  then show ?thesis by (simp add: run_step_def p Let_def split: prod.splits sum.splits option.splits)
qed

lemma agent_loop_provider:
  assumes "closed (rs_history st)" and "same_on_closed (ag_provider ag) p'"
  shows "agent_loop S (ag\<lparr>ag_provider := p'\<rparr>) run_id st = agent_loop S ag run_id st"
  using assms
proof (induction S ag run_id st rule: agent_loop.induct)
  case (1 S ag run_id st)
  obtain r st' where s: "run_step S ag run_id st = (r, st')" by fastforce
  note eq = run_step_provider [OF "1.prems", of S run_id]
  show ?case
  proof (cases r)
    case None
    with s run_step_history [OF s "1.prems"(1)] "1.IH" [of None st'] "1.prems"(2) eq
    show ?thesis by (simp add: agent_loop.simps [of _ _ _ st])
  next
    case (Some x)
    with s eq show ?thesis by (simp add: agent_loop.simps [of _ _ _ st])
  qed
qed

text \<open>
  C16. The provider never sees an ill-formed conversation: replacing it by one that behaves
  differently on every history with an unanswered tool call changes nothing in any run that starts
  on a conversation its input closes.
\<close>

theorem run_provider_closed_only:
  assumes "closed (ag_history ag @ [input_to_message input])"
    and "\<forall>req. closed (cr_messages req) \<longrightarrow> p' req = ag_provider ag req"
  shows "run S (ag\<lparr>ag_provider := p'\<rparr>) input w = run S ag input w"
proof -
  have st: "start_state (ag\<lparr>ag_provider := p'\<rparr>) input w1 = start_state ag input w1" for w1
    by (simp add: start_state_def)
  show ?thesis
    using assms agent_loop_provider [of "start_state ag input w1" ag p' S rid for w1 rid]
    by (auto simp: run_def st same_on_closed_def split: prod.splits)
qed

lemma run_step_toolbox:
  assumes "ag_handoff_tool ag = Some h" and "tb_specs tb' = tb_specs (ag_toolbox ag)"
    and "\<forall>name. name \<noteq> h \<longrightarrow> tb_execute tb' name = tb_execute (ag_toolbox ag) name"
  shows "run_step S (ag\<lparr>ag_toolbox := tb'\<rparr>) run_id st = run_step S ag run_id st"
proof -
  let ?ag' = "ag\<lparr>ag_toolbox := tb'\<rparr>"
  have "complete_turn S ?ag' st = complete_turn S ag st" for st
    using assms(2) by (simp add: complete_turn_def turn_request_def)
  moreover have "fold (execute_call S ?ag') calls st = fold (execute_call S ag) calls st"
    if "find (\<lambda>c. call_name c = h) calls = None" for calls st
  proof (rule fold_cong)
    fix c assume "c \<in> set calls"
    then have "call_name c \<noteq> h" using that unfolding find_None_iff by blast
    then show "execute_call S ?ag' c = execute_call S ag c"
      using assms(3) by (cases c) (simp add: fun_eq_iff execute_call_def Let_def)
  qed simp_all
  then have "tools_turn S ?ag' calls st = tools_turn S ag calls st"
    if "find (\<lambda>c. call_name c = h) calls = None" for calls st
    using that by (simp add: tools_turn_def Let_def split: prod.splits)
  ultimately show ?thesis
    using assms(1)
    by (auto simp: run_step_def end_turn_def handoff_turn_def handoff_call_def Let_def
        validate_handoff_def split: prod.splits sum.splits option.splits)
qed

lemma agent_loop_toolbox:
  assumes "ag_handoff_tool ag = Some h" and "tb_specs tb' = tb_specs (ag_toolbox ag)"
    and "\<forall>name. name \<noteq> h \<longrightarrow> tb_execute tb' name = tb_execute (ag_toolbox ag) name"
  shows "agent_loop S (ag\<lparr>ag_toolbox := tb'\<rparr>) run_id st = agent_loop S ag run_id st"
  using assms
proof (induction S ag run_id st rule: agent_loop.induct)
  case (1 S ag run_id st)
  obtain r st' where s: "run_step S ag run_id st = (r, st')" by fastforce
  note eq = run_step_toolbox [OF "1.prems", of S run_id st]
  with s "1.IH" [of r st'] "1.prems" show ?case
    by (cases r) (simp_all add: agent_loop.simps [of _ _ _ st])
qed

text \<open>
  C17. The handoff tool is never executed: whatever a toolbox would do with a call of that name, the
  run is the same.
\<close>

theorem run_handoff_not_executed:
  assumes "ag_handoff_tool ag = Some h" and "tb_specs tb' = tb_specs (ag_toolbox ag)"
    and "\<forall>name. name \<noteq> h \<longrightarrow> tb_execute tb' name = tb_execute (ag_toolbox ag) name"
  shows "run S (ag\<lparr>ag_toolbox := tb'\<rparr>) input w = run S ag input w"
  using agent_loop_toolbox [OF assms]
  by (simp add: run_def start_state_def split: prod.splits)


subsection \<open>What a finished run returns\<close>

definition outcome_ok :: "'w agent \<Rightarrow> agent_output \<Rightarrow> 'w run_state \<Rightarrow> bool" where
  "outcome_ok ag out st \<longleftrightarrow>
     (\<exists>h es mid parts m rid.
        m = \<lparr>msg_id = mid, msg_role = Assistant, msg_parts = parts\<rparr> \<and>
        rs_history st = h @ [m] \<and>
        rs_events st = es @ [MessageComplete mid m, RunComplete rid (out_usage out) (rs_iteration st)] \<and>
        (case out_result out of
           Completed text \<Rightarrow>
             ag_handoff_tool ag = None \<and> extract_tool_calls parts = [] \<and> text = extract_text parts
         | Handoff name data \<Rightarrow>
             ag_handoff_tool ag = Some name \<and>
             (\<exists>cid. extract_tool_calls parts = [(cid, name, data)]) \<and>
             (case ag_handoff_validator ag of None \<Rightarrow> True | Some v \<Rightarrow> va_is_valid v data)))"

lemma handoff_call_single:
  assumes "handoff_call ag calls = Some (name, data)" and "validate_handoff ag name calls data = None"
  shows "ag_handoff_tool ag = Some name \<and> (\<exists>cid. calls = [(cid, name, data)]) \<and>
         (case ag_handoff_validator ag of None \<Rightarrow> True | Some v \<Rightarrow> va_is_valid v data)"
proof -
  have h: "ag_handoff_tool ag = Some name" "\<exists>cid. (cid, name, data) \<in> set calls"
    using assms(1) by (auto simp: handoff_call_def split: option.splits dest!: find_Some_in)
  have "length calls \<le> 1" "case ag_handoff_validator ag of None \<Rightarrow> True | Some v \<Rightarrow> va_is_valid v data"
    using assms(2) by (auto simp: validate_handoff_def split: if_splits option.splits)
  with h show ?thesis by (cases calls) auto
qed

lemma tools_turn_no_output [simp]: "tools_turn S ag calls st = (Some (Inr out), st') \<longleftrightarrow> False"
  by (auto simp: tools_turn_def Let_def split: prod.splits)

lemma run_step_outcome:
  assumes "run_step S ag run_id st = (Some (Inr out), st')"
  shows "outcome_ok ag out st'"
proof -
  obtain c st1 where p: "poll_cancelled S st = (c, st1)" by fastforce
  obtain x st2 where t: "complete_turn S ag (st1\<lparr>rs_iteration := rs_iteration st1 + 1\<rparr>) = (x, st2)"
    by fastforce
  from assms p t obtain parts where x: "x = Inr parts"
    by (cases x) (auto simp: run_step_def split: if_splits)
  with complete_turn_history [OF t] obtain h es mid where h: "rs_history st2 =
      h @ [\<lparr>msg_id = mid, msg_role = Assistant, msg_parts = parts\<rparr>]"
      "rs_events st2 = es @ [MessageComplete mid \<lparr>msg_id = mid, msg_role = Assistant, msg_parts = parts\<rparr>]"
    by auto
  show ?thesis
    using assms p t x h
    by (auto simp: run_step_def Let_def end_turn_def handoff_turn_def finish_def outcome_ok_def
        dest!: handoff_call_single split: if_splits option.splits)
qed

lemma run_step_outcome_run:
  assumes "run S ag input w = (Inr out, st)"
  shows "outcome_ok ag out st"
proof -
  obtain rid w1 where u: "sv_uuid S w = (rid, w1)" by fastforce
  let ?Q = "\<lambda>r st. \<forall>out. r = Inr out \<longrightarrow> outcome_ok ag out st"
  have "?Q (fst (agent_loop S ag rid (start_state ag input w1)))
           (snd (agent_loop S ag rid (start_state ag input w1)))"
    by (rule agent_loop_rule [where P = "\<lambda>_. True" and Q = ?Q]) (auto dest: run_step_outcome)
  with assms u show ?thesis by (simp add: run_def)
qed

text \<open>
  C18. A run that returns ended on the assistant's last message and announced the usage it returns:
  a completion only for an agent without a handoff tool, with the text of a message that calls
  nothing; a handoff only by the agent's handoff tool, called alone, with the call's input, which
  the tool's schema accepts.
\<close>

theorem run_outcome:
  assumes "run S ag input w = (Inr out, st)"
  shows "outcome_ok ag out st"
  by (rule run_step_outcome_run [OF assms])

subsection \<open>A scripted run\<close>

text \<open>
  Concrete services for the witnesses: the world is the list of answers the provider will give.
\<close>

definition scripted_services :: "completion_response list services" where
  "scripted_services =
     \<lparr>sv_uuid = (\<lambda>w. (''u'', w)), sv_cancelled = (\<lambda>w. (False, w)), sv_show_json = (\<lambda>_. ''{}''),
      sv_compile_schema = (\<lambda>_. Inr \<lparr>va_is_valid = (\<lambda>_. True), va_errors = (\<lambda>_. [])\<rparr>)\<rparr>"

fun scripted_provider :: "completion_response list provider" where
  "scripted_provider req mid [] = (Inl Overloaded, [], [])"
| "scripted_provider req mid (r # rs) = (Inr r, [], rs)"

definition answer :: "content_part list \<Rightarrow> completion_response" where
  "answer parts =
     \<lparr>cp_parts = parts, cp_stop_reason = EndTurn, cp_usage = \<lparr>input_tokens = 1, output_tokens = 1\<rparr>\<rparr>"

definition call_part :: "string \<Rightarrow> string \<Rightarrow> content_part" where
  "call_part i n = ToolCallPart \<lparr>tc_id = i, tc_name = n, tc_input = JNull\<rparr>"

definition scripted_agent :: "string option \<Rightarrow> completion_response list agent" where
  "scripted_agent handoff =
     \<lparr>ag_provider = scripted_provider, ag_system_prompt = [],
      ag_toolbox = \<lparr>tb_specs = [], tb_execute = (\<lambda>_ _ w. (Inr JNull, w))\<rparr>,
      ag_handoff_tool = handoff, ag_handoff_validator = None, ag_config = default_config,
      ag_history = []\<rparr>"

definition scripted_run ::
  "string option \<Rightarrow> completion_response list \<Rightarrow> run_result \<times> completion_response list run_state" where
  "scripted_run handoff replies =
     run scripted_services (scripted_agent handoff) (UserMessage ''m'' ''hi'') replies"


text \<open>One rejected turn, then the handoff alone.\<close>

definition demo_replies :: "completion_response list" where
  "demo_replies =
     [answer [call_part ''a'' ''read''],
      answer [call_part ''b'' ''read'', call_part ''c'' ''conclude''],
      answer [call_part ''d'' ''conclude'']]"

lemma demo_result:
  "fst (scripted_run (Some ''conclude'') demo_replies) =
     Inr \<lparr>out_result = Handoff ''conclude'' JNull, out_usage = \<lparr>input_tokens = 3, output_tokens = 3\<rparr>\<rparr>"
  by code_simp

lemma demo_start_closed: "closed (ag_history (scripted_agent h) @ [input_to_message (UserMessage m t)])"
  by (simp add: scripted_agent_def closed_def conv_step_def)

theorem run_conversation_witness:
  "\<exists>cid. conv [] (rs_history (snd (scripted_run (Some ''conclude'') demo_replies))) = Some [cid]"
  using run_conversation [OF demo_start_closed [of "Some ''conclude''" "''m''" "''hi''"],
      of scripted_services demo_replies]
    demo_result
  by (simp add: scripted_run_def split: prod.splits)

theorem run_provider_closed_only_witness:
  "run scripted_services
     (scripted_agent None\<lparr>ag_provider := \<lambda>req mid w.
        if closed (cr_messages req) then scripted_provider req mid w else (Inl Overloaded, [], w)\<rparr>)
     (UserMessage ''m'' ''hi'') demo_replies = scripted_run None demo_replies"
  unfolding scripted_run_def
  by (rule run_provider_closed_only [OF demo_start_closed]) (simp add: scripted_agent_def fun_eq_iff)

theorem run_handoff_not_executed_witness:
  "run scripted_services
     (scripted_agent (Some ''conclude'')\<lparr>ag_toolbox :=
        \<lparr>tb_specs = [], tb_execute = (\<lambda>name _ w. if name = ''conclude'' then (Inr JNull, []) else (Inr JNull, w))\<rparr>\<rparr>)
     (UserMessage ''m'' ''hi'') demo_replies = scripted_run (Some ''conclude'') demo_replies"
  unfolding scripted_run_def
  by (rule run_handoff_not_executed [where h = "''conclude''"]) (simp_all add: scripted_agent_def fun_eq_iff)

theorem run_outcome_witness:
  "outcome_ok (scripted_agent (Some ''conclude''))
     \<lparr>out_result = Handoff ''conclude'' JNull, out_usage = \<lparr>input_tokens = 3, output_tokens = 3\<rparr>\<rparr>
     (snd (scripted_run (Some ''conclude'') demo_replies))"
  by (rule run_outcome)
    (use demo_result in \<open>simp add: scripted_run_def prod_eq_iff\<close>)

end
