(* ===== verification/Agent_Bounds.thy ===== *)
theory Agent_Bounds
  imports Agent_Conversation
begin

text \<open>
  How long a run of the agent loop lasts: the iteration bound, counted in assistant messages, and
  the loop detector, which ends a run whose model keeps asking for the same calls.
\<close>

subsection \<open>Iterations\<close>

definition assistants :: "message list \<Rightarrow> nat" where
  "assistants h = length (filter (\<lambda>m. msg_role m = Assistant) h)"

lemma assistants_simps [simp]:
  "assistants [] = 0" "assistants (xs @ ys) = assistants xs + assistants ys"
  "assistants (m # ms) = (if msg_role m = Assistant then Suc (assistants ms) else assistants ms)"
  by (simp_all add: assistants_def)

lemma assistants_answers: "list_all2 answers cs ms \<Longrightarrow> assistants ms = 0"
  by (induction rule: list_all2_induct) (auto simp: answers_def)

lemma assistants_executed [simp]:
  "assistants (rs_history (fold (execute_call S ag) cs st)) = assistants (rs_history st)"
  using execute_calls_history [of S ag cs st] by (auto simp: assistants_answers)

lemma assistants_nudges [simp]: "assistants (map nudge_result cs) = 0"
  by (rule assistants_answers [OF list_all2_map_answers]) simp

lemma assistants_rejections [simp]: "assistants (map (rejection_result name reason) cs) = 0"
  by (rule assistants_answers [OF list_all2_map_answers]) simp

lemma input_to_message_role [simp]: "msg_role (input_to_message i) \<noteq> Assistant"
  by (cases i) auto

text \<open>Turns taken and not failed at the provider, against the assistant messages pushed.\<close>

definition counted :: "'w agent \<Rightarrow> nat \<Rightarrow> 'w run_state \<Rightarrow> bool" where
  "counted ag base st \<longleftrightarrow>
     assistants (rs_history st) = base + unat (rs_iteration st) \<and>
     rs_iteration st \<le> max_iterations (ag_config ag)"

definition counted_exit :: "'w agent \<Rightarrow> nat \<Rightarrow> run_result \<Rightarrow> 'w run_state \<Rightarrow> bool" where
  "counted_exit ag base r st \<longleftrightarrow>
     assistants (rs_history st) + (case r of Inl (Provider e) \<Rightarrow> 1 | _ \<Rightarrow> 0) =
       base + unat (rs_iteration st) \<and>
     rs_iteration st \<le> max_iterations (ag_config ag) \<and>
     (case r of
        Inl (MaxIterationsExceeded n) \<Rightarrow>
          n = max_iterations (ag_config ag) \<and> rs_iteration st = max_iterations (ag_config ag)
      | _ \<Rightarrow> True)"

text \<open>What the rest of a turn never ends with: the failures of the loop head.\<close>

definition turn_error :: "run_result option \<Rightarrow> bool" where
  "turn_error r \<longleftrightarrow> (\<forall>e n. r \<noteq> Some (Inl (Provider e)) \<and> r \<noteq> Some (Inl (MaxIterationsExceeded n)))"

lemma turn_assistants:
  shows "end_turn ag run_id parts st = (r, st') \<Longrightarrow>
           assistants (rs_history st') = assistants (rs_history st) \<and> turn_error r"
    and "handoff_turn ag run_id name calls data st = (r, st') \<Longrightarrow>
           assistants (rs_history st') = assistants (rs_history st) \<and> turn_error r"
    and "tools_turn S ag calls st = (r, st') \<Longrightarrow>
           assistants (rs_history st') = assistants (rs_history st) \<and> turn_error r"
  by (auto simp: turn_error_def end_turn_def handoff_turn_def tools_turn_def finish_def missing_handoff_nudge_def
      Let_def split: option.splits if_splits prod.splits dest!: poll_cancelled_sel)

lemma inc_le_bound: "i < m \<Longrightarrow> i + 1 \<le> m" for i m :: u32
  by (simp add: inc_le)

lemma run_step_counted:
  assumes "run_step S ag run_id st = (r, st')" and "counted ag base st"
  shows "case r of None \<Rightarrow> counted ag base st' | Some x \<Rightarrow> counted_exit ag base x st'"
proof -
  obtain c st1 where p: "poll_cancelled S st = (c, st1)" by fastforce
  then have h1: "rs_history st1 = rs_history st" "rs_iteration st1 = rs_iteration st"
    by (auto dest!: poll_cancelled_sel)
  obtain x st2 where t: "complete_turn S ag (st1\<lparr>rs_iteration := rs_iteration st1 + 1\<rparr>) = (x, st2)"
    by fastforce
  from counters_iteration [OF complete_turn_frame [OF this]] h1
  have i2: "rs_iteration st2 = rs_iteration st + 1" by simp
  show ?thesis
  proof (cases "c \<or> rs_iteration st \<ge> max_iterations (ag_config ag)")
    case True
    with assms p h1 show ?thesis
      by (auto simp: run_step_def counted_def counted_exit_def split: if_splits)
  next
    case False
    then have lt: "rs_iteration st < max_iterations (ag_config ag)" by (simp add: not_le)
    note b = unat_less_increases [OF lt] inc_le_bound [OF lt]
    show ?thesis
    proof (cases x)
      case (Inl e)
      with assms p t h1 i2 b False complete_turn_history [OF t] show ?thesis
        by (auto simp: run_step_def counted_def counted_exit_def)
    next
      case (Inr parts)
      with complete_turn_history [OF t] h1
      have h2: "assistants (rs_history st2) = Suc (assistants (rs_history st))" by auto
      have "rs_iteration st' = rs_iteration st + 1 \<and> assistants (rs_history st') = assistants (rs_history st2)
          \<and> turn_error r"
        using assms(1) p t h1 False Inr i2
        by (auto simp: run_step_def Let_def dest: turn_iteration turn_assistants
            split: if_splits option.splits)
      with assms(2) h2 b show ?thesis
        by (auto simp: counted_def counted_exit_def turn_error_def
            split: option.splits sum.splits agent_error.splits)
    qed
  qed
qed

text \<open>
  C19. A run always returns, within \<open>max_iterations\<close> turns: the assistant messages it adds are
  exactly the turns it took, the failed one of a provider error apart. It fails with
  \<open>MaxIterationsExceeded\<close> only when it has taken \<open>max_iterations\<close> turns, no earlier, and the
  error names that bound.
\<close>

theorem run_iterations:
  "case run S ag input w of
     (r, st) \<Rightarrow>
       assistants (rs_history st) + (case r of Inl (Provider e) \<Rightarrow> 1 | _ \<Rightarrow> 0) =
         assistants (ag_history ag) + unat (rs_iteration st) \<and>
       rs_iteration st \<le> max_iterations (ag_config ag) \<and>
       (case r of
          Inl (MaxIterationsExceeded n) \<Rightarrow>
            n = max_iterations (ag_config ag) \<and> rs_iteration st = max_iterations (ag_config ag)
        | _ \<Rightarrow> True)"
proof -
  obtain rid w1 where u: "sv_uuid S w = (rid, w1)" by fastforce
  let ?st = "start_state ag input w1"
  obtain r st where l: "agent_loop S ag rid ?st = (r, st)" by fastforce
  have "counted_exit ag (assistants (ag_history ag))
      (fst (agent_loop S ag rid ?st)) (snd (agent_loop S ag rid ?st))"
    by (rule agent_loop_rule [where P = "counted ag (assistants (ag_history ag))"])
      (use run_step_counted in \<open>fastforce simp: counted_def\<close>)+
  with u l show ?thesis by (simp add: run_def counted_exit_def)
qed


subsection \<open>A model that repeats itself\<close>

text \<open>A provider that answers every request with the same tool calls.\<close>

definition repeats :: "'w provider \<Rightarrow> tool_call list \<Rightarrow> bool" where
  "repeats p calls \<longleftrightarrow>
     (\<forall>req mid w. case p req mid w of
        (Inl e, _, _) \<Rightarrow> False | (Inr resp, _, _) \<Rightarrow> extract_tool_calls (cp_parts resp) = calls)"

text \<open>Calls a run has executed: the \<open>result:\<close> messages it pushed.\<close>

definition executed :: "message list \<Rightarrow> nat" where
  "executed h = length (filter (\<lambda>m. msg_role m = Tool \<and> take 7 (msg_id m) = ''result:'') h)"

lemma executed_simps [simp]:
  "executed [] = 0" "executed (xs @ ys) = executed xs + executed ys"
  "executed (m # ms) =
     (if msg_role m = Tool \<and> take 7 (msg_id m) = ''result:'' then Suc (executed ms) else executed ms)"
  by (simp_all add: executed_def)

lemma executed_calls [simp]:
  "executed (rs_history (fold (execute_call S ag) cs st)) = executed (rs_history st) + length cs"
proof (induction cs arbitrary: st)
  case (Cons c cs)
  have "executed (rs_history (execute_call S ag c st)) = Suc (executed (rs_history st))"
    by (cases c) (simp add: execute_call_def result_id_def Let_def split: prod.splits sum.splits)
  with Cons show ?case by simp
qed simp

lemma executed_nudges [simp]: "executed (map nudge_result cs) = 0"
  by (induction cs) (simp_all add: nudge_result_def)

lemma executed_not_nudged [simp]:
  "filter is_nudge (rs_history (fold (execute_call S ag) cs st)) = filter is_nudge (rs_history st)"
proof (induction cs arbitrary: st)
  case (Cons c cs)
  have "filter is_nudge (rs_history (execute_call S ag c st)) = filter is_nudge (rs_history st)"
    by (cases c) (simp add: execute_call_def result_id_def is_nudge_def Let_def split: prod.splits sum.splits)
  with Cons show ?case by simp
qed simp

lemma nudges_nudged [simp]: "filter is_nudge (map nudge_result cs) = map nudge_result cs"
  by (simp add: filter_id_conv is_nudge_def nudge_result_def)

text \<open>One turn of a repeating model, and the whole of its run: the nudges pushed in \<open>n\<close> turns.\<close>

definition nudges :: "nat \<Rightarrow> tool_call list \<Rightarrow> message list" where
  "nudges n calls = concat (replicate n (map nudge_result calls))"

lemma nudges_simps [simp]:
  "nudges 0 calls = []" "nudges (Suc 0) calls = map nudge_result calls"
  "nudges n calls @ nudges m calls = nudges (n + m) calls"
  by (simp_all add: nudges_def replicate_add)

lemma remember_replicate:
  "k < n \<Longrightarrow> remember n f (replicate k f) = replicate (Suc k) f"
  by (simp add: remember_def Let_def replicate_append_same)

lemma tools_turn_repeat:
  assumes "\<And>w. \<not> fst (sv_cancelled S w)"
    and "rs_recent st = replicate k (tool_fingerprint S calls)" and "k < stuck_threshold (ag_config ag)"
    and "nudge_threshold (ag_config ag) < stuck_threshold (ag_config ag)"
  shows "\<exists>st'. tools_turn S ag calls st =
      (if Suc k = stuck_threshold (ag_config ag)
       then Some (Inl (StuckInLoop (call_name (hd calls)) (stuck_threshold (ag_config ag)))) else None, st') \<and>
      rs_recent st' = replicate (Suc k) (tool_fingerprint S calls) \<and>
      executed (rs_history st') = executed (rs_history st) +
        (if Suc k < nudge_threshold (ag_config ag) then length calls else 0) \<and>
      filter is_nudge (rs_history st') = filter is_nudge (rs_history st) @
        nudges (if nudge_threshold (ag_config ag) \<le> Suc k \<and> Suc k < stuck_threshold (ag_config ag)
                then 1 else 0) calls"
proof -
  obtain w where p: "poll_cancelled S (st\<lparr>rs_recent := r\<rparr>) = (False, st\<lparr>rs_recent := r, rs_world := w\<rparr>)" for r
    using assms(1) [of "rs_world st"]
    by (cases "sv_cancelled S (rs_world st)") (simp add: poll_cancelled_def)
  have rec: "rs_recent (fold (execute_call S ag) calls st2) = rs_recent st2" for st2
    using execute_calls_frame(1) [of S ag calls st2] by (simp add: counters_def)
  show ?thesis
    using assms(2-4)
    by (auto simp: tools_turn_def remember_replicate p rec list_all_iff Let_def)
qed

lemma run_step_repeat:
  assumes nc: "\<And>w. \<not> fst (sv_cancelled S w)" and rp: "repeats (ag_provider ag) calls"
    and calls: "calls \<noteq> []" "handoff_call ag calls = None"
    and n: "nudge_threshold (ag_config ag) < stuck_threshold (ag_config ag)"
    and lt: "rs_iteration st < max_iterations (ag_config ag)"
    and k: "rs_recent st = replicate k (tool_fingerprint S calls)" "k < stuck_threshold (ag_config ag)"
  shows "\<exists>st'. run_step S ag run_id st =
      (if Suc k = stuck_threshold (ag_config ag)
       then Some (Inl (StuckInLoop (call_name (hd calls)) (stuck_threshold (ag_config ag)))) else None, st') \<and>
      rs_recent st' = replicate (Suc k) (tool_fingerprint S calls) \<and>
      rs_iteration st' = rs_iteration st + 1 \<and>
      executed (rs_history st') = executed (rs_history st) +
        (if Suc k < nudge_threshold (ag_config ag) then length calls else 0) \<and>
      filter is_nudge (rs_history st') = filter is_nudge (rs_history st) @
        nudges (if nudge_threshold (ag_config ag) \<le> Suc k \<and> Suc k < stuck_threshold (ag_config ag)
                then 1 else 0) calls"
proof -
  obtain st1 where p: "poll_cancelled S st = (False, st1)"
    using nc [of "rs_world st"] by (cases "sv_cancelled S (rs_world st)") (simp add: poll_cancelled_def)
  then have h1: "rs_history st1 = rs_history st" "rs_iteration st1 = rs_iteration st" "rs_recent st1 = rs_recent st"
    by (auto dest!: poll_cancelled_sel)
  obtain x st2 where t: "complete_turn S ag (st1\<lparr>rs_iteration := rs_iteration st1 + 1\<rparr>) = (x, st2)"
    by fastforce
  from complete_turn_frame [OF t] h1
  have h2: "rs_iteration st2 = rs_iteration st + 1" "rs_recent st2 = rs_recent st"
    by (simp_all add: counters_def)
  obtain parts where x: "x = Inr parts" "extract_tool_calls parts = calls"
    using t rp
    by (auto simp: complete_turn_def repeats_def Let_def split: prod.splits sum.splits)
      (metis (mono_tags, lifting) case_prod_conv sum.case(2))+
  with complete_turn_history [OF t] h1
  have h3: "executed (rs_history st2) = executed (rs_history st)"
      "filter is_nudge (rs_history st2) = filter is_nudge (rs_history st)"
    by (auto simp: is_nudge_def)
  obtain st' where st': "tools_turn S ag calls st2 =
      (if Suc k = stuck_threshold (ag_config ag)
       then Some (Inl (StuckInLoop (call_name (hd calls)) (stuck_threshold (ag_config ag)))) else None, st')"
      "rs_recent st' = replicate (Suc k) (tool_fingerprint S calls)"
      "executed (rs_history st') = executed (rs_history st2) +
        (if Suc k < nudge_threshold (ag_config ag) then length calls else 0)"
      "filter is_nudge (rs_history st') = filter is_nudge (rs_history st2) @
        nudges (if nudge_threshold (ag_config ag) \<le> Suc k \<and> Suc k < stuck_threshold (ag_config ag)
                then 1 else 0) calls"
    using tools_turn_repeat [OF nc, of st2 k calls ag] h2 k n by auto
  have "run_step S ag run_id st = tools_turn S ag calls st2"
    using p t x calls lt h1 by (auto simp: run_step_def)
  with st' h2 h3 turn_iteration(3) [OF st'(1)] show ?thesis by auto
qed

lemma agent_loop_repeat:
  assumes "\<And>w. \<not> fst (sv_cancelled S w)" and "repeats (ag_provider ag) calls"
    and "calls \<noteq> []" "handoff_call ag calls = None"
    and "nudge_threshold (ag_config ag) < stuck_threshold (ag_config ag)"
    and "stuck_threshold (ag_config ag) \<le> unat (max_iterations (ag_config ag))"
    and "rs_recent st = replicate k (tool_fingerprint S calls)" "k < stuck_threshold (ag_config ag)"
    and "unat (rs_iteration st) = k"
  shows "\<exists>st'. agent_loop S ag run_id st =
      (Inl (StuckInLoop (call_name (hd calls)) (stuck_threshold (ag_config ag))), st') \<and>
      unat (rs_iteration st') = stuck_threshold (ag_config ag) \<and>
      executed (rs_history st') = executed (rs_history st) +
        (nudge_threshold (ag_config ag) - 1 - k) * length calls \<and>
      filter is_nudge (rs_history st') = filter is_nudge (rs_history st) @
        nudges (stuck_threshold (ag_config ag) - max (Suc k) (nudge_threshold (ag_config ag))) calls"
  using assms(7-9)
proof (induction "stuck_threshold (ag_config ag) - k" arbitrary: k st)
  case 0
  then show ?case by simp
next
  case (Suc d)
  have lt: "rs_iteration st < max_iterations (ag_config ag)"
    using Suc.prems assms(6) by (simp add: word_less_nat_alt)
  obtain st1 where s: "run_step S ag run_id st =
      (if Suc k = stuck_threshold (ag_config ag)
       then Some (Inl (StuckInLoop (call_name (hd calls)) (stuck_threshold (ag_config ag)))) else None, st1)"
      "rs_recent st1 = replicate (Suc k) (tool_fingerprint S calls)"
      "rs_iteration st1 = rs_iteration st + 1"
      "executed (rs_history st1) = executed (rs_history st) +
        (if Suc k < nudge_threshold (ag_config ag) then length calls else 0)"
      "filter is_nudge (rs_history st1) = filter is_nudge (rs_history st) @
        nudges (if nudge_threshold (ag_config ag) \<le> Suc k \<and> Suc k < stuck_threshold (ag_config ag)
                then 1 else 0) calls"
    using run_step_repeat [OF assms(1-5) lt Suc.prems(1,2), of run_id] by blast
  have i: "unat (rs_iteration st1) = Suc k" using s(3) unat_less_increases [OF lt] Suc.prems(3) by simp
  show ?case
  proof (cases "Suc k = stuck_threshold (ag_config ag)")
    case True
    then have "agent_loop S ag run_id st =
        (Inl (StuckInLoop (call_name (hd calls)) (stuck_threshold (ag_config ag))), st1)"
      using s(1) by (simp add: agent_loop.simps [of S ag run_id st])
    moreover have "nudge_threshold (ag_config ag) - 1 - k = 0" using True assms(5) by simp
    ultimately show ?thesis using True s(4,5) i assms(5) by auto
  next
    case False
    then have "agent_loop S ag run_id st = agent_loop S ag run_id st1"
      using s(1) by (simp add: agent_loop.simps [of S ag run_id st])
    moreover have "d = stuck_threshold (ag_config ag) - Suc k" "Suc k < stuck_threshold (ag_config ag)"
      using Suc.hyps(2) Suc.prems(2) False by simp_all
    moreover have "(if Suc k < nudge_threshold (ag_config ag) then length calls else 0) +
        (nudge_threshold (ag_config ag) - 1 - Suc k) * length calls =
        (nudge_threshold (ag_config ag) - 1 - k) * length calls"
      by (cases "Suc k < nudge_threshold (ag_config ag)")
        (simp_all add: Suc_diff_Suc [symmetric] mult_Suc [symmetric] del: mult_Suc)
    moreover have "nudges (if nudge_threshold (ag_config ag) \<le> Suc k \<and> Suc k < stuck_threshold (ag_config ag)
          then 1 else 0) calls @
        nudges (stuck_threshold (ag_config ag) - max (Suc (Suc k)) (nudge_threshold (ag_config ag))) calls =
        nudges (stuck_threshold (ag_config ag) - max (Suc k) (nudge_threshold (ag_config ag))) calls"
      using calculation(3) by (auto simp: max_def Suc_diff_Suc)
    ultimately show ?thesis using Suc.hyps(1) [of "Suc k" st1] s i by auto
  qed
qed

text \<open>
  C20. The loop detector: a model that answers every request with the same tool calls is stopped
  with \<open>StuckInLoop\<close> at turn \<open>stuck_threshold\<close> exactly, and its calls were executed only in the
  first \<open>nudge_threshold - 1\<close> turns. In each turn from there to the last but one, every call is
  answered by the nudge instead, which tells the model to try something else.
\<close>

theorem run_repeat_stuck:
  assumes "\<forall>w. \<not> fst (sv_cancelled S w)" and "repeats (ag_provider ag) calls"
    and "calls \<noteq> []" and "handoff_call ag calls = None"
    and "nudge_threshold (ag_config ag) < stuck_threshold (ag_config ag)"
    and "stuck_threshold (ag_config ag) \<le> unat (max_iterations (ag_config ag))"
  shows "\<exists>st. run S ag input w =
      (Inl (StuckInLoop (call_name (hd calls)) (stuck_threshold (ag_config ag))), st) \<and>
      unat (rs_iteration st) = stuck_threshold (ag_config ag) \<and>
      executed (rs_history st) = executed (ag_history ag @ [input_to_message input]) +
        (nudge_threshold (ag_config ag) - 1) * length calls \<and>
      filter is_nudge (rs_history st) = filter is_nudge (ag_history ag @ [input_to_message input]) @
        concat (replicate (stuck_threshold (ag_config ag) - max 1 (nudge_threshold (ag_config ag)))
          (map nudge_result calls))"
proof -
  obtain rid w1 where u: "sv_uuid S w = (rid, w1)" by fastforce
  show ?thesis
    using agent_loop_repeat [of S ag calls "start_state ag input w1" 0 rid] assms u
    by (auto simp: run_def nudges_def)
qed


definition parrot_agent :: "completion_response list agent" where
  "parrot_agent =
     scripted_agent None\<lparr>ag_provider := \<lambda>_ _ w. (Inr (answer [call_part ''a'' ''read'']), [], w)\<rparr>"

theorem run_repeat_stuck_witness:
  "\<exists>st. run scripted_services parrot_agent (UserMessage ''m'' ''hi'') [] = (Inl (StuckInLoop ''read'' 5), st) \<and>
     executed (rs_history st) = 2 \<and> length (filter is_nudge (rs_history st)) = 2"
proof -
  let ?calls = "[(''a'', ''read'', JNull)]"
  have "\<exists>st. run scripted_services parrot_agent (UserMessage ''m'' ''hi'') [] =
      (Inl (StuckInLoop (call_name (hd ?calls)) (stuck_threshold (ag_config parrot_agent))), st) \<and>
      unat (rs_iteration st) = stuck_threshold (ag_config parrot_agent) \<and>
      executed (rs_history st) =
        executed (ag_history parrot_agent @ [input_to_message (UserMessage ''m'' ''hi'')]) +
        (nudge_threshold (ag_config parrot_agent) - 1) * length ?calls \<and>
      filter is_nudge (rs_history st) =
        filter is_nudge (ag_history parrot_agent @ [input_to_message (UserMessage ''m'' ''hi'')]) @
        concat (replicate (stuck_threshold (ag_config parrot_agent) - max 1 (nudge_threshold (ag_config parrot_agent)))
          (map nudge_result ?calls))"
    by (rule run_repeat_stuck)
      (simp_all add: parrot_agent_def scripted_agent_def scripted_services_def repeats_def answer_def
        call_part_def default_config_def handoff_call_def)
  then show ?thesis
    by (auto simp: parrot_agent_def scripted_agent_def default_config_def is_nudge_def numeral_2_eq_2)
qed

end
