(* ===== verification/Journal.thy ===== *)
theory Journal
  imports Models
begin

text \<open>
  The event log of the actor runtime: \<open>src/actor/src/persistence_id.rs\<close>, \<open>error.rs\<close> and
  \<open>journal.rs\<close>. The trait \<open>Journal\<close> is the record \<open>journal_ops\<close> of its methods over a journal
  state \<open>'j\<close> and opaque blobs \<open>'b\<close>; \<open>InMemoryJournal\<close> is \<open>in_memory_ops\<close>, whose state is the
  map behind its mutex. The locale \<open>journal_contract\<close> is what the actor runtime relies on, stated
  over a recovery view (latest snapshot, events after it), and is interpreted on \<open>in_memory_ops\<close>.
  Sequence numbers are \<open>u64\<close> in the code and \<open>nat\<close> here: one is assigned per persisted event, so
  wrapping needs \<open>2^64\<close> events in one log.
\<close>

subsection \<open>Identity and errors\<close>

record persistence_id =
  pid_kind :: string
  pid_id :: string

definition mk_pid :: "string \<Rightarrow> string \<Rightarrow> persistence_id" where
  "mk_pid k i = \<lparr>pid_kind = k, pid_id = i\<rparr>"

definition pid_display :: "persistence_id \<Rightarrow> string" where
  "pid_display p = pid_kind p @ ''/'' @ pid_id p"

lemma mk_pid_eq_iff [simp]: "mk_pid k i = mk_pid k' i' \<longleftrightarrow> k = k' \<and> i = i'"
  by (simp add: mk_pid_def)

datatype journal_error = Backend string | Serialization string

type_synonym 'a journal_result = "(journal_error, 'a) result"

subsection \<open>The trait\<close>

record ('j, 'b) journal_ops =
  jo_persist :: "'j \<Rightarrow> persistence_id \<Rightarrow> 'b list \<Rightarrow> 'j \<times> unit journal_result"
  jo_replay :: "'j \<Rightarrow> persistence_id \<Rightarrow> nat \<Rightarrow> 'b journal_result list"
  jo_save_snapshot :: "'j \<Rightarrow> persistence_id \<Rightarrow> 'b \<Rightarrow> nat \<Rightarrow> 'j \<times> unit journal_result"
  jo_latest_snapshot :: "'j \<Rightarrow> persistence_id \<Rightarrow> ('b \<times> nat) option journal_result"
  jo_delete_events_before :: "'j \<Rightarrow> persistence_id \<Rightarrow> nat \<Rightarrow> 'j \<times> unit journal_result"
  jo_copy_snapshot :: "'j \<Rightarrow> persistence_id \<Rightarrow> persistence_id \<Rightarrow> 'j \<times> unit journal_result"
  jo_clear :: "'j \<Rightarrow> persistence_id \<Rightarrow> 'j \<times> unit journal_result"

text \<open>The sequence number replay starts after: the snapshot's, or 0 when there is none.\<close>

definition snap_seq :: "('b \<times> nat) option \<Rightarrow> nat" where
  "snap_seq s = (case s of None \<Rightarrow> 0 | Some (_, n) \<Rightarrow> n)"

lemma snap_seq_simps [simp]: "snap_seq None = 0" "snap_seq (Some (b, n)) = n"
  by (simp_all add: snap_seq_def)

subsection \<open>InMemoryJournal\<close>

record 'b entry =
  events :: "(nat \<times> 'b) list"
  last_seq :: nat
  snapshot :: "('b \<times> nat) option"

type_synonym 'b in_memory = "persistence_id \<rightharpoonup> 'b entry"

definition entry_default :: "'b entry" where
  "entry_default = \<lparr>events = [], last_seq = 0, snapshot = None\<rparr>"

definition entry_or_default :: "'b in_memory \<Rightarrow> persistence_id \<Rightarrow> 'b entry" where
  "entry_or_default m p = (case m p of None \<Rightarrow> entry_default | Some e \<Rightarrow> e)"

text \<open>The loop of \<open>persist\<close>: each event takes the next sequence number.\<close>

fun push_events :: "'b entry \<Rightarrow> 'b list \<Rightarrow> 'b entry" where
  "push_events e [] = e"
| "push_events e (b # bs) =
     (let n = last_seq e + 1
      in push_events (e\<lparr>last_seq := n, events := events e @ [(n, b)]\<rparr>) bs)"

definition im_persist ::
  "'b in_memory \<Rightarrow> persistence_id \<Rightarrow> 'b list \<Rightarrow> 'b in_memory \<times> unit journal_result" where
  "im_persist m p bs = (m(p \<mapsto> push_events (entry_or_default m p) bs), Inr ())"

definition im_replay :: "'b in_memory \<Rightarrow> persistence_id \<Rightarrow> nat \<Rightarrow> 'b journal_result list" where
  "im_replay m p after =
     (case m p of
        None \<Rightarrow> []
      | Some e \<Rightarrow> map (\<lambda>(_, b). Inr b) (filter (\<lambda>(n, _). after < n) (events e)))"

definition im_save_snapshot ::
  "'b in_memory \<Rightarrow> persistence_id \<Rightarrow> 'b \<Rightarrow> nat \<Rightarrow> 'b in_memory \<times> unit journal_result" where
  "im_save_snapshot m p b n =
     (let e = entry_or_default m p
      in (m(p \<mapsto> e\<lparr>last_seq := max (last_seq e) n, snapshot := Some (b, n)\<rparr>), Inr ()))"

definition im_latest_snapshot ::
  "'b in_memory \<Rightarrow> persistence_id \<Rightarrow> ('b \<times> nat) option journal_result" where
  "im_latest_snapshot m p = Inr (Option.bind (m p) snapshot)"

definition im_delete_events_before ::
  "'b in_memory \<Rightarrow> persistence_id \<Rightarrow> nat \<Rightarrow> 'b in_memory \<times> unit journal_result" where
  "im_delete_events_before m p n =
     (case m p of
        None \<Rightarrow> (m, Inr ())
      | Some e \<Rightarrow> (m(p \<mapsto> e\<lparr>events := filter (\<lambda>(k, _). n < k) (events e)\<rparr>), Inr ()))"

definition no_snapshot_error :: "persistence_id \<Rightarrow> journal_error" where
  "no_snapshot_error p = Backend (''no snapshot for '' @ quoted (pid_display p))"

definition im_copy_snapshot ::
  "'b in_memory \<Rightarrow> persistence_id \<Rightarrow> persistence_id \<Rightarrow> 'b in_memory \<times> unit journal_result" where
  "im_copy_snapshot m src dst =
     (case Option.bind (m src) snapshot of
        None \<Rightarrow> (m, Inl (no_snapshot_error src))
      | Some s \<Rightarrow> (m(dst \<mapsto> \<lparr>events = [], last_seq = snd s, snapshot = Some s\<rparr>), Inr ()))"

definition im_clear :: "'b in_memory \<Rightarrow> persistence_id \<Rightarrow> 'b in_memory \<times> unit journal_result" where
  "im_clear m p = (m(p := None), Inr ())"

definition in_memory_ops :: "('b in_memory, 'b) journal_ops" where
  "in_memory_ops =
     \<lparr>jo_persist = im_persist, jo_replay = im_replay, jo_save_snapshot = im_save_snapshot,
      jo_latest_snapshot = im_latest_snapshot, jo_delete_events_before = im_delete_events_before,
      jo_copy_snapshot = im_copy_snapshot, jo_clear = im_clear\<rparr>"

lemma in_memory_ops_simps [simp]:
  "jo_persist in_memory_ops = im_persist" "jo_replay in_memory_ops = im_replay"
  "jo_save_snapshot in_memory_ops = im_save_snapshot"
  "jo_latest_snapshot in_memory_ops = im_latest_snapshot"
  "jo_delete_events_before in_memory_ops = im_delete_events_before"
  "jo_copy_snapshot in_memory_ops = im_copy_snapshot" "jo_clear in_memory_ops = im_clear"
  by (simp_all add: in_memory_ops_def)

subsection \<open>The numbering invariant of an entry\<close>

text \<open>
  Events are numbered without gap up to \<open>last_seq\<close>, and compaction never went past the snapshot,
  so a snapshot and the events after it lose nothing.
\<close>

definition compacted :: "'b entry \<Rightarrow> nat" where
  "compacted e = last_seq e - length (events e)"

definition entry_ok :: "'b entry \<Rightarrow> bool" where
  "entry_ok e \<longleftrightarrow>
     length (events e) \<le> last_seq e \<and>
     map fst (events e) = [Suc (compacted e)..<Suc (compacted e + length (events e))] \<and>
     compacted e \<le> snap_seq (snapshot e) \<and> snap_seq (snapshot e) \<le> last_seq e"

definition im_ok :: "'b in_memory \<Rightarrow> bool" where
  "im_ok m \<longleftrightarrow> (\<forall>p e. m p = Some e \<longrightarrow> entry_ok e)"

definition entry_tail :: "'b entry \<Rightarrow> 'b list" where
  "entry_tail e = map snd (filter (\<lambda>(n, _). snap_seq (snapshot e) < n) (events e))"

definition im_view :: "'b in_memory \<Rightarrow> persistence_id \<Rightarrow> ('b \<times> nat) option \<times> 'b list" where
  "im_view m p = (case m p of None \<Rightarrow> (None, []) | Some e \<Rightarrow> (snapshot e, entry_tail e))"

lemma im_okD: "im_ok m \<Longrightarrow> m p = Some e \<Longrightarrow> entry_ok e"
  by (simp add: im_ok_def)

lemma entry_ok_default [simp]: "entry_ok entry_default"
  by (simp add: entry_ok_def entry_default_def compacted_def)

lemma entry_ok_or_default: "im_ok m \<Longrightarrow> entry_ok (entry_or_default m p)"
  by (auto simp: entry_or_default_def im_ok_def split: option.splits)

lemma im_ok_upd: "im_ok m \<Longrightarrow> entry_ok e \<Longrightarrow> im_ok (m(p \<mapsto> e))"
  by (auto simp: im_ok_def)

lemma entry_numbered:
  assumes "entry_ok e" and "compacted e \<le> k"
  shows "map snd (filter (\<lambda>(n, _). k < n) (events e)) = drop (k - compacted e) (map snd (events e))"
  using map_snd_filter_numbered [of "events e" "compacted e" k] assms by (simp add: entry_ok_def)

lemma entry_tail_length:
  assumes "entry_ok e"
  shows "snap_seq (snapshot e) + length (entry_tail e) = last_seq e"
  using assms entry_numbered [OF assms, of "snap_seq (snapshot e)"]
  by (auto simp: entry_tail_def entry_ok_def compacted_def)

lemma push_events_closed:
  "push_events e bs =
     e\<lparr>last_seq := last_seq e + length bs,
       events := events e @ zip [Suc (last_seq e)..<Suc (last_seq e + length bs)] bs\<rparr>"
proof (induction bs arbitrary: e)
  case Nil
  then show ?case by simp
next
  case (Cons b bs)
  have "[Suc (last_seq e)..<Suc (last_seq e + length (b # bs))] =
        Suc (last_seq e) # [Suc (Suc (last_seq e))..<Suc (Suc (last_seq e) + length bs)]"
    by (simp add: upt_rec)
  then show ?case by (simp add: Cons.IH Let_def del: upt_Suc)
qed

lemma push_events_sel [simp]:
  "last_seq (push_events e bs) = last_seq e + length bs"
  "snapshot (push_events e bs) = snapshot e"
  "map snd (events (push_events e bs)) = map snd (events e) @ bs"
  "length (events (push_events e bs)) = length (events e) + length bs"
  by (simp_all add: push_events_closed del: upt_Suc)

lemma compacted_push [simp]: "length (events e) \<le> last_seq e \<Longrightarrow> compacted (push_events e bs) = compacted e"
  by (simp add: compacted_def)

lemma entry_ok_push:
  assumes "entry_ok e" shows "entry_ok (push_events e bs)"
proof -
  have le: "length (events e) \<le> last_seq e" using assms by (simp add: entry_ok_def)
  have c: "compacted e + length (events e) = last_seq e" using le by (simp add: compacted_def)
  have "map fst (events (push_events e bs)) =
      [Suc (compacted e)..<Suc (last_seq e)] @ [Suc (last_seq e)..<Suc (last_seq e + length bs)]"
    using assms c by (simp add: push_events_closed entry_ok_def del: upt_Suc)
  also have "\<dots> = [Suc (compacted e)..<Suc (compacted e + (length (events e) + length bs))]"
    using c by (metis Suc_le_mono add.assoc le_add1 upt_add_eq_append add_Suc)
  finally show ?thesis using assms le by (simp add: entry_ok_def)
qed

lemma entry_tail_push:
  assumes "entry_ok e" shows "entry_tail (push_events e bs) = entry_tail e @ bs"
proof -
  have le: "length (events e) \<le> last_seq e" "compacted e \<le> snap_seq (snapshot e)"
      "snap_seq (snapshot e) \<le> last_seq e"
    using assms by (simp_all add: entry_ok_def)
  then have "snap_seq (snapshot e) - compacted e \<le> length (events e)"
    by (simp add: compacted_def)
  then show ?thesis
    using entry_numbered [OF entry_ok_push [OF assms, of bs]] entry_numbered [OF assms] le
    by (simp add: entry_tail_def)
qed

subsection \<open>The view after each in-memory operation\<close>

lemma im_view_upd:
  "im_view (m(p \<mapsto> e)) = (im_view m)(p := (snapshot e, entry_tail e))"
  by (auto simp: im_view_def fun_eq_iff)

lemma im_view_or_default:
  "im_view m p = (snapshot (entry_or_default m p), entry_tail (entry_or_default m p))"
  by (auto simp: im_view_def entry_or_default_def entry_default_def entry_tail_def
      split: option.splits)

lemma im_persist_view:
  assumes "im_ok m"
  shows "im_ok (fst (im_persist m p bs))"
    and "im_view (fst (im_persist m p bs)) =
         (im_view m)(p := (fst (im_view m p), snd (im_view m p) @ bs))"
  using assms
  by (auto simp: im_persist_def im_view_upd entry_tail_push entry_ok_or_default
      im_view_or_default intro!: im_ok_upd entry_ok_push)

lemma im_replay_view:
  "im_replay m p (snap_seq (fst (im_view m p))) = map Inr (snd (im_view m p))"
  by (auto simp: im_replay_def im_view_def entry_tail_def split: option.splits)

lemma im_latest_view: "im_latest_snapshot m p = Inr (fst (im_view m p))"
  by (auto simp: im_latest_snapshot_def im_view_def split: option.splits)

text \<open>A snapshot taken at the last assigned number makes every retained event redundant.\<close>

lemma entry_snapshot_at_last:
  fixes b :: 'b
  assumes "entry_ok e"
  defines "e' \<equiv> e\<lparr>last_seq := max (last_seq e) (last_seq e), snapshot := Some (b, last_seq e)\<rparr>"
  shows "entry_ok e'" and "entry_tail e' = []"
proof -
  have c: "compacted e' = compacted e" by (simp add: e'_def compacted_def)
  show ok: "entry_ok e'"
    using assms(1) unfolding entry_ok_def c by (simp add: e'_def)
  have "length (events e) \<le> last_seq e" using assms(1) by (simp add: entry_ok_def)
  then show "entry_tail e' = []"
    using entry_numbered [OF ok, of "last_seq e"] c
    by (simp add: entry_tail_def e'_def compacted_def)
qed

lemma im_save_snapshot_view:
  assumes "im_ok m" and "n = snap_seq (fst (im_view m p)) + length (snd (im_view m p))"
  shows "im_ok (fst (im_save_snapshot m p b n))"
    and "im_view (fst (im_save_snapshot m p b n)) = (im_view m)(p := (Some (b, n), []))"
proof -
  let ?e = "entry_or_default m p"
  have n: "n = last_seq ?e"
    using assms entry_tail_length [OF entry_ok_or_default [OF assms(1)], of p]
    by (simp add: im_view_or_default)
  note s = entry_snapshot_at_last [OF entry_ok_or_default [OF assms(1)], of b]
  show "im_ok (fst (im_save_snapshot m p b n))"
    using s(1) assms(1) by (simp add: im_save_snapshot_def n Let_def im_ok_upd)
  show "im_view (fst (im_save_snapshot m p b n)) = (im_view m)(p := (Some (b, n), []))"
    using s(2) by (simp add: im_save_snapshot_def n Let_def im_view_upd)
qed

lemma entry_tail_delete:
  "n \<le> snap_seq (snapshot e) \<Longrightarrow>
   entry_tail (e\<lparr>events := filter (\<lambda>(k, _). n < k) (events e)\<rparr>) = entry_tail e"
  unfolding entry_tail_def
  by (simp, rule arg_cong [where f = "map snd"], rule filter_cong) auto

lemma entry_ok_delete:
  assumes ok: "entry_ok e" and le: "n \<le> snap_seq (snapshot e)"
  shows "entry_ok (e\<lparr>events := filter (\<lambda>(k, _). n < k) (events e)\<rparr>)" (is "entry_ok ?e'")
proof -
  define d where "d = n - compacted e"
  have b: "length (events e) \<le> last_seq e" "snap_seq (snapshot e) \<le> last_seq e"
      "compacted e \<le> snap_seq (snapshot e)" "compacted e + length (events e) = last_seq e"
    using ok by (simp_all add: entry_ok_def compacted_def)
  have "map fst (filter (\<lambda>(k, _). n < k) (events e)) = filter (\<lambda>k. n < k) (map fst (events e))"
    by (simp add: filter_map comp_def split_def)
  also have "\<dots> = [max (Suc (compacted e)) (Suc n)..<Suc (last_seq e)]"
    using ok b(4) by (simp add: entry_ok_def filter_greater_upt del: upt_Suc)
  finally have f: "map fst (events ?e') = [Suc (max (compacted e) n)..<Suc (last_seq e)]"
    by (simp del: upt_Suc)
  then have len: "length (events ?e') = last_seq e - max (compacted e) n"
    by (metis length_map length_upt diff_Suc_Suc)
  with b le have c: "compacted ?e' = max (compacted e) n"
    by (simp add: compacted_def)
  show ?thesis
    unfolding entry_ok_def c len f using b le by (simp del: upt_Suc)
qed

lemma im_delete_view:
  assumes "im_ok m" and "n \<le> snap_seq (fst (im_view m p))"
  shows "im_ok (fst (im_delete_events_before m p n))"
    and "im_view (fst (im_delete_events_before m p n)) = im_view m"
proof -
  show "im_ok (fst (im_delete_events_before m p n))"
    using assms by (auto simp: im_delete_events_before_def im_view_def
        intro!: im_ok_upd entry_ok_delete dest: im_okD split: option.splits)
  show "im_view (fst (im_delete_events_before m p n)) = im_view m"
  proof (cases "m p")
    case None
    then show ?thesis by (simp add: im_delete_events_before_def)
  next
    case (Some e)
    then have "im_view m p = (snapshot e, entry_tail e)" by (simp add: im_view_def)
    with Some assms(2) show ?thesis
      by (simp add: im_delete_events_before_def im_view_upd entry_tail_delete fun_upd_idem)
  qed
qed

lemma im_copy_view:
  assumes "im_ok m" and "im_copy_snapshot m src dst = (m', Inr ())"
  shows "im_ok m'" and "im_view m' = (im_view m)(dst := (fst (im_view m src), []))"
    and "fst (im_view m src) \<noteq> None"
  using assms
  by (auto simp: im_copy_snapshot_def im_view_def entry_tail_def entry_ok_def compacted_def
      bind_eq_Some_conv intro!: im_ok_upd split: option.splits)

subsection \<open>The contract the actor runtime relies on\<close>

locale journal_contract =
  fixes J :: "('j, 'b) journal_ops"
    and ok :: "'j \<Rightarrow> bool"
    and view :: "'j \<Rightarrow> persistence_id \<Rightarrow> ('b \<times> nat) option \<times> 'b list"
  assumes latest: "ok j \<Longrightarrow> jo_latest_snapshot J j p = Inr (fst (view j p))"
    and replay: "ok j \<Longrightarrow> jo_replay J j p (snap_seq (fst (view j p))) = map Inr (snd (view j p))"
    and persist_ok: "ok j \<Longrightarrow> jo_persist J j p bs = (j', Inr u) \<Longrightarrow>
          ok j' \<and> view j' = (view j)(p := (fst (view j p), snd (view j p) @ bs))"
    and persist_err: "ok j \<Longrightarrow> jo_persist J j p bs = (j', Inl e) \<Longrightarrow> ok j' \<and> view j' = view j"
    and save_err: "ok j \<Longrightarrow> jo_save_snapshot J j p b n = (j', Inl e) \<Longrightarrow> ok j' \<and> view j' = view j"
    and save_ok: "ok j \<Longrightarrow> n = snap_seq (fst (view j p)) + length (snd (view j p)) \<Longrightarrow>
          jo_save_snapshot J j p b n = (j', Inr u) \<Longrightarrow>
          ok j' \<and> (view j' = view j \<or> view j' = (view j)(p := (Some (b, n), [])))"
    and compact: "ok j \<Longrightarrow> n = snap_seq (fst (view j p)) + length (snd (view j p)) \<Longrightarrow>
          jo_save_snapshot J j p b n = (j', Inr u) \<Longrightarrow>
          jo_delete_events_before J j' p n = (j'', r) \<Longrightarrow> ok j'' \<and> view j'' = view j'"

interpretation im: journal_contract in_memory_ops im_ok im_view
proof
  fix j :: "'b in_memory" and p bs j' u e b n j'' r
  assume ok: "im_ok j"
  show "jo_latest_snapshot in_memory_ops j p = Inr (fst (im_view j p))"
    by (simp add: im_latest_view)
  show "jo_replay in_memory_ops j p (snap_seq (fst (im_view j p))) = map Inr (snd (im_view j p))"
    by (simp add: im_replay_view)
  show "jo_persist in_memory_ops j p bs = (j', Inr u) \<Longrightarrow>
      im_ok j' \<and> im_view j' = (im_view j)(p := (fst (im_view j p), snd (im_view j p) @ bs))"
    using im_persist_view [OF ok, of p bs] by simp
  show "jo_persist in_memory_ops j p bs = (j', Inl e) \<Longrightarrow> im_ok j' \<and> im_view j' = im_view j"
    by (simp add: im_persist_def)
  show "jo_save_snapshot in_memory_ops j p b n = (j', Inl e) \<Longrightarrow> im_ok j' \<and> im_view j' = im_view j"
    by (simp add: im_save_snapshot_def Let_def)
  assume n: "n = snap_seq (fst (im_view j p)) + length (snd (im_view j p))"
    and "jo_save_snapshot in_memory_ops j p b n = (j', Inr u)"
  then have sv: "im_ok j'" "im_view j' = (im_view j)(p := (Some (b, n), []))"
    using im_save_snapshot_view [OF ok n, of b] by simp_all
  then show "im_ok j' \<and> (im_view j' = im_view j \<or> im_view j' = (im_view j)(p := (Some (b, n), [])))"
    by simp
  show "jo_delete_events_before in_memory_ops j' p n = (j'', r) \<Longrightarrow> im_ok j'' \<and> im_view j'' = im_view j'"
    using im_delete_view [OF sv(1), of n p] sv(2) by simp
qed

subsection \<open>Properties of the in-memory log\<close>

lemma replay_push_events:
  assumes "entry_ok e" and "k \<le> last_seq e"
  shows "map snd (filter (\<lambda>(n, _). k < n) (events (push_events e bs))) =
         map snd (filter (\<lambda>(n, _). k < n) (events e)) @ bs"
proof -
  have "filter (\<lambda>(n, _). k < n) (zip [Suc (last_seq e)..<Suc (last_seq e + length bs)] bs) =
        zip [Suc (last_seq e)..<Suc (last_seq e + length bs)] bs"
    using assms(2) by (auto simp: filter_id_conv dest!: set_zip_leftD simp del: upt_Suc)
  then show ?thesis by (simp add: push_events_closed del: upt_Suc)
qed

lemma im_replay_alt:
  "im_replay m p k = map Inr (map snd (filter (\<lambda>(n, _). k < n) (events (entry_or_default m p))))"
  by (auto simp: im_replay_def entry_or_default_def entry_default_def split: option.splits)

text \<open>
  Appending to a log: replaying after any sequence number already assigned gives what it gave
  before, then exactly the appended batch in order, and no other log changes.
\<close>

lemma im_replay_persist:
  assumes "im_ok m" and "k \<le> last_seq (entry_or_default m p)"
  shows "im_replay (fst (im_persist m p bs)) p k = im_replay m p k @ map Inr bs \<and>
         (q \<noteq> p \<longrightarrow> im_replay (fst (im_persist m p bs)) q i = im_replay m q i)"
proof -
  have "entry_or_default (fst (im_persist m p bs)) p = push_events (entry_or_default m p) bs"
    by (simp add: im_persist_def entry_or_default_def)
  then show ?thesis
    using replay_push_events [OF entry_ok_or_default [OF assms(1)] assms(2), of bs]
    by (simp add: im_replay_alt im_persist_def entry_or_default_def)
qed

text \<open>
  Compaction keeps numbers stable: after dropping the events up to \<open>n\<close>, replaying after \<open>k\<close>
  gives exactly what replaying after the larger of the two gave before.
\<close>

lemma im_replay_delete:
  "im_replay (fst (im_delete_events_before m p n)) p k = im_replay m p (max k n)"
proof (cases "m p")
  case None
  then show ?thesis by (simp add: im_delete_events_before_def im_replay_def)
next
  case (Some e)
  have "filter (\<lambda>(i, _). k < i) (filter (\<lambda>(i, _). n < i) (events e)) =
        filter (\<lambda>(i, _). max k n < i) (events e)"
    by (simp add: split_def, rule filter_cong) auto
  with Some show ?thesis by (simp add: im_delete_events_before_def im_replay_def)
qed

text \<open>
  Forking: copying a snapshot succeeds exactly when the source has one, and then the target
  recovers the copied state with no event after it and numbers its next events from the snapshot's
  number on; a failure changes nothing.
\<close>

lemma im_copy_snapshot_fork:
  assumes "dst \<noteq> src"
  shows "case im_copy_snapshot m src dst of
           (m', Inl e) \<Rightarrow> fst (im_view m src) = None \<and> m' = m \<and> e = no_snapshot_error src
         | (m', Inr _) \<Rightarrow>
             fst (im_view m src) \<noteq> None \<and>
             im_view m' dst = (fst (im_view m src), []) \<and>
             last_seq (entry_or_default m' dst) = snap_seq (fst (im_view m src)) \<and>
             im_view m' src = im_view m src"
  using assms
  by (auto simp: im_copy_snapshot_def im_view_def entry_tail_def entry_or_default_def snap_seq_def
      bind_eq_None_conv bind_eq_Some_conv split: option.splits prod.splits)

end
