(* ===== verification/Actor_Runtime.thy ===== *)
theory Actor_Runtime
  imports Journal
begin

text \<open>
  The event-sourced actor runtime: \<open>src/actor/src/actor.rs\<close> and \<open>runtime.rs\<close>. The trait
  \<open>EventSourcedActor\<close> is the record \<open>actor_ops\<close> of its methods over the actor value \<open>'a\<close>, state
  \<open>'s\<close>, commands \<open>'c\<close>, events \<open>'e\<close>, journal \<open>'j\<close> and outputs \<open>'o\<close> (messages told, children
  spawned, notifications). A handler gets the journal because \<open>ctx.journal()\<close> hands it out.
  \<open>serde_json\<close>'s encoders are the record \<open>codec\<close>, a parameter. A mailbox is the list of
  commands it delivers. The main result is in the locale \<open>actor_contract\<close>: after every command the
  journal recovers exactly the live state and sequence number.
\<close>

subsection \<open>The trait\<close>

datatype 'e command_effect =
    Persist "'e list"
  | PersistAndSnapshot "'e list"
  | Snapshot
  | EffNone
  | Stop
  | PersistAndStop "'e list"

record ('a, 's, 'c, 'e, 'j, 'o) actor_ops =
  ao_persistence_id :: "'a \<Rightarrow> persistence_id"
  ao_initial_state :: 's
  ao_apply_event :: "'s \<Rightarrow> 'e \<Rightarrow> 's"
  ao_handle_command :: "'a \<Rightarrow> 's \<Rightarrow> 'c \<Rightarrow> 'j \<Rightarrow> 'a \<times> 'j \<times> 'o list \<times> 'e command_effect"
  ao_on_recovery_complete :: "'a \<Rightarrow> 's \<Rightarrow> 'a \<times> 'o list"

record ('e, 's, 'b) codec =
  ser_event :: "'e \<Rightarrow> (string, 'b) result"
  de_event :: "'b \<Rightarrow> (string, 'e) result"
  ser_state :: "'s \<Rightarrow> (string, 'b) result"
  de_state :: "'b \<Rightarrow> (string, 's) result"

text \<open>The events a command asks to persist.\<close>

fun effect_events :: "'e command_effect \<Rightarrow> 'e list" where
  "effect_events (Persist evs) = evs"
| "effect_events (PersistAndSnapshot evs) = evs"
| "effect_events (PersistAndStop evs) = evs"
| "effect_events Snapshot = []"
| "effect_events EffNone = []"
| "effect_events Stop = []"

fun effect_stops :: "'e command_effect \<Rightarrow> bool" where
  "effect_stops Stop = True"
| "effect_stops (PersistAndStop evs) = True"
| "effect_stops _ = False"

subsection \<open>Mailboxes\<close>

text \<open>
  A bounded channel. \<open>tell\<close> fails when the actor has stopped; on a full mailbox it waits, which
  is \<open>Waits\<close> here: the caller's step is not enabled.
\<close>

definition MAILBOX_CAPACITY :: nat where
  "MAILBOX_CAPACITY = 64"

record 'c mailbox =
  mb_queue :: "'c list"
  mb_closed :: bool

datatype 'c tell_outcome = Delivered "'c mailbox" | Waits | MailboxClosed

definition tell :: "'c mailbox \<Rightarrow> 'c \<Rightarrow> 'c tell_outcome" where
  "tell m c =
     (if mb_closed m then MailboxClosed
      else if length (mb_queue m) < MAILBOX_CAPACITY then Delivered (m\<lparr>mb_queue := mb_queue m @ [c]\<rparr>)
      else Waits)"

subsection \<open>Recovery\<close>

fun replay_fold ::
  "('s \<Rightarrow> 'e \<Rightarrow> 's) \<Rightarrow> ('b \<Rightarrow> (string, 'e) result) \<Rightarrow> 's \<Rightarrow> nat \<Rightarrow> 'b journal_result list
     \<Rightarrow> ('s \<times> nat) journal_result" where
  "replay_fold apply_event de s n [] = Inr (s, n)"
| "replay_fold apply_event de s n (Inl e # rs) = Inl e"
| "replay_fold apply_event de s n (Inr b # rs) =
     (case de b of
        Inl msg \<Rightarrow> Inl (Serialization msg)
      | Inr ev \<Rightarrow> replay_fold apply_event de (apply_event s ev) (n + 1) rs)"

definition recover ::
  "('j, 'b) journal_ops \<Rightarrow> ('a, 's, 'c, 'e, 'j, 'o) actor_ops \<Rightarrow> ('e, 's, 'b) codec
     \<Rightarrow> 'j \<Rightarrow> persistence_id \<Rightarrow> ('s \<times> nat) journal_result" where
  "recover J A K j p =
     (case jo_latest_snapshot J j p of
        Inl e \<Rightarrow> Inl e
      | Inr snap \<Rightarrow>
          (case (case snap of
                   Some (b, n) \<Rightarrow> (case de_state K b of Inl msg \<Rightarrow> Inl (Serialization msg) | Inr s \<Rightarrow> Inr (s, n))
                 | None \<Rightarrow> Inr (ao_initial_state A, 0)) of
             Inl e \<Rightarrow> Inl e
           | Inr (s, n) \<Rightarrow> replay_fold (ao_apply_event A) (de_event K) s n (jo_replay J j p n)))"

subsection \<open>Persisting and snapshotting\<close>

definition persist_events ::
  "('j, 'b) journal_ops \<Rightarrow> ('a, 's, 'c, 'e, 'j, 'o) actor_ops \<Rightarrow> ('e, 's, 'b) codec
     \<Rightarrow> persistence_id \<Rightarrow> 'j \<Rightarrow> 'e list \<Rightarrow> 's \<Rightarrow> nat \<Rightarrow> 'j \<times> 's \<times> nat" where
  "persist_events J A K p j evs s n =
     (case collect_results (map (ser_event K) evs) of
        Inl _ \<Rightarrow> (j, s, n)
      | Inr encoded \<Rightarrow>
          (case jo_persist J j p encoded of
             (j', Inl _) \<Rightarrow> (j', s, n)
           | (j', Inr _) \<Rightarrow> (j', foldl (ao_apply_event A) s evs, n + length evs)))"

definition snapshot_state ::
  "('j, 'b) journal_ops \<Rightarrow> ('e, 's, 'b) codec \<Rightarrow> persistence_id \<Rightarrow> 'j \<Rightarrow> 's \<Rightarrow> nat \<Rightarrow> 'j" where
  "snapshot_state J K p j s n =
     (case ser_state K s of
        Inl _ \<Rightarrow> j
      | Inr b \<Rightarrow>
          (case jo_save_snapshot J j p b n of
             (j', Inl _) \<Rightarrow> j'
           | (j', Inr _) \<Rightarrow> fst (jo_delete_events_before J j' p n)))"

subsection \<open>The actor's life\<close>

text \<open>
  \<open>lv_stopped\<close> is the loop's \<open>break\<close>. After \<open>PersistAndStop\<close> the code drops the folded state; it is
  kept here as what was durably written.
\<close>

record ('a, 's, 'j, 'o) live =
  lv_actor :: 'a
  lv_state :: 's
  lv_seq :: nat
  lv_journal :: 'j
  lv_out :: "'o list"
  lv_stopped :: bool

definition lv_persist ::
  "('j, 'b) journal_ops \<Rightarrow> ('a, 's, 'c, 'e, 'j, 'o) actor_ops \<Rightarrow> ('e, 's, 'b) codec
     \<Rightarrow> persistence_id \<Rightarrow> ('a, 's, 'j, 'o) live \<Rightarrow> 'e list \<Rightarrow> ('a, 's, 'j, 'o) live" where
  "lv_persist J A K p l evs =
     (case persist_events J A K p (lv_journal l) evs (lv_state l) (lv_seq l) of
        (j, s, n) \<Rightarrow> l\<lparr>lv_journal := j, lv_state := s, lv_seq := n\<rparr>)"

definition lv_snapshot ::
  "('j, 'b) journal_ops \<Rightarrow> ('e, 's, 'b) codec \<Rightarrow> persistence_id
     \<Rightarrow> ('a, 's, 'j, 'o) live \<Rightarrow> ('a, 's, 'j, 'o) live" where
  "lv_snapshot J K p l =
     l\<lparr>lv_journal := snapshot_state J K p (lv_journal l) (lv_state l) (lv_seq l)\<rparr>"

fun run_effect ::
  "('j, 'b) journal_ops \<Rightarrow> ('a, 's, 'c, 'e, 'j, 'o) actor_ops \<Rightarrow> ('e, 's, 'b) codec
     \<Rightarrow> persistence_id \<Rightarrow> ('a, 's, 'j, 'o) live \<Rightarrow> 'e command_effect \<Rightarrow> ('a, 's, 'j, 'o) live" where
  "run_effect J A K p l EffNone = l"
| "run_effect J A K p l (Persist evs) = lv_persist J A K p l evs"
| "run_effect J A K p l (PersistAndSnapshot evs) = lv_snapshot J K p (lv_persist J A K p l evs)"
| "run_effect J A K p l Snapshot = lv_snapshot J K p l"
| "run_effect J A K p l Stop = l\<lparr>lv_stopped := True\<rparr>"
| "run_effect J A K p l (PersistAndStop evs) = (lv_persist J A K p l evs)\<lparr>lv_stopped := True\<rparr>"

definition run_command ::
  "('j, 'b) journal_ops \<Rightarrow> ('a, 's, 'c, 'e, 'j, 'o) actor_ops \<Rightarrow> ('e, 's, 'b) codec
     \<Rightarrow> persistence_id \<Rightarrow> ('a, 's, 'j, 'o) live \<Rightarrow> 'c \<Rightarrow> ('a, 's, 'j, 'o) live" where
  "run_command J A K p l c =
     (case ao_handle_command A (lv_actor l) (lv_state l) c (lv_journal l) of
        (a, j, out, eff) \<Rightarrow>
          run_effect J A K p (l\<lparr>lv_actor := a, lv_journal := j, lv_out := lv_out l @ out\<rparr>) eff)"

fun run_loop ::
  "('j, 'b) journal_ops \<Rightarrow> ('a, 's, 'c, 'e, 'j, 'o) actor_ops \<Rightarrow> ('e, 's, 'b) codec
     \<Rightarrow> persistence_id \<Rightarrow> ('a, 's, 'j, 'o) live \<Rightarrow> 'c list \<Rightarrow> ('a, 's, 'j, 'o) live" where
  "run_loop J A K p l [] = l"
| "run_loop J A K p l (c # cs) =
     (let l' = run_command J A K p l c
      in if lv_stopped l' then l' else run_loop J A K p l' cs)"

definition run_actor ::
  "('j, 'b) journal_ops \<Rightarrow> ('a, 's, 'c, 'e, 'j, 'o) actor_ops \<Rightarrow> ('e, 's, 'b) codec
     \<Rightarrow> 'a \<Rightarrow> 'j \<Rightarrow> 'c list \<Rightarrow> (journal_error, ('a, 's, 'j, 'o) live) result" where
  "run_actor J A K a j cs =
     (let p = ao_persistence_id A a in
      case recover J A K j p of
        Inl e \<Rightarrow> Inl e
      | Inr (s, n) \<Rightarrow>
          (case ao_on_recovery_complete A a s of
             (a', out) \<Rightarrow>
               Inr (run_loop J A K p
                 \<lparr>lv_actor = a', lv_state = s, lv_seq = n, lv_journal = j, lv_out = out,
                  lv_stopped = False\<rparr> cs)))"

subsection \<open>Facts about replay\<close>

lemma replay_fold_append:
  "replay_fold f de s n (xs @ ys) =
     (case replay_fold f de s n xs of Inl e \<Rightarrow> Inl e | Inr (s', n') \<Rightarrow> replay_fold f de s' n' ys)"
  by (induction f de s n xs rule: replay_fold.induct) (auto split: sum.splits)

lemma replay_fold_seq:
  "replay_fold f de s n rs = Inr (s', n') \<Longrightarrow> n' = n + length rs"
  by (induction f de s n rs rule: replay_fold.induct) (auto split: sum.splits)

lemma replay_fold_encoded:
  assumes "\<And>ev b. ser ev = Inr b \<Longrightarrow> de b = Inr ev"
    and "collect_results (map ser evs) = Inr bs"
  shows "replay_fold f de s n (map Inr bs) = Inr (foldl f s evs, n + length evs)"
proof -
  have "map ser evs = map Inr bs" using assms(2) by (simp add: collect_results_Inr_iff)
  then show ?thesis
  proof (induction evs arbitrary: bs s n)
    case Nil
    then show ?case by simp
  next
    case (Cons ev evs)
    then obtain b bs' where "bs = b # bs'" by (cases bs) auto
    with Cons show ?case by (auto dest: assms(1))
  qed
qed

subsection \<open>The contract of an actor on a journal\<close>

text \<open>
  The JSON encoders round trip, and a handler that reaches into the journal leaves the actor's own
  log alone. Both are facts of the serializer and of the actors; each actor's theory proves the
  second for its handler.
\<close>

locale actor_contract = journal_contract J ok view
  for J :: "('j, 'b) journal_ops" and ok view +
  fixes A :: "('a, 's, 'c, 'e, 'j, 'o) actor_ops"
    and K :: "('e, 's, 'b) codec"
    and p :: persistence_id
  assumes event_roundtrip: "ser_event K ev = Inr b \<Longrightarrow> de_event K b = Inr ev"
    and state_roundtrip: "ser_state K s = Inr b \<Longrightarrow> de_state K b = Inr s"
    and handler_frame: "ok j \<Longrightarrow> ao_handle_command A a s c j = (a', j', out, eff) \<Longrightarrow>
          ok j' \<and> view j' p = view j p"
begin

lemma recover_view:
  assumes "ok j"
  shows "recover J A K j p =
     (case fst (view j p) of
        None \<Rightarrow> replay_fold (ao_apply_event A) (de_event K) (ao_initial_state A) 0 (map Inr (snd (view j p)))
      | Some (b, n) \<Rightarrow>
          (case de_state K b of
             Inl msg \<Rightarrow> Inl (Serialization msg)
           | Inr s \<Rightarrow> replay_fold (ao_apply_event A) (de_event K) s n (map Inr (snd (view j p)))))"
  using latest [OF assms, of p] replay [OF assms, of p]
  by (auto simp: recover_def split: option.splits sum.splits)

lemma recover_cong:
  assumes "ok j" and "ok j'" and "view j' p = view j p"
  shows "recover J A K j' p = recover J A K j p"
  unfolding recover_view [OF assms(1)] recover_view [OF assms(2)] assms(3) ..

lemma recover_seq:
  assumes "ok j" and "recover J A K j p = Inr (s, n)"
  shows "n = snap_seq (fst (view j p)) + length (snd (view j p))"
  using assms
  by (auto simp: recover_view dest!: replay_fold_seq split: option.splits sum.splits)

lemma recover_append:
  assumes "ok j" and "recover J A K j p = Inr (s, n)"
    and "collect_results (map (ser_event K) evs) = Inr bs"
    and "ok j'" and "view j' p = (fst (view j p), snd (view j p) @ bs)"
  shows "recover J A K j' p = Inr (foldl (ao_apply_event A) s evs, n + length evs)"
proof -
  have enc: "replay_fold (ao_apply_event A) (de_event K) s' n' (map Inr bs) =
      Inr (foldl (ao_apply_event A) s' evs, n' + length evs)" for s' n'
    by (rule replay_fold_encoded [where ser = "ser_event K"]) (auto intro: event_roundtrip assms(3))
  have v: "fst (view j' p) = fst (view j p)" "snd (view j' p) = snd (view j p) @ bs"
    using assms(5) by simp_all
  show ?thesis
    using assms(2) unfolding recover_view [OF assms(1)] recover_view [OF assms(4)] v map_append
    by (auto simp: replay_fold_append enc split: option.splits sum.splits)
qed

lemma persist_events_recover:
  assumes "ok j" and "recover J A K j p = Inr (s, n)"
    and "persist_events J A K p j evs s n = (j', s', n')"
  shows "ok j' \<and> recover J A K j' p = Inr (s', n')"
proof (cases "collect_results (map (ser_event K) evs)")
  case (Inl e)
  with assms show ?thesis by (simp add: persist_events_def)
next
  case (Inr bs)
  obtain j1 r where r: "jo_persist J j p bs = (j1, r)" by fastforce
  show ?thesis
  proof (cases r)
    case (Inl e)
    with r have "jo_persist J j p bs = (j1, Inl e)" by simp
    from persist_err [OF assms(1) this] have "ok j1" "recover J A K j1 p = recover J A K j p"
      by (simp_all add: recover_cong [OF assms(1), of j1])
    then show ?thesis using assms r Inl Inr by (auto simp: persist_events_def)
  next
    case r': (Inr u)
    with r have "jo_persist J j p bs = (j1, Inr u)" by simp
    from persist_ok [OF assms(1) this] have "ok j1" "view j1 p = (fst (view j p), snd (view j p) @ bs)"
      by simp_all
    from recover_append [OF assms(1,2) Inr this] this(1) show ?thesis
      using assms(3) r r' Inr by (auto simp: persist_events_def)
  qed
qed

lemma snapshot_state_recover:
  assumes "ok j" and rec: "recover J A K j p = Inr (s, n)"
  shows "ok (snapshot_state J K p j s n) \<and> recover J A K (snapshot_state J K p j s n) p = Inr (s, n)"
proof (cases "ser_state K s")
  case (Inl e)
  with assms show ?thesis by (simp add: snapshot_state_def)
next
  case (Inr b)
  note n = recover_seq [OF assms]
  obtain j1 r where r: "jo_save_snapshot J j p b n = (j1, r)" by fastforce
  show ?thesis
  proof (cases r)
    case (Inl e)
    with r have "ok j1" "view j1 = view j" using save_err [OF assms(1), of p b n j1 e] by simp_all
    then have "ok j1" "recover J A K j1 p = Inr (s, n)"
      using recover_cong [OF assms(1), of j1] rec by simp_all
    with Inl r Inr show ?thesis by (simp add: snapshot_state_def)
  next
    case r': (Inr u)
    with r have sv: "jo_save_snapshot J j p b n = (j1, Inr u)" by simp
    obtain j2 r2 where d: "jo_delete_events_before J j1 p n = (j2, r2)" by fastforce
    have v: "ok j1" "view j1 = view j \<or> view j1 = (view j)(p := (Some (b, n), []))"
      using save_ok [OF assms(1) n sv] by auto
    have j2: "ok j2" "view j2 = view j1"
      using compact [OF assms(1) n sv d] by auto
    have "snapshot_state J K p j s n = j2"
      using Inr sv d by (simp add: snapshot_state_def)
    moreover have "recover J A K j2 p = Inr (s, n)"
    proof (cases "view j1 = view j")
      case True
      then show ?thesis using recover_cong [OF assms(1) j2(1)] j2(2) rec by simp
    next
      case False
      then have "view j2 p = (Some (b, n), [])" using v(2) j2(2) by simp
      then show ?thesis using state_roundtrip [OF Inr] by (simp add: recover_view [OF j2(1)])
    qed
    ultimately show ?thesis using j2(1) by simp
  qed
qed

definition synced :: "('a, 's, 'j, 'o) live \<Rightarrow> bool" where
  "synced l \<longleftrightarrow> ok (lv_journal l) \<and> recover J A K (lv_journal l) p = Inr (lv_state l, lv_seq l)"

lemma lv_persist_synced: "synced l \<Longrightarrow> synced (lv_persist J A K p l evs)"
  using persist_events_recover [of "lv_journal l" "lv_state l" "lv_seq l" evs]
  by (auto simp: synced_def lv_persist_def split: prod.splits)

lemma lv_snapshot_synced: "synced l \<Longrightarrow> synced (lv_snapshot J K p l)"
  using snapshot_state_recover [of "lv_journal l" "lv_state l" "lv_seq l"]
  by (auto simp: synced_def lv_snapshot_def)

lemma run_effect_synced: "synced l \<Longrightarrow> synced (run_effect J A K p l eff)"
  using lv_persist_synced lv_snapshot_synced
  by (cases eff) (auto simp: synced_def)

lemma run_command_synced:
  assumes "synced l" shows "synced (run_command J A K p l c)"
proof -
  obtain a j out eff where h: "ao_handle_command A (lv_actor l) (lv_state l) c (lv_journal l) = (a, j, out, eff)"
    by (metis prod_cases4)
  then have "synced (l\<lparr>lv_actor := a, lv_journal := j, lv_out := lv_out l @ out\<rparr>)"
    using assms handler_frame [OF _ h] recover_cong [of "lv_journal l" j]
    by (auto simp: synced_def)
  with h show ?thesis by (simp add: run_command_def run_effect_synced)
qed

lemma run_loop_synced: "synced l \<Longrightarrow> synced (run_loop J A K p l cs)"
  by (induction cs arbitrary: l) (auto simp: Let_def run_command_synced)

lemma run_actor_recoverable:
  assumes "ok j" and "ao_persistence_id A a = p" and "run_actor J A K a j cs = Inr l"
  shows "ok (lv_journal l) \<and> recover J A K (lv_journal l) p = Inr (lv_state l, lv_seq l)"
proof -
  obtain s n where rec: "recover J A K j p = Inr (s, n)"
    using assms(2,3) by (auto simp: run_actor_def Let_def split: sum.splits)
  obtain a' out where c: "ao_on_recovery_complete A a s = (a', out)" by fastforce
  let ?l = "\<lparr>lv_actor = a', lv_state = s, lv_seq = n, lv_journal = j, lv_out = out, lv_stopped = False\<rparr>"
  have "synced ?l" using assms(1) rec by (simp add: synced_def)
  from run_loop_synced [OF this, of cs] show ?thesis
    using assms(2,3) rec c by (auto simp: run_actor_def Let_def synced_def)
qed

end

end
