(* ===== verification/Agent_Actor.thy ===== *)
theory Agent_Actor
  imports Actor_Runtime Agent_Bounds
begin

text \<open>
  The agent as an event-sourced actor, \<open>src/workflow/src/agent_actor.rs\<close>. \<open>AgentActor\<close> is
  \<open>agent_ops\<close>, an instance of the runtime's \<open>actor_ops\<close>. What a handler starts or sends is an
  output: \<open>StartRun\<close> is the background task it spawns, \<open>TellParent\<close> a command to the workflow.
  \<open>run_with_retries\<close> is the background task, over the agent loop of theory Agent;
  \<open>background_commands\<close> is what it sends back to the actor's own mailbox.
\<close>

subsection \<open>Commands, events, state\<close>

record agent_params =
  ap_system_prompt :: "string option"
  ap_has_output_schema :: bool
  ap_allow_ask_user :: bool
  ap_max_iterations :: "u32 option"
  ap_max_retries :: u32

definition params_from_def :: "workflow_agent_def \<Rightarrow> agent_params" where
  "params_from_def d =
     \<lparr>ap_system_prompt = ad_system_prompt d, ap_has_output_schema = ad_output_schema d \<noteq> None,
      ap_allow_ask_user = ad_allow_ask_user d, ap_max_iterations = ad_max_iterations d,
      ap_max_retries = (case ad_max_retries d of None \<Rightarrow> 0 | Some n \<Rightarrow> n)\<rparr>"

definition handoff_tool :: "agent_params \<Rightarrow> string option" where
  "handoff_tool ps =
     (if ap_has_output_schema ps \<or> ap_allow_ask_user ps then Some CONCLUDE_TOOL else None)"

datatype agent_domain_event =
    EvInputMessage message
  | EvMessageComplete message
  | EvToolComplete string string bool
  | EvRunComplete usage u32
  | EvRunCancelled

type_synonym agent_state = "message list"

datatype run_outcome =
    OutCompleted string
  | OutConcluded json "string option"
  | OutCancelled
  | OutFailed string bool

datatype agent_command =
    RunAgent string
  | InjectToolResult string string
  | CancelAgent
  | PersistProgress "agent_domain_event list"
  | RunFinished run_outcome

text \<open>The commands of the parent workflow; an agent sends the last three.\<close>

datatype workflow_command =
    StartWorkflow string
  | CancelWorkflow
  | ResumeWorkflow string
  | ForkWorkflow string string
  | AgentConcluded string json
  | AgentAsked string "string option" string
  | AgentFailed string string bool

text \<open>
  A running task is named by its cancellation token, numbered as they are created; \<open>aa_new_id\<close> is
  the supply of UUIDs, indexed by the number drawn so far.
\<close>

record agent_actor =
  aa_session_id :: string
  aa_params :: agent_params
  aa_running :: "nat option"
  aa_tokens :: nat
  aa_new_id :: "nat \<Rightarrow> string"
  aa_drawn :: nat

datatype agent_out =
    StartRun nat agent_input "message list"
  | CancelToken nat
  | TellParent workflow_command

definition agent_pid :: "string \<Rightarrow> persistence_id" where
  "agent_pid session_id = mk_pid ''agent'' session_id"

definition start_run ::
  "agent_actor \<Rightarrow> agent_input \<Rightarrow> message list \<Rightarrow> agent_actor \<times> agent_out" where
  "start_run a input history =
     (a\<lparr>aa_running := Some (aa_tokens a), aa_tokens := aa_tokens a + 1\<rparr>,
      StartRun (aa_tokens a) input history)"

definition new_message_id :: "agent_actor \<Rightarrow> string \<times> agent_actor" where
  "new_message_id a = (aa_new_id a (aa_drawn a), a\<lparr>aa_drawn := aa_drawn a + 1\<rparr>)"

subsection \<open>Finished runs\<close>

datatype conclusion = Output json | Ask "string option" string

definition extract_question :: "json \<Rightarrow> string" where
  "extract_question d =
     (case json_get d ''question'' of
        None \<Rightarrow> [] | Some v \<Rightarrow> (case json_as_str v of None \<Rightarrow> [] | Some s \<Rightarrow> s))"

definition conclude_kind :: "json \<Rightarrow> string" where
  "conclude_kind d =
     (case json_get d ''kind'' of
        None \<Rightarrow> ''submit'' | Some v \<Rightarrow> (case json_as_str v of None \<Rightarrow> ''submit'' | Some s \<Rightarrow> s))"

definition interpret_conclude :: "agent_params \<Rightarrow> json \<Rightarrow> string option \<Rightarrow> conclusion" where
  "interpret_conclude ps data cid =
     (case (ap_has_output_schema ps, ap_allow_ask_user ps) of
        (True, True) \<Rightarrow>
          if conclude_kind data = ''ask'' then Ask cid (extract_question data)
          else Output (case json_get data ''output'' of None \<Rightarrow> JNull | Some v \<Rightarrow> v)
      | (True, False) \<Rightarrow> Output data
      | (False, True) \<Rightarrow> Ask cid (extract_question data)
      | (False, False) \<Rightarrow> Output data)"

definition handle_finished ::
  "agent_actor \<Rightarrow> run_outcome \<Rightarrow> agent_actor \<times> agent_out list \<times> agent_domain_event command_effect" where
  "handle_finished a outcome =
     (let a' = a\<lparr>aa_running := None\<rparr>; sid = aa_session_id a
      in case outcome of
           OutCompleted text \<Rightarrow> (a', [TellParent (AgentConcluded sid (JString text))], Stop)
         | OutConcluded data cid \<Rightarrow>
             (case interpret_conclude (aa_params a) data cid of
                Output out \<Rightarrow> (a', [TellParent (AgentConcluded sid out)], Stop)
              | Ask cid' question \<Rightarrow> (a', [TellParent (AgentAsked sid cid' question)], Snapshot))
         | OutCancelled \<Rightarrow> (a', [], PersistAndSnapshot [EvRunCancelled])
         | OutFailed err recoverable \<Rightarrow> (a', [TellParent (AgentFailed sid err recoverable)], Stop))"

subsection \<open>The actor\<close>

fun agent_apply_event :: "agent_state \<Rightarrow> agent_domain_event \<Rightarrow> agent_state" where
  "agent_apply_event ms (EvInputMessage m) = ms @ [m]"
| "agent_apply_event ms (EvMessageComplete m) = ms @ [m]"
| "agent_apply_event ms (EvToolComplete cid out err) = ms @ [message_tool_result cid out err]"
| "agent_apply_event ms (EvRunComplete u n) = ms"
| "agent_apply_event ms EvRunCancelled = ms"

definition agent_handle_command ::
  "agent_actor \<Rightarrow> agent_state \<Rightarrow> agent_command
     \<Rightarrow> agent_actor \<times> agent_out list \<times> agent_domain_event command_effect" where
  "agent_handle_command a s cmd =
     (case cmd of
        RunAgent text \<Rightarrow>
          let (mid, a1) = new_message_id a;
              input = input_user_message mid text;
              (a2, out) = start_run a1 input s
          in (a2, [out], Persist [EvInputMessage (input_to_message input)])
      | InjectToolResult cid content \<Rightarrow>
          let input = input_tool_result cid content False;
              (a1, out) = start_run a input s
          in (a1, [out], Persist [EvInputMessage (input_to_message input)])
      | PersistProgress evs \<Rightarrow> (a, [], Persist evs)
      | CancelAgent \<Rightarrow>
          (a, (case aa_running a of None \<Rightarrow> [] | Some t \<Rightarrow> [CancelToken t]), EffNone)
      | RunFinished outcome \<Rightarrow> handle_finished a outcome)"

definition tool_result_ids :: "message list \<Rightarrow> string list" where
  "tool_result_ids ms = concat (map (\<lambda>m. result_ids (msg_parts m)) ms)"

definition dangling_calls :: "message list \<Rightarrow> string list" where
  "dangling_calls ms =
     (case find (\<lambda>m. msg_role m = Assistant) (rev ms) of
        None \<Rightarrow> []
      | Some m \<Rightarrow>
          filter (\<lambda>i. i \<notin> set (tool_result_ids ms)) (map call_id (extract_tool_calls (msg_parts m))))"

definition sanitize_for_resume :: "message list \<Rightarrow> message list" where
  "sanitize_for_resume ms =
     ms @ map (\<lambda>i. message_tool_result i ''interrupted by shutdown, not completed'' True)
            (dangling_calls ms)"

definition agent_on_recovery_complete :: "agent_actor \<Rightarrow> agent_state \<Rightarrow> agent_actor \<times> agent_out list" where
  "agent_on_recovery_complete a s =
     (if s = [] then (a, [])
      else
        let (mid, a1) = new_message_id a;
            (a2, out) = start_run a1 (input_user_message mid ''continue the interrupted task'')
                          (sanitize_for_resume s)
        in (a2, [out]))"

definition agent_ops ::
  "(agent_actor, agent_state, agent_command, agent_domain_event, 'j, agent_out) actor_ops" where
  "agent_ops =
     \<lparr>ao_persistence_id = (\<lambda>a. agent_pid (aa_session_id a)),
      ao_initial_state = [],
      ao_apply_event = agent_apply_event,
      ao_handle_command = (\<lambda>a s cmd j.
        case agent_handle_command a s cmd of (a', out, eff) \<Rightarrow> (a', j, out, eff)),
      ao_on_recovery_complete = agent_on_recovery_complete\<rparr>"

subsection \<open>The background run\<close>

text \<open>What the streaming sink forwards for persistence.\<close>

fun coarse_event :: "agent_event \<Rightarrow> agent_domain_event option" where
  "coarse_event (MessageComplete mid m) = Some (EvMessageComplete m)"
| "coarse_event (ToolComplete mid cid out err) = Some (EvToolComplete cid out err)"
| "coarse_event (RunComplete mid u n) = Some (EvRunComplete u n)"
| "coarse_event _ = None"

definition coarse_events :: "agent_event list \<Rightarrow> agent_domain_event list" where
  "coarse_events evs = List.map_filter coarse_event evs"

fun call_in_parts :: "string \<Rightarrow> content_part list \<Rightarrow> string option" where
  "call_in_parts tool [] = None"
| "call_in_parts tool (ToolCallPart tc # ps) =
     (if tc_name tc = tool then Some (tc_id tc) else call_in_parts tool ps)"
| "call_in_parts tool (_ # ps) = call_in_parts tool ps"

text \<open>\<open>events.iter().rev().find_map(..)\<close>: the last message with such a call.\<close>

fun find_tool_call_id :: "agent_event list \<Rightarrow> string \<Rightarrow> string option" where
  "find_tool_call_id [] tool = None"
| "find_tool_call_id (e # es) tool =
     (case find_tool_call_id es tool of
        Some i \<Rightarrow> Some i
      | None \<Rightarrow> (case e of MessageComplete _ m \<Rightarrow> call_in_parts tool (msg_parts m) | _ \<Rightarrow> None))"

definition backoff_ms :: "u32 \<Rightarrow> u64" where
  "backoff_ms attempt = 50 * push_bit (unat (min attempt 6)) 1"

definition attempt_builder ::
  "'w provider \<Rightarrow> 'w toolbox \<Rightarrow> string \<Rightarrow> string option \<Rightarrow> u32 option \<Rightarrow> message list
     \<Rightarrow> 'w agent_builder" where
  "attempt_builder p tb prompt handoff max_iter history =
     (let config = default_config\<lparr>max_iterations :=
            (case max_iter of None \<Rightarrow> max_iterations default_config | Some n \<Rightarrow> n)\<rparr>;
          b = with_history history (with_config config (with_system_prompt prompt (builder_new p tb)))
      in case handoff of None \<Rightarrow> b | Some name \<Rightarrow> with_handoff_tool name b)"

definition run_report :: "run_result \<Rightarrow> agent_event list \<Rightarrow> run_outcome" where
  "run_report r captured =
     (case r of
        Inr out \<Rightarrow>
          (case out_result out of
             Completed text \<Rightarrow> OutCompleted text
           | Handoff tool data \<Rightarrow> OutConcluded data (find_tool_call_id captured tool))
      | Inl Cancelled \<Rightarrow> OutCancelled
      | Inl (Provider e) \<Rightarrow> OutFailed (llm_error_display e) True
      | Inl e \<Rightarrow> OutFailed (agent_error_display e) False)"

definition is_provider_error :: "run_result \<Rightarrow> bool" where
  "is_provider_error r = (case r of Inl (Provider e) \<Rightarrow> True | _ \<Rightarrow> False)"

text \<open>
  The retry loop, from attempt number \<open>attempt\<close>: the outcome, the events of each attempt, and the
  world. \<open>sleep\<close> is \<open>tokio::time::sleep\<close>.
\<close>

function retry_loop ::
  "'w services \<Rightarrow> (u64 \<Rightarrow> 'w \<Rightarrow> 'w) \<Rightarrow> 'w agent_builder \<Rightarrow> u32 \<Rightarrow> agent_input \<Rightarrow> u32 \<Rightarrow> 'w
     \<Rightarrow> run_outcome \<times> agent_event list list \<times> 'w" where
  "retry_loop S sleep b max_retries input attempt w =
     (case build S b of
        Inl e \<Rightarrow> (OutFailed (build_error_display e) False, [], w)
      | Inr ag \<Rightarrow>
          (case run S ag input w of
             (r, st) \<Rightarrow>
               if is_provider_error r \<and> attempt < max_retries
               then
                 (case retry_loop S sleep b max_retries input (attempt + 1)
                         (sleep (backoff_ms (attempt + 1)) (rs_world st)) of
                    (out, evs, w') \<Rightarrow> (out, rs_events st # evs, w'))
               else (run_report r (rs_events st), [rs_events st], rs_world st)))"
  by pat_completeness auto

termination
  by (relation "measure (\<lambda>(S, sleep, b, max_retries, input, attempt, w). unat max_retries - unat attempt)")
    (auto simp: unat_less_increases word_less_nat_alt)

declare retry_loop.simps [simp del]

definition run_with_retries ::
  "'w services \<Rightarrow> (u64 \<Rightarrow> 'w \<Rightarrow> 'w) \<Rightarrow> 'w provider \<Rightarrow> 'w toolbox \<Rightarrow> string \<Rightarrow> string option
     \<Rightarrow> u32 option \<Rightarrow> u32 \<Rightarrow> message list \<Rightarrow> agent_input \<Rightarrow> 'w
     \<Rightarrow> run_outcome \<times> agent_event list list \<times> 'w" where
  "run_with_retries S sleep p tb prompt handoff max_iter max_retries history input w =
     retry_loop S sleep (attempt_builder p tb prompt handoff max_iter history) max_retries input 0 w"

text \<open>What the task of a \<open>StartRun\<close> puts into the actor's mailbox.\<close>

definition background_commands :: "run_outcome \<times> agent_event list list \<times> 'w \<Rightarrow> agent_command list" where
  "background_commands r =
     (case r of (outcome, attempts, _) \<Rightarrow>
        map (\<lambda>ev. PersistProgress [ev]) (coarse_events (concat attempts)) @ [RunFinished outcome])"

end
