(* ===== verification/Agent_Recovery.thy ===== *)
theory Agent_Recovery
  imports Agent_Actor
begin

text \<open>
  What the agent actor guarantees: its journal recovers its live state (the runtime's contract,
  interpreted on \<open>agent_ops\<close>), \<open>sanitize_for_resume\<close> repairs an interrupted conversation, the
  tool-call id stored for a paused agent is the one call left open, the retry loop is bounded, and
  what the journal keeps of a run.
\<close>

subsection \<open>The journal recovers the live state\<close>

text \<open>
  A codec that stores events and states as they are; it stands for any serializer that round trips.
\<close>

definition direct_codec :: "('e, 's, 'e + 's) codec" where
  "direct_codec =
     \<lparr>ser_event = (\<lambda>e. Inr (Inl e)),
      de_event = (\<lambda>b. case b of Inl e \<Rightarrow> Inr e | Inr _ \<Rightarrow> Inl ''expected an event''),
      ser_state = (\<lambda>s. Inr (Inr s)),
      de_state = (\<lambda>b. case b of Inr s \<Rightarrow> Inr s | Inl _ \<Rightarrow> Inl ''expected a state'')\<rparr>"

definition codec_ok :: "('e, 's, 'b) codec \<Rightarrow> bool" where
  "codec_ok K \<longleftrightarrow>
     (\<forall>ev b. ser_event K ev = Inr b \<longrightarrow> de_event K b = Inr ev) \<and>
     (\<forall>s b. ser_state K s = Inr b \<longrightarrow> de_state K b = Inr s)"

lemma direct_codec_ok [simp]: "codec_ok direct_codec"
  by (auto simp: codec_ok_def direct_codec_def)

lemma agent_contract:
  assumes "codec_ok K" shows "actor_contract in_memory_ops im_ok im_view agent_ops K p"
proof
  show "ser_event K ev = Inr b \<Longrightarrow> de_event K b = Inr ev" for ev b
    using assms by (simp add: codec_ok_def)
  show "ser_state K s = Inr b \<Longrightarrow> de_state K b = Inr s" for s b
    using assms by (simp add: codec_ok_def)
  show "im_ok j \<Longrightarrow> ao_handle_command agent_ops a s c j = (a', j', out, eff) \<Longrightarrow>
      im_ok j' \<and> im_view j' p = im_view j p" for j a s c a' j' out eff
    by (auto simp: agent_ops_def split: prod.splits)
qed

interpretation aa: actor_contract in_memory_ops im_ok im_view agent_ops direct_codec p for p
  by (rule agent_contract) simp

text \<open>
  C6. Whatever commands an agent session handles, and whichever of its writes fail to serialize,
  recovering from the journal it leaves gives exactly the conversation and the sequence number it
  had in memory.
\<close>

theorem agent_session_recovers:
  assumes "codec_ok K" and "im_ok j" and "run_actor in_memory_ops agent_ops K a j cmds = Inr l"
  shows "recover in_memory_ops agent_ops K (lv_journal l) (agent_pid (aa_session_id a)) =
           Inr (lv_state l, lv_seq l)"
proof -
  have p: "ao_persistence_id agent_ops a = agent_pid (aa_session_id a)" by (simp add: agent_ops_def)
  from actor_contract.run_actor_recoverable [OF agent_contract [OF assms(1)] assms(2) p assms(3)]
  show ?thesis by simp
qed

definition demo_actor :: agent_actor where
  "demo_actor =
     \<lparr>aa_session_id = ''s1'',
      aa_params = \<lparr>ap_system_prompt = None, ap_has_output_schema = True, ap_allow_ask_user = True,
                   ap_max_iterations = None, ap_max_retries = 1\<rparr>,
      aa_running = None, aa_tokens = 0, aa_new_id = show_nat, aa_drawn = 0\<rparr>"

theorem agent_session_recovers_witness:
  "\<exists>l. run_actor in_memory_ops agent_ops direct_codec demo_actor Map.empty
         [RunAgent ''hi'', PersistProgress [EvToolComplete ''a'' ''ok'' False], RunFinished OutCancelled,
          RunAgent ''again''] = Inr l \<and>
       recover in_memory_ops agent_ops direct_codec (lv_journal l) (agent_pid ''s1'') =
         Inr (lv_state l, lv_seq l) \<and>
       length (lv_state l) = 3 \<and> lv_seq l = 4"
proof -
  let ?cmds = "[RunAgent ''hi'', PersistProgress [EvToolComplete ''a'' ''ok'' False],
      RunFinished OutCancelled, RunAgent ''again'']"
  have "case run_actor in_memory_ops agent_ops direct_codec demo_actor Map.empty ?cmds of
      Inl e \<Rightarrow> False | Inr l \<Rightarrow> length (lv_state l) = 3 \<and> lv_seq l = 4"
    by code_simp
  then obtain l where l: "run_actor in_memory_ops agent_ops direct_codec demo_actor Map.empty ?cmds = Inr l"
      "length (lv_state l) = 3" "lv_seq l = 4"
    by (auto split: sum.splits)
  from agent_session_recovers [OF direct_codec_ok _ l(1)] l show ?thesis
    by (simp add: im_ok_def demo_actor_def)
qed

subsection \<open>Repairing an interrupted conversation\<close>

definition assistant_calls :: "message list \<Rightarrow> string list" where
  "assistant_calls ms =
     concat (map (\<lambda>m. if msg_role m = Assistant then map call_id (extract_tool_calls (msg_parts m)) else []) ms)"

definition only_tools_answer :: "message list \<Rightarrow> bool" where
  "only_tools_answer ms \<longleftrightarrow> list_all (\<lambda>m. msg_role m = Tool \<or> result_ids (msg_parts m) = []) ms"

lemma tool_result_ids_simps [simp]:
  "tool_result_ids [] = []" "tool_result_ids (m # ms) = result_ids (msg_parts m) @ tool_result_ids ms"
  "tool_result_ids (xs @ ys) = tool_result_ids xs @ tool_result_ids ys"
  by (simp_all add: tool_result_ids_def)

lemma assistant_calls_simps [simp]:
  "assistant_calls [] = []"
  "assistant_calls (m # ms) = (if msg_role m = Assistant then map call_id (extract_tool_calls (msg_parts m)) else [])
     @ assistant_calls ms"
  "assistant_calls (xs @ ys) = assistant_calls xs @ assistant_calls ys"
  by (simp_all add: assistant_calls_def)

text \<open>Calls are answered in the order they were made.\<close>

lemma conv_accounts:
  "conv p ms = Some q \<Longrightarrow> only_tools_answer ms \<Longrightarrow> p @ assistant_calls ms = tool_result_ids ms @ q"
proof (induction ms arbitrary: p)
  case Nil
  then show ?case by simp
next
  case (Cons m ms)
  then obtain p' where s: "conv_step p m = Some p'" and r: "p' @ assistant_calls ms = tool_result_ids ms @ q"
    by (auto simp: only_tools_answer_def split: option.splits)
  show ?case
  proof (cases "msg_role m")
    case Tool
    with s have "p = result_ids (msg_parts m) @ p'"
      by (auto simp: conv_step_def Let_def split: if_splits) (metis append_take_drop_id)
    with r Tool show ?thesis by simp
  qed (use s r Cons.prems(2) in \<open>auto simp: conv_step_def only_tools_answer_def split: if_splits\<close>)
qed

lemma find_rev_split:
  "find P (rev xs) = Some x \<Longrightarrow> \<exists>ys zs. xs = ys @ x # zs \<and> P x \<and> list_all (\<lambda>z. \<not> P z) zs"
proof (induction xs rule: rev_induct)
  case (snoc y xs)
  then show ?case by (auto split: if_splits) (metis append_Cons append_assoc list_all_append list.pred_inject)+
qed simp

lemma no_assistant_no_calls:
  "list_all (\<lambda>m. msg_role m \<noteq> Assistant) ms \<Longrightarrow> assistant_calls ms = []"
  by (induction ms) auto

lemma dangling_are_pending:
  assumes "conv [] ms = Some q" and "distinct (assistant_calls ms)" and "only_tools_answer ms"
  shows "dangling_calls ms = q"
proof (cases "find (\<lambda>m. msg_role m = Assistant) (rev ms)")
  case None
  then have "assistant_calls ms = []"
    by (intro no_assistant_no_calls) (auto simp: find_None_iff list_all_iff)
  with conv_accounts [OF assms(1,3)] None show ?thesis by (simp add: dangling_calls_def)
next
  case (Some m)
  let ?calls = "map call_id (extract_tool_calls (msg_parts m))"
  from find_rev_split [OF Some] obtain h1 h2 where h: "ms = h1 @ m # h2" "msg_role m = Assistant"
      and na: "list_all (\<lambda>m. msg_role m \<noteq> Assistant) h2" by auto
  obtain q1 where q1: "conv [] h1 = Some q1" "conv q1 (m # h2) = Some q"
    using assms(1) h(1) by (auto simp: conv_append split: option.splits)
  then have e1: "q1 = []" and c2: "conv ?calls h2 = Some q"
    using h(2) by (auto simp: conv_step_def split: if_splits option.splits)
  have o: "only_tools_answer h1" "only_tools_answer h2" "result_ids (msg_parts m) = []"
    using assms(3) h by (auto simp: only_tools_answer_def)
  have a1: "assistant_calls h1 = tool_result_ids h1"
    using conv_accounts [OF q1(1) o(1)] e1 by simp
  have a2: "?calls = tool_result_ids h2 @ q"
    using conv_accounts [OF c2 o(2)] no_assistant_no_calls [OF na] by simp
  have r: "tool_result_ids ms = tool_result_ids h1 @ tool_result_ids h2"
    using h(1) o(3) by simp
  have "distinct (tool_result_ids h1 @ tool_result_ids h2 @ q)"
    using assms(2) h no_assistant_no_calls [OF na] a1 a2 by simp
  then have "filter (\<lambda>i. i \<notin> set (tool_result_ids ms)) (tool_result_ids h2 @ q) = q"
    unfolding r by (auto simp: filter_empty_conv filter_id_conv)
  with Some a2 show ?thesis by (simp add: dangling_calls_def)
qed

text \<open>
  Resuming an interrupted session: for a recorded conversation in which calls have distinct
  ids, sanitizing adds one error result for each call the interruption left unanswered, in order,
  and the result is a conversation a provider accepts, also with the continuation message added.
\<close>

lemma sanitize_pending:
  assumes "conv [] ms = Some q" and "distinct (assistant_calls ms)" and "only_tools_answer ms"
  shows "sanitize_for_resume ms =
           ms @ map (\<lambda>i. message_tool_result i ''interrupted by shutdown, not completed'' True) q \<and>
         closed (sanitize_for_resume ms) \<and>
         closed (sanitize_for_resume ms @ [message_user mid tx])"
proof -
  have "conv q (map (\<lambda>i. message_tool_result i t True) q) = Some []" for t
    by (induction q) (simp_all add: conv_step_def)
  then show ?thesis
    using assms(1) dangling_are_pending [OF assms]
    by (simp add: sanitize_for_resume_def closed_def conv_append conv_step_def)
qed

subsection \<open>The call a paused agent waits on\<close>

lemma find_tool_call_id_append:
  "find_tool_call_id (xs @ ys) tool =
     (case find_tool_call_id ys tool of Some i \<Rightarrow> Some i | None \<Rightarrow> find_tool_call_id xs tool)"
  by (induction xs) (auto split: option.splits agent_event.splits)

lemma call_in_parts_single:
  "extract_tool_calls parts = [(cid, tool, data)] \<Longrightarrow> call_in_parts tool parts = Some cid"
  by (induction parts rule: extract_tool_calls.induct) auto

lemma conv_last_assistant:
  "conv [] (h @ [\<lparr>msg_id = mid, msg_role = Assistant, msg_parts = parts\<rparr>]) = Some q \<Longrightarrow>
   q = map call_id (extract_tool_calls parts)"
  by (auto simp: conv_append conv_step_def split: option.splits if_splits)

text \<open>
  Asking and answering: when a run ends in a handoff, the tool-call id its report carries is
  the one call the conversation leaves open, so answering that id closes the conversation and the
  paused agent can be resumed.
\<close>

lemma handoff_id_answers:
  assumes "closed (ag_history ag @ [input_to_message input])"
    and "run S ag input w = (r, st)" and "run_report r (rs_events st) = OutConcluded data cid"
  shows "\<exists>i. cid = Some i \<and> conv [] (rs_history st) = Some [i] \<and>
             closed (rs_history st @ [input_to_message (input_tool_result i reply False)])"
proof -
  obtain out tool where r: "r = Inr out" "out_result out = Handoff tool data"
      "cid = find_tool_call_id (rs_events st) tool"
    using assms(3)
    by (auto simp: run_report_def split: sum.splits agent_result.splits agent_error.splits)
  from run_step_outcome_run [OF assms(2) [unfolded r(1)]] r(2)
  obtain h es mid parts m rid i where o: "m = \<lparr>msg_id = mid, msg_role = Assistant, msg_parts = parts\<rparr>"
      "rs_history st = h @ [m]"
      "rs_events st = es @ [MessageComplete mid m, RunComplete rid (out_usage out) (rs_iteration st)]"
      "extract_tool_calls parts = [(i, tool, data)]"
    by (auto simp: outcome_ok_def)
  from conversation_run [OF assms(1,2)] r(1,2)
  obtain q where q: "conv [] (rs_history st) = Some [q]" by auto
  with conv_last_assistant [of h mid parts "[q]"] o have "q = i" by simp
  with q r(3) o(1,3,4) show ?thesis
    by (auto simp: find_tool_call_id_append call_in_parts_single closed_def conv_append conv_step_def
        input_tool_result_def)
qed



subsection \<open>Retries\<close>

lemma retry_loop_attempts:
  assumes "retry_loop S sleep b m input attempt w = (out, attempts, w')" and "attempt \<le> m"
  shows "length attempts \<le> Suc (unat m - unat attempt) \<and>
         (case out of OutFailed msg True \<Rightarrow> length attempts = Suc (unat m - unat attempt) | _ \<Rightarrow> True)"
  using assms
proof (induction S sleep b m input attempt w arbitrary: out attempts w' rule: retry_loop.induct)
  case (1 S sleep b m input attempt w)
  note eq = "1.prems"(1) [unfolded retry_loop.simps [of S sleep b m input attempt]]
  show ?case
  proof (cases "build S b")
    case (Inl e)
    with eq show ?thesis by auto
  next
    case (Inr ag)
    obtain r st where r: "run S ag input w = (r, st)" by fastforce
    show ?thesis
    proof (cases "is_provider_error r \<and> attempt < m")
      case True
      obtain out1 evs w1 where rec: "retry_loop S sleep b m input (attempt + 1)
          (sleep (backoff_ms (attempt + 1)) (rs_world st)) = (out1, evs, w1)"
        using prod_cases3 by blast
      have "attempt + 1 \<le> m" using True by (simp add: inc_le_bound)
      from "1.IH" [OF Inr r [symmetric] True rec this]
      have ih: "length evs \<le> Suc (unat m - unat (attempt + 1)) \<and>
          (case out1 of OutFailed msg True \<Rightarrow> length evs = Suc (unat m - unat (attempt + 1)) | _ \<Rightarrow> True)" .
      have i: "unat (attempt + 1) = Suc (unat attempt)" "unat attempt < unat m"
        using True unat_less_increases by (auto simp: word_less_nat_alt)
      have "out = out1" "attempts = rs_events st # evs"
        using eq Inr r True rec by simp_all
      with ih i show ?thesis by (auto split: run_outcome.splits bool.splits)
    next
      case False
      then have e: "out = run_report r (rs_events st)" "attempts = [rs_events st]"
        using eq Inr r by auto
      have "attempt = m" if "out = OutFailed msg True" for msg
        using that e(1) False "1.prems"(2)
        by (auto simp: run_report_def is_provider_error_def split: sum.splits agent_error.splits
            agent_result.splits)
      then have "unat m - unat attempt = 0" if "out = OutFailed msg True" for msg
        using that by simp
      with e(2) show ?thesis by (auto split: run_outcome.splits bool.splits)
    qed
  qed
qed

text \<open>
  A provider that keeps failing is called for at most \<open>max_retries + 1\<close> attempts, and a
  failure is reported as recoverable only after all of them.
\<close>

lemma run_with_retries_bounded:
  "case run_with_retries S sleep p tb prompt handoff max_iter max_retries history input w of
     (out, attempts, w') \<Rightarrow>
       length attempts \<le> unat max_retries + 1 \<and>
       (case out of OutFailed msg True \<Rightarrow> length attempts = unat max_retries + 1 | _ \<Rightarrow> True)"
proof -
  obtain out attempts w' where r: "run_with_retries S sleep p tb prompt handoff max_iter max_retries
      history input w = (out, attempts, w')"
    using prod_cases3 by blast
  from retry_loop_attempts [OF r [unfolded run_with_retries_def]] r show ?thesis
    by (simp split: run_outcome.splits bool.splits)
qed

text \<open>The wait before attempt number \<open>attempt\<close>: 50 ms doubled with each attempt, six times at most.\<close>

lemma backoff_ms_value:
  "unat (backoff_ms attempt) = 50 * 2 ^ min (unat attempt) 6"
proof -
  have "unat (min attempt 6) = min (unat attempt) 6"
    by (simp add: min_def word_le_nat_alt)
  moreover have "unat (50 * push_bit k 1 :: u64) = 50 * 2 ^ k" if "k \<le> 6" for k :: nat
  proof -
    have "k = 0 \<or> k = 1 \<or> k = 2 \<or> k = 3 \<or> k = 4 \<or> k = 5 \<or> k = 6" using that by presburger
    then show ?thesis by (elim disjE) simp_all
  qed
  ultimately show ?thesis by (simp add: backoff_ms_def)
qed

subsection \<open>What the journal keeps of a run\<close>

definition persisted :: "agent_event list \<Rightarrow> message list" where
  "persisted evs = foldl agent_apply_event [] (coarse_events evs)"

lemma agent_apply_prefix: "foldl agent_apply_event s evs = s @ foldl agent_apply_event [] evs"
proof (induction evs rule: rev_induct)
  case (snoc e evs)
  then show ?case by (cases e) simp_all
qed simp

lemma coarse_events_simps [simp]:
  "coarse_events [] = []" "coarse_events (xs @ ys) = coarse_events xs @ coarse_events ys"
  "coarse_events (e # es) = (case coarse_event e of None \<Rightarrow> coarse_events es | Some c \<Rightarrow> c # coarse_events es)"
  by (simp_all add: coarse_events_def List.map_filter_def split: option.splits)

lemma persisted_simps [simp]:
  "persisted [] = []" "persisted (xs @ ys) = persisted xs @ persisted ys"
  "persisted [MessageComplete mid m] = [m]" "persisted [ToolComplete mid cid out err] = [message_tool_result cid out err]"
  by (simp_all add: persisted_def agent_apply_prefix [of "foldl agent_apply_event [] (coarse_events xs)"])

text \<open>A provider that emits only streaming chunks.\<close>

definition chunks_only :: "'w provider \<Rightarrow> bool" where
  "chunks_only p \<longleftrightarrow> (\<forall>req mid w. coarse_events (fst (snd (p req mid w))) = [])"

definition journaled :: "'w run_state \<Rightarrow> 'w run_state \<Rightarrow> bool" where
  "journaled st st' \<longleftrightarrow>
     (\<exists>ms evs. rs_history st' = rs_history st @ ms \<and> rs_events st' = rs_events st @ evs \<and>
        persisted evs = filter (\<lambda>m. \<not> is_nudge m) ms)"

lemma journaled_refl: "rs_history st' = rs_history st \<Longrightarrow> rs_events st' = rs_events st \<Longrightarrow> journaled st st'"
  by (auto simp: journaled_def intro!: exI [of _ "[]"])

lemma journaled_trans: "journaled a b \<Longrightarrow> journaled b c \<Longrightarrow> journaled a c"
  unfolding journaled_def by (elim exE conjE, intro exI conjI) (assumption | simp)+

lemma journaled_execute: "journaled st (execute_call S ag c st)"
  by (cases c)
    (auto simp: journaled_def execute_call_def is_nudge_def result_id_def message_tool_result_def Let_def
      persisted_def split: prod.splits sum.splits)

lemma journaled_executes: "journaled st (fold (execute_call S ag) cs st)"
  by (induction cs arbitrary: st) (auto intro: journaled_refl journaled_trans [OF journaled_execute])


lemma journaled_complete_turn:
  assumes "chunks_only (ag_provider ag)" and "complete_turn S ag st = (r, st')"
  shows "journaled st st'"
proof -
  obtain mid w where u: "sv_uuid S (rs_world st) = (mid, w)" by fastforce
  obtain x evs w' where c: "ag_provider ag (turn_request ag (rs_history st)) mid w = (x, evs, w')"
    using prod_cases3 by blast
  have "coarse_events evs = []"
    using assms(1) c by (metis chunks_only_def fst_conv snd_conv)
  then have "persisted evs = []" "persisted (MessageStart mid Assistant # evs) = []"
      "persisted (MessageStart mid Assistant # evs @ [MessageStop mid, MessageComplete mid m]) = [m]" for m
    by (simp_all add: persisted_def)
  with assms(2) u c show ?thesis
    by (auto simp: complete_turn_def journaled_def is_nudge_def Let_def split: sum.splits)
qed

lemma journaled_tools_turn:
  assumes "tools_turn S ag calls st = (r, st')" shows "journaled st st'"
proof -
  have n: "journaled st (st\<lparr>rs_recent := f, rs_history := rs_history st @ map nudge_result calls\<rparr>)" for f
    by (auto simp: journaled_def nudge_result_def is_nudge_def filter_empty_conv)
  have e: "journaled st (fold (execute_call S ag) calls (st\<lparr>rs_recent := f, rs_world := w\<rparr>))" for f w
    by (rule journaled_trans [OF journaled_refl journaled_executes]) simp_all
  have k: "journaled st (st\<lparr>rs_recent := f\<rparr>)" "journaled st (st\<lparr>rs_recent := f, rs_world := w\<rparr>)" for f w
    by (simp_all add: journaled_refl)
  show ?thesis
    using assms n e k
    by (auto simp: tools_turn_def Let_def split: if_splits prod.splits dest!: poll_cancelled_sel)
qed

lemma journaled_run_step:
  assumes "chunks_only (ag_provider ag)" and "ag_handoff_tool ag = None"
    and "run_step S ag run_id st = (r, st')"
  shows "journaled st st'"
proof -
  obtain c st1 where p: "poll_cancelled S st = (c, st1)" by fastforce
  then have j1: "journaled st st1" "journaled st (st1\<lparr>rs_iteration := i\<rparr>)" for i
    by (auto dest!: poll_cancelled_sel intro!: journaled_refl)
  obtain x st2 where t: "complete_turn S ag (st1\<lparr>rs_iteration := rs_iteration st1 + 1\<rparr>) = (x, st2)"
    by fastforce
  have j2: "journaled st st2"
    by (rule journaled_trans [OF j1(2) journaled_complete_turn [OF assms(1) t]])
  have fin: "journaled st2 (emit (RunComplete run_id u n) st2)" for u n
    by (auto simp: journaled_def persisted_def)
  show ?thesis
    using assms(2,3) p t j1 j2
    by (auto simp: run_step_def Let_def end_turn_def finish_def handoff_call_def
        split: if_splits sum.splits dest!: journaled_tools_turn
        intro: journaled_trans [OF j2] fin)
qed

text \<open>
  C24. What is journaled of a run without a handoff tool: replaying its events over the state the
  input was recorded in gives every message the run added to the conversation, in order, except the
  nudges of the loop detector.
\<close>

theorem journal_keeps_conversation:
  assumes "chunks_only (ag_provider ag)" and "ag_handoff_tool ag = None"
    and "run S ag input w = (r, st)"
  shows "\<exists>ms. rs_history st = ag_history ag @ [input_to_message input] @ ms \<and>
           foldl agent_apply_event s (coarse_events (rs_events st)) = s @ filter (\<lambda>m. \<not> is_nudge m) ms"
proof -
  obtain rid w1 where u: "sv_uuid S w = (rid, w1)" by fastforce
  let ?st = "start_state ag input w1"
  have "journaled ?st (snd (agent_loop S ag rid ?st))"
    by (rule agent_loop_rule [where P = "journaled ?st" and Q = "\<lambda>_. journaled ?st"])
      (auto intro: journaled_refl journaled_trans journaled_run_step [OF assms(1,2)])
  with u assms(3) obtain ms evs where h: "rs_history st = rs_history ?st @ ms"
      "rs_events st = rs_events ?st @ evs" "persisted evs = filter (\<lambda>m. \<not> is_nudge m) ms"
    by (auto simp: run_def journaled_def)
  have "persisted (rs_events ?st) = []" by (simp add: start_state_def persisted_def)
  with h show ?thesis
    unfolding agent_apply_prefix [of s]
    by (intro exI [of _ ms]) (simp add: persisted_def [symmetric])
qed

lemma scripted_chunks_only: "chunks_only (ag_provider (scripted_agent h))"
  unfolding chunks_only_def
proof (intro allI)
  fix req mid w
  show "coarse_events (fst (snd (ag_provider (scripted_agent h) req mid w))) = []"
    by (cases w) (simp_all add: scripted_agent_def)
qed

theorem journal_keeps_conversation_witness:
  "\<exists>ms. rs_history (snd (scripted_run None demo_replies)) = [message_user ''m'' ''hi''] @ ms \<and>
     foldl agent_apply_event [] (coarse_events (rs_events (snd (scripted_run None demo_replies)))) =
       filter (\<lambda>m. \<not> is_nudge m) ms"
proof -
  from journal_keeps_conversation [OF scripted_chunks_only [of None], of scripted_services "UserMessage ''m'' ''hi''" demo_replies
      "fst (scripted_run None demo_replies)" "snd (scripted_run None demo_replies)" "[]"]
  show ?thesis by (simp add: scripted_run_def) (simp add: scripted_agent_def)
qed

subsection \<open>What the journal loses\<close>

lemma conv_open_assistant:
  assumes "conv [] ms = Some q" and "q \<noteq> []" and "msg_role m = Assistant"
  shows "conv [] (ms @ m # rest) = None"
  using assms by (simp add: conv_append conv_step_def)

lemma complete_turn_persisted:
  assumes "chunks_only (ag_provider ag)" and "complete_turn S ag st = (Inr parts, st')"
  shows "\<exists>m es. msg_role m = Assistant \<and> msg_parts m = parts \<and> rs_history st' = rs_history st @ [m] \<and>
           rs_events st' = rs_events st @ es \<and> persisted es = [m]"
proof -
  from journaled_complete_turn [OF assms] obtain ms evs where j: "rs_history st' = rs_history st @ ms"
      "rs_events st' = rs_events st @ evs" "persisted evs = filter (\<lambda>m. \<not> is_nudge m) ms"
    by (auto simp: journaled_def)
  from complete_turn_history [OF assms(2)] obtain mid where
    "rs_history st' = rs_history st @ [\<lparr>msg_id = mid, msg_role = Assistant, msg_parts = parts\<rparr>]" by auto
  with j show ?thesis by (auto simp: is_nudge_def)
qed

lemma handoff_turn_rejects:
  assumes "handoff_turn ag run_id name calls data st = (None, st')"
  shows "\<exists>reason. rs_history st' = rs_history st @ map (rejection_result name reason) calls \<and>
           rs_events st' = rs_events st"
  using assms by (auto simp: handoff_turn_def finish_def split: option.splits if_splits)

lemma end_turn_retries: "end_turn ag run_id parts st = (r, st') \<Longrightarrow> rs_handoff_retries st' = rs_handoff_retries st"
  by (auto simp: end_turn_def finish_def split: option.splits if_splits)

lemma counters_retries: "counters st' = counters st \<Longrightarrow> rs_handoff_retries st' = rs_handoff_retries st"
  by (simp add: counters_def)

lemma tools_turn_retries:
  "tools_turn S ag calls st = (r, st') \<Longrightarrow> rs_handoff_retries st' = rs_handoff_retries st"
  by (auto simp: tools_turn_def Let_def counters_retries [OF execute_calls_frame(1)]
      split: if_splits prod.splits dest!: counters_retries [OF poll_cancelled_frame])

text \<open>
  Answers to a rejected handoff are not journaled: a turn whose handoff call is rejected adds
  the model's message and the answers to its calls to the conversation the agent holds, but only the
  message to the recorded one, which no provider accepts from the model's next message on.
\<close>

lemma rejected_handoff_not_journaled:
  assumes "chunks_only (ag_provider ag)"
    and "run_step S ag run_id st = (None, st')" and "rs_handoff_retries st' \<noteq> rs_handoff_retries st"
    and "closed (foldl agent_apply_event s (coarse_events (rs_events st)))"
  shows "\<exists>m results. msg_role m = Assistant \<and> results \<noteq> [] \<and>
           rs_history st' = rs_history st @ m # results \<and>
           list_all2 answers (extract_tool_calls (msg_parts m)) results \<and>
           foldl agent_apply_event s (coarse_events (rs_events st')) =
             foldl agent_apply_event s (coarse_events (rs_events st)) @ [m] \<and>
           (\<forall>m' rest. msg_role m' = Assistant \<longrightarrow>
              conv [] (foldl agent_apply_event s (coarse_events (rs_events st')) @ m' # rest) = None)"
proof -
  obtain c st1 where p: "poll_cancelled S st = (c, st1)" by fastforce
  then have e1: "rs_history st1 = rs_history st" "rs_events st1 = rs_events st"
      "rs_handoff_retries st1 = rs_handoff_retries st" by (auto dest!: poll_cancelled_sel)
  let ?st1 = "st1\<lparr>rs_iteration := rs_iteration st1 + 1\<rparr>"
  obtain x st2 where t: "complete_turn S ag ?st1 = (x, st2)" by fastforce
  have r2: "rs_handoff_retries st2 = rs_handoff_retries st"
    using counters_retries [OF complete_turn_frame [OF t]] e1(3) by simp
  from assms(2,3) p t r2 obtain parts name data where x: "x = Inr parts"
    and c: "extract_tool_calls parts \<noteq> []"
    and h: "handoff_turn ag run_id name (extract_tool_calls parts) data st2 = (None, st')"
    by (auto simp: run_step_def Let_def split: if_splits sum.splits option.splits
        dest!: end_turn_retries tools_turn_retries)
  from complete_turn_persisted [OF assms(1) t [unfolded x]] e1 obtain m es where
    m: "msg_role m = Assistant" "msg_parts m = parts" "rs_history st2 = rs_history st @ [m]"
      "rs_events st2 = rs_events st @ es" "persisted es = [m]" by auto
  from handoff_turn_rejects [OF h] m obtain reason where
    f: "rs_history st' = rs_history st @ m # map (rejection_result name reason) (extract_tool_calls parts)"
      "rs_events st' = rs_events st @ es" by auto
  let ?rec = "foldl agent_apply_event s (coarse_events (rs_events st))"
  have rec: "foldl agent_apply_event s (coarse_events (rs_events st')) = ?rec @ [m]"
    using f(2) m(5) by (simp add: persisted_def agent_apply_prefix [of ?rec])
  have "conv [] (?rec @ [m]) = Some (map call_id (extract_tool_calls parts))"
    using assms(4) m(1,2) by (simp add: closed_def conv_append conv_step_def)
  from conv_open_assistant [OF this] c
  have "conv [] ((?rec @ [m]) @ m' # rest) = None" if "msg_role m' = Assistant" for m' rest
    using that by blast
  with f(1) rec m(1,2) c show ?thesis
    by (intro exI [of _ m] exI [of _ "map (rejection_result name reason) (extract_tool_calls parts)"])
      (simp add: list_all2_map_answers)
qed

text \<open>
  The same in a whole run: after a rejected handoff and then a question, the reply closes the
  conversation in memory, but not the recorded one, and sanitizing does not repair that.
\<close>

lemma rejected_handoff_resumed:
  "let st = snd (scripted_run (Some ''conclude'') demo_replies);
       recorded = foldl agent_apply_event [message_user ''m'' ''hi''] (coarse_events (rs_events st));
       reply = input_to_message (input_tool_result ''d'' ''yes'' False)
   in closed (rs_history st @ [reply]) \<and>
      conv [] (recorded @ [reply]) = None \<and>
      conv [] (sanitize_for_resume recorded) = None"
  by code_simp

text \<open>
  The repairs of a resumed session are not journaled either: a session interrupted in a tool
  call is resumed on a closed conversation, but the model's next message is recorded behind the call
  that is still open in the journal, so another recovery starts from a conversation no provider
  accepts, which sanitizing does not repair.
\<close>

lemma sanitized_results_not_journaled:
  assumes "conv [] ms = Some q" and "q \<noteq> []" and "distinct (assistant_calls ms)" and "only_tools_answer ms"
    and "agent_on_recovery_complete a ms = (a1, outs)"
    and "msg_role m = Assistant"
    and "agent_handle_command a1 ms (PersistProgress [EvMessageComplete m]) = (a2, outs2, eff)"
  shows "\<exists>t input history. outs = [StartRun t input history] \<and> closed (history @ [input_to_message input]) \<and>
           conv [] (foldl agent_apply_event ms (effect_events eff)) = None \<and>
           conv [] (sanitize_for_resume (foldl agent_apply_event ms (effect_events eff))) = None"
proof -
  have ne: "ms \<noteq> []" using assms(1,2) by auto
  have "closed (sanitize_for_resume ms @ [message_user mid tx])" for mid tx
    using sanitize_pending [OF assms(1,3,4)] by blast
  moreover have "conv [] (ms @ m # rest) = None" for rest
    by (rule conv_open_assistant [OF assms(1,2,6)])
  ultimately show ?thesis
    using assms(5,7) ne
    by (auto simp: agent_on_recovery_complete_def agent_handle_command_def start_run_def
        new_message_id_def sanitize_for_resume_def Let_def input_user_message_def message_user_def
        split: prod.splits)
qed

end
