(* ===== verification/Recorded_Conversation.thy ===== *)
theory Recorded_Conversation
  imports Agent_Recovery
begin

text \<open>
  The conversation an agent records against the one its run holds. A run keeps its messages in
  memory (\<open>rs_history\<close>) and loses them when it ends; the actor's state, from which the next run
  starts, is folded from the events the run forwards. The two agree on which calls are answered
  unless a handoff was rejected or a nudge pushed; what the retries of a run add up to; and what
  the reply to a question meets in the record.
\<close>

subsection \<open>Users' messages do not matter to the calls\<close>

definition no_users :: "message list \<Rightarrow> message list" where
  "no_users ms = filter (\<lambda>m. msg_role m \<noteq> User) ms"

lemma no_users_simps [simp]:
  "no_users [] = []" "no_users (xs @ ys) = no_users xs @ no_users ys"
  "no_users (m # ms) = (if msg_role m = User then no_users ms else m # no_users ms)"
  by (simp_all add: no_users_def)

lemma conv_no_users: "conv p ms = Some q \<Longrightarrow> conv p (no_users ms) = Some q"
  by (induction ms arbitrary: p) (auto simp: conv_step_def split: option.splits if_splits)

lemma no_users_answers: "list_all2 answers cs ms \<Longrightarrow> no_users ms = ms"
  by (induction rule: list_all2_induct) (auto simp: answers_def)

subsection \<open>A run that loses no answer\<close>

text \<open>
  The steps from \<open>st\<close> to \<open>st'\<close> add messages and events; when no handoff was rejected on the way and
  no nudge pushed, the events record every message that is not the user's.
\<close>

definition kept :: "'w run_state \<Rightarrow> 'w run_state \<Rightarrow> bool" where
  "kept st st' \<longleftrightarrow>
     unat (rs_handoff_retries st) \<le> unat (rs_handoff_retries st') \<and>
     (\<exists>ms evs. rs_history st' = rs_history st @ ms \<and> rs_events st' = rs_events st @ evs \<and>
        (rs_handoff_retries st' = rs_handoff_retries st \<and> list_all (\<lambda>m. \<not> is_nudge m) ms \<longrightarrow>
           persisted evs = no_users ms))"

lemma kept_refl:
  "rs_history st' = rs_history st \<Longrightarrow> rs_events st' = rs_events st \<Longrightarrow>
   rs_handoff_retries st' = rs_handoff_retries st \<Longrightarrow> kept st st'"
  by (auto simp: kept_def intro!: exI [of _ "[]"])

lemma kept_trans:
  assumes "kept a b" and "kept b c" shows "kept a c"
proof -
  from assms(1) obtain ms evs where 1: "rs_history b = rs_history a @ ms" "rs_events b = rs_events a @ evs"
      "unat (rs_handoff_retries a) \<le> unat (rs_handoff_retries b)"
      "rs_handoff_retries b = rs_handoff_retries a \<and> list_all (\<lambda>m. \<not> is_nudge m) ms \<longrightarrow> persisted evs = no_users ms"
    by (auto simp: kept_def)
  from assms(2) obtain ms' evs' where 2: "rs_history c = rs_history b @ ms'" "rs_events c = rs_events b @ evs'"
      "unat (rs_handoff_retries b) \<le> unat (rs_handoff_retries c)"
      "rs_handoff_retries c = rs_handoff_retries b \<and> list_all (\<lambda>m. \<not> is_nudge m) ms' \<longrightarrow> persisted evs' = no_users ms'"
    by (auto simp: kept_def)
  have "rs_handoff_retries c = rs_handoff_retries a \<Longrightarrow>
      rs_handoff_retries b = rs_handoff_retries a \<and> rs_handoff_retries c = rs_handoff_retries b"
    using 1(3) 2(3) by (metis le_antisym word_unat_eq_iff)
  with 1 2 show ?thesis
    unfolding kept_def by (intro conjI exI [of _ "ms @ ms'"] exI [of _ "evs @ evs'"]) auto
qed

text \<open>Steps that journal what they push, and push no user's message.\<close>

lemma kept_journaled:
  assumes "journaled st st'" and "rs_handoff_retries st' = rs_handoff_retries st"
    and "\<And>ms. rs_history st' = rs_history st @ ms \<Longrightarrow> no_users ms = ms"
  shows "kept st st'"
proof -
  from assms(1) obtain ms evs where j: "rs_history st' = rs_history st @ ms" "rs_events st' = rs_events st @ evs"
      "persisted evs = filter (\<lambda>m. \<not> is_nudge m) ms"
    by (auto simp: journaled_def)
  have "list_all (\<lambda>m. \<not> is_nudge m) ms \<Longrightarrow> filter (\<lambda>m. \<not> is_nudge m) ms = ms"
    by (simp add: list_all_iff filter_id_conv)
  with j assms(2,3) show ?thesis by (auto simp: kept_def)
qed

lemma kept_complete_turn:
  assumes "chunks_only (ag_provider ag)" and "complete_turn S ag st = (x, st')"
  shows "kept st st'"
  by (rule kept_journaled [OF journaled_complete_turn [OF assms] counters_retries [OF complete_turn_frame [OF assms(2)]]])
    (use complete_turn_history [OF assms(2)] in \<open>auto split: sum.splits\<close>)

lemma tools_turn_no_users:
  assumes "tools_turn S ag calls st = (r, st')" and "rs_history st' = rs_history st @ ms"
  shows "no_users ms = ms"
proof -
  have n: "no_users (map nudge_result calls) = map nudge_result calls"
    by (rule no_users_answers [OF list_all2_map_answers]) simp
  have e: "no_users ms = ms"
    if "rs_history (fold (execute_call S ag) calls (st\<lparr>rs_recent := f, rs_world := w\<rparr>)) = rs_history st @ ms" for f w
    using execute_calls_history [of S ag calls "st\<lparr>rs_recent := f, rs_world := w\<rparr>"] that
    by (auto intro: no_users_answers)
  show ?thesis
    using assms n
    by (auto simp: tools_turn_def Let_def split: if_splits prod.splits dest!: poll_cancelled_sel e)
qed

lemma kept_tools_turn: "tools_turn S ag calls st = (r, st') \<Longrightarrow> kept st st'"
  by (rule kept_journaled) (auto intro: journaled_tools_turn tools_turn_retries tools_turn_no_users)

lemma kept_finish: "finish run_id res st = (r, st') \<Longrightarrow> kept st st'"
  by (auto simp: finish_def kept_def persisted_def)

lemma kept_end_turn: "end_turn ag run_id parts st = (r, st') \<Longrightarrow> kept st st'"
  by (auto simp: end_turn_def missing_handoff_nudge_def kept_def split: option.splits if_splits
      dest: kept_finish)

lemma kept_handoff_turn:
  assumes "handoff_turn ag run_id name calls data st = (r, st')" shows "kept st st'"
proof -
  have i: "i < m \<Longrightarrow> unat (i + 1) = Suc (unat i)" for i m :: u32 by (rule unat_less_increases)
  show ?thesis
    using assms
    by (auto simp: handoff_turn_def kept_def i not_le split: option.splits if_splits dest: kept_finish)
qed

lemma kept_run_step:
  assumes "chunks_only (ag_provider ag)" and "run_step S ag run_id st = (r, st')"
  shows "kept st st'"
proof -
  obtain c st1 where p: "poll_cancelled S st = (c, st1)" by fastforce
  then have k1: "kept st st1" "kept st (st1\<lparr>rs_iteration := i\<rparr>)" for i
    by (auto dest!: poll_cancelled_sel intro!: kept_refl)
  obtain x st2 where t: "complete_turn S ag (st1\<lparr>rs_iteration := rs_iteration st1 + 1\<rparr>) = (x, st2)"
    by fastforce
  have k2: "kept st st2" by (rule kept_trans [OF k1(2) kept_complete_turn [OF assms(1) t]])
  show ?thesis
    using assms(2) p t k1(1) k2
    by (auto simp: run_step_def Let_def split: if_splits sum.splits option.splits
        intro: kept_trans [OF k2 kept_end_turn] kept_trans [OF k2 kept_handoff_turn]
          kept_trans [OF k2 kept_tools_turn])
qed

text \<open>A run that rejected no handoff and pushed no nudge.\<close>

definition answers_all :: "'w run_state \<Rightarrow> bool" where
  "answers_all st \<longleftrightarrow> rs_handoff_retries st = 0 \<and> list_all (\<lambda>m. \<not> is_nudge m) (rs_history st)"

lemma run_kept:
  assumes "chunks_only (ag_provider ag)" and "run S ag input w = (r, st)" and "answers_all st"
  shows "\<exists>ms. rs_history st = (ag_history ag @ [input_to_message input]) @ ms \<and>
           persisted (rs_events st) = no_users ms"
proof -
  obtain rid w1 where u: "sv_uuid S w = (rid, w1)" by fastforce
  let ?st = "start_state ag input w1"
  have "kept ?st (snd (agent_loop S ag rid ?st))"
    by (rule agent_loop_rule [where P = "kept ?st" and Q = "\<lambda>_. kept ?st"])
      (auto intro: kept_refl kept_trans kept_run_step [OF assms(1)])
  moreover have "snd (agent_loop S ag rid ?st) = st" using assms(2) u by (simp add: run_def)
  ultimately obtain ms evs where h: "rs_history st = rs_history ?st @ ms" "rs_events st = rs_events ?st @ evs"
      "rs_handoff_retries st = rs_handoff_retries ?st \<and> list_all (\<lambda>m. \<not> is_nudge m) ms \<longrightarrow>
         persisted evs = no_users ms"
    by (auto simp: kept_def)
  have "persisted (rs_events ?st) = []" by (simp add: start_state_def persisted_def)
  with h assms(3) show ?thesis by (auto simp: answers_all_def)
qed

text \<open>A run that fails at the provider leaves no call open.\<close>

lemma run_step_provider_error:
  assumes "run_step S ag run_id st = (Some (Inl (Provider e)), st')"
  shows "rs_history st' = rs_history st"
proof -
  obtain c st1 where p: "poll_cancelled S st = (c, st1)" by fastforce
  then have h1: "rs_history st1 = rs_history st" by (auto dest!: poll_cancelled_sel)
  obtain x st2 where t: "complete_turn S ag (st1\<lparr>rs_iteration := rs_iteration st1 + 1\<rparr>) = (x, st2)"
    by fastforce
  show ?thesis
    using assms p t h1 complete_turn_history [OF t]
    by (auto simp: run_step_def Let_def turn_error_def split: if_splits sum.splits option.splits
        dest!: turn_assistants)
qed

lemma provider_error_closed:
  assumes "closed (ag_history ag @ [input_to_message input])" and "run S ag input w = (Inl (Provider e), st)"
  shows "closed (rs_history st)"
proof -
  obtain rid w1 where u: "sv_uuid S w = (rid, w1)" by fastforce
  let ?Q = "\<lambda>r st. (\<exists>e. r = Inl (Provider e)) \<longrightarrow> closed (rs_history st)"
  have "?Q (fst (agent_loop S ag rid (start_state ag input w1))) (snd (agent_loop S ag rid (start_state ag input w1)))"
    by (rule agent_loop_rule [where P = "\<lambda>st. closed (rs_history st)" and Q = ?Q])
      (use assms(1) in \<open>auto dest: run_step_history run_step_provider_error\<close>)
  with assms(2) u show ?thesis by (auto simp: run_def)
qed

lemma conv_from_closed: "closed h \<Longrightarrow> conv [] (h @ ms) = conv [] ms"
  by (simp add: closed_def conv_append)

subsection \<open>The runs of a retry loop\<close>

text \<open>The attempts are runs of the built agent, all but the last failed at the provider.\<close>

lemma retry_loop_runs:
  assumes "retry_loop S sleep b m input attempt w = (out, attempts, w')" and "build S b = Inr ag"
  shows "\<exists>sts w0 st r. attempts = map rs_events (sts @ [st]) \<and> run S ag input w0 = (r, st) \<and>
           out = run_report r (rs_events st) \<and>
           (\<forall>st'\<in>set sts. \<exists>w1 e. run S ag input w1 = (Inl (Provider e), st'))"
  using assms
proof (induction S sleep b m input attempt w arbitrary: out attempts w' rule: retry_loop.induct)
  case (1 S sleep b m input attempt w)
  note eq = "1.prems"(1) [unfolded retry_loop.simps [of S sleep b m input attempt]] and b = "1.prems"(2)
  obtain r st where r: "run S ag input w = (r, st)" by fastforce
  show ?case
  proof (cases "is_provider_error r \<and> attempt < m")
    case True
    then obtain e where e: "r = Inl (Provider e)"
      by (auto simp: is_provider_error_def split: sum.splits agent_error.splits)
    obtain out1 evs w1 where rec: "retry_loop S sleep b m input (attempt + 1)
        (sleep (backoff_ms (attempt + 1)) (rs_world st)) = (out1, evs, w1)"
      using prod_cases3 by blast
    have o: "out1 = out" "attempts = rs_events st # evs" using eq b r True rec by simp_all
    from "1.IH" [OF b r [symmetric] True rec b] obtain sts w0 st0 r0 where
      "evs = map rs_events (sts @ [st0])" "run S ag input w0 = (r0, st0)" "out1 = run_report r0 (rs_events st0)"
      "\<forall>st'\<in>set sts. \<exists>w1 e. run S ag input w1 = (Inl (Provider e), st')" by blast
    with o r e show ?thesis
      by (intro exI [of _ "st # sts"] exI [of _ w0] exI [of _ st0] exI [of _ r0]) auto
  next
    case False
    with eq b r show ?thesis by (intro exI [of _ "[]"] exI [of _ w] exI [of _ st] exI [of _ r]) auto
  qed
qed

lemma persisted_concat: "persisted (concat evss) = concat (map persisted evss)"
  by (induction evss) simp_all

lemma conv_closed_parts:
  "(\<And>x. x \<in> set xs \<Longrightarrow> conv [] (f x) = Some []) \<Longrightarrow> conv [] (concat (map f xs)) = Some []"
  by (induction xs) (auto simp: conv_append)

text \<open>What the attempts that end in a question record, when no answer is lost on the way.\<close>

lemma attempts_record:
  assumes cl: "closed (ag_history ag @ [input_to_message input])" and ch: "chunks_only (ag_provider ag)"
    and all: "\<forall>st'\<in>set (sts @ [st]). answers_all st'"
    and err: "\<forall>st'\<in>set sts. \<exists>w1 e. run S ag input w1 = (Inl (Provider e), st')"
    and r: "run S ag input w0 = (r, st)" "conv [] (rs_history st) = Some [i]"
  shows "conv [] ((ag_history ag @ [input_to_message input]) @ persisted (concat (map rs_events (sts @ [st])))) =
    Some [i]"
proof -
  have part: "conv [] (persisted (rs_events st')) = Some q"
    if "run S ag input w1 = (r1, st')" "answers_all st'" "conv [] (rs_history st') = Some q" for st' w1 r1 q
  proof -
    from run_kept [OF ch that(1,2)] obtain ms where
      ms: "rs_history st' = (ag_history ag @ [input_to_message input]) @ ms" "persisted (rs_events st') = no_users ms"
      by blast
    with that(3) conv_from_closed [OF cl] have "conv [] ms = Some q" by metis
    with ms(2) conv_no_users show ?thesis by simp
  qed
  have "conv [] (persisted (rs_events st')) = Some []" if "st' \<in> set sts" for st'
    using that err all part provider_error_closed [OF cl] by (fastforce simp: closed_def)
  then have "conv [] (concat (map (\<lambda>st. persisted (rs_events st)) sts)) = Some []"
    by (rule conv_closed_parts)
  moreover have "conv [] (persisted (rs_events st)) = Some [i]" using part [OF r(1) _ r(2)] all by simp
  ultimately show ?thesis
    unfolding conv_from_closed [OF cl] by (simp add: persisted_concat o_def conv_append)
qed

subsection \<open>A question in the record\<close>

text \<open>The record ends on the message that asks; the reply closes it exactly when it was closed before.\<close>

lemma reply_closes:
  assumes "msg_role m = Assistant" and "map call_id (extract_tool_calls (msg_parts m)) = [i]"
  shows "closed ((before @ [m]) @ [input_to_message (input_tool_result i reply False)]) \<longleftrightarrow> closed before"
  using assms
  by (auto simp: closed_def conv_append conv_step_def input_tool_result_def split: option.splits if_splits)

lemma reply_answers:
  "conv [] h = Some [i] \<Longrightarrow> closed (h @ [input_to_message (input_tool_result i reply False)])"
  by (simp add: closed_def conv_append conv_step_def input_tool_result_def)

lemma question_recorded:
  assumes "run S ag input w = (r, st)" and "run_report r (rs_events st) = OutConcluded data cid"
  shows "\<exists>es m i. persisted (rs_events st) = es @ [m] \<and> cid = Some i \<and> msg_role m = Assistant \<and>
           map call_id (extract_tool_calls (msg_parts m)) = [i]"
proof -
  obtain out tool where r: "r = Inr out" "out_result out = Handoff tool data"
      "cid = find_tool_call_id (rs_events st) tool"
    using assms(2)
    by (auto simp: run_report_def split: sum.splits agent_result.splits agent_error.splits)
  from run_step_outcome_run [OF assms(1) [unfolded r(1)]] r(2)
  obtain es mid parts m rid i where o: "m = \<lparr>msg_id = mid, msg_role = Assistant, msg_parts = parts\<rparr>"
      "rs_events st = es @ [MessageComplete mid m, RunComplete rid (out_usage out) (rs_iteration st)]"
      "extract_tool_calls parts = [(i, tool, data)]"
    by (auto simp: outcome_ok_def)
  have "persisted [MessageComplete mid m, RunComplete rid u n] = [m]" for u n
    by (simp add: persisted_def)
  with o r(3) show ?thesis
    by (auto simp: find_tool_call_id_append call_in_parts_single)
qed

text \<open>
  An agent that asked and is spawned anew for the reply runs twice: recovery takes the open question for
  an interrupted call, answers it with an error and starts a run to go on with the task; the reply then
  starts another run, over the question without that answer, and nothing cancels the first.
\<close>

lemma respawned_for_reply_runs_twice:
  assumes "msg_role m = Assistant" and "map call_id (extract_tool_calls (msg_parts m)) = [i]"
    and "i \<notin> set (tool_result_ids (before @ [m]))"
  shows "\<exists>a1 a2 mid.
    agent_on_recovery_complete a (before @ [m]) =
      (a1, [StartRun (aa_tokens a) (input_user_message mid ''continue the interrupted task'')
         (before @ [m, message_tool_result i ''interrupted by shutdown, not completed'' True])]) \<and>
    agent_handle_command a1 (before @ [m]) (InjectToolResult i reply) =
      (a2, [StartRun (aa_tokens a + 1) (input_tool_result i reply False) (before @ [m])],
       Persist [EvInputMessage (input_to_message (input_tool_result i reply False))]) \<and>
    aa_running a2 = Some (aa_tokens a + 1)"
proof -
  have "dangling_calls (before @ [m]) = [i]" using assms by (simp add: dangling_calls_def)
  then show ?thesis
    by (simp add: agent_on_recovery_complete_def sanitize_for_resume_def agent_handle_command_def start_run_def
        new_message_id_def Let_def) blast
qed

end
