(* ===== verification/Workflow_Actor.thy ===== *)
theory Workflow_Actor
  imports Agent_Recovery
begin

text \<open>
  The workflow as an event-sourced actor, \<open>src/workflow/src/workflow_actor.rs\<close>: the status machine,
  the handlers \<open>on_start\<close>, \<open>on_concluded\<close>, \<open>on_resume\<close>, \<open>on_fork\<close>, the transition rules, and
  recovery. A child agent is named by the number it was spawned with. What a handler does outside
  its state is an output: a child spawned, a command told to a child, a notification pushed to the
  observer (dropped by the channel when it is full, which the handler ignores). The expression
  evaluator (crate \<open>eval\<close>) is the parameter \<open>wa_eval\<close>: the condition's text and the output's value
  give a JSON value or an error.
\<close>

subsection \<open>Events, status, state\<close>

datatype workflow_event =
    WorkflowStarted
  | AgentStarted string string string
  | AgentTransitioned string string string string "string option"
  | WorkflowFinished json
  | WorkflowSuspended
  | WorkflowFailed string bool
  | WorkflowPaused string "string option"
  | WorkflowResumed

datatype workflow_status = WPending | WRunning | WSuspended | WAwaitingUserInput | WFinished | WFailed

datatype workflow_notification =
    NotifyAwaiting string
  | NotifySuspended
  | NotifyFinished json
  | NotifyFailed string

record workflow_state =
  ws_status :: workflow_status
  ws_current_agent :: "string option"
  ws_current_session :: "string option"
  ws_pending_tool_call :: "string option"

definition workflow_initial :: workflow_state where
  "workflow_initial =
     \<lparr>ws_status = WPending, ws_current_agent = None, ws_current_session = None,
      ws_pending_tool_call = None\<rparr>"

fun workflow_apply_event :: "workflow_state \<Rightarrow> workflow_event \<Rightarrow> workflow_state" where
  "workflow_apply_event s WorkflowStarted = s\<lparr>ws_status := WRunning\<rparr>"
| "workflow_apply_event s (AgentStarted name sid _) =
     s\<lparr>ws_current_agent := Some name, ws_current_session := Some sid, ws_status := WRunning\<rparr>"
| "workflow_apply_event s (AgentTransitioned _ to _ to_sid _) =
     s\<lparr>ws_current_agent := Some to, ws_current_session := Some to_sid, ws_status := WRunning\<rparr>"
| "workflow_apply_event s (WorkflowFinished _) = s\<lparr>ws_status := WFinished\<rparr>"
| "workflow_apply_event s WorkflowSuspended = s\<lparr>ws_status := WSuspended\<rparr>"
| "workflow_apply_event s (WorkflowFailed _ _) = s\<lparr>ws_status := WFailed\<rparr>"
| "workflow_apply_event s (WorkflowPaused _ cid) =
     s\<lparr>ws_status := WAwaitingUserInput, ws_pending_tool_call := cid\<rparr>"
| "workflow_apply_event s WorkflowResumed = s\<lparr>ws_status := WRunning, ws_pending_tool_call := None\<rparr>"

subsection \<open>The actor value\<close>

record workflow_actor =
  wa_run_id :: string
  wa_def :: workflow_definition
  wa_models :: "string list"
  wa_eval :: "string \<Rightarrow> json \<Rightarrow> (string, json) result"
  wa_show_json :: "json \<Rightarrow> string"
  wa_new_id :: "nat \<Rightarrow> string"
  wa_drawn :: nat
  wa_spawned :: nat
  wa_current_child :: "nat option"

datatype workflow_out =
    SpawnAgent nat string workflow_agent_def
  | TellAgent nat agent_command
  | Notify workflow_notification

definition workflow_pid :: "string \<Rightarrow> persistence_id" where
  "workflow_pid run_id = mk_pid ''workflow'' run_id"

definition agent_def :: "workflow_actor \<Rightarrow> string \<Rightarrow> workflow_agent_def option" where
  "agent_def a name = find (\<lambda>d. ad_name d = name) (wd_agents (wa_def a))"

definition new_session :: "workflow_actor \<Rightarrow> string \<times> workflow_actor" where
  "new_session a = (wa_new_id a (wa_drawn a), a\<lparr>wa_drawn := wa_drawn a + 1\<rparr>)"

text \<open>\<open>spawn_agent\<close>: the provider of the agent's model must be registered.\<close>

definition spawn_agent ::
  "workflow_actor \<Rightarrow> workflow_agent_def \<Rightarrow> string
     \<Rightarrow> (string, nat \<times> workflow_actor \<times> workflow_out) result" where
  "spawn_agent a d sid =
     (if ad_model d \<in> set (wa_models a)
      then Inr (wa_spawned a, a\<lparr>wa_spawned := wa_spawned a + 1\<rparr>, SpawnAgent (wa_spawned a) sid d)
      else Inl (''no provider registered for model '' @ quoted (ad_model d)))"

definition is_current :: "workflow_state \<Rightarrow> string \<Rightarrow> bool" where
  "is_current s sid \<longleftrightarrow> ws_current_session s = Some sid"

definition output_as_input :: "workflow_actor \<Rightarrow> json \<Rightarrow> string" where
  "output_as_input a out = (case json_as_str out of Some t \<Rightarrow> t | None \<Rightarrow> wa_show_json a out)"

fun find_next_transition ::
  "(string \<Rightarrow> json \<Rightarrow> (string, json) result) \<Rightarrow> workflow_transition list \<Rightarrow> json
     \<Rightarrow> (string \<times> string option) option" where
  "find_next_transition ev [] out = None"
| "find_next_transition ev (t # ts) out =
     (case tr_condition t of
        None \<Rightarrow> Some (tr_to t, None)
      | Some cond \<Rightarrow>
          (case ev cond out of
             Inr v \<Rightarrow>
               if json_as_bool v = Some True then Some (tr_to t, Some cond)
               else find_next_transition ev ts out
           | Inl _ \<Rightarrow> find_next_transition ev ts out))"

subsection \<open>Handlers\<close>

type_synonym workflow_step = "workflow_actor \<times> workflow_out list \<times> workflow_event command_effect"

definition fail_workflow :: "workflow_actor \<Rightarrow> string \<Rightarrow> workflow_step" where
  "fail_workflow a err =
     (a, [Notify (NotifyFailed err)], PersistAndStop [WorkflowFailed err False])"

definition finish_workflow :: "workflow_actor \<Rightarrow> json \<Rightarrow> workflow_step" where
  "finish_workflow a out = (a, [Notify (NotifyFinished out)], PersistAndStop [WorkflowFinished out])"

definition on_start :: "workflow_actor \<Rightarrow> string \<Rightarrow> workflow_step" where
  "on_start a input =
     (let start = wd_start (wa_def a)
      in case agent_def a start of
           None \<Rightarrow> fail_workflow a (''start agent '' @ quoted start @ '' not found'')
         | Some d \<Rightarrow>
             (case new_session a of
                (sid, a1) \<Rightarrow>
                  (case spawn_agent a1 d sid of
                     Inl err \<Rightarrow> fail_workflow a1 err
                   | Inr (child, a2, spawn) \<Rightarrow>
                       (a2\<lparr>wa_current_child := Some child\<rparr>,
                        [spawn, TellAgent child (RunAgent input)],
                        Persist [WorkflowStarted, AgentStarted start sid input]))))"

definition on_concluded :: "workflow_actor \<Rightarrow> workflow_state \<Rightarrow> string \<Rightarrow> json \<Rightarrow> workflow_step" where
  "on_concluded a s sid out =
     (if \<not> is_current s sid then (a, [], EffNone)
      else
        (case ws_current_agent s of
           None \<Rightarrow> finish_workflow a out
         | Some from_agent \<Rightarrow>
             let transitions = (case agent_def a from_agent of
                   None \<Rightarrow> []
                 | Some d \<Rightarrow> (case ad_transitions d of None \<Rightarrow> [] | Some ts \<Rightarrow> ts))
             in case find_next_transition (wa_eval a) transitions out of
                  None \<Rightarrow> finish_workflow a out
                | Some (to, cond) \<Rightarrow>
                    (case agent_def a to of
                       None \<Rightarrow> fail_workflow a (''transition target agent '' @ quoted to @ '' not found'')
                     | Some to_def \<Rightarrow>
                         (case new_session a of
                            (to_sid, a1) \<Rightarrow>
                              let input = output_as_input a out
                              in case spawn_agent a1 to_def to_sid of
                                   Inl err \<Rightarrow> fail_workflow a1 err
                                 | Inr (child, a2, spawn) \<Rightarrow>
                                     (a2\<lparr>wa_current_child := Some child\<rparr>,
                                      [spawn, TellAgent child (RunAgent input)],
                                      Persist [AgentTransitioned from_agent to sid to_sid cond,
                                               AgentStarted to to_sid input])))))"

text \<open>
  The child a resume goes to: the live handle, or a freshly spawned actor that recovers the
  session. \<open>Inl None\<close> is the early return for an unknown agent, \<open>Inl (Some err)\<close> a failed spawn.
\<close>

definition resume_child ::
  "workflow_actor \<Rightarrow> string \<Rightarrow> string
     \<Rightarrow> (string option, nat \<times> workflow_actor \<times> workflow_out list) result" where
  "resume_child a name sid =
     (case wa_current_child a of
        Some child \<Rightarrow> Inr (child, a, [])
      | None \<Rightarrow>
          (case agent_def a name of
             None \<Rightarrow> Inl None
           | Some d \<Rightarrow>
               (case spawn_agent a d sid of
                  Inl err \<Rightarrow> Inl (Some err)
                | Inr (child, a1, spawn) \<Rightarrow>
                    Inr (child, a1\<lparr>wa_current_child := Some child\<rparr>, [spawn]))))"

definition on_resume :: "workflow_actor \<Rightarrow> workflow_state \<Rightarrow> string \<Rightarrow> workflow_step" where
  "on_resume a s msg =
     (case ws_status s of
        WAwaitingUserInput \<Rightarrow>
          (case (ws_pending_tool_call s, ws_current_session s, ws_current_agent s) of
             (Some cid, Some sid, Some name) \<Rightarrow>
               (case resume_child a name sid of
                  Inl None \<Rightarrow> (a, [], EffNone)
                | Inl (Some err) \<Rightarrow> fail_workflow a err
                | Inr (child, a1, spawn) \<Rightarrow>
                    (a1, spawn @ [TellAgent child (InjectToolResult cid msg)], EffNone))
           | _ \<Rightarrow> (a, [], EffNone))
      | WSuspended \<Rightarrow>
          (case (ws_current_session s, ws_current_agent s) of
             (Some sid, Some name) \<Rightarrow>
               (case resume_child a name sid of
                  Inl None \<Rightarrow> (a, [], EffNone)
                | Inl (Some err) \<Rightarrow> (a, [], PersistAndStop [WorkflowFailed err False])
                | Inr (child, a1, spawn) \<Rightarrow>
                    (a1, spawn @ [TellAgent child (RunAgent msg)], EffNone))
           | _ \<Rightarrow> (a, [], EffNone))
      | _ \<Rightarrow> (a, [], EffNone))"

fun journal_error_display :: "journal_error \<Rightarrow> string" where
  "journal_error_display (Backend s) = ''journal backend error: '' @ s"
| "journal_error_display (Serialization s) = ''journal serialization error: '' @ s"

definition on_fork ::
  "('j, 'b) journal_ops \<Rightarrow> workflow_actor \<Rightarrow> workflow_state \<Rightarrow> string \<Rightarrow> string \<Rightarrow> 'j
     \<Rightarrow> 'j \<times> workflow_step" where
  "on_fork J a s from_sid msg j =
     (if ws_status s \<noteq> WSuspended then (j, a, [], EffNone)
      else
        (case ws_current_agent s of
           None \<Rightarrow> (j, a, [], EffNone)
         | Some name \<Rightarrow>
             (case agent_def a name of
                None \<Rightarrow> (j, a, [], EffNone)
              | Some d \<Rightarrow>
                  (case new_session a of
                     (sid, a1) \<Rightarrow>
                       (case jo_copy_snapshot J j (agent_pid from_sid) (agent_pid sid) of
                          (j1, Inl e) \<Rightarrow>
                            (j1, a1, [],
                             PersistAndStop [WorkflowFailed (''fork failed: '' @ journal_error_display e) False])
                        | (j1, Inr _) \<Rightarrow>
                            (case spawn_agent a1 d sid of
                               Inl err \<Rightarrow> (j1, a1, [], PersistAndStop [WorkflowFailed err False])
                             | Inr (child, a2, spawn) \<Rightarrow>
                                 (j1, a2\<lparr>wa_current_child := Some child\<rparr>,
                                  [spawn, TellAgent child (RunAgent msg)],
                                  Persist [AgentStarted name sid msg])))))))"

definition workflow_handle_command ::
  "('j, 'b) journal_ops \<Rightarrow> workflow_actor \<Rightarrow> workflow_state \<Rightarrow> workflow_command \<Rightarrow> 'j
     \<Rightarrow> 'j \<times> workflow_step" where
  "workflow_handle_command J a s cmd j =
     (case cmd of
        StartWorkflow input \<Rightarrow> (j, on_start a input)
      | CancelWorkflow \<Rightarrow>
          (j, a,
           (case wa_current_child a of None \<Rightarrow> [] | Some c \<Rightarrow> [TellAgent c CancelAgent]) @ [Notify NotifySuspended],
           Persist [WorkflowSuspended])
      | ResumeWorkflow msg \<Rightarrow> (j, on_resume a s msg)
      | ForkWorkflow from_sid msg \<Rightarrow> on_fork J a s from_sid msg j
      | AgentConcluded sid out \<Rightarrow> (j, on_concluded a s sid out)
      | AgentFailed sid err recoverable \<Rightarrow>
          (j,
           if \<not> is_current s sid then (a, [], EffNone)
           else if recoverable then (a, [Notify NotifySuspended], Persist [WorkflowSuspended])
           else (a, [Notify (NotifyFailed err)], PersistAndStop [WorkflowFailed err recoverable]))
      | AgentAsked sid cid question \<Rightarrow>
          (j,
           if \<not> is_current s sid then (a, [], EffNone)
           else (a, [Notify (NotifyAwaiting question)], Persist [WorkflowPaused sid cid])))"

definition workflow_on_recovery_complete ::
  "workflow_actor \<Rightarrow> workflow_state \<Rightarrow> workflow_actor \<times> workflow_out list" where
  "workflow_on_recovery_complete a s =
     (if ws_status s \<noteq> WRunning then (a, [])
      else
        (case (ws_current_agent s, ws_current_session s) of
           (Some name, Some sid) \<Rightarrow>
             (case agent_def a name of
                None \<Rightarrow> (a, [])
              | Some d \<Rightarrow>
                  (case spawn_agent a d sid of
                     Inl _ \<Rightarrow> (a, [])
                   | Inr (child, a1, spawn) \<Rightarrow> (a1\<lparr>wa_current_child := Some child\<rparr>, [spawn])))
         | _ \<Rightarrow> (a, [])))"

definition workflow_ops ::
  "('j, 'b) journal_ops
     \<Rightarrow> (workflow_actor, workflow_state, workflow_command, workflow_event, 'j, workflow_out) actor_ops" where
  "workflow_ops J =
     \<lparr>ao_persistence_id = (\<lambda>a. workflow_pid (wa_run_id a)),
      ao_initial_state = workflow_initial,
      ao_apply_event = workflow_apply_event,
      ao_handle_command = (\<lambda>a s cmd j.
        case workflow_handle_command J a s cmd j of (j', a', out, eff) \<Rightarrow> (a', j', out, eff)),
      ao_on_recovery_complete = workflow_on_recovery_complete\<rparr>"

end
