(* ===== verification/Workflow_Properties.thy ===== *)
theory Workflow_Properties
  imports Workflow_Actor
begin

text \<open>
  What the workflow actor guarantees: an invariant of its status machine over every interleaving of
  commands, failed writes and restarts; first-match routing; stale sessions ignored; terminal
  transitions announced; the journal recovering its state; and where a resume, a fork or a restart
  does not do what its comments say.
\<close>

subsection \<open>Reachable states\<close>

text \<open>
  A step handles any command, on any journal, and persists its events or fails to; a restart builds
  a fresh actor value of the same definition over the recovered state.
\<close>

inductive wf_reach ::
  "('j, 'b) journal_ops \<Rightarrow> workflow_definition \<Rightarrow> workflow_actor \<Rightarrow> workflow_state \<Rightarrow> bool"
  for J :: "('j, 'b) journal_ops" and d :: workflow_definition where
  wf_new: "wa_def a = d \<Longrightarrow> wf_reach J d a workflow_initial"
| wf_step: "wf_reach J d a s \<Longrightarrow> workflow_handle_command J a s cmd j = (j', a', out, eff) \<Longrightarrow>
      wf_reach J d a' (foldl workflow_apply_event s (effect_events eff))"
| wf_unsaved: "wf_reach J d a s \<Longrightarrow> workflow_handle_command J a s cmd j = (j', a', out, eff) \<Longrightarrow>
      wf_reach J d a' s"
| wf_restart: "wf_reach J d a s \<Longrightarrow> wa_def a1 = d \<Longrightarrow>
      workflow_on_recovery_complete a1 s = (a2, out) \<Longrightarrow> wf_reach J d a2 s"

definition workflow_ok :: "workflow_definition \<Rightarrow> workflow_state \<Rightarrow> bool" where
  "workflow_ok d s \<longleftrightarrow>
     (case ws_current_agent s of
        None \<Rightarrow> ws_current_session s = None \<and> ws_status s \<noteq> WRunning \<and> ws_status s \<noteq> WAwaitingUserInput
      | Some name \<Rightarrow>
          ws_current_session s \<noteq> None \<and> ws_status s \<noteq> WPending \<and>
          find (\<lambda>ad. ad_name ad = name) (wd_agents d) \<noteq> None)"

lemma spawn_agent_sel:
  "spawn_agent a d sid = Inr (child, a', out) \<Longrightarrow>
     wa_def a' = wa_def a \<and> wa_current_child a' = wa_current_child a \<and> child = wa_spawned a \<and>
     out = SpawnAgent child sid d \<and> ad_model d \<in> set (wa_models a)"
  by (auto simp: spawn_agent_def split: if_splits)

lemma new_session_sel: "new_session a = (sid, a') \<Longrightarrow>
     wa_def a' = wa_def a \<and> wa_models a' = wa_models a \<and> wa_current_child a' = wa_current_child a"
  by (auto simp: new_session_def)

lemma resume_child_def_kept: "resume_child a name sid = Inr (child, a', out) \<Longrightarrow> wa_def a' = wa_def a"
  by (auto simp: resume_child_def split: option.splits sum.splits dest!: spawn_agent_sel)

lemmas workflow_handlers = workflow_handle_command_def on_start_def on_concluded_def on_resume_def
  on_fork_def fail_workflow_def finish_workflow_def Let_def

lemma handle_command_def_kept:
  assumes "workflow_handle_command J a s cmd j = (j', a', out, eff)"
  shows "wa_def a' = wa_def a"
proof (cases cmd)
  case (ResumeWorkflow msg)
  with assms show ?thesis
    by (auto simp: workflow_handlers split: workflow_status.splits option.splits sum.splits
        dest!: resume_child_def_kept)
qed (use assms in \<open>auto simp: workflow_handlers split: option.splits sum.splits prod.splits if_splits
        dest!: spawn_agent_sel new_session_sel\<close>)

lemma handle_command_ok:
  assumes "workflow_handle_command J a s cmd j = (j', a', out, eff)" and "workflow_ok (wa_def a) s"
  shows "workflow_ok (wa_def a) (foldl workflow_apply_event s (effect_events eff))"
proof (cases cmd)
  case (ResumeWorkflow msg)
  with assms show ?thesis
    by (auto simp: workflow_handlers workflow_ok_def split: workflow_status.splits option.splits sum.splits)
qed (use assms in \<open>auto simp: workflow_handlers workflow_ok_def agent_def_def is_current_def
        split: option.splits sum.splits prod.splits if_splits\<close>)

lemma recovery_def_kept:
  "workflow_on_recovery_complete a s = (a', out) \<Longrightarrow> wa_def a' = wa_def a"
  by (auto simp: workflow_on_recovery_complete_def split: if_splits option.splits sum.splits
      dest!: spawn_agent_sel)

lemma wf_reach_ok: "wf_reach J d a s \<Longrightarrow> wa_def a = d \<and> workflow_ok d s"
proof (induction rule: wf_reach.induct)
  case (wf_new a)
  then show ?case by (simp add: workflow_ok_def workflow_initial_def)
next
  case (wf_step a s cmd j j' a' out eff)
  from handle_command_ok [OF wf_step.hyps(2)] handle_command_def_kept [OF wf_step.hyps(2)] wf_step.IH
  show ?case by auto
next
  case (wf_unsaved a s cmd j j' a' out eff)
  from handle_command_def_kept [OF wf_unsaved.hyps(2)] wf_unsaved.IH show ?case by auto
next
  case (wf_restart a s a1 a2 out)
  from recovery_def_kept [OF wf_restart.hyps(3)] wf_restart show ?case by auto
qed

text \<open>
  C12. Over any sequence of commands, failed writes and restarts, a workflow that is running or
  waiting for the user has a current agent, which its definition declares, and a current session; a
  pending one has neither.
\<close>

theorem workflow_invariant:
  assumes "wf_reach J d a s"
  shows "workflow_ok d s"
  using wf_reach_ok [OF assms] by simp


subsection \<open>Routing\<close>

text \<open>The specification of a transition rule: no condition, or one that evaluates to \<open>true\<close>.\<close>

definition transition_matches ::
  "(string \<Rightarrow> json \<Rightarrow> (string, json) result) \<Rightarrow> json \<Rightarrow> workflow_transition \<Rightarrow> bool" where
  "transition_matches ev out t =
     (case tr_condition t of None \<Rightarrow> True | Some cond \<Rightarrow> ev cond out = Inr (JBool True))"

lemma json_as_bool_True [simp]: "json_as_bool v = Some True \<longleftrightarrow> v = JBool True"
  by (cases v) auto

lemma find_next_transition_find:
  "find_next_transition ev ts out =
     map_option (\<lambda>t. (tr_to t, tr_condition t)) (find (transition_matches ev out) ts)"
  by (induction ts) (auto simp: transition_matches_def split: option.splits sum.splits)

text \<open>
  Routing: when the current agent concludes, the workflow goes to the target of the first of
  its transitions that matches the output, with the output as input, or finishes with the output
  when none does; the target must be declared and its model registered, else the workflow fails.
\<close>

lemma concluded_routes:
  assumes "is_current s sid" and "ws_current_agent s = Some name" and "agent_def a name = Some d"
    and "workflow_handle_command J a s (AgentConcluded sid out) j = (j', a', outs, eff)"
  shows "case find (transition_matches (wa_eval a) out) (case ad_transitions d of None \<Rightarrow> [] | Some ts \<Rightarrow> ts) of
      None \<Rightarrow> eff = PersistAndStop [WorkflowFinished out] \<and> outs = [Notify (NotifyFinished out)]
    | Some t \<Rightarrow>
        (case agent_def a (tr_to t) of
           Some d' \<Rightarrow>
             if ad_model d' \<in> set (wa_models a)
             then \<exists>sid'. sid' = wa_new_id a (wa_drawn a) \<and>
                    outs = [SpawnAgent (wa_spawned a) sid' d',
                            TellAgent (wa_spawned a) (RunAgent (output_as_input a out))] \<and>
                    wa_current_child a' = Some (wa_spawned a) \<and>
                    (let s' = foldl workflow_apply_event s (effect_events eff)
                     in ws_status s' = WRunning \<and> ws_current_agent s' = Some (tr_to t) \<and>
                        ws_current_session s' = Some sid')
             else \<exists>err. eff = PersistAndStop [WorkflowFailed err False]
         | None \<Rightarrow> \<exists>err. eff = PersistAndStop [WorkflowFailed err False])"
  using assms
  by (auto simp: workflow_handlers find_next_transition_find new_session_def spawn_agent_def
      split: option.splits if_splits)

fun report_session :: "workflow_command \<Rightarrow> string option" where
  "report_session (AgentConcluded sid _) = Some sid"
| "report_session (AgentAsked sid _ _) = Some sid"
| "report_session (AgentFailed sid _ _) = Some sid"
| "report_session _ = None"

text \<open>
  Reports of a session that is no longer current change nothing: no event, no message, no
  journal write.
\<close>

lemma stale_report_ignored:
  assumes "report_session cmd = Some sid" and "ws_current_session s \<noteq> Some sid"
  shows "workflow_handle_command J a s cmd j = (j, a, [], EffNone)"
  using assms by (cases cmd) (auto simp: workflow_handlers is_current_def)

subsection \<open>Terminal transitions\<close>

definition terminal :: "workflow_state \<Rightarrow> bool" where
  "terminal s \<longleftrightarrow> ws_status s = WFinished \<or> ws_status s = WFailed"

fun announces :: "workflow_event \<Rightarrow> workflow_out \<Rightarrow> bool" where
  "announces (WorkflowFinished v) out = (out = Notify (NotifyFinished v))"
| "announces (WorkflowFailed err _) out = (out = Notify (NotifyFailed err))"
| "announces _ out = False"

text \<open>A failure no observer is told of: a fork, or a resume of a suspended workflow, that fails.\<close>

definition silent_failure :: "workflow_state \<Rightarrow> workflow_command \<Rightarrow> bool" where
  "silent_failure s cmd =
     (ws_status s = WSuspended \<and>
      (case cmd of ForkWorkflow _ _ \<Rightarrow> True | ResumeWorkflow _ \<Rightarrow> True | _ \<Rightarrow> False))"

text \<open>
  The actor stops exactly when the workflow ends, with one terminal event; and, failed forks
  and failed resumes of a suspended workflow apart, the observer is told what ended it.
\<close>

lemma stops_iff_terminal:
  assumes "workflow_handle_command J a s cmd j = (j', a', out, eff)" and "\<not> terminal s"
  shows "(effect_stops eff \<longleftrightarrow> terminal (foldl workflow_apply_event s (effect_events eff))) \<and>
         (effect_stops eff \<and> \<not> silent_failure s cmd \<longrightarrow>
            (\<exists>ev. eff = PersistAndStop [ev] \<and> (\<exists>n\<in>set out. announces ev n)))"
proof (cases cmd)
  case (ResumeWorkflow msg)
  with assms show ?thesis
    by (auto simp: workflow_handlers terminal_def silent_failure_def
        split: workflow_status.splits option.splits sum.splits)
qed (use assms in \<open>auto simp: workflow_handlers terminal_def silent_failure_def
        split: option.splits sum.splits prod.splits if_splits\<close>)

subsection \<open>The journal recovers the workflow\<close>

lemma im_copy_other:
  assumes "im_ok m" and "im_copy_snapshot m src dst = (m', r)" and "p \<noteq> dst"
  shows "im_ok m' \<and> im_view m' p = im_view m p"
proof (cases r)
  case (Inl e)
  with assms show ?thesis by (auto simp: im_copy_snapshot_def split: option.splits)
next
  case (Inr u)
  with im_copy_view [OF assms(1), of src dst m'] assms show ?thesis by simp
qed

lemma im_copy_agents:
  assumes "im_ok m" and "im_copy_snapshot m (agent_pid src) (agent_pid dst) = (m', r)"
  shows "im_ok m' \<and> im_view m' (workflow_pid rid) = im_view m (workflow_pid rid)"
  by (rule im_copy_other [OF assms]) (simp add: workflow_pid_def agent_pid_def)

lemma workflow_handler_frame:
  assumes "im_ok j" and "workflow_handle_command in_memory_ops a s cmd j = (j', a', out, eff)"
  shows "im_ok j' \<and> im_view j' (workflow_pid rid) = im_view j (workflow_pid rid)"
proof (cases cmd)
  case (ForkWorkflow sid msg)
  with assms show ?thesis
    by (auto simp: workflow_handle_command_def on_fork_def
        split: if_splits option.splits sum.splits prod.splits dest!: im_copy_agents [rotated])
qed (use assms in \<open>auto simp: workflow_handle_command_def\<close>)

lemma workflow_contract:
  assumes "codec_ok K"
  shows "actor_contract in_memory_ops im_ok im_view (workflow_ops in_memory_ops) K (workflow_pid rid)"
proof
  show "ser_event K ev = Inr b \<Longrightarrow> de_event K b = Inr ev" for ev b
    using assms by (simp add: codec_ok_def)
  show "ser_state K s = Inr b \<Longrightarrow> de_state K b = Inr s" for s b
    using assms by (simp add: codec_ok_def)
  show "im_ok j \<Longrightarrow> ao_handle_command (workflow_ops in_memory_ops) a s c j = (a', j', out, eff) \<Longrightarrow>
      im_ok j' \<and> im_view j' (workflow_pid rid) = im_view j (workflow_pid rid)" for j a s c a' j' out eff
    by (auto simp: workflow_ops_def split: prod.splits dest: workflow_handler_frame)
qed

interpretation wf: actor_contract in_memory_ops im_ok im_view "workflow_ops in_memory_ops" direct_codec
    "workflow_pid rid" for rid
  by (rule workflow_contract) simp

text \<open>
  C10. Whatever commands a workflow handles, forks included (which write into the journals of its
  agents), recovering from the journal it leaves gives exactly its status, its current agent and
  session and the pending tool call.
\<close>

theorem workflow_recovers:
  assumes "codec_ok K" and "im_ok j"
    and "run_actor in_memory_ops (workflow_ops in_memory_ops) K a j cmds = Inr l"
  shows "recover in_memory_ops (workflow_ops in_memory_ops) K (lv_journal l) (workflow_pid (wa_run_id a)) =
           Inr (lv_state l, lv_seq l)"
proof -
  have p: "ao_persistence_id (workflow_ops in_memory_ops) a = workflow_pid (wa_run_id a)"
    by (simp add: workflow_ops_def)
  from actor_contract.run_actor_recoverable [OF workflow_contract [OF assms(1)] assms(2) p assms(3)]
  show ?thesis by simp
qed

subsection \<open>Asking and resuming\<close>

text \<open>
  A question is answered where it was asked: after the current agent asked under a tool-call
  id, a resume, in the same process or in a fresh one over the recovered state, sends the reply as
  that call's result to the live agent, or to one spawned anew on the same session, and persists
  nothing, so it can be repeated after a crash.
\<close>

lemma asked_then_resumed:
  assumes "is_current s sid" and "ws_current_agent s = Some name" and "agent_def a name = Some d"
    and "workflow_handle_command J a s (AgentAsked sid (Some cid) question) j = (j', a', outs, eff)"
    and "wa_def a2 = wa_def a" and "ad_model d \<in> set (wa_models a2)"
  shows "let s' = foldl workflow_apply_event s (effect_events eff) in
         outs = [Notify (NotifyAwaiting question)] \<and>
         (\<exists>a3. workflow_handle_command J a2 s' (ResumeWorkflow msg) j2 =
            (j2, a3,
             (case wa_current_child a2 of
                Some child \<Rightarrow> [TellAgent child (InjectToolResult cid msg)]
              | None \<Rightarrow> [SpawnAgent (wa_spawned a2) sid d,
                         TellAgent (wa_spawned a2) (InjectToolResult cid msg)]),
             EffNone))"
proof -
  have d: "agent_def a2 name = Some d" using assms(3,5) by (simp add: agent_def_def)
  show ?thesis
    using assms(1-4,6) d
    by (cases "wa_current_child a2")
      (auto simp: workflow_handle_command_def on_resume_def is_current_def resume_child_def
        spawn_agent_def fail_workflow_def)
qed


subsection \<open>Where a resume, a restart or a fork goes wrong\<close>

text \<open>
  A resume after a recoverable failure is lost: the failed agent stops, the workflow suspends
  but keeps its handle, and a resume in the same process goes to that handle, whose mailbox is
  closed, instead of spawning the session again; the workflow reports nothing and stays suspended.
\<close>

lemma resume_after_failure_lost:
  assumes "is_current s (aa_session_id ag)" and "ws_current_agent s = Some name"
    and "wa_current_child a = Some child"
    and "workflow_handle_command J a s (AgentFailed (aa_session_id ag) err True) j = (j1, a1, outs, eff)"
  shows "snd (handle_finished ag (OutFailed err True)) =
           ([TellParent (AgentFailed (aa_session_id ag) err True)], Stop) \<and>
         workflow_handle_command J a1 (foldl workflow_apply_event s (effect_events eff))
             (ResumeWorkflow msg) j2 =
           (j2, a1, [TellAgent child (RunAgent msg)], EffNone) \<and>
         tell (mb\<lparr>mb_closed := True\<rparr>) (RunAgent msg) = MailboxClosed"
  using assms
  by (auto simp: handle_finished_def Let_def workflow_handle_command_def on_resume_def is_current_def
      resume_child_def tell_def)

text \<open>
  A first turn lost in a crash is never restarted: when the process dies after the workflow
  recorded that it started an agent and before the agent recorded its input, recovery respawns the
  agent without a command, the agent finds an empty history and waits for one, and a resume of the
  running workflow is ignored.
\<close>

lemma unstarted_agent_not_redriven:
  assumes "ws_status s = WRunning" and "ws_current_agent s = Some name" and "ws_current_session s = Some sid"
    and "agent_def a name = Some d" and "ad_model d \<in> set (wa_models a)"
    and "workflow_on_recovery_complete a s = (a1, outs)"
  shows "outs = [SpawnAgent (wa_spawned a) sid d] \<and>
         agent_on_recovery_complete ag [] = (ag, []) \<and>
         workflow_handle_command J a1 s (ResumeWorkflow msg) j = (j, a1, [], EffNone)"
  using assms
  by (auto simp: workflow_on_recovery_complete_def spawn_agent_def agent_on_recovery_complete_def
      workflow_handle_command_def on_resume_def)

text \<open>
  Forking a session that never took a snapshot, as a session that failed in its first turn,
  ends the whole workflow in failure, and no observer is told.
\<close>

lemma fork_without_snapshot_fails:
  assumes "ws_status s = WSuspended" and "ws_current_agent s = Some name" and "agent_def a name = Some d"
    and "fst (im_view m (agent_pid from_sid)) = None"
    and "workflow_handle_command in_memory_ops a s (ForkWorkflow from_sid msg) m = (m', a', outs, eff)"
  shows "m' = m \<and> outs = [] \<and>
         eff = PersistAndStop [WorkflowFailed
           (''fork failed: '' @ journal_error_display (no_snapshot_error (agent_pid from_sid))) False]"
proof -
  have "im_copy_snapshot m (agent_pid from_sid) dst = (m, Inl (no_snapshot_error (agent_pid from_sid)))" for dst
    using assms(4) by (auto simp: im_copy_snapshot_def im_view_def split: option.splits)
  with assms show ?thesis
    by (auto simp: workflow_handle_command_def on_fork_def new_session_def)
qed

subsection \<open>A sample workflow\<close>

definition demo_agent_def :: "string \<Rightarrow> workflow_transition list option \<Rightarrow> workflow_agent_def" where
  "demo_agent_def name ts =
     \<lparr>ad_name = name, ad_system_prompt = None, ad_model = ''m'', ad_output_schema = None,
      ad_allow_ask_user = True, ad_transitions = ts, ad_max_iterations = None, ad_max_retries = None,
      ad_allowed_tools = None\<rparr>"

definition demo_workflow :: workflow_actor where
  "demo_workflow =
     \<lparr>wa_run_id = ''w'',
      wa_def = \<lparr>wd_start = ''a'', wd_agents =
        [demo_agent_def ''a'' (Some [\<lparr>tr_to = ''c'', tr_condition = Some ''no''\<rparr>,
                                     \<lparr>tr_to = ''b'', tr_condition = None\<rparr>]),
         demo_agent_def ''b'' None]\<rparr>,
      wa_models = [''m''], wa_eval = (\<lambda>_ _. Inl ''unsupported''), wa_show_json = (\<lambda>_. []),
      wa_new_id = (\<lambda>n. ''s'' @ replicate n (CHR ''x'')), wa_drawn = 0, wa_spawned = 0, wa_current_child = None\<rparr>"

text \<open>The same actor after \<open>StartWorkflow\<close>, and the state it has recorded then.\<close>

definition demo_started :: workflow_actor where
  "demo_started = demo_workflow\<lparr>wa_drawn := 1, wa_spawned := 1, wa_current_child := Some 0\<rparr>"

definition demo_running :: workflow_state where
  "demo_running =
     \<lparr>ws_status = WRunning, ws_current_agent = Some ''a'', ws_current_session = Some ''s'',
      ws_pending_tool_call = None\<rparr>"

lemma demo_agent_found:
  "agent_def demo_workflow ''a'' = Some (demo_agent_def ''a''
     (Some [\<lparr>tr_to = ''c'', tr_condition = Some ''no''\<rparr>, \<lparr>tr_to = ''b'', tr_condition = None\<rparr>]))"
  "agent_def demo_started ''a'' = agent_def demo_workflow ''a''"
  by (simp_all add: agent_def_def demo_workflow_def demo_started_def demo_agent_def_def)

theorem workflow_invariant_witness: "workflow_ok (wa_def demo_workflow) demo_running"
proof (rule workflow_invariant)
  let ?J = "in_memory_ops :: (nat in_memory, nat) journal_ops"
  have "wf_reach ?J (wa_def demo_workflow) demo_workflow workflow_initial"
    by (rule wf_new) simp
  moreover have h: "workflow_handle_command in_memory_ops demo_workflow workflow_initial
      (StartWorkflow ''go'') (Map.empty :: nat in_memory) =
      (Map.empty, demo_started,
       [SpawnAgent 0 ''s'' (the (agent_def demo_workflow ''a'')), TellAgent 0 (RunAgent ''go'')],
       Persist [WorkflowStarted, AgentStarted ''a'' ''s'' ''go''])"
    using demo_agent_found(1)
    by (simp add: workflow_handlers demo_workflow_def demo_started_def new_session_def spawn_agent_def
        demo_agent_def_def)
  ultimately have "wf_reach ?J (wa_def demo_workflow) demo_started
      (foldl workflow_apply_event workflow_initial
        (effect_events (Persist [WorkflowStarted, AgentStarted ''a'' ''s'' ''go''])))"
    by (rule wf_step)
  then show "wf_reach ?J (wa_def demo_workflow) demo_started demo_running"
    by (simp add: workflow_initial_def demo_running_def)
qed


theorem workflow_recovers_witness:
  "\<exists>l. run_actor in_memory_ops (workflow_ops in_memory_ops) direct_codec demo_workflow Map.empty
         [StartWorkflow ''go'', AgentAsked ''s'' (Some ''c'') ''which?''] = Inr l \<and>
       recover in_memory_ops (workflow_ops in_memory_ops) direct_codec (lv_journal l) (workflow_pid ''w'') =
         Inr (lv_state l, lv_seq l) \<and>
       lv_state l = demo_running\<lparr>ws_status := WAwaitingUserInput, ws_pending_tool_call := Some ''c''\<rparr>"
proof -
  let ?cmds = "[StartWorkflow ''go'', AgentAsked ''s'' (Some ''c'') ''which?'']"
  let ?run = "run_actor in_memory_ops (workflow_ops in_memory_ops) direct_codec demo_workflow Map.empty ?cmds"
  have "case ?run of Inl e \<Rightarrow> False | Inr l \<Rightarrow>
      lv_state l = demo_running\<lparr>ws_status := WAwaitingUserInput, ws_pending_tool_call := Some ''c''\<rparr>"
    by code_simp
  then obtain l where l: "?run = Inr l"
      "lv_state l = demo_running\<lparr>ws_status := WAwaitingUserInput, ws_pending_tool_call := Some ''c''\<rparr>"
    by (auto split: sum.splits)
  from workflow_recovers [OF direct_codec_ok _ l(1)] l show ?thesis
    by (simp add: im_ok_def demo_workflow_def)
qed


end
