(* ===== verification/Job_Actor.thy ===== *)
theory Job_Actor
  imports Workflow_Properties
begin

text \<open>
  One job as an event-sourced actor, \<open>src/supervisor/src/job_actor.rs\<close> and \<open>spec.rs\<close>, and the
  rendering of its log, \<open>history.rs\<close>. \<open>JobRuntime::launch\<close>, which assembles a sandboxed runtime
  from operating-system resources, is the parameter \<open>ja_launch\<close>: what its n-th call returns. What a
  handler does outside its state is an output. Rust's \<open>str\<close> is UTF-8, so the operations of
  \<open>history.rs\<close> on characters work on chunks of bytes here.
\<close>

subsection \<open>Specifications and commands\<close>

record job_spec =
  jp_workflow :: workflow_definition
  jp_workflow_name :: string
  jp_workdir :: string
  jp_input :: string
  jp_capabilities :: capability_spec

datatype kickoff = KickStart | KickResume string | KickRecover

text \<open>\<open>send_kickoff\<close>: the first command of a launched workflow.\<close>

fun kickoff_command :: "kickoff \<Rightarrow> string \<Rightarrow> workflow_command option" where
  "kickoff_command KickStart input = Some (StartWorkflow input)"
| "kickoff_command (KickResume msg) input = Some (ResumeWorkflow msg)"
| "kickoff_command KickRecover input = None"

datatype job_command =
    StartJob
  | ResumeJob string
  | StopJob
  | SubscribeJob
  | ShutdownJob
  | WorkflowEvent workflow_notification

datatype job_event =
    JobStarted
  | JobConcluded json
  | JobSuspended
  | JobAwaitingInput
  | JobFailed string

type_synonym job_state = "job_status option"

fun job_event_status :: "job_event \<Rightarrow> job_status" where
  "job_event_status JobStarted = JobRunning"
| "job_event_status (JobConcluded _) = JobFinished"
| "job_event_status JobSuspended = JobSuspendedStatus"
| "job_event_status JobAwaitingInput = JobAwaitingUserInput"
| "job_event_status (JobFailed _) = JobFailedStatus"

definition job_apply_event :: "job_state \<Rightarrow> job_event \<Rightarrow> job_state" where
  "job_apply_event s ev = Some (job_event_status ev)"

subsection \<open>The actor\<close>

text \<open>\<open>ja_shutdown\<close> is whether a teardown hook is held; a workflow is named by its launch.\<close>

record job_actor =
  ja_job_id :: string
  ja_spec :: job_spec
  ja_launch :: "nat \<Rightarrow> (string, unit) result"
  ja_launches :: nat
  ja_workflow :: "nat option"
  ja_shutdown :: bool

datatype job_out =
    Launch nat kickoff
  | TellWorkflow nat workflow_command
  | ReleaseRuntime
  | Report job_status
  | GiveSubscriber
  | AckShutdown

definition job_pid :: "string \<Rightarrow> persistence_id" where
  "job_pid job_id = mk_pid ''job'' job_id"

definition launch_workflow ::
  "job_actor \<Rightarrow> kickoff \<Rightarrow> (string, unit) result \<times> job_actor \<times> job_out list" where
  "launch_workflow a k =
     (let n = ja_launches a; a1 = a\<lparr>ja_launches := n + 1\<rparr>
      in case ja_launch a n of
           Inl err \<Rightarrow> (Inl err, a1, [Launch n k])
         | Inr _ \<Rightarrow> (Inr (), a1\<lparr>ja_workflow := Some n, ja_shutdown := True\<rparr>, [Launch n k]))"

definition teardown :: "job_actor \<Rightarrow> job_actor \<times> job_out list" where
  "teardown a =
     (a\<lparr>ja_shutdown := False, ja_workflow := None\<rparr>, if ja_shutdown a then [ReleaseRuntime] else [])"

type_synonym job_step = "job_actor \<times> job_out list \<times> job_event command_effect"

definition on_workflow_event :: "job_actor \<Rightarrow> workflow_notification \<Rightarrow> job_step" where
  "on_workflow_event a n =
     (case n of
        NotifyFinished out \<Rightarrow>
          (case teardown a of (a1, o1) \<Rightarrow>
             (a1, o1 @ [Report JobFinished], PersistAndStop [JobConcluded out]))
      | NotifyFailed err \<Rightarrow>
          (case teardown a of (a1, o1) \<Rightarrow>
             (a1, o1 @ [Report JobFailedStatus], PersistAndStop [JobFailed err]))
      | NotifySuspended \<Rightarrow> (a, [Report JobSuspendedStatus], Persist [JobSuspended])
      | NotifyAwaiting _ \<Rightarrow> (a, [Report JobAwaitingUserInput], Persist [JobAwaitingInput]))"

definition job_handle_command :: "job_actor \<Rightarrow> job_command \<Rightarrow> job_step" where
  "job_handle_command a cmd =
     (case cmd of
        StartJob \<Rightarrow>
          (case launch_workflow a KickStart of
             (Inr _, a1, o1) \<Rightarrow> (a1, o1, Persist [JobStarted])
           | (Inl err, a1, o1) \<Rightarrow> (a1, o1 @ [Report JobFailedStatus], PersistAndStop [JobFailed err]))
      | ResumeJob msg \<Rightarrow>
          (case ja_workflow a of
             Some w \<Rightarrow> (a, [TellWorkflow w (ResumeWorkflow msg)], EffNone)
           | None \<Rightarrow>
               (case launch_workflow a (KickResume msg) of
                  (Inr _, a1, o1) \<Rightarrow> (a1, o1, EffNone)
                | (Inl err, a1, o1) \<Rightarrow> (a1, o1 @ [Report JobFailedStatus], PersistAndStop [JobFailed err])))
      | StopJob \<Rightarrow>
          (a, (case ja_workflow a of None \<Rightarrow> [] | Some w \<Rightarrow> [TellWorkflow w CancelWorkflow]), EffNone)
      | SubscribeJob \<Rightarrow> (a, [GiveSubscriber], EffNone)
      | ShutdownJob \<Rightarrow> (case teardown a of (a1, o1) \<Rightarrow> (a1, o1 @ [AckShutdown], Stop))
      | WorkflowEvent n \<Rightarrow> on_workflow_event a n)"

definition job_on_recovery_complete :: "job_actor \<Rightarrow> job_state \<Rightarrow> job_actor \<times> job_out list" where
  "job_on_recovery_complete a s =
     (case s of
        Some JobRunning \<Rightarrow> (case launch_workflow a KickRecover of (_, a1, o1) \<Rightarrow> (a1, o1))
      | _ \<Rightarrow> (a, []))"

definition job_ops :: "(job_actor, job_state, job_command, job_event, 'j, job_out) actor_ops" where
  "job_ops =
     \<lparr>ao_persistence_id = (\<lambda>a. job_pid (ja_job_id a)),
      ao_initial_state = None,
      ao_apply_event = job_apply_event,
      ao_handle_command = (\<lambda>a s cmd j.
        case job_handle_command a cmd of (a', out, eff) \<Rightarrow> (a', j, out, eff)),
      ao_on_recovery_complete = job_on_recovery_complete\<rparr>"

subsection \<open>Log lines\<close>

definition middle_dot :: string where
  "middle_dot = [CHR 0xC2, CHR 0xB7]"

definition right_arrow :: string where
  "right_arrow = [CHR 0xE2, CHR 0x86, CHR 0x92]"

fun render_event :: "agent_event \<Rightarrow> string option" where
  "render_event (TextChunk _ _ text) = Some text"
| "render_event (ToolCallStart _ _ cid name) =
     Some ([newline] @ middle_dot @ '' tool '' @ name @ '' ['' @ cid @ '']'' @ [newline])"
| "render_event (ToolComplete _ cid _ err) =
     Some (middle_dot @ '' tool '' @ cid @ '' '' @ right_arrow @ '' '' @
           (if err then ''error'' else ''ok'') @ [newline])"
| "render_event (RunComplete _ u n) =
     Some ([newline] @ middle_dot @ '' run complete ('' @ show_nat (unat n) @ '' iterations, '' @
           show_nat (unat (input_tokens u)) @ ''/'' @ show_nat (unat (output_tokens u)) @ '' tokens)'' @
           [newline])"
| "render_event _ = None"

subsection \<open>History (\<open>history.rs\<close>)\<close>

text \<open>The characters of a UTF-8 string: a leading byte with its continuation bytes.\<close>

definition continuation :: "char \<Rightarrow> bool" where
  "continuation c \<longleftrightarrow> of_char c div (64 :: nat) = 2"

function utf8_chars :: "string \<Rightarrow> string list" where
  "utf8_chars [] = []"
| "utf8_chars (c # cs) = (c # takeWhile continuation cs) # utf8_chars (dropWhile continuation cs)"
  by pat_completeness auto

termination
  by (relation "measure length") (auto simp: less_Suc_eq_le length_dropWhile_le)

lemma utf8_chars_concat [simp]: "concat (utf8_chars s) = s"
  by (induction s rule: utf8_chars.induct) simp_all

text \<open>\<open>char::is_whitespace\<close>, as the UTF-8 chunks of the Unicode white space.\<close>

definition white_space :: "string \<Rightarrow> bool" where
  "white_space c \<longleftrightarrow>
     (case c of
        [a] \<Rightarrow> a = CHR 0x20 \<or> (9 \<le> (of_char a :: nat) \<and> (of_char a :: nat) \<le> 13)
      | [a, b] \<Rightarrow> a = CHR 0xC2 \<and> (b = CHR 0x85 \<or> b = CHR 0xA0)
      | [a, b, d] \<Rightarrow>
          a = CHR 0xE1 \<and> b = CHR 0x9A \<and> d = CHR 0x80 \<or>
          a = CHR 0xE2 \<and> b = CHR 0x80 \<and>
            (128 \<le> (of_char d :: nat) \<and> (of_char d :: nat) \<le> 138 \<or> d = CHR 0xA8 \<or> d = CHR 0xA9 \<or> d = CHR 0xAF) \<or>
          a = CHR 0xE2 \<and> b = CHR 0x81 \<and> d = CHR 0x9F \<or>
          a = CHR 0xE3 \<and> b = CHR 0x80 \<and> d = CHR 0x80
      | _ \<Rightarrow> False)"

definition trim :: "string \<Rightarrow> string" where
  "trim s = concat (rev (dropWhile white_space (rev (dropWhile white_space (utf8_chars s)))))"

definition MAX_OUTPUT_CHARS :: nat where
  "MAX_OUTPUT_CHARS = 500"

definition ellipsis :: string where
  "ellipsis = [CHR 0xE2, CHR 0x80, CHR 0xA6]"

definition truncate_text :: "string \<Rightarrow> string" where
  "truncate_text s =
     (let cs = utf8_chars s
      in if length cs \<le> MAX_OUTPUT_CHARS then s
         else concat (take MAX_OUTPUT_CHARS cs) @ ellipsis @ '' ('' @ show_nat (length cs) @ '' chars)'')"

definition compact_json :: "(json \<Rightarrow> string) \<Rightarrow> json \<Rightarrow> string" where
  "compact_json show_json v = truncate_text (show_json v)"

fun render_part :: "(json \<Rightarrow> string) \<Rightarrow> role \<Rightarrow> content_part \<Rightarrow> string" where
  "render_part show_json r (TextPart text) =
     (let t = trim text
      in if t = [] then []
         else (if r = User then [CHR 0xC2, CHR 0xBB, CHR 0x20] else []) @ t @ [newline])"
| "render_part show_json r (ToolCallPart tc) =
     middle_dot @ '' tool '' @ tc_name tc @ '' '' @ compact_json show_json (tc_input tc) @ [newline]"
| "render_part show_json r (ToolResultPart tr) =
     middle_dot @ '' result ['' @ (if tr_is_error tr then ''error'' else ''ok'') @ ''] '' @
     truncate_text (tr_output tr) @ [newline]"
| "render_part show_json r (ThinkingPart _ _) = []"

definition render_message :: "(json \<Rightarrow> string) \<Rightarrow> message \<Rightarrow> string option" where
  "render_message show_json m =
     (let out = concat (map (render_part show_json (msg_role m)) (msg_parts m))
      in if out = [] then None else Some out)"

text \<open>Folding a journal and skipping what cannot be read, where recovery would stop.\<close>

fun fold_readable ::
  "('s \<Rightarrow> 'e \<Rightarrow> 's) \<Rightarrow> ('b \<Rightarrow> (string, 'e) result) \<Rightarrow> 's \<Rightarrow> 'b journal_result list \<Rightarrow> 's" where
  "fold_readable f de s [] = s"
| "fold_readable f de s (Inl _ # rs) = fold_readable f de s rs"
| "fold_readable f de s (Inr b # rs) =
     (case de b of Inl _ \<Rightarrow> fold_readable f de s rs | Inr ev \<Rightarrow> fold_readable f de (f s ev) rs)"

definition session_state ::
  "('j, 'b) journal_ops \<Rightarrow> (agent_domain_event, agent_state, 'b) codec \<Rightarrow> 'j \<Rightarrow> string \<Rightarrow> agent_state" where
  "session_state J K j sid =
     (case (case jo_latest_snapshot J j (agent_pid sid) of
              Inr (Some (b, n)) \<Rightarrow> (case de_state K b of Inr s \<Rightarrow> (s, n) | Inl _ \<Rightarrow> ([], 0))
            | _ \<Rightarrow> ([], 0)) of
        (s, n) \<Rightarrow> fold_readable agent_apply_event (de_event K) s (jo_replay J j (agent_pid sid) n))"

definition agent_session_lines ::
  "('j, 'b) journal_ops \<Rightarrow> (agent_domain_event, agent_state, 'b) codec \<Rightarrow> (json \<Rightarrow> string) \<Rightarrow> 'j \<Rightarrow> string
     \<Rightarrow> string list" where
  "agent_session_lines J K show_json j sid =
     List.map_filter (render_message show_json) (session_state J K j sid)"

definition workflow_events ::
  "('j, 'b) journal_ops \<Rightarrow> (workflow_event, workflow_state, 'b) codec \<Rightarrow> 'j \<Rightarrow> string
     \<Rightarrow> workflow_event list" where
  "workflow_events J K j job_id =
     (let p = workflow_pid job_id;
          n = (case jo_latest_snapshot J j p of Inr (Some (_, n)) \<Rightarrow> n | _ \<Rightarrow> 0)
      in fold_readable (\<lambda>evs ev. evs @ [ev]) (de_event K) [] (jo_replay J j p n))"

definition history_lines ::
  "('j, 'b) journal_ops \<Rightarrow> (agent_domain_event, agent_state, 'b) codec \<Rightarrow> (json \<Rightarrow> string) \<Rightarrow> 'j
     \<Rightarrow> workflow_event \<Rightarrow> string list" where
  "history_lines J K show_json j ev =
     (case ev of
        WorkflowStarted \<Rightarrow> [[CHR 0xE2, CHR 0x97, CHR 0x8F] @ '' workflow started'' @ [newline]]
      | AgentStarted name sid _ \<Rightarrow>
          ([newline] @ [CHR 0xE2, CHR 0x96, CHR 0xB8] @ '' agent '' @ name @ [newline])
            # agent_session_lines J K show_json j sid
      | AgentTransitioned from_agent to _ _ cond \<Rightarrow>
          [[CHR 0xE2, CHR 0x86, CHR 0xB3] @ '' '' @ from_agent @ '' '' @ right_arrow @ '' '' @ to @
           (case cond of None \<Rightarrow> [] | Some c \<Rightarrow> '' ['' @ c @ '']'') @ [newline]]
      | WorkflowPaused _ _ \<Rightarrow> [[CHR 0xE2, CHR 0x8F, CHR 0xB8] @ '' awaiting user input'' @ [newline]]
      | WorkflowResumed \<Rightarrow> [[CHR 0xE2, CHR 0x96, CHR 0xB6] @ '' resumed'' @ [newline]]
      | WorkflowSuspended \<Rightarrow> [[CHR 0xE2, CHR 0x8F, CHR 0xB8] @ '' suspended'' @ [newline]]
      | WorkflowFinished out \<Rightarrow>
          [[newline] @ [CHR 0xE2, CHR 0x9C, CHR 0x93] @ '' finished: '' @ compact_json show_json out @ [newline]]
      | WorkflowFailed err _ \<Rightarrow>
          [[newline] @ [CHR 0xE2, CHR 0x9C, CHR 0x97] @ '' failed: '' @ err @ [newline]])"

text \<open>\<open>render_history\<close>; every frame carries the job's id.\<close>

definition render_history ::
  "('j, 'b) journal_ops \<Rightarrow> (workflow_event, workflow_state, 'b) codec
     \<Rightarrow> (agent_domain_event, agent_state, 'b) codec \<Rightarrow> (json \<Rightarrow> string) \<Rightarrow> 'j \<Rightarrow> string
     \<Rightarrow> (string \<times> string) list" where
  "render_history J WK AK show_json j job_id =
     map (\<lambda>text. (job_id, text))
       (concat (map (history_lines J AK show_json j) (workflow_events J WK j job_id)))"

end
