(* ===== verification/Supervisor.thy ===== *)
theory Supervisor
  imports Job_Actor Ordered_Map
begin

text \<open>
  The registry of jobs as an event-sourced actor, \<open>src/supervisor/src/supervisor_actor.rs\<close>, over
  the job actors of theory Job_Actor. The two \<open>BTreeMap\<close>s are ordered entry lists. A child is named
  by the number it was spawned with; replies on the commands' one-shot channels are outputs.
\<close>

subsection \<open>Commands, events, state\<close>

datatype supervisor_command =
    Submit job_spec u64
  | ListJobs
  | StopById string
  | ResumeById string string
  | RemoveById string
  | SubscribeById string
  | ShutdownAll
  | StatusChanged string job_status

datatype supervisor_event =
    JobSubmitted string job_spec u64
  | JobStatusChanged string job_status
  | JobRemoved string

record job_record =
  jr_spec :: job_spec
  jr_status :: job_status
  jr_submitted_at :: u64

type_synonym supervisor_state = "(string \<times> job_record) list"

fun is_terminal :: "job_status \<Rightarrow> bool" where
  "is_terminal JobFinished = True"
| "is_terminal JobFailedStatus = True"
| "is_terminal _ = False"

definition summary :: "string \<Rightarrow> job_record \<Rightarrow> job_summary" where
  "summary job r =
     \<lparr>js_job_id = job, js_workflow_name = jp_workflow_name (jr_spec r), js_status = jr_status r,
      js_submitted_at = jr_submitted_at r, js_workdir = jp_workdir (jr_spec r)\<rparr>"

fun status_debug :: "job_status \<Rightarrow> string" where
  "status_debug JobRunning = ''Running''"
| "status_debug JobSuspendedStatus = ''Suspended''"
| "status_debug JobAwaitingUserInput = ''AwaitingUserInput''"
| "status_debug JobFinished = ''Finished''"
| "status_debug JobFailedStatus = ''Failed''"

fun supervisor_apply_event :: "supervisor_state \<Rightarrow> supervisor_event \<Rightarrow> supervisor_state" where
  "supervisor_apply_event s (JobSubmitted job spec t) =
     bt_insert job \<lparr>jr_spec = spec, jr_status = JobRunning, jr_submitted_at = t\<rparr> s"
| "supervisor_apply_event s (JobStatusChanged job st) =
     (case bt_get s job of None \<Rightarrow> s | Some r \<Rightarrow> bt_insert job (r\<lparr>jr_status := st\<rparr>) s)"
| "supervisor_apply_event s (JobRemoved job) = bt_remove job s"

subsection \<open>The actor\<close>

record supervisor_actor =
  sa_children :: "(string \<times> nat) list"
  sa_spawned :: nat
  sa_new_id :: "nat \<Rightarrow> string"
  sa_drawn :: nat

datatype supervisor_out =
    SpawnJob nat string job_spec
  | TellJob nat job_command
  | ReplyId string
  | ReplyJobs "job_summary list"
  | ReplyRemoved "(string, unit) result"
  | ReplyNoSubscriber
  | ReplyShutdown

definition supervisor_pid :: persistence_id where
  "supervisor_pid = mk_pid ''supervisor'' ''main''"

definition spawn_job ::
  "supervisor_actor \<Rightarrow> string \<Rightarrow> job_spec \<Rightarrow> supervisor_actor \<times> supervisor_out" where
  "spawn_job a job spec =
     (a\<lparr>sa_children := bt_insert job (sa_spawned a) (sa_children a), sa_spawned := sa_spawned a + 1\<rparr>,
      SpawnJob (sa_spawned a) job spec)"

text \<open>A message to the job's child, when there is one.\<close>

definition tell_child :: "supervisor_actor \<Rightarrow> string \<Rightarrow> job_command \<Rightarrow> supervisor_out list" where
  "tell_child a job cmd =
     (case bt_get (sa_children a) job of None \<Rightarrow> [] | Some c \<Rightarrow> [TellJob c cmd])"

type_synonym supervisor_step = "supervisor_actor \<times> supervisor_out list \<times> supervisor_event command_effect"

definition remove_job :: "supervisor_actor \<Rightarrow> supervisor_state \<Rightarrow> string \<Rightarrow> supervisor_step" where
  "remove_job a s job =
     (case bt_get s job of
        None \<Rightarrow> (a, [ReplyRemoved (Inl (''no such job: '' @ job))], EffNone)
      | Some r \<Rightarrow>
          if \<not> is_terminal (jr_status r)
          then (a, [ReplyRemoved (Inl (''job '' @ job @ '' is '' @ status_debug (jr_status r) @
                                       ''; stop it before removing''))], EffNone)
          else (a\<lparr>sa_children := bt_remove job (sa_children a)\<rparr>, [ReplyRemoved (Inr ())],
                Persist [JobRemoved job]))"

definition supervisor_handle_command ::
  "supervisor_actor \<Rightarrow> supervisor_state \<Rightarrow> supervisor_command \<Rightarrow> supervisor_step" where
  "supervisor_handle_command a s cmd =
     (case cmd of
        Submit spec t \<Rightarrow>
          let job = sa_new_id a (sa_drawn a);
              (a1, spawn) = spawn_job (a\<lparr>sa_drawn := sa_drawn a + 1\<rparr>) job spec
          in (a1, spawn # tell_child a1 job StartJob @ [ReplyId job], Persist [JobSubmitted job spec t])
      | ListJobs \<Rightarrow> (a, [ReplyJobs (map (\<lambda>(job, r). summary job r) s)], EffNone)
      | StopById job \<Rightarrow> (a, tell_child a job StopJob, EffNone)
      | ResumeById job msg \<Rightarrow> (a, tell_child a job (ResumeJob msg), EffNone)
      | RemoveById job \<Rightarrow> remove_job a s job
      | ShutdownAll \<Rightarrow>
          (a\<lparr>sa_children := []\<rparr>,
           map (\<lambda>(_, c). TellJob c ShutdownJob) (sa_children a) @ [ReplyShutdown], EffNone)
      | SubscribeById job \<Rightarrow>
          (a, (case bt_get (sa_children a) job of
                 Some c \<Rightarrow> [TellJob c SubscribeJob]
               | None \<Rightarrow> [ReplyNoSubscriber]), EffNone)
      | StatusChanged job st \<Rightarrow> (a, [], Persist [JobStatusChanged job st]))"

fun spawn_jobs ::
  "supervisor_actor \<Rightarrow> (string \<times> job_spec) list \<Rightarrow> supervisor_actor \<times> supervisor_out list" where
  "spawn_jobs a [] = (a, [])"
| "spawn_jobs a ((job, spec) # js) =
     (case spawn_job a job spec of
        (a1, o1) \<Rightarrow> (case spawn_jobs a1 js of (a2, os) \<Rightarrow> (a2, o1 # os)))"

definition supervisor_on_recovery_complete ::
  "supervisor_actor \<Rightarrow> supervisor_state \<Rightarrow> supervisor_actor \<times> supervisor_out list" where
  "supervisor_on_recovery_complete a s =
     spawn_jobs a (map (\<lambda>(job, r). (job, jr_spec r)) (filter (\<lambda>(_, r). \<not> is_terminal (jr_status r)) s))"

definition supervisor_ops ::
  "(supervisor_actor, supervisor_state, supervisor_command, supervisor_event, 'j, supervisor_out) actor_ops" where
  "supervisor_ops =
     \<lparr>ao_persistence_id = (\<lambda>_. supervisor_pid),
      ao_initial_state = [],
      ao_apply_event = supervisor_apply_event,
      ao_handle_command = (\<lambda>a s cmd j.
        case supervisor_handle_command a s cmd of (a', out, eff) \<Rightarrow> (a', j, out, eff)),
      ao_on_recovery_complete = supervisor_on_recovery_complete\<rparr>"

subsection \<open>The registry and its actors\<close>

text \<open>
  Reachable states. A status report comes from a child, so its job is among the children; a restart
  begins with no child over the recovered registry. After \<open>ShutdownAll\<close> the daemon exits.
\<close>

inductive sv_reach :: "supervisor_actor \<Rightarrow> supervisor_state \<Rightarrow> bool" where
  sv_new: "sa_children a = [] \<Longrightarrow> sv_reach a []"
| sv_step: "sv_reach a s \<Longrightarrow> cmd \<noteq> ShutdownAll \<Longrightarrow>
      (\<And>job st. cmd = StatusChanged job st \<Longrightarrow> bt_get (sa_children a) job \<noteq> None) \<Longrightarrow>
      supervisor_handle_command a s cmd = (a', out, eff) \<Longrightarrow>
      sv_reach a' (foldl supervisor_apply_event s (effect_events eff))"
| sv_restart: "sv_reach a s \<Longrightarrow> sa_children a1 = [] \<Longrightarrow>
      supervisor_on_recovery_complete a1 s = (a2, out) \<Longrightarrow> sv_reach a2 s"

definition registry_ok :: "supervisor_actor \<Rightarrow> supervisor_state \<Rightarrow> bool" where
  "registry_ok a s \<longleftrightarrow>
     bt_ok s \<and> bt_ok (sa_children a) \<and>
     (\<forall>job r. bt_get s job = Some r \<longrightarrow> \<not> is_terminal (jr_status r) \<longrightarrow>
        bt_get (sa_children a) job \<noteq> None)"

lemma spawn_jobs_children:
  assumes "spawn_jobs a js = (a', outs)" and "bt_ok (sa_children a)"
  shows "bt_ok (sa_children a') \<and>
         (\<forall>job. bt_get (sa_children a') job \<noteq> None \<longleftrightarrow>
            bt_get (sa_children a) job \<noteq> None \<or> job \<in> fst ` set js) \<and>
         map (\<lambda>out. case out of SpawnJob _ job spec \<Rightarrow> Some (job, spec) | _ \<Rightarrow> None) outs = map Some js"
  using assms
proof (induction a js arbitrary: a' outs rule: spawn_jobs.induct)
  case (2 a job spec js)
  obtain a1 o1 where s: "spawn_job a job spec = (a1, o1)" by fastforce
  obtain os where r: "spawn_jobs a1 js = (a', os)" "outs = o1 # os"
    using 2(2) s by (auto split: prod.splits)
  have ok1: "bt_ok (sa_children a1)" using s 2(3) by (auto simp: spawn_job_def)
  from 2(1) [OF s [symmetric] r(1) ok1] r(2) s 2(3) show ?case
    by (auto simp: spawn_job_def bt_get_insert)
qed simp

lemma sv_reach_ok: "sv_reach a s \<Longrightarrow> registry_ok a s"
proof (induction rule: sv_reach.induct)
  case (sv_new a)
  then show ?case by (simp add: registry_ok_def)
next
  case (sv_step a s cmd a' out eff)
  then show ?case
    by (cases cmd)
      (auto simp: registry_ok_def supervisor_handle_command_def remove_job_def spawn_job_def Let_def
        bt_get_insert split: option.splits if_splits)
next
  case (sv_restart a s a1 a2 out)
  from spawn_jobs_children [OF sv_restart.hyps(3) [unfolded supervisor_on_recovery_complete_def]]
    sv_restart.hyps(2) sv_restart.IH
  show ?case by (auto simp: registry_ok_def bt_get_key image_iff split_def)
qed

text \<open>
  C25. Over any sequence of commands and restarts, every job the registry shows as active has a job
  actor, so that stop and resume requests for it are delivered.
\<close>

theorem active_jobs_have_actors:
  assumes "sv_reach a s" and "bt_get s job = Some r" and "\<not> is_terminal (jr_status r)"
  shows "\<exists>c. bt_get (sa_children a) job = Some c \<and>
           supervisor_handle_command a s (StopById job) = (a, [TellJob c StopJob], EffNone) \<and>
           supervisor_handle_command a s (ResumeById job msg) = (a, [TellJob c (ResumeJob msg)], EffNone)"
proof -
  obtain c where "bt_get (sa_children a) job = Some c"
    using sv_reach_ok [OF assms(1)] assms(2,3) by (auto simp: registry_ok_def)
  then show ?thesis by (simp add: supervisor_handle_command_def tell_child_def)
qed


text \<open>
  Removing a job succeeds exactly when it is known and finished or failed; then it is gone from
  the registry and from the list, and nothing else changed. Otherwise nothing is persisted.
\<close>

lemma remove_terminal_only:
  assumes "bt_ok s" and "supervisor_handle_command a s (RemoveById job) = (a', outs, eff)"
  shows "case bt_get s job of
      Some r \<Rightarrow>
        if is_terminal (jr_status r)
        then outs = [ReplyRemoved (Inr ())] \<and>
             (let s' = foldl supervisor_apply_event s (effect_events eff)
              in bt_get s' job = None \<and> (\<forall>q. q \<noteq> job \<longrightarrow> bt_get s' q = bt_get s q) \<and>
                 supervisor_handle_command a' s' ListJobs =
                   (a', [ReplyJobs (map (\<lambda>(q, r). summary q r) (filter (\<lambda>(q, _). q \<noteq> job) s))], EffNone))
        else (\<exists>e. outs = [ReplyRemoved (Inl e)]) \<and> eff = EffNone
    | None \<Rightarrow> (\<exists>e. outs = [ReplyRemoved (Inl e)]) \<and> eff = EffNone"
  using assms(2)
  by (auto simp: supervisor_handle_command_def remove_job_def bt_remove_def [symmetric] Let_def
      split: option.splits if_splits)

subsection \<open>The journals recover the registry and the jobs\<close>

lemma pure_handler_contract:
  fixes A :: "('a, 's, 'c, 'e, 'b in_memory, 'o) actor_ops"
  assumes "codec_ok K"
    and "\<And>a s c j. fst (snd (ao_handle_command A a s c j)) = j"
  shows "actor_contract in_memory_ops im_ok im_view A K p"
proof
  show "ser_event K ev = Inr b \<Longrightarrow> de_event K b = Inr ev" for ev b
    using assms(1) by (simp add: codec_ok_def)
  show "ser_state K s = Inr b \<Longrightarrow> de_state K b = Inr s" for s b
    using assms(1) by (simp add: codec_ok_def)
  show "im_ok j \<Longrightarrow> ao_handle_command A a s c j = (a', j', out, eff) \<Longrightarrow>
      im_ok j' \<and> im_view j' p = im_view j p" for j a s c a' j' out eff
    using assms(2) [of a s c j] by simp
qed

lemma job_ops_pure: "fst (snd (ao_handle_command job_ops a s c j)) = j"
  by (simp add: job_ops_def split: prod.splits)

lemma supervisor_ops_pure: "fst (snd (ao_handle_command supervisor_ops a s c j)) = j"
  by (simp add: supervisor_ops_def split: prod.splits)

interpretation jb: actor_contract in_memory_ops im_ok im_view job_ops direct_codec p for p
  by (rule pure_handler_contract) (simp_all add: job_ops_pure)

interpretation sv: actor_contract in_memory_ops im_ok im_view supervisor_ops direct_codec p for p
  by (rule pure_handler_contract) (simp_all add: supervisor_ops_pure)

text \<open>
  C26. Whatever commands the supervisor handles, recovering from the journal it leaves gives
  exactly the registry it had in memory, and restarting on it spawns one actor, with its
  specification, for each job that is neither finished nor failed, in key order.
\<close>

theorem supervisor_recovers:
  assumes "codec_ok K" and "im_ok j" and "run_actor in_memory_ops supervisor_ops K a j cmds = Inr l"
  shows "recover in_memory_ops supervisor_ops K (lv_journal l) supervisor_pid = Inr (lv_state l, lv_seq l) \<and>
         map (\<lambda>out. case out of SpawnJob _ job spec \<Rightarrow> Some (job, spec) | _ \<Rightarrow> None)
             (snd (supervisor_on_recovery_complete (a1\<lparr>sa_children := []\<rparr>) (lv_state l))) =
           map (\<lambda>(job, r). Some (job, jr_spec r))
             (filter (\<lambda>(_, r). \<not> is_terminal (jr_status r)) (lv_state l))"
proof -
  have p: "ao_persistence_id supervisor_ops a = supervisor_pid" by (simp add: supervisor_ops_def)
  have c: "actor_contract in_memory_ops im_ok im_view supervisor_ops K supervisor_pid"
    by (rule pure_handler_contract [OF assms(1)]) (rule supervisor_ops_pure)
  obtain a2 outs where r: "supervisor_on_recovery_complete (a1\<lparr>sa_children := []\<rparr>) (lv_state l) = (a2, outs)"
    by fastforce
  from actor_contract.run_actor_recoverable [OF c assms(2) p assms(3)]
    spawn_jobs_children [OF r [unfolded supervisor_on_recovery_complete_def]] r
  show ?thesis by (simp add: comp_def split_def)
qed

subsection \<open>A job's reports and resources\<close>

definition holds_resources :: "job_actor \<Rightarrow> bool" where
  "holds_resources a \<longleftrightarrow> ja_workflow a \<noteq> None \<or> ja_shutdown a"

text \<open>
  A job lost between its submission and its start: when the process dies after the supervisor
  recorded the submission and before the job recorded its start, recovery spawns the job's actor,
  which does nothing; the registry shows it running; it cannot be removed, stopping it reaches no
  workflow, and resuming it launches a workflow that ignores the resume.
\<close>

lemma unstarted_job_stuck:
  assumes "bt_ok s" and "bt_get s job = Some r" and "jr_status r = JobRunning"
    and "ja_workflow ja = None" and "ja_launch ja (ja_launches ja) = Inr ()"
  shows "job_on_recovery_complete ja None = (ja, []) \<and>
         snd (snd (supervisor_handle_command a s (RemoveById job))) = EffNone \<and>
         job_handle_command ja StopJob = (ja, [], EffNone) \<and>
         (\<exists>ja'. job_handle_command ja (ResumeJob msg) = (ja', [Launch (ja_launches ja) (KickResume msg)], EffNone)) \<and>
         kickoff_command (KickResume msg) input = Some (ResumeWorkflow msg) \<and>
         workflow_handle_command J wa workflow_initial (ResumeWorkflow msg) jn = (jn, wa, [], EffNone)"
  using assms
  by (simp add: job_on_recovery_complete_def supervisor_handle_command_def remove_job_def
      job_handle_command_def launch_workflow_def workflow_handle_command_def on_resume_def
      workflow_initial_def Let_def)

subsection \<open>Logs\<close>

lemma fold_readable_replay:
  "replay_fold f de s n rs = Inr (s', n') \<Longrightarrow> fold_readable f de s rs = s'"
  by (induction f de s n rs rule: replay_fold.induct) (auto split: sum.splits)

text \<open>
  The log of a job shows each session as it is: whenever a session's journal can be recovered,
  on any journal and with any serializer, the lines of the session are those of the recovered
  conversation, message by message.
\<close>

lemma history_shows_session:
  assumes "recover J agent_ops K j (agent_pid sid) = Inr (ms, n)"
  shows "agent_session_lines J K show_json j sid = List.map_filter (render_message show_json) ms"
proof -
  have "session_state J K j sid = ms"
    using assms
    by (auto simp: recover_def session_state_def agent_ops_def split: sum.splits option.splits
        dest!: fold_readable_replay)
  then show ?thesis by (simp add: agent_session_lines_def)
qed


subsection \<open>A sample registry\<close>

definition demo_spec :: job_spec where
  "demo_spec =
     \<lparr>jp_workflow = wa_def demo_workflow, jp_workflow_name = ''demo'', jp_workdir = ''/tmp'', jp_input = ''go'',
      jp_capabilities = \<lparr>cs_network = Block, cs_grants = []\<rparr>\<rparr>"

definition demo_supervisor :: supervisor_actor where
  "demo_supervisor = \<lparr>sa_children = [], sa_spawned = 0, sa_new_id = (\<lambda>n. replicate n (CHR ''j'')), sa_drawn = 1\<rparr>"

definition demo_record :: "job_status \<Rightarrow> job_record" where
  "demo_record st = \<lparr>jr_spec = demo_spec, jr_status = st, jr_submitted_at = 7\<rparr>"

lemma demo_submit:
  "supervisor_handle_command demo_supervisor [] (Submit demo_spec 7) =
     (demo_supervisor\<lparr>sa_children := [(''j'', 0)], sa_spawned := 1, sa_drawn := 2\<rparr>,
      [SpawnJob 0 ''j'' demo_spec, TellJob 0 StartJob, ReplyId ''j''],
      Persist [JobSubmitted ''j'' demo_spec 7])"
  by (simp add: supervisor_handle_command_def demo_supervisor_def spawn_job_def tell_child_def Let_def
      numeral_2_eq_2)

theorem active_jobs_have_actors_witness:
  "\<exists>c. supervisor_handle_command (demo_supervisor\<lparr>sa_children := [(''j'', 0)], sa_spawned := 1, sa_drawn := 2\<rparr>)
     [(''j'', demo_record JobRunning)] (StopById ''j'') =
     (demo_supervisor\<lparr>sa_children := [(''j'', 0)], sa_spawned := 1, sa_drawn := 2\<rparr>, [TellJob c StopJob], EffNone)"
proof -
  have "sv_reach demo_supervisor []" by (rule sv_new) (simp add: demo_supervisor_def)
  from sv_step [OF this _ _ demo_submit]
  have "sv_reach (demo_supervisor\<lparr>sa_children := [(''j'', 0)], sa_spawned := 1, sa_drawn := 2\<rparr>)
      [(''j'', demo_record JobRunning)]"
    by (simp add: demo_record_def)
  from active_jobs_have_actors [OF this, of "''j''" "demo_record JobRunning"] show ?thesis
    by (auto simp: demo_record_def)
qed

theorem supervisor_recovers_witness:
  "\<exists>l. run_actor in_memory_ops supervisor_ops direct_codec demo_supervisor Map.empty
         [Submit demo_spec 7, Submit demo_spec 8, StatusChanged ''j'' JobFinished] = Inr l \<and>
       snd (supervisor_on_recovery_complete demo_supervisor (lv_state l)) = [SpawnJob 0 ''jj'' demo_spec]"
proof -
  let ?cmds = "[Submit demo_spec 7, Submit demo_spec 8, StatusChanged ''j'' JobFinished]"
  let ?run = "run_actor in_memory_ops supervisor_ops direct_codec demo_supervisor Map.empty ?cmds"
  have "case ?run of Inl e \<Rightarrow> False | Inr l \<Rightarrow>
      lv_state l = [(''j'', demo_record JobFinished), (''jj'', (demo_record JobRunning)\<lparr>jr_submitted_at := 8\<rparr>)]"
    by code_simp
  then obtain l where l: "?run = Inr l"
      "lv_state l = [(''j'', demo_record JobFinished), (''jj'', (demo_record JobRunning)\<lparr>jr_submitted_at := 8\<rparr>)]"
    by (auto split: sum.splits)
  have "im_ok (Map.empty :: (supervisor_event + supervisor_state) in_memory)" by (simp add: im_ok_def)
  from supervisor_recovers [OF direct_codec_ok this l(1), of demo_supervisor] l show ?thesis
    by (auto simp: demo_record_def demo_supervisor_def supervisor_on_recovery_complete_def spawn_job_def)
qed

definition demo_job :: "(string, unit) result \<Rightarrow> job_actor" where
  "demo_job r =
     \<lparr>ja_job_id = ''j'', ja_spec = demo_spec, ja_launch = (\<lambda>_. r), ja_launches = 0, ja_workflow = None,
      ja_shutdown = False\<rparr>"

end
