(* ===== verification/Job_Status.thy ===== *)
theory Job_Status
  imports Supervisor
begin

text \<open>
  A job as three actors at work: its workflow, its job actor and the supervisor, with what is on its way
  between them: the workflow's notifications, which the forwarder of \<open>launch_workflow\<close> hands to the job,
  and the job's reports to the supervisor (\<open>job_actor.rs\<close>, \<open>supervisor_actor.rs\<close>, \<open>workflow_actor.rs\<close>).
  Each actor acts when it is scheduled, in any order, on its own messages in order. The theorem says what
  the registry's status is worth once everything sent has arrived.
\<close>

subsection \<open>The system\<close>

record job_system =
  jy_wa :: workflow_actor
  jy_ws :: workflow_state
  jy_wlive :: bool
  jy_notes :: "workflow_notification list"
  jy_ja :: job_actor
  jy_js :: job_state
  jy_jlive :: bool
  jy_reports :: "job_status list"
  jy_sa :: supervisor_actor
  jy_registry :: supervisor_state

definition notes_of :: "workflow_out list \<Rightarrow> workflow_notification list" where
  "notes_of = List.map_filter (\<lambda>out. case out of Notify n \<Rightarrow> Some n | _ \<Rightarrow> None)"

definition reports_of :: "job_out list \<Rightarrow> job_status list" where
  "reports_of = List.map_filter (\<lambda>out. case out of Report st \<Rightarrow> Some st | _ \<Rightarrow> None)"

lemma outputs_simps [simp]:
  "notes_of [] = []" "notes_of (Notify n # outs) = n # notes_of outs"
  "notes_of (SpawnAgent c sid d # outs) = notes_of outs" "notes_of (TellAgent c ac # outs) = notes_of outs"
  "reports_of [] = []" "reports_of (Report st # jouts) = st # reports_of jouts"
  "reports_of (Launch k kick # jouts) = reports_of jouts" "reports_of (TellWorkflow k wc # jouts) = reports_of jouts"
  "reports_of (ReleaseRuntime # jouts) = reports_of jouts" "reports_of (GiveSubscriber # jouts) = reports_of jouts"
  "reports_of (AckShutdown # jouts) = reports_of jouts"
  "notes_of (outs @ outs2) = notes_of outs @ notes_of outs2"
  by (simp_all add: notes_of_def reports_of_def List.map_filter_def)

definition own_command :: "string \<Rightarrow> supervisor_actor \<Rightarrow> supervisor_command \<Rightarrow> bool" where
  "own_command job a cmd \<longleftrightarrow>
     (case cmd of
        ShutdownAll \<Rightarrow> False
      | StatusChanged job' _ \<Rightarrow> job' \<noteq> job
      | Submit _ _ \<Rightarrow> sa_new_id a (sa_drawn a) \<noteq> job
      | _ \<Rightarrow> True)"

text \<open>
  The steps. A workflow takes any command, of its user or its agents; a job takes the next notification,
  or a request of the supervisor; the supervisor takes the job's next report, or any other command but
  \<open>ShutdownAll\<close>, after which the daemon ends.
\<close>

inductive job_step :: "('j, 'b) journal_ops \<Rightarrow> string \<Rightarrow> job_system \<Rightarrow> job_system \<Rightarrow> bool"
  for J :: "('j, 'b) journal_ops" and job :: string where
  workflow_acts:
    "jy_wlive y \<Longrightarrow> workflow_handle_command J (jy_wa y) (jy_ws y) cmd j = (j', wa', outs, eff) \<Longrightarrow>
     job_step J job y
       (y\<lparr>jy_wa := wa', jy_ws := foldl workflow_apply_event (jy_ws y) (effect_events eff),
          jy_wlive := \<not> effect_stops eff, jy_notes := jy_notes y @ notes_of outs\<rparr>)"
| job_notified:
    "jy_jlive y \<Longrightarrow> jy_notes y = n # ns \<Longrightarrow>
     job_handle_command (jy_ja y) (WorkflowEvent n) = (ja', jouts, jeff) \<Longrightarrow>
     job_step J job y
       (y\<lparr>jy_notes := ns, jy_ja := ja', jy_js := foldl job_apply_event (jy_js y) (effect_events jeff),
          jy_jlive := \<not> effect_stops jeff, jy_reports := jy_reports y @ reports_of jouts\<rparr>)"
| job_requested:
    "jy_jlive y \<Longrightarrow> cmd \<in> {StopJob, SubscribeJob} \<union> range ResumeJob \<Longrightarrow>
     job_handle_command (jy_ja y) cmd = (ja', jouts, jeff) \<Longrightarrow>
     job_step J job y
       (y\<lparr>jy_ja := ja', jy_js := foldl job_apply_event (jy_js y) (effect_events jeff),
          jy_jlive := \<not> effect_stops jeff, jy_reports := jy_reports y @ reports_of jouts\<rparr>)"
| supervisor_told:
    "jy_reports y = st # sts \<Longrightarrow>
     supervisor_handle_command (jy_sa y) (jy_registry y) (StatusChanged job st) = (sa', souts, seff) \<Longrightarrow>
     job_step J job y
       (y\<lparr>jy_reports := sts, jy_sa := sa',
          jy_registry := foldl supervisor_apply_event (jy_registry y) (effect_events seff)\<rparr>)"
| supervisor_asked:
    "own_command job (jy_sa y) scmd \<Longrightarrow>
     supervisor_handle_command (jy_sa y) (jy_registry y) scmd = (sa', souts, seff) \<Longrightarrow>
     job_step J job y
       (y\<lparr>jy_sa := sa', jy_registry := foldl supervisor_apply_event (jy_registry y) (effect_events seff)\<rparr>)"

text \<open>It begins with the submission of the job, when its actor has launched the workflow.\<close>

inductive job_reach :: "('j, 'b) journal_ops \<Rightarrow> string \<Rightarrow> job_system \<Rightarrow> bool"
  for J :: "('j, 'b) journal_ops" and job :: string where
  submitted:
    "bt_ok registry \<Longrightarrow> sa_new_id sa (sa_drawn sa) = job \<Longrightarrow>
     supervisor_handle_command sa registry (Submit spec t) = (sa', souts, seff) \<Longrightarrow>
     job_handle_command ja StartJob = (ja', jouts, Persist evs) \<Longrightarrow>
     job_reach J job
       \<lparr>jy_wa = wa, jy_ws = workflow_initial, jy_wlive = True, jy_notes = [],
        jy_ja = ja', jy_js = foldl job_apply_event None evs, jy_jlive = True, jy_reports = reports_of jouts,
        jy_sa = sa', jy_registry = foldl supervisor_apply_event registry (effect_events seff)\<rparr>"
| stepped: "job_reach J job y \<Longrightarrow> job_step J job y y' \<Longrightarrow> job_reach J job y'"

subsection \<open>What a status is worth\<close>

text \<open>
  The statuses of a job that go with a workflow's. A workflow that runs again after a pause has told
  nobody, nor has one whose fork or resume failed.
\<close>

fun tracks :: "workflow_status \<Rightarrow> job_status \<Rightarrow> bool" where
  "tracks WPending st = (st = JobRunning)"
| "tracks WRunning st = (\<not> is_terminal st)"
| "tracks WSuspended st = (st = JobSuspendedStatus)"
| "tracks WAwaitingUserInput st = (st = JobAwaitingUserInput)"
| "tracks WFinished st = (st = JobFinished)"
| "tracks WFailed st = (st = JobFailedStatus \<or> st = JobSuspendedStatus)"

fun note_status :: "workflow_notification \<Rightarrow> job_status" where
  "note_status (NotifyFinished _) = JobFinished"
| "note_status (NotifyFailed _) = JobFailedStatus"
| "note_status NotifySuspended = JobSuspendedStatus"
| "note_status (NotifyAwaiting _) = JobAwaitingUserInput"

text \<open>The statuses when all that is on its way has arrived.\<close>

definition settled_job :: "job_system \<Rightarrow> job_status" where
  "settled_job y = last (the (jy_js y) # map note_status (jy_notes y))"

definition settled_registry :: "job_system \<Rightarrow> job_record \<Rightarrow> job_status" where
  "settled_registry y r = last (jr_status r # jy_reports y)"

definition job_consistent :: "string \<Rightarrow> job_system \<Rightarrow> bool" where
  "job_consistent job y \<longleftrightarrow>
     tracks (ws_status (jy_ws y)) (settled_job y) \<and>
     (\<forall>r. bt_get (jy_registry y) job = Some r \<longrightarrow> jy_js y = Some (settled_registry y r)) \<and>
     jy_js y \<noteq> None \<and> bt_ok (jy_registry y) \<and>
     (jy_wlive y \<longrightarrow> \<not> terminal (jy_ws y) \<and> \<not> is_terminal (settled_job y) \<and> jy_jlive y) \<and>
     (jy_jlive y \<longleftrightarrow> \<not> is_terminal (the (jy_js y))) \<and>
     (\<not> jy_jlive y \<longrightarrow> jy_notes y = []) \<and>
     list_all (\<lambda>n. \<not> is_terminal (note_status n)) (butlast (jy_notes y)) \<and>
     (if jy_jlive y then ja_workflow (jy_ja y) \<noteq> None else \<not> holds_resources (jy_ja y))"

lemma workflow_notifies:
  assumes "workflow_handle_command J a s cmd j = (j', a', outs, eff)" and "\<not> terminal s"
    and "tracks (ws_status s) st" and "\<not> is_terminal st"
  defines "s' \<equiv> foldl workflow_apply_event s (effect_events eff)"
    and "st' \<equiv> last (st # map note_status (notes_of outs))"
  shows "tracks (ws_status s') st' \<and> (effect_stops eff \<longleftrightarrow> terminal s') \<and>
    (\<not> effect_stops eff \<longrightarrow> \<not> is_terminal st') \<and>
    list_all (\<lambda>n. \<not> is_terminal (note_status n)) (butlast (notes_of outs))"
  unfolding s'_def st'_def
proof (cases cmd)
  case (ResumeWorkflow msg)
  with assms(1-4) show "tracks (ws_status (foldl workflow_apply_event s (effect_events eff)))
      (last (st # map note_status (notes_of outs))) \<and>
    (effect_stops eff \<longleftrightarrow> terminal (foldl workflow_apply_event s (effect_events eff))) \<and>
    (\<not> effect_stops eff \<longrightarrow> \<not> is_terminal (last (st # map note_status (notes_of outs)))) \<and>
    list_all (\<lambda>n. \<not> is_terminal (note_status n)) (butlast (notes_of outs))"
    by (auto simp: workflow_handlers resume_child_def spawn_agent_def terminal_def
        split: workflow_status.splits option.splits sum.splits if_splits)
qed (use assms(1-4) in \<open>auto simp: workflow_handlers spawn_agent_def new_session_def terminal_def
        split: option.splits sum.splits prod.splits if_splits\<close>)

lemma last_append_if: "last (x # xs @ ys) = last (last (x # xs) # ys)"
  by (cases ys) auto

lemma workflow_acts_consistent:
  assumes "job_consistent job y" and "jy_wlive y"
    and "workflow_handle_command J (jy_wa y) (jy_ws y) cmd j = (j', wa', outs, eff)"
  shows "job_consistent job
    (y\<lparr>jy_wa := wa', jy_ws := foldl workflow_apply_event (jy_ws y) (effect_events eff),
       jy_wlive := \<not> effect_stops eff, jy_notes := jy_notes y @ notes_of outs\<rparr>)"
proof -
  note c = assms(1) [unfolded job_consistent_def]
  have "list_all (\<lambda>n. \<not> is_terminal (note_status n)) (jy_notes y)"
    using c assms(2) by (cases "jy_notes y" rule: rev_cases) (auto simp: settled_job_def)
  with workflow_notifies [OF assms(3), of "settled_job y"] c assms(2) show ?thesis
    by (auto simp: job_consistent_def settled_job_def settled_registry_def last_append_if butlast_append simp del: last.simps)
qed

lemma job_notified_consistent:
  assumes "job_consistent job y" and "jy_jlive y" and "jy_notes y = n # ns"
    and "job_handle_command (jy_ja y) (WorkflowEvent n) = (ja', jouts, jeff)"
  shows "job_consistent job
    (y\<lparr>jy_notes := ns, jy_ja := ja', jy_js := foldl job_apply_event (jy_js y) (effect_events jeff),
       jy_jlive := \<not> effect_stops jeff, jy_reports := jy_reports y @ reports_of jouts\<rparr>)"
proof -
  note c = assms(1) [unfolded job_consistent_def]
  have e: "foldl job_apply_event (jy_js y) (effect_events jeff) = Some (note_status n)"
      "reports_of jouts = [note_status n]" "effect_stops jeff \<longleftrightarrow> is_terminal (note_status n)"
      "if effect_stops jeff then \<not> holds_resources ja' else ja_workflow ja' = ja_workflow (jy_ja y)"
    using assms(4)
    by (cases n; auto simp: job_handle_command_def on_workflow_event_def teardown_def holds_resources_def
        job_apply_event_def split: if_splits)+
  show ?thesis
    using c assms(2,3) e
    by (cases ns) (auto simp: job_consistent_def settled_job_def settled_registry_def split: if_splits)
qed

lemma job_requested_consistent:
  assumes "job_consistent job y" and "jy_jlive y" and "cmd \<in> {StopJob, SubscribeJob} \<union> range ResumeJob"
    and "job_handle_command (jy_ja y) cmd = (ja', jouts, jeff)"
  shows "job_consistent job
    (y\<lparr>jy_ja := ja', jy_js := foldl job_apply_event (jy_js y) (effect_events jeff),
       jy_jlive := \<not> effect_stops jeff, jy_reports := jy_reports y @ reports_of jouts\<rparr>)"
proof -
  note c = assms(1) [unfolded job_consistent_def]
  from c assms(2) have "ja_workflow (jy_ja y) \<noteq> None" by simp
  with assms(3,4) have "ja' = jy_ja y" "jeff = EffNone" "reports_of jouts = []"
    by (auto simp: job_handle_command_def)
  with c assms(2) show ?thesis by (simp add: job_consistent_def settled_job_def settled_registry_def)
qed

lemma supervisor_told_consistent:
  assumes "job_consistent job y" and "jy_reports y = st # sts"
    and "supervisor_handle_command (jy_sa y) (jy_registry y) (StatusChanged job st) = (sa', souts, seff)"
  shows "job_consistent job
    (y\<lparr>jy_reports := sts, jy_sa := sa',
       jy_registry := foldl supervisor_apply_event (jy_registry y) (effect_events seff)\<rparr>)"
  using assms
  by (auto simp: job_consistent_def settled_job_def settled_registry_def supervisor_handle_command_def
      bt_get_insert split: option.splits)

lemma supervisor_asked_consistent:
  assumes "job_consistent job y" and "own_command job (jy_sa y) scmd"
    and "supervisor_handle_command (jy_sa y) (jy_registry y) scmd = (sa', souts, seff)"
  shows "job_consistent job
    (y\<lparr>jy_sa := sa', jy_registry := foldl supervisor_apply_event (jy_registry y) (effect_events seff)\<rparr>)"
proof -
  let ?reg = "foldl supervisor_apply_event (jy_registry y) (effect_events seff)"
  note c = assms(1) [unfolded job_consistent_def]
  from c have ok: "bt_ok (jy_registry y)" by blast
  have "bt_ok ?reg \<and> (bt_get ?reg job = bt_get (jy_registry y) job \<or> bt_get ?reg job = None)"
    using assms(2,3) ok
    by (cases scmd) (auto simp: supervisor_handle_command_def own_command_def remove_job_def spawn_job_def Let_def
        bt_get_insert split: option.splits if_splits)
  with c show ?thesis by (auto simp: job_consistent_def settled_job_def settled_registry_def)
qed

lemma submitted_consistent:
  assumes "bt_ok registry" and "sa_new_id sa (sa_drawn sa) = job"
    and "supervisor_handle_command sa registry (Submit spec t) = (sa', souts, seff)"
    and "job_handle_command ja StartJob = (ja', jouts, Persist evs)"
  shows "job_consistent job
    \<lparr>jy_wa = wa, jy_ws = workflow_initial, jy_wlive = True, jy_notes = [],
     jy_ja = ja', jy_js = foldl job_apply_event None evs, jy_jlive = True, jy_reports = reports_of jouts,
     jy_sa = sa', jy_registry = foldl supervisor_apply_event registry (effect_events seff)\<rparr>"
proof -
  have "evs = [JobStarted]" "reports_of jouts = []" "ja_workflow ja' \<noteq> None"
    using assms(4) by (auto simp: job_handle_command_def launch_workflow_def Let_def split: sum.splits)
  moreover have "seff = Persist [JobSubmitted job spec t]"
    using assms(2,3) by (auto simp: supervisor_handle_command_def Let_def split: prod.splits)
  ultimately show ?thesis
    using assms(1)
    by (auto simp: job_consistent_def settled_job_def settled_registry_def workflow_initial_def terminal_def
        job_apply_event_def)
qed

lemma job_reach_consistent: "job_reach J job y \<Longrightarrow> job_consistent job y"
proof (induction rule: job_reach.induct)
  case (stepped y y')
  from stepped.hyps(2) stepped.IH show ?case
    by (cases rule: job_step.cases)
      (auto intro: workflow_acts_consistent job_notified_consistent job_requested_consistent
        supervisor_told_consistent supervisor_asked_consistent)
qed (rule submitted_consistent)

text \<open>
  C13. A job's status is its workflow's. However the workflow, its job and the supervisor take turns,
  when every notification and report has arrived, the status the registry lists is the one that goes with
  the workflow's; and a job listed as finished or failed has stopped and released its runtime.
\<close>

theorem status_follows_workflow:
  assumes "job_reach J job y" and "jy_notes y = []" and "jy_reports y = []"
    and "bt_get (jy_registry y) job = Some r"
  shows "tracks (ws_status (jy_ws y)) (jr_status r) \<and> jy_js y = Some (jr_status r) \<and>
    (is_terminal (jr_status r) \<longrightarrow> \<not> jy_wlive y \<and> \<not> jy_jlive y \<and> \<not> holds_resources (jy_ja y))"
  using job_reach_consistent [OF assms(1)] assms(2-4)
  by (auto simp: job_consistent_def settled_job_def settled_registry_def split: if_splits)

definition failing_workflow :: workflow_actor where
  "failing_workflow = demo_workflow\<lparr>wa_models := []\<rparr>"

definition after_failure :: "bool \<Rightarrow> workflow_notification list \<Rightarrow> job_actor \<Rightarrow> job_status \<Rightarrow> job_status list \<Rightarrow> job_status \<Rightarrow> job_system" where
  "after_failure jlive notes ja st reports listed =
     \<lparr>jy_wa = failing_workflow\<lparr>wa_drawn := 1\<rparr>, jy_ws = workflow_initial\<lparr>ws_status := WFailed\<rparr>, jy_wlive = False,
      jy_notes = notes, jy_ja = ja, jy_js = Some st, jy_jlive = jlive, jy_reports = reports,
      jy_sa = demo_supervisor\<lparr>sa_children := [(''j'', 0)], sa_spawned := 1, sa_drawn := 2\<rparr>,
      jy_registry = [(''j'', demo_record listed)]\<rparr>"

lemma failure_reached:
  "job_reach (in_memory_ops :: ('e in_memory, 'e) journal_ops) ''j''
     (after_failure False [] (demo_job (Inr ())\<lparr>ja_launches := 1\<rparr>) JobFailedStatus [] JobFailedStatus)"
proof -
  let ?J = "in_memory_ops :: ('e in_memory, 'e) journal_ops"
  let ?err = "''no provider registered for model '' @ quoted ''m''"
  let ?ja = "demo_job (Inr ())\<lparr>ja_launches := 1, ja_workflow := Some 0, ja_shutdown := True\<rparr>"
  let ?y0 = "\<lparr>jy_wa = failing_workflow, jy_ws = workflow_initial, jy_wlive = True, jy_notes = [], jy_ja = ?ja,
      jy_js = Some JobRunning, jy_jlive = True, jy_reports = [],
      jy_sa = demo_supervisor\<lparr>sa_children := [(''j'', 0)], sa_spawned := 1, sa_drawn := 2\<rparr>,
      jy_registry = [(''j'', demo_record JobRunning)]\<rparr>"
  have start: "job_handle_command (demo_job (Inr ())) StartJob = (?ja, [Launch 0 KickStart], Persist [JobStarted])"
    by (simp add: job_handle_command_def launch_workflow_def demo_job_def)
  have "sa_new_id demo_supervisor (sa_drawn demo_supervisor) = ''j''" by (simp add: demo_supervisor_def)
  from submitted [where J = ?J and wa = failing_workflow, OF _ this demo_submit start]
  have r0: "job_reach ?J ''j'' ?y0" by (simp add: job_apply_event_def demo_record_def)
  have "workflow_handle_command ?J failing_workflow workflow_initial (StartWorkflow ''go'') Map.empty =
      (Map.empty, failing_workflow\<lparr>wa_drawn := 1\<rparr>, [Notify (NotifyFailed ?err)], PersistAndStop [WorkflowFailed ?err False])"
    by (simp add: workflow_handle_command_def on_start_def failing_workflow_def demo_workflow_def agent_def_def
        demo_agent_def_def new_session_def spawn_agent_def fail_workflow_def Let_def)
  from workflow_acts [where job = "''j''" and y = ?y0, simplified, OF this]
  have "job_step ?J ''j'' ?y0 (after_failure True [NotifyFailed ?err] ?ja JobRunning [] JobRunning)"
    by (simp add: after_failure_def)
  with r0 have r1: "job_reach ?J ''j'' (after_failure True [NotifyFailed ?err] ?ja JobRunning [] JobRunning)"
    by (rule stepped)
  let ?y1 = "after_failure True [NotifyFailed ?err] ?ja JobRunning [] JobRunning"
  let ?ja2 = "demo_job (Inr ())\<lparr>ja_launches := 1\<rparr>"
  let ?y2 = "after_failure False [] ?ja2 JobFailedStatus [JobFailedStatus] JobRunning"
  have told: "job_handle_command ?ja (WorkflowEvent (NotifyFailed err)) =
      (?ja2, [ReleaseRuntime, Report JobFailedStatus], PersistAndStop [JobFailed err])" for err
    by (simp add: job_handle_command_def on_workflow_event_def teardown_def demo_job_def)
  have "job_step ?J ''j'' ?y1 ?y2"
    by (rule back_subst [of "job_step ?J ''j'' ?y1", OF job_notified [where n = "NotifyFailed ?err" and ns = "[]"
          and ja' = ?ja2 and jouts = "[ReleaseRuntime, Report JobFailedStatus]" and jeff = "PersistAndStop [JobFailed ?err]"]])
      (simp_all add: after_failure_def told [simplified] job_apply_event_def)
  with r1 have r2: "job_reach ?J ''j'' ?y2" by (rule stepped)
  have "job_step ?J ''j'' ?y2 (after_failure False [] ?ja2 JobFailedStatus [] JobFailedStatus)"
    by (rule back_subst [of "job_step ?J ''j'' ?y2", OF supervisor_told [where st = JobFailedStatus and sts = "[]"
          and sa' = "jy_sa ?y2" and souts = "[]" and seff = "Persist [JobStatusChanged ''j'' JobFailedStatus]"]])
      (simp_all add: after_failure_def supervisor_handle_command_def demo_record_def)
  with r2 show ?thesis by (rule stepped)
qed

lemma status_follows_workflow_witness:
  "\<exists>y r. job_reach (in_memory_ops :: ('e in_memory, 'e) journal_ops) ''j'' y \<and> jy_notes y = [] \<and> jy_reports y = [] \<and>
     bt_get (jy_registry y) ''j'' = Some r \<and> ws_status (jy_ws y) = WFailed \<and> jr_status r = JobFailedStatus \<and>
     tracks (ws_status (jy_ws y)) (jr_status r) \<and> \<not> holds_resources (jy_ja y)"
proof -
  let ?y = "after_failure False [] (demo_job (Inr ())\<lparr>ja_launches := 1\<rparr>) JobFailedStatus [] JobFailedStatus"
  let ?r = "demo_record JobFailedStatus"
  have y: "jy_notes ?y = []" "jy_reports ?y = []" "bt_get (jy_registry ?y) ''j'' = Some ?r"
      "ws_status (jy_ws ?y) = WFailed" "jr_status ?r = JobFailedStatus"
    by (simp_all add: after_failure_def demo_record_def)
  from status_follows_workflow [OF failure_reached y(1-3)] y failure_reached show ?thesis
    by (intro exI [of _ ?y] exI [of _ ?r]) simp
qed

text \<open>
  After a crash nothing sent arrives. A workflow whose end was recorded and not yet reported is finished
  when its job recovers; it says nothing again, so the job stays listed as running, with a runtime of its
  own. Stopping the job then suspends the finished workflow, and resuming it runs the last agent again.
\<close>

lemma finished_workflow_unreported:
  assumes "ja_launch ja (ja_launches ja) = Inr ()" and "ws_status s = WFinished" and "wa_current_child wa = None"
    and "ws_current_agent s = Some name" and "ws_current_session s = Some sid"
    and "agent_def wa name = Some d" and "ad_model d \<in> set (wa_models wa)"
  shows "(\<exists>ja'. job_on_recovery_complete ja (Some JobRunning) = (ja', [Launch (ja_launches ja) KickRecover]) \<and>
            holds_resources ja') \<and>
         kickoff_command KickRecover input = None \<and> workflow_on_recovery_complete wa s = (wa, []) \<and>
         workflow_handle_command J wa s CancelWorkflow j = (j, wa, [Notify NotifySuspended], Persist [WorkflowSuspended]) \<and>
         (\<exists>wa'. workflow_handle_command J wa (workflow_apply_event s WorkflowSuspended) (ResumeWorkflow msg) j =
            (j, wa', [SpawnAgent (wa_spawned wa) sid d, TellAgent (wa_spawned wa) (RunAgent msg)], EffNone))"
  using assms
  by (simp add: job_on_recovery_complete_def launch_workflow_def holds_resources_def workflow_on_recovery_complete_def
      workflow_handle_command_def on_resume_def resume_child_def spawn_agent_def Let_def)

end
