(* ===== verification/Job_Life.thy ===== *)
theory Job_Life
  imports Job_Status
begin

text \<open>
  The life of one job actor (\<open>job_actor.rs\<close>) under the actor runtime: what it launches, what it tears
  down and what it reports, over any commands and any journal. A runtime is held by the job from the
  launch that succeeded to the teardown that releases it.
\<close>

subsection \<open>What a job's outputs add up to\<close>

definition launched :: "(nat \<Rightarrow> (string, unit) result) \<Rightarrow> job_out list \<Rightarrow> nat" where
  "launched f outs =
     length (filter (\<lambda>out. case out of Launch n _ \<Rightarrow> f n = Inr () | _ \<Rightarrow> False) outs)"

definition released :: "job_out list \<Rightarrow> nat" where
  "released outs = length (filter (\<lambda>out. out = ReleaseRuntime) outs)"

definition held :: "job_actor \<Rightarrow> nat" where
  "held a = (if holds_resources a then 1 else 0)"

text \<open>The statuses after which the job's actor is gone, and the other way it goes.\<close>

definition over :: "job_out list \<Rightarrow> bool" where
  "over outs \<longleftrightarrow> (\<exists>st\<in>set (reports_of outs). is_terminal st) \<or> AckShutdown \<in> set outs"

lemma outs_append [simp]:
  "launched f (xs @ ys) = launched f xs + launched f ys" "released (xs @ ys) = released xs + released ys"
  "reports_of (xs @ ys) = reports_of xs @ reports_of ys" "over (xs @ ys) \<longleftrightarrow> over xs \<or> over ys"
  by (auto simp: launched_def released_def reports_of_def over_def List.map_filter_def)

lemma outs_empty [simp]: "launched f [] = 0" "released [] = 0" "\<not> over []"
  by (simp_all add: launched_def released_def over_def)

definition hook_with_workflow :: "job_actor \<Rightarrow> bool" where
  "hook_with_workflow a \<longleftrightarrow> (ja_workflow a \<noteq> None \<longleftrightarrow> ja_shutdown a)"

lemma job_handles:
  assumes "job_handle_command a cmd = (a', outs, eff)" and "hook_with_workflow a"
    and "cmd = StartJob \<Longrightarrow> held a = 0"
  shows "ja_launch a' = ja_launch a" and "hook_with_workflow a'"
    and "launched (ja_launch a) outs + held a = released outs + held a'"
    and "effect_stops eff \<Longrightarrow> held a' = 0" and "effect_stops eff \<longleftrightarrow> over outs"
    and "foldl job_apply_event s (effect_events eff) =
           last ((if cmd = StartJob then Some JobRunning else s) # map Some (reports_of outs))"
  using assms
  by (cases cmd; auto simp: job_handle_command_def launch_workflow_def on_workflow_event_def teardown_def
      holds_resources_def held_def hook_with_workflow_def launched_def released_def over_def job_apply_event_def Let_def
      split: sum.splits option.splits workflow_notification.splits if_splits)+

subsection \<open>A life\<close>

text \<open>A journal and a serializer that take every event.\<close>

definition writes_succeed :: "('j, 'b) journal_ops \<Rightarrow> (job_event, job_state, 'b) codec \<Rightarrow> bool" where
  "writes_succeed J K \<longleftrightarrow> (\<forall>j p bs. snd (jo_persist J j p bs) = Inr ()) \<and> (\<forall>ev. \<exists>b. ser_event K ev = Inr b)"

lemma persist_succeeds:
  assumes "writes_succeed J K"
  shows "\<exists>j'. persist_events J job_ops K p j evs s n = (j', foldl job_apply_event s evs, n + length evs)"
proof -
  have "\<exists>bs. collect_results (map (ser_event K) evs) = Inr bs"
    using assms
  proof (induction evs)
    case (Cons ev evs)
    from Cons.prems obtain b where "ser_event K ev = Inr b" unfolding writes_succeed_def by blast
    moreover from Cons obtain bs where "collect_results (map (ser_event K) evs) = Inr bs" by blast
    ultimately show ?case by simp
  qed simp
  then obtain bs where "collect_results (map (ser_event K) evs) = Inr bs" by blast
  moreover obtain j' where "jo_persist J j p bs = (j', Inr ())"
    using assms by (metis writes_succeed_def prod.collapse)
  ultimately show ?thesis by (simp add: persist_events_def job_ops_def)
qed

lemma run_effect_job:
  "lv_actor (run_effect J A K p l eff) = lv_actor l" "lv_out (run_effect J A K p l eff) = lv_out l"
  "lv_stopped (run_effect J A K p l eff) \<longleftrightarrow> lv_stopped l \<or> effect_stops eff"
  by (cases eff; simp add: lv_persist_def lv_snapshot_def split: prod.splits)+

lemma run_effect_records:
  "writes_succeed J K \<Longrightarrow>
   lv_state (run_effect J job_ops K p l eff) = foldl job_apply_event (lv_state l) (effect_events eff)"
  using persist_succeeds [of J K p "lv_journal l" "effect_events eff" "lv_state l" "lv_seq l"]
  by (cases eff) (auto simp: lv_persist_def lv_snapshot_def)

definition accounted :: "(nat \<Rightarrow> (string, unit) result) \<Rightarrow> (job_actor, job_state, 'j, job_out) live \<Rightarrow> bool" where
  "accounted f l \<longleftrightarrow>
     ja_launch (lv_actor l) = f \<and> hook_with_workflow (lv_actor l) \<and>
     launched f (lv_out l) = released (lv_out l) + held (lv_actor l) \<and>
     (lv_stopped l \<longrightarrow> held (lv_actor l) = 0) \<and> (lv_stopped l \<longleftrightarrow> over (lv_out l))"

definition recorded_last :: "job_state \<Rightarrow> (job_actor, job_state, 'j, job_out) live \<Rightarrow> bool" where
  "recorded_last s l \<longleftrightarrow> lv_state l = last (s # map Some (reports_of (lv_out l)))"

lemma last_last: "last (last (x # xs) # ys) = last (x # xs @ ys)"
  by (induction xs arbitrary: x) auto

lemma run_command_accounted:
  assumes "accounted f l" and "\<not> lv_stopped l" and "cmd = StartJob \<Longrightarrow> held (lv_actor l) = 0"
  shows "accounted f (run_command J job_ops K p l cmd)"
    and "writes_succeed J K \<Longrightarrow> recorded_last s l \<Longrightarrow> cmd \<noteq> StartJob \<Longrightarrow>
           recorded_last s (run_command J job_ops K p l cmd)"
    and "writes_succeed J K \<Longrightarrow> reports_of (lv_out l) = [] \<Longrightarrow> cmd = StartJob \<Longrightarrow>
           recorded_last (Some JobRunning) (run_command J job_ops K p l cmd)"
proof -
  obtain a' outs eff where h: "job_handle_command (lv_actor l) cmd = (a', outs, eff)" using prod_cases3 by blast
  have "hook_with_workflow (lv_actor l)" using assms(1) by (simp add: accounted_def)
  note j = job_handles [OF h this assms(3)]
  have c: "run_command J job_ops K p l cmd =
      run_effect J job_ops K p (l\<lparr>lv_actor := a', lv_journal := lv_journal l, lv_out := lv_out l @ outs\<rparr>) eff"
    by (simp add: run_command_def job_ops_def h)
  show "accounted f (run_command J job_ops K p l cmd)"
    using assms(1,2) j(1-5) unfolding c by (auto simp: accounted_def run_effect_job)
  show "recorded_last s (run_command J job_ops K p l cmd)"
    if "writes_succeed J K" "recorded_last s l" "cmd \<noteq> StartJob"
    using that j(6) [of "lv_state l"] unfolding c
    by (simp add: recorded_last_def run_effect_job run_effect_records last_last del: last.simps)
  show "recorded_last (Some JobRunning) (run_command J job_ops K p l cmd)"
    if "writes_succeed J K" "reports_of (lv_out l) = []" "cmd = StartJob"
    using that j(6) [of "lv_state l"] unfolding c
    by (simp add: recorded_last_def run_effect_job run_effect_records del: last.simps)
qed

lemma run_loop_accounted:
  assumes "accounted f l" and "\<not> lv_stopped l" and "StartJob \<notin> set cmds"
  shows "accounted f (run_loop J job_ops K p l cmds)"
    and "writes_succeed J K \<Longrightarrow> recorded_last s l \<Longrightarrow> recorded_last s (run_loop J job_ops K p l cmds)"
  using assms
proof (induction cmds arbitrary: l)
  case (Cons c cmds)
  { case 1
    with Cons run_command_accounted(1) [where l = l and cmd = c and J = J and K = K and p = p] show ?case by (auto simp: Let_def)
  next
    case 2
    with Cons run_command_accounted(1,2) [where l = l and cmd = c and J = J and K = K and p = p] show ?case by (auto simp: Let_def) }
qed simp_all

text \<open>
  C27. What a job holds and what it reports, over any life of its actor: started at its submission or
  recovered, with any commands from then on, on any journal. Each runtime it launched is released or still
  held, and it never holds two; the actor stops exactly when it has reported that the job is over or has
  acknowledged its shutdown, and then it holds none. As long as the journal takes what it writes, the
  status the job has recorded is the last one it reported to the supervisor.
\<close>

theorem job_accounts:
  assumes "run_actor J job_ops K a j cmds = Inr l" and "\<not> holds_resources a"
    and "recover J job_ops K j (job_pid (ja_job_id a)) = Inr (s, n)"
    and "StartJob \<notin> set (tl cmds)" and "StartJob \<in> set cmds \<Longrightarrow> s = None"
  shows "launched (ja_launch a) (lv_out l) =
           released (lv_out l) + (if holds_resources (lv_actor l) then 1 else 0) \<and>
         (lv_stopped l \<longleftrightarrow>
            (\<exists>st\<in>set (reports_of (lv_out l)). is_terminal st) \<or> AckShutdown \<in> set (lv_out l)) \<and>
         (lv_stopped l \<longrightarrow> \<not> holds_resources (lv_actor l)) \<and>
         (writes_succeed J K \<longrightarrow>
            lv_state l =
              last ((if StartJob \<in> set cmds then Some JobRunning else s) # map Some (reports_of (lv_out l))))"
proof -
  obtain a1 out where c: "job_on_recovery_complete a s = (a1, out)" by fastforce
  let ?p = "job_pid (ja_job_id a)"
  let ?l = "\<lparr>lv_actor = a1, lv_state = s, lv_seq = n, lv_journal = j, lv_out = out, lv_stopped = False\<rparr>"
  have l: "l = run_loop J job_ops K ?p ?l cmds"
    using assms(1,3) c by (simp add: run_actor_def job_ops_def)
  have r: "reports_of out = []" "accounted (ja_launch a) ?l" "s = None \<Longrightarrow> held a1 = 0"
    using c assms(2)
    by (auto simp: job_on_recovery_complete_def launch_workflow_def accounted_def hook_with_workflow_def held_def
        holds_resources_def launched_def released_def over_def Let_def
        split: option.splits job_status.splits sum.splits)
  have "accounted (ja_launch a) l \<and>
    (writes_succeed J K \<longrightarrow> recorded_last (if StartJob \<in> set cmds then Some JobRunning else s) l)"
  proof (cases "StartJob \<in> set cmds")
    case False
    have b: "recorded_last s ?l" using r(1) by (simp add: recorded_last_def)
    with run_loop_accounted [OF r(2) _ False, where J = J and K = K and p = ?p] False l show ?thesis by simp
  next
    case True
    with assms(4) obtain rest where cmds: "cmds = StartJob # rest" "StartJob \<notin> set rest" by (cases cmds) auto
    let ?l1 = "run_command J job_ops K ?p ?l StartJob"
    have a: "accounted (ja_launch a) ?l1" "writes_succeed J K \<Longrightarrow> recorded_last (Some JobRunning) ?l1"
      using run_command_accounted(1,3) [where l = ?l and cmd = StartJob] r True assms(5) by simp_all
    show ?thesis
    proof (cases "lv_stopped ?l1")
      case False
      with a cmds l True show ?thesis by (auto intro: run_loop_accounted)
    qed (use a cmds l True in simp)
  qed
  then show ?thesis by (auto simp: accounted_def recorded_last_def held_def over_def)
qed

lemma job_accounts_witness:
  "\<exists>l. run_actor in_memory_ops job_ops direct_codec (demo_job (Inr ())) Map.empty
         [StartJob, WorkflowEvent (NotifyAwaiting ''go?''), ResumeJob ''yes'', WorkflowEvent (NotifyFinished JNull)] = Inr l \<and>
       reports_of (lv_out l) = [JobAwaitingUserInput, JobFinished] \<and>
       launched (\<lambda>_. Inr ()) (lv_out l) = 1 \<and> released (lv_out l) = 1 \<and>
       lv_stopped l \<and> \<not> holds_resources (lv_actor l) \<and> lv_state l = Some JobFinished"
proof -
  let ?cmds = "[StartJob, WorkflowEvent (NotifyAwaiting ''go?''), ResumeJob ''yes'', WorkflowEvent (NotifyFinished JNull)]"
  let ?run = "run_actor in_memory_ops job_ops direct_codec (demo_job (Inr ())) Map.empty ?cmds"
  have "case ?run of Inl e \<Rightarrow> False
      | Inr l \<Rightarrow> reports_of (lv_out l) = [JobAwaitingUserInput, JobFinished] \<and> launched (\<lambda>_. Inr ()) (lv_out l) = 1"
    by code_simp
  then obtain l where l: "?run = Inr l" "reports_of (lv_out l) = [JobAwaitingUserInput, JobFinished]"
      "launched (\<lambda>_. Inr ()) (lv_out l) = 1" by (auto split: sum.splits)
  have e: "\<not> holds_resources (demo_job (Inr ()))" "ja_launch (demo_job (Inr ())) = (\<lambda>_. Inr ())"
      "recover in_memory_ops job_ops direct_codec Map.empty (job_pid (ja_job_id (demo_job (Inr ())))) = Inr (None, 0)"
    by (simp_all add: demo_job_def holds_resources_def recover_def im_latest_snapshot_def im_replay_def
        job_ops_def)
  have w: "writes_succeed in_memory_ops direct_codec"
    by (simp add: writes_succeed_def im_persist_def direct_codec_def Let_def)
  from job_accounts [OF l(1) e(1,3)] l e(2) w show ?thesis by auto
qed

end
