(* ===== verification/Event_Sinks.thy ===== *)
theory Event_Sinks
  imports Job_Actor
begin

text \<open>
  Where the events of a run go: \<open>CapturingSink\<close> and \<open>StreamingSink\<close> (\<open>workflow/src/agent_actor.rs\<close>)
  around \<open>BroadcastSink\<close> (\<open>supervisor/src/job_actor.rs\<close>). A sink handles an event by changing what it
  has collected; the wrappers pass every event on. The lemmas say that a run's report, its journal and
  the frames of its live log are views of the same events, in their order.
\<close>

type_synonym 's sink = "agent_event \<Rightarrow> 's \<Rightarrow> 's"

definition capturing_sink :: "'s sink \<Rightarrow> (agent_event list \<times> 's) sink" where
  "capturing_sink inner ev c = (case c of (captured, s) \<Rightarrow> (captured @ [ev], inner ev s))"

definition capturing_take :: "agent_event list \<times> 's \<Rightarrow> agent_event list \<times> (agent_event list \<times> 's)" where
  "capturing_take c = (case c of (captured, s) \<Rightarrow> (captured, ([], s)))"

definition streaming_sink :: "'s sink \<Rightarrow> (agent_domain_event list \<times> 's) sink" where
  "streaming_sink inner ev c =
     (case c of (sent, s) \<Rightarrow>
        (case coarse_event ev of None \<Rightarrow> sent | Some coarse \<Rightarrow> sent @ [coarse], inner ev s))"

definition broadcast_sink :: "string \<Rightarrow> (string \<times> string) list sink" where
  "broadcast_sink job ev frames =
     (case render_event ev of None \<Rightarrow> frames | Some text \<Rightarrow> frames @ [(job, text)])"

text \<open>The forwarder of \<open>start_run\<close>: each coarse event becomes a command of its own.\<close>

definition forwarded :: "agent_domain_event list \<Rightarrow> agent_command list" where
  "forwarded sent = map (\<lambda>ev. PersistProgress [ev]) sent"

lemma captured_all: "fold (capturing_sink inner) evs (captured, s) = (captured @ evs, fold inner evs s)"
  by (induction evs arbitrary: captured s) (simp_all add: capturing_sink_def)

lemma streamed_all: "fold (streaming_sink inner) evs (sent, s) = (sent @ coarse_events evs, fold inner evs s)"
  by (induction evs arbitrary: sent s) (simp_all add: streaming_sink_def split: option.splits)

lemma broadcast_all:
  "fold (broadcast_sink job) evs frames = frames @ map (Pair job) (List.map_filter render_event evs)"
  by (induction evs arbitrary: frames) (simp_all add: broadcast_sink_def List.map_filter_simps split: option.splits)

text \<open>
  An attempt's events go through the three sinks: the report reads all of them, the actor is told the
  coarse ones, and the log shows those that render, over all attempts in order.
\<close>

lemma attempt_through_sinks:
  "fold (capturing_sink (streaming_sink (broadcast_sink job))) evs ([], ([], frames)) =
     (evs, (coarse_events evs, frames @ map (Pair job) (List.map_filter render_event evs)))"
  by (simp add: captured_all streamed_all broadcast_all)

lemma background_from_sinks:
  assumes "fold (streaming_sink (broadcast_sink job)) (concat attempts) ([], frames) = (sent, frames')"
  shows "background_commands (outcome, attempts, w) = forwarded sent @ [RunFinished outcome] \<and>
         frames' = frames @ map (Pair job) (List.map_filter render_event (concat attempts))"
  using assms by (auto simp: streamed_all broadcast_all background_commands_def forwarded_def)

text \<open>A failed attempt that is retried stays in the log, and its text is shown again by the next one.\<close>

lemma retried_text_shown_twice:
  "fold (broadcast_sink job) (concat [[TextChunk m i t], [TextChunk m' i t]]) [] = [(job, t), (job, t)]"
  by (simp add: broadcast_sink_def)

end
