(* ===== verification/Text.thy ===== *)
theory Text
  imports Prelude "HOL-Library.Sublist"
begin

text \<open>
  The operations of \<open>str\<close> and \<open>Path\<close> that more than one crate uses: prefixes, searching, replacing,
  splitting into lines, joining paths.
\<close>

subsection \<open>Text\<close>

text \<open>\<open>str::lines\<close>: a line ends in \<open>\n\<close> or \<open>\r\n\<close>, and the last one may end without.\<close>

definition strip_cr :: "string \<Rightarrow> string" where
  "strip_cr s = (if s \<noteq> [] \<and> last s = CHR 0x0D then butlast s else s)"

definition str_lines :: "string \<Rightarrow> string list" where
  "str_lines s =
     (let ps = split_on newline s
      in map strip_cr (butlast ps) @ (if last ps = [] then [] else [last ps]))"

text \<open>\<open>str::contains\<close> and \<open>str::replacen(.., 1)\<close>.\<close>

fun starts_with :: "string \<Rightarrow> string \<Rightarrow> bool" where
  "starts_with [] s = True"
| "starts_with (p # ps) [] = False"
| "starts_with (p # ps) (c # cs) = (p = c \<and> starts_with ps cs)"

fun str_contains :: "string \<Rightarrow> string \<Rightarrow> bool" where
  "str_contains pat [] = (pat = [])"
| "str_contains pat (c # cs) = (starts_with pat (c # cs) \<or> str_contains pat cs)"

fun replace_first :: "string \<Rightarrow> string \<Rightarrow> string \<Rightarrow> string" where
  "replace_first pat new [] = (if pat = [] then new else [])"
| "replace_first pat new (c # cs) =
     (if starts_with pat (c # cs) then new @ drop (length pat) (c # cs)
      else c # replace_first pat new cs)"

text \<open>\<open>str::strip_prefix\<close>, \<open>str::trim_end_matches(c)\<close> and \<open>str::replace\<close> with a pattern that is not empty.\<close>

fun strip_prefix :: "string \<Rightarrow> string \<Rightarrow> string option" where
  "strip_prefix [] s = Some s"
| "strip_prefix (p # ps) [] = None"
| "strip_prefix (p # ps) (c # cs) = (if p = c then strip_prefix ps cs else None)"

definition trim_end_char :: "char \<Rightarrow> string \<Rightarrow> string" where
  "trim_end_char c s = rev (dropWhile (\<lambda>d. d = c) (rev s))"

function replace_all :: "string \<Rightarrow> string \<Rightarrow> string \<Rightarrow> string" where
  "replace_all pat new [] = []"
| "replace_all pat new (c # cs) =
     (if pat \<noteq> [] \<and> starts_with pat (c # cs) then new @ replace_all pat new (drop (length pat) (c # cs))
      else c # replace_all pat new cs)"
  by pat_completeness auto
termination
  by (relation "measure (\<lambda>(pat, new, s). length s)") (auto simp: Suc_le_eq)

text \<open>\<open>Path::join\<close>: an absolute path replaces the base.\<close>

definition join_path :: "string \<Rightarrow> string \<Rightarrow> string" where
  "join_path base p =
     (if take 1 p = ''/'' then p
      else if base = [] \<or> last base = CHR ''/'' then base @ p
      else base @ ''/'' @ p)"

subsection \<open>Searching text\<close>

lemma starts_with_prefix: "starts_with p s \<longleftrightarrow> prefix p s"
  by (induction p s rule: starts_with.induct) auto

lemma starts_with_nil [simp]: "starts_with p [] \<longleftrightarrow> p = []"
  by (cases p) auto

text \<open>\<open>replacen(.., 1)\<close> replaces the leftmost occurrence.\<close>

lemma replace_first_spec:
  "str_contains pat s \<Longrightarrow>
     \<exists>a b. s = a @ pat @ b \<and> replace_first pat new s = a @ new @ b \<and>
       (\<forall>a' b'. s = a' @ pat @ b' \<longrightarrow> length a \<le> length a')"
proof (induction s)
  case Nil
  then show ?case by (intro exI [of _ "[]"]) simp
next
  case (Cons c cs)
  show ?case
  proof (cases "starts_with pat (c # cs)")
    case True
    then obtain b where b: "c # cs = pat @ b" by (auto simp: starts_with_prefix prefix_def)
    have "replace_first pat new (c # cs) = new @ drop (length pat) (c # cs)" using True by simp
    with b have "replace_first pat new (c # cs) = new @ b" by simp
    with b show ?thesis by (intro exI [of _ "[]"] exI [of _ b]) simp
  next
    case False
    with Cons obtain a b where ab: "cs = a @ pat @ b" "replace_first pat new cs = a @ new @ b"
      and least: "\<And>a' b'. cs = a' @ pat @ b' \<Longrightarrow> length a \<le> length a'" by auto
    have "length (c # a) \<le> length a'" if "c # cs = a' @ pat @ b'" for a' b'
    proof (cases a')
      case Nil
      with that False show ?thesis by (simp add: starts_with_prefix)
    next
      case (Cons d a2)
      with that least [of a2 b'] show ?thesis by simp
    qed
    with False ab show ?thesis by (intro exI [of _ "c # a"] exI [of _ b]) simp
  qed
qed

lemma str_contains_sublist: "str_contains pat s \<longleftrightarrow> sublist pat s"
  by (induction s) (auto simp: starts_with_prefix sublist_Cons_right)

text \<open>\<open>Path::parent\<close>.\<close>

definition path_parent :: "string \<Rightarrow> string option" where
  "path_parent p =
     (let q = trim_end_char (CHR ''/'') p
      in if q = [] then None
         else let d = rev (dropWhile (\<lambda>c. c \<noteq> CHR ''/'') (rev q))
              in Some (if d = [] then []
                       else if trim_end_char (CHR ''/'') d = [] then ''/''
                       else trim_end_char (CHR ''/'') d))"

lemma strip_prefix_Some [simp]: "strip_prefix p s = Some r \<longleftrightarrow> s = p @ r"
  by (induction p s rule: strip_prefix.induct) auto

lemma strip_prefix_append [simp]: "strip_prefix p (p @ r) = Some r"
  by simp

text \<open>A text without the pattern stays as it is.\<close>

lemma replace_all_absent: "\<not> str_contains pat s \<Longrightarrow> replace_all pat new s = s"
  by (induction pat new s rule: replace_all.induct) auto

text \<open>Replacing does not make a match that was not there, when the new text starts with a character the
  pattern lacks, nor leave one, when the pattern's first character occurs nowhere else.\<close>

lemma starts_with_replaced:
  "starts_with p (replace_all pat new s) \<Longrightarrow> new \<noteq> [] \<Longrightarrow> hd new \<notin> set p \<Longrightarrow> starts_with p s"
proof (induction p arbitrary: s)
  case (Cons c p)
  then show ?case by (cases s; cases new) (auto split: if_splits)
qed simp

lemma starts_with_append_foreign:
  "p \<noteq> [] \<Longrightarrow> hd p \<notin> set new \<Longrightarrow> str_contains p (new @ s) \<Longrightarrow> str_contains p s"
proof (induction new)
  case (Cons c new)
  then show ?case by (cases p) auto
qed simp

lemma replaced_absent:
  assumes "new \<noteq> []" "hd new \<notin> set ps" "p \<notin> set new"
    and "pat = p # ps \<or> \<not> str_contains (p # ps) s"
  shows "\<not> str_contains (p # ps) (replace_all pat new s)"
  using assms
proof (induction pat new s rule: replace_all.induct)
  case (2 pat new c cs)
  note new = 2(3-5)
  show ?case
  proof (cases "pat \<noteq> [] \<and> starts_with pat (c # cs)")
    case True
    have "pat = p # ps \<or> \<not> str_contains (p # ps) (drop (length pat) (c # cs))"
      using 2(6) by (auto simp: str_contains_sublist dest: sublist_order.order.trans [OF _ sublist_drop])
    note rest = 2(1) [OF True new this]
    have "\<not> str_contains (p # ps) (new @ replace_all pat new (drop (length pat) (c # cs)))"
    proof
      assume "str_contains (p # ps) (new @ replace_all pat new (drop (length pat) (c # cs)))"
      then have "str_contains (p # ps) (replace_all pat new (drop (length pat) (c # cs)))"
        by (rule starts_with_append_foreign [rotated 2]) (use new in simp_all)
      with rest show False by simp
    qed
    with True show ?thesis by simp
  next
    case False
    have a: "pat = p # ps \<or> \<not> str_contains (p # ps) cs" using 2(6) by auto
    have "\<not> (p = c \<and> starts_with ps (replace_all pat new cs))"
      using starts_with_replaced [of ps pat new cs] 2(6) False new by auto
    with 2(2) [OF False new a] False show ?thesis by auto
  qed
qed simp

end
