(* ===== verification/File_Journal.thy ===== *)
theory File_Journal
  imports Actor_Runtime Text
begin

text \<open>
  The file-backed journal, \<open>src/actor/src/file_journal.rs\<close>: one line per batch, appended. A file is
  its text; the files are keyed by persistence id: kinds are fixed words and ids are UUIDs, and for
  names without a slash distinct ids have distinct paths (\<open>journal_path_inj\<close>). The crates \<open>base64\<close> and \<open>serde_json\<close> are the record
  \<open>line_codec\<close>, a parameter, and \<open>codec_laws\<close> is what they document. Writing can fail in the three
  ways the code returns an error for; \<open>fj_faults\<close> lists the outcomes of the coming writes.
\<close>

subsection \<open>Encoding\<close>

record line_codec =
  lc_encode :: "bytes \<Rightarrow> string"
  lc_decode :: "string \<Rightarrow> bytes option"
  lc_pack :: "string list \<Rightarrow> bytes"
  lc_unpack :: "bytes \<Rightarrow> string list option"

definition codec_laws :: "line_codec \<Rightarrow> bool" where
  "codec_laws C \<longleftrightarrow>
     (\<forall>x. lc_decode C (lc_encode C x) = Some x) \<and>
     (\<forall>x. newline \<notin> set (lc_encode C x)) \<and>
     (\<forall>x. x \<noteq> [] \<longrightarrow> lc_encode C x \<noteq> []) \<and>
     (\<forall>xs. lc_unpack C (lc_pack C (map (lc_encode C) xs)) = Some (map (lc_encode C) xs)) \<and>
     (\<forall>xs. lc_pack C xs \<noteq> [])"

definition batch_line :: "line_codec \<Rightarrow> bytes list \<Rightarrow> string" where
  "batch_line C evs = lc_encode C (lc_pack C (map (lc_encode C) evs))"

subsection \<open>The journal\<close>

datatype write_outcome =
    WriteOk
  | CannotOpen string
  | TornWrite nat string
  | NotSynced string

record file_journal =
  fj_files :: "persistence_id \<rightharpoonup> string"
  fj_faults :: "write_outcome list"

definition journal_path :: "string \<Rightarrow> persistence_id \<Rightarrow> string" where
  "journal_path root p =
     join_path (join_path (join_path (join_path root ''actors'') (pid_kind p)) (pid_id p)) ''journal.jsonl''"

definition path_name :: "string \<Rightarrow> bool" where
  "path_name s \<longleftrightarrow> s \<noteq> [] \<and> CHR ''/'' \<notin> set s"

lemma join_path_name: "path_name s \<Longrightarrow> base \<noteq> [] \<Longrightarrow> last base \<noteq> CHR ''/'' \<Longrightarrow> join_path base s = base @ ''/'' @ s"
  by (cases s) (auto simp: join_path_def path_name_def)

lemma journal_path_names:
  assumes "path_name k" and "path_name i"
  shows "journal_path root (mk_pid k i) =
    join_path root ''actors'' @ ''/'' @ k @ CHR ''/'' # i @ CHR ''/'' # ''journal.jsonl''"
proof -
  have r: "join_path root ''actors'' \<noteq> []" "last (join_path root ''actors'') \<noteq> CHR ''/''"
    by (auto simp: join_path_def)
  have l: "last (t @ s) \<noteq> CHR ''/''" if "path_name s" for s t
    using that by (cases s rule: rev_cases) (auto simp: path_name_def)
  have m: "last (t @ CHR ''/'' # s) \<noteq> CHR ''/''" if "path_name s" for s t
    using that by (cases s rule: rev_cases) (auto simp: path_name_def)
  have "path_name ''journal.jsonl''" by (simp add: path_name_def)
  with assms r l m show ?thesis by (simp add: journal_path_def mk_pid_def join_path_name)
qed

lemma journal_path_inj:
  assumes "path_name k" "path_name i" "path_name k'" "path_name i'"
    and "journal_path root (mk_pid k i) = journal_path root (mk_pid k' i')"
  shows "mk_pid k i = mk_pid k' i'"
proof -
  have "k @ CHR ''/'' # i @ CHR ''/'' # ''journal.jsonl'' = k' @ CHR ''/'' # i' @ CHR ''/'' # ''journal.jsonl''"
    using assms by (simp add: journal_path_names)
  from arg_cong [OF this, of "split_on (CHR ''/'')"] show ?thesis
    using assms(1-4) by (simp add: split_on_append path_name_def)
qed

definition file_content :: "file_journal \<Rightarrow> persistence_id \<Rightarrow> string" where
  "file_content j p = (case fj_files j p of None \<Rightarrow> [] | Some t \<Rightarrow> t)"

definition next_write :: "file_journal \<Rightarrow> write_outcome \<times> file_journal" where
  "next_write j =
     (case fj_faults j of [] \<Rightarrow> (WriteOk, j) | f # fs \<Rightarrow> (f, j\<lparr>fj_faults := fs\<rparr>))"

definition append_file :: "file_journal \<Rightarrow> persistence_id \<Rightarrow> string \<Rightarrow> file_journal" where
  "append_file j p t = j\<lparr>fj_files := (fj_files j)(p \<mapsto> file_content j p @ t)\<rparr>"

definition fj_persist ::
  "line_codec \<Rightarrow> file_journal \<Rightarrow> persistence_id \<Rightarrow> bytes list \<Rightarrow> file_journal \<times> unit journal_result" where
  "fj_persist C j p evs =
     (if evs = [] then (j, Inr ())
      else
        let line = batch_line C evs @ [newline]
        in case next_write j of
             (WriteOk, j1) \<Rightarrow> (append_file j1 p line, Inr ())
           | (CannotOpen e, j1) \<Rightarrow> (j1, Inl (Backend e))
           | (TornWrite n e, j1) \<Rightarrow> (append_file j1 p (take n line), Inl (Backend e))
           | (NotSynced e, j1) \<Rightarrow> (append_file j1 p line, Inl (Backend e)))"

text \<open>The events of one batch: those numbered after \<open>k\<close>, and the last number, or \<open>None\<close> for
  an event that does not decode, which ends the replay.\<close>

fun decode_events ::
  "line_codec \<Rightarrow> nat \<Rightarrow> nat \<Rightarrow> string list \<Rightarrow> bytes journal_result list \<times> nat option" where
  "decode_events C k seq [] = ([], Some seq)"
| "decode_events C k seq (e # es) =
     (case lc_decode C e of
        None \<Rightarrow> ([], None)
      | Some b \<Rightarrow>
          (case decode_events C k (seq + 1) es of
             (out, r) \<Rightarrow> ((if k < seq + 1 then Inr b # out else out), r)))"

fun decode_lines :: "line_codec \<Rightarrow> nat \<Rightarrow> nat \<Rightarrow> string list \<Rightarrow> bytes journal_result list" where
  "decode_lines C k seq [] = []"
| "decode_lines C k seq (line # ls) =
     (if line = [] then []
      else
        (case lc_decode C line of
           None \<Rightarrow> []
         | Some json \<Rightarrow>
             (case lc_unpack C json of
                None \<Rightarrow> []
              | Some batch \<Rightarrow>
                  (case decode_events C k seq batch of
                     (out, None) \<Rightarrow> out
                   | (out, Some seq') \<Rightarrow> out @ decode_lines C k seq' ls))))"

definition decode_after :: "line_codec \<Rightarrow> file_journal \<Rightarrow> persistence_id \<Rightarrow> nat \<Rightarrow> bytes journal_result list" where
  "decode_after C j p k =
     (case fj_files j p of
        None \<Rightarrow> []
      | Some content \<Rightarrow> decode_lines C k 0 (butlast (split_on newline content)))"

definition fj_clear :: "file_journal \<Rightarrow> persistence_id \<Rightarrow> file_journal \<times> unit journal_result" where
  "fj_clear j p = (j\<lparr>fj_files := (fj_files j)(p := None)\<rparr>, Inr ())"

definition file_ops :: "line_codec \<Rightarrow> (file_journal, bytes) journal_ops" where
  "file_ops C =
     \<lparr>jo_persist = fj_persist C, jo_replay = decode_after C,
      jo_save_snapshot = (\<lambda>j p b n. (j, Inr ())), jo_latest_snapshot = (\<lambda>j p. Inr None),
      jo_delete_events_before = (\<lambda>j p n. (j, Inr ())), jo_copy_snapshot = (\<lambda>j src dst. (j, Inr ())),
      jo_clear = fj_clear\<rparr>"

subsection \<open>Lines\<close>

definition lines_text :: "line_codec \<Rightarrow> bytes list list \<Rightarrow> string" where
  "lines_text C batches = concat (map (\<lambda>b. batch_line C b @ [newline]) batches)"

lemma batch_line_facts:
  assumes "codec_laws C"
  shows "newline \<notin> set (batch_line C b)" and "batch_line C b \<noteq> []"
    and "lc_decode C (batch_line C b) = Some (lc_pack C (map (lc_encode C) b))"
    and "lc_unpack C (lc_pack C (map (lc_encode C) b)) = Some (map (lc_encode C) b)"
  using assms by (simp_all add: codec_laws_def batch_line_def)

text \<open>The text of complete lines, and whatever follows the last newline.\<close>

lemma split_lines_text:
  assumes "codec_laws C" and "newline \<notin> set t"
  shows "butlast (split_on newline (lines_text C batches @ t)) = map (batch_line C) batches"
proof -
  have "split_on newline (lines_text C batches @ t) = map (batch_line C) batches @ [t]"
    using assms
    by (induction batches) (simp_all add: lines_text_def split_on_no_sep split_on_append batch_line_facts)
  then show ?thesis by simp
qed

lemma decode_events_encoded:
  assumes "codec_laws C"
  shows "decode_events C k seq (map (lc_encode C) b) =
     (map Inr (drop (k - seq) b), Some (seq + length b))"
  using assms
proof (induction b arbitrary: seq)
  case (Cons x xs)
  then have "k - Suc seq = k - seq - 1" by simp
  with Cons show ?case by (cases "k - seq") (auto simp: codec_laws_def)
qed simp

lemma decode_lines_encoded:
  assumes "codec_laws C"
  shows "decode_lines C k seq (map (batch_line C) batches) = map Inr (drop (k - seq) (concat batches))"
proof (induction batches arbitrary: seq)
  case (Cons b batches)
  then show ?case
    by (simp add: batch_line_facts [OF assms] decode_events_encoded [OF assms] diff_diff_left)
qed simp

lemma decode_after_text:
  assumes "codec_laws C" and "newline \<notin> set t" and "file_content j p = lines_text C batches @ t"
  shows "decode_after C j p k = map Inr (drop k (concat batches))"
proof (cases "fj_files j p")
  case None
  with assms(3) have "lines_text C batches = []" by (simp add: file_content_def)
  then have "batches = []" by (cases batches) (auto simp: lines_text_def)
  with None show ?thesis by (simp add: decode_after_def)
next
  case (Some content)
  with assms(3) show ?thesis
    by (simp add: decode_after_def file_content_def split_lines_text [OF assms(1,2)]
        decode_lines_encoded [OF assms(1)])
qed

subsection \<open>The journal contract\<close>

text \<open>
  Files of complete lines, and writes that either succeed or fail before the file is touched; the
  two other failures break the contract, as shown at the end.
\<close>

fun clean_fault :: "write_outcome \<Rightarrow> bool" where
  "clean_fault WriteOk = True"
| "clean_fault (CannotOpen e) = True"
| "clean_fault _ = False"

definition fj_ok :: "line_codec \<Rightarrow> file_journal \<Rightarrow> bool" where
  "fj_ok C j \<longleftrightarrow>
     (\<forall>p. \<exists>batches. file_content j p = lines_text C batches) \<and> list_all clean_fault (fj_faults j)"

definition fj_view :: "line_codec \<Rightarrow> file_journal \<Rightarrow> persistence_id \<Rightarrow> (bytes \<times> nat) option \<times> bytes list" where
  "fj_view C j p =
     (None, concat (map (\<lambda>r. case r of Inr b \<Rightarrow> [b] | Inl _ \<Rightarrow> []) (decode_after C j p 0)))"

lemma fj_view_text:
  assumes "codec_laws C" and "newline \<notin> set t" and "file_content j p = lines_text C batches @ t"
  shows "fj_view C j p = (None, concat batches)"
  using decode_after_text [OF assms, of 0] by (simp add: fj_view_def comp_def)

lemma fj_persist_view:
  assumes C: "codec_laws C" and ok: "fj_ok C j" and w: "fj_persist C j p evs = (j', r)"
  shows "fj_ok C j' \<and>
    (case r of
       Inr _ \<Rightarrow> fj_view C j' = (fj_view C j)(p := (fst (fj_view C j p), snd (fj_view C j p) @ evs))
     | Inl _ \<Rightarrow> fj_view C j' = fj_view C j)"
proof (cases "evs = []")
  case True
  with w ok show ?thesis by (auto simp: fj_persist_def)
next
  case False
  obtain f j1 where n: "next_write j = (f, j1)" by fastforce
  then have j1: "fj_files j1 = fj_files j" "list_all clean_fault (fj_faults j1)" "clean_fault f"
    using ok by (auto simp: next_write_def fj_ok_def split: list.splits)
  then have c1: "file_content j1 = file_content j" by (simp add: file_content_def fun_eq_iff)
  then have v1: "fj_view C j1 = fj_view C j" using j1(1) by (simp add: fj_view_def decode_after_def fun_eq_iff)
  have ok1: "fj_ok C j1" using ok j1(2) c1 by (simp add: fj_ok_def)
  obtain bs where bs: "file_content j q = lines_text C (bs q)" for q
    using ok by (metis fj_ok_def)
  show ?thesis
  proof (cases f)
    case WriteOk
    let ?j = "append_file j1 p (batch_line C evs @ [newline])"
    have cp: "file_content ?j q = lines_text C (if q = p then bs q @ [evs] else bs q)" for q
      using bs c1 j1(1) by (auto simp: file_content_def append_file_def lines_text_def)
    have "fj_ok C ?j"
      using j1(2) cp by (auto simp: fj_ok_def append_file_def)
    moreover have "fj_view C ?j q = (None, concat (if q = p then bs q @ [evs] else bs q))" for q
      using fj_view_text [OF C, of "[]" ?j q] cp by simp
    moreover have "fj_view C j q = (None, concat (bs q))" for q
      using fj_view_text [OF C, of "[]" j q] bs by simp
    ultimately show ?thesis using w n WriteOk False by (auto simp: fj_persist_def Let_def fun_eq_iff)
  next
    case (CannotOpen e)
    with w n False ok1 v1 show ?thesis by (auto simp: fj_persist_def Let_def)
  qed (use j1(3) in simp_all)
qed

lemma file_contract:
  assumes C: "codec_laws C" shows "journal_contract (file_ops C) (fj_ok C) (fj_view C)"
proof
  fix j :: file_journal and p evs j' e b n j'' and u :: unit and r :: "unit journal_result"
  assume ok: "fj_ok C j"
  then obtain bs where bs: "file_content j p = lines_text C bs" by (auto simp: fj_ok_def)
  show "jo_latest_snapshot (file_ops C) j p = Inr (fst (fj_view C j p))"
    by (simp add: file_ops_def fj_view_def)
  show "jo_replay (file_ops C) j p (snap_seq (fst (fj_view C j p))) = map Inr (snd (fj_view C j p))"
    using decode_after_text [OF C, of "[]" j p bs 0] fj_view_text [OF C, of "[]" j p bs] bs
    by (simp add: file_ops_def)
  show "jo_persist (file_ops C) j p evs = (j', Inr u) \<Longrightarrow>
      fj_ok C j' \<and> fj_view C j' = (fj_view C j)(p := (fst (fj_view C j p), snd (fj_view C j p) @ evs))"
    using fj_persist_view [OF C ok, of p evs j' "Inr u"] by (simp add: file_ops_def)
  show "jo_persist (file_ops C) j p evs = (j', Inl e) \<Longrightarrow> fj_ok C j' \<and> fj_view C j' = fj_view C j"
    using fj_persist_view [OF C ok, of p evs j' "Inl e"] by (simp add: file_ops_def)
  show "jo_save_snapshot (file_ops C) j p b n = (j', Inl e) \<Longrightarrow> fj_ok C j' \<and> fj_view C j' = fj_view C j"
    by (simp add: file_ops_def)
  assume s: "jo_save_snapshot (file_ops C) j p b n = (j', Inr u)"
  then show "fj_ok C j' \<and> (fj_view C j' = fj_view C j \<or> fj_view C j' = (fj_view C j)(p := (Some (b, n), [])))"
    using ok by (simp add: file_ops_def)
  show "jo_delete_events_before (file_ops C) j' p n = (j'', r) \<Longrightarrow> fj_ok C j'' \<and> fj_view C j'' = fj_view C j'"
    using s ok by (auto simp: file_ops_def)
qed

end
