(* ===== verification/File_Recovery.thy ===== *)
theory File_Recovery
  imports File_Journal Supervisor
begin

text \<open>
  What the file journal guarantees and where it does not: actors recover from it as from the
  in-memory one while writes are atomic; a torn batch is dropped whole; but the text a torn write
  leaves is never removed, so the writes after it are lost, and a write that fails after its text
  reached the file is replayed although it was reported as failed.
\<close>

subsection \<open>A concrete encoding\<close>

text \<open>Two letters a byte, and strings packed between zero bytes: one instance of the codec laws.\<close>

definition nibble_char :: "nat \<Rightarrow> char" where
  "nibble_char n = char_of (97 + n)"

definition nibble_encode :: "bytes \<Rightarrow> string" where
  "nibble_encode bs = concat (map (\<lambda>b. [nibble_char (unat b div 16), nibble_char (unat b mod 16)]) bs)"

fun nibble_decode :: "string \<Rightarrow> bytes option" where
  "nibble_decode [] = Some []"
| "nibble_decode [c] = None"
| "nibble_decode (c # d # cs) =
     map_option (\<lambda>bs. of_nat (16 * (of_char c - 97) + (of_char d - 97)) # bs) (nibble_decode cs)"

definition byte_of_char :: "char \<Rightarrow> u8" where
  "byte_of_char c = of_nat (of_char c)"

definition char_of_byte :: "u8 \<Rightarrow> char" where
  "char_of_byte b = char_of (unat b)"

lemma char_of_byte_of_char [simp]: "char_of_byte (byte_of_char c) = c"
proof -
  have "of_char c < (256 :: nat)" by (rule nat_of_char_less_256)
  then show ?thesis by (simp add: char_of_byte_def byte_of_char_def unat_of_nat)
qed

definition zero_pack :: "string list \<Rightarrow> bytes" where
  "zero_pack ss = 0 # concat (map (\<lambda>s. map byte_of_char s @ [0]) ss)"

fun unpack_from :: "string \<Rightarrow> bytes \<Rightarrow> string list" where
  "unpack_from acc [] = []"
| "unpack_from acc (b # bs) =
     (if b = 0 then acc # unpack_from [] bs else unpack_from (acc @ [char_of_byte b]) bs)"

definition zero_unpack :: "bytes \<Rightarrow> string list option" where
  "zero_unpack bs = (case bs of [] \<Rightarrow> None | _ # r \<Rightarrow> Some (unpack_from [] r))"

definition nibble_codec :: line_codec where
  "nibble_codec =
     \<lparr>lc_encode = nibble_encode, lc_decode = nibble_decode, lc_pack = zero_pack, lc_unpack = zero_unpack\<rparr>"

lemma nibble_char_facts:
  assumes "n < 16"
  shows "of_char (nibble_char n) = 97 + n" and "nibble_char n \<noteq> newline" and "byte_of_char (nibble_char n) \<noteq> 0"
proof -
  show n: "of_char (nibble_char n) = 97 + n" using assms by (simp add: nibble_char_def)
  then show "nibble_char n \<noteq> newline" by (auto simp: newline_def)
  have "unat (byte_of_char (nibble_char n)) = 97 + n"
    unfolding byte_of_char_def n using assms by (simp add: unat_of_nat del: of_nat_add)
  then show "byte_of_char (nibble_char n) \<noteq> 0" by auto
qed

lemma nibble_encode_simps [simp]:
  "nibble_encode [] = []"
  "nibble_encode (b # bs) = nibble_char (unat b div 16) # nibble_char (unat b mod 16) # nibble_encode bs"
  by (simp_all add: nibble_encode_def)

lemma nibble_round_trip: "nibble_decode (nibble_encode bs) = Some bs"
proof (induction bs)
  case (Cons b bs)
  have "unat b < 256" by (rule order_less_le_trans [OF unsigned_less]) simp
  then have "unat b div 16 < 16" "unat b mod 16 < 16" by simp_all
  with Cons show ?case by (simp add: nibble_char_facts)
qed simp

lemma nibble_encode_chars: "c \<in> set (nibble_encode bs) \<Longrightarrow> \<exists>n < 16. c = nibble_char n"
proof (induction bs)
  case (Cons b bs)
  have "unat b < 256" by (rule order_less_le_trans [OF unsigned_less]) simp
  then have d: "unat b div 16 < 16" "unat b mod 16 < 16" by simp_all
  consider "c = nibble_char (unat b div 16)" | "c = nibble_char (unat b mod 16)" | "c \<in> set (nibble_encode bs)"
    using Cons.prems by auto
  then show ?case by cases (use d Cons.IH in blast)+
qed simp

lemma unpack_string:
  "(\<And>c. c \<in> set s \<Longrightarrow> byte_of_char c \<noteq> 0) \<Longrightarrow>
   unpack_from acc (map byte_of_char s @ 0 # bs) = (acc @ s) # unpack_from [] bs"
  by (induction s arbitrary: acc) auto

lemma unpack_strings:
  "(\<And>s c. s \<in> set ss \<Longrightarrow> c \<in> set s \<Longrightarrow> byte_of_char c \<noteq> 0) \<Longrightarrow>
   unpack_from [] (concat (map (\<lambda>s. map byte_of_char s @ [0]) ss)) = ss"
proof (induction ss)
  case (Cons s ss)
  then have "unpack_from [] (map byte_of_char s @ 0 # concat (map (\<lambda>s. map byte_of_char s @ [0]) ss)) =
      ([] @ s) # unpack_from [] (concat (map (\<lambda>s. map byte_of_char s @ [0]) ss))"
    by (intro unpack_string) auto
  moreover have "unpack_from [] (concat (map (\<lambda>s. map byte_of_char s @ [0]) ss)) = ss"
    by (rule Cons.IH) (use Cons.prems in auto)
  ultimately show ?case by simp
qed simp

lemma nibble_codec_laws: "codec_laws nibble_codec"
proof -
  have "zero_unpack (zero_pack (map nibble_encode xs)) = Some (map nibble_encode xs)" for xs
  proof -
    have "unpack_from [] (concat (map (\<lambda>s. map byte_of_char s @ [0]) (map nibble_encode xs))) = map nibble_encode xs"
      by (rule unpack_strings) (use nibble_encode_chars nibble_char_facts(3) in fastforce)
    then show ?thesis by (simp add: zero_unpack_def zero_pack_def)
  qed
  moreover have "newline \<notin> set (nibble_encode x)" for x
    using nibble_encode_chars nibble_char_facts(2) by metis
  moreover have "x \<noteq> [] \<Longrightarrow> nibble_encode x \<noteq> []" for x
    by (cases x) simp_all
  ultimately show ?thesis
    by (simp add: codec_laws_def nibble_codec_def nibble_round_trip zero_pack_def)
qed

interpretation fj: journal_contract "file_ops nibble_codec" "fj_ok nibble_codec" "fj_view nibble_codec"
  by (rule file_contract) (rule nibble_codec_laws)


subsection \<open>Actors on the file journal\<close>

lemma file_actor_contract:
  fixes A :: "('a, 's, 'c, 'e, file_journal, 'o) actor_ops"
  assumes "codec_laws C" and "codec_ok K"
    and "\<And>a s c j. fst (snd (ao_handle_command A a s c j)) = j"
  shows "actor_contract (file_ops C) (fj_ok C) (fj_view C) A K p"
proof -
  show ?thesis
    unfolding actor_contract_def actor_contract_axioms_def
    using file_contract [OF assms(1)] assms(2,3)
    by (auto simp: codec_ok_def) (metis fst_conv snd_conv)+
qed


lemma agent_ops_pure: "fst (snd (ao_handle_command agent_ops a s c j)) = j"
  by (simp add: agent_ops_def split: prod.splits)

text \<open>
  C11. On the file journal, whatever an agent session handles, and whichever of its writes fail
  before they touch the file, replaying the file gives exactly the conversation and the sequence
  number the session had in memory.
\<close>

theorem agent_session_recovers_from_file:
  assumes "codec_laws C" and "codec_ok K" and "fj_ok C j"
    and "run_actor (file_ops C) agent_ops K a j cmds = Inr l"
  shows "recover (file_ops C) agent_ops K (lv_journal l) (agent_pid (aa_session_id a)) =
           Inr (lv_state l, lv_seq l)"
proof -
  have p: "ao_persistence_id agent_ops a = agent_pid (aa_session_id a)" by (simp add: agent_ops_def)
  from actor_contract.run_actor_recoverable [OF file_actor_contract [OF assms(1,2) agent_ops_pure]
      assms(3) p assms(4)]
  show ?thesis by simp
qed

text \<open>A serializer into bytes for the witness: it stores plain-text input messages only.\<close>

definition text_codec :: "(agent_domain_event, agent_state, bytes) codec" where
  "text_codec =
     \<lparr>ser_event = (\<lambda>ev. case ev of
        EvToolComplete cid out False \<Rightarrow>
          if cid = [] then Inr (map byte_of_char out) else Inl ''unsupported''
      | _ \<Rightarrow> Inl ''unsupported''),
      de_event = (\<lambda>b. Inr (EvToolComplete [] (map char_of_byte b) False)),
      ser_state = (\<lambda>s. Inl ''unsupported''), de_state = (\<lambda>b. Inl ''unsupported'')\<rparr>"

lemma text_codec_ok: "codec_ok text_codec"
  by (auto simp: codec_ok_def text_codec_def comp_def split: agent_domain_event.splits bool.splits if_splits)

theorem agent_session_recovers_from_file_witness:
  "\<exists>l. run_actor (file_ops nibble_codec) agent_ops text_codec demo_actor
         \<lparr>fj_files = Map.empty, fj_faults = [WriteOk, CannotOpen ''EMFILE'']\<rparr>
         [PersistProgress [EvToolComplete [] ''ok'' False], PersistProgress [EvToolComplete [] ''no'' False],
          PersistProgress [EvToolComplete [] ''ok'' False]] = Inr l \<and>
       recover (file_ops nibble_codec) agent_ops text_codec (lv_journal l) (agent_pid ''s1'') =
         Inr (lv_state l, lv_seq l) \<and>
       lv_seq l = 2"
proof -
  let ?j = "\<lparr>fj_files = Map.empty, fj_faults = [WriteOk, CannotOpen ''EMFILE'']\<rparr>"
  let ?run = "run_actor (file_ops nibble_codec) agent_ops text_codec demo_actor ?j
      [PersistProgress [EvToolComplete [] ''ok'' False], PersistProgress [EvToolComplete [] ''no'' False],
       PersistProgress [EvToolComplete [] ''ok'' False]]"
  have "case ?run of Inl e \<Rightarrow> False | Inr l \<Rightarrow> lv_seq l = 2" by code_simp
  then obtain l where l: "?run = Inr l" "lv_seq l = 2" by (auto split: sum.splits)
  have "fj_ok nibble_codec ?j"
    by (auto simp: fj_ok_def file_content_def lines_text_def intro: exI [of _ "[]"])
  from agent_session_recovers_from_file [OF nibble_codec_laws text_codec_ok this l(1)] l
  show ?thesis by (simp add: demo_actor_def)
qed

subsection \<open>Torn writes\<close>

lemma torn_persist:
  assumes "codec_laws C" and "n \<le> length (batch_line C evs)" and "evs \<noteq> []"
  shows "\<exists>t. newline \<notin> set t \<and> t = take n (batch_line C evs) \<and>
    fj_persist C (j\<lparr>fj_faults := TornWrite n e # fs\<rparr>) p evs =
      (append_file (j\<lparr>fj_faults := fs\<rparr>) p t, Inl (Backend e))"
  using assms batch_line_facts(1) [OF assms(1), of evs]
  by (auto simp: fj_persist_def next_write_def dest: in_set_takeD)

lemma decode_after_append:
  assumes "codec_laws C" and "fj_ok C j" and "newline \<notin> set t"
  shows "decode_after C (append_file (j\<lparr>fj_faults := fs\<rparr>) p t) q k = decode_after C j q k"
proof -
  obtain bs where bs: "file_content j q = lines_text C bs" using assms(2) by (auto simp: fj_ok_def)
  have "file_content (append_file (j\<lparr>fj_faults := fs\<rparr>) p t) q = lines_text C bs @ (if q = p then t else [])"
    using bs by (auto simp: append_file_def file_content_def)
  then show ?thesis
    using decode_after_text [OF assms(1), of "if q = p then t else []"] decode_after_text [OF assms(1), of "[]" j q bs]
      bs assms(3)
    by simp
qed

text \<open>
  C37. A batch whose write was cut short before its newline is dropped whole: every replay of every
  log gives what it gave before the write, however much of the line reached the file.
\<close>

theorem torn_batch_dropped:
  assumes "codec_laws C" and "fj_ok C j" and "n \<le> length (batch_line C evs)"
    and "fj_persist C (j\<lparr>fj_faults := TornWrite n e # fs\<rparr>) p evs = (j', r)"
  shows "decode_after C j' q k = decode_after C j q k"
proof (cases "evs = []")
  case True
  with assms(4) show ?thesis by (auto simp: fj_persist_def decode_after_def)
next
  case False
  from torn_persist [OF assms(1,3) False] assms(4) decode_after_append [OF assms(1,2)]
  show ?thesis by auto
qed

text \<open>
  The batches after a torn write are lost: the remnant stays in the file, so the next batch is
  appended to the same line; the write succeeds, but when the joined line does not decode, replay
  stops there, and neither that batch nor any written after it is ever replayed.
\<close>

lemma writes_after_torn_lost:
  assumes "codec_laws C" and "fj_ok C j" and "evs \<noteq> []" and "evs' \<noteq> []"
    and "n \<le> length (batch_line C evs)"
    and "fj_persist C (j\<lparr>fj_faults := [TornWrite n e]\<rparr>) p evs = (j1, r1)"
    and "lc_decode C (take n (batch_line C evs) @ batch_line C evs') = None"
    and "fj_persist C j1 p evs' = (j2, r2)"
    and "fj_persist C j2 p evs'' = (j3, r3)"
  shows "r2 = Inr () \<and> r3 = Inr () \<and> decode_after C j2 p k = decode_after C j p k \<and>
         decode_after C j3 p k = decode_after C j p k"
proof -
  let ?t = "take n (batch_line C evs)"
  obtain bs where bs: "file_content j p = lines_text C bs" using assms(2) by (auto simp: fj_ok_def)
  have j1: "j1 = append_file (j\<lparr>fj_faults := []\<rparr>) p ?t"
    using torn_persist [OF assms(1,5,3), where j = j and e = e and fs = "[]" and p = p] assms(6) by auto
  have j2: "r2 = Inr ()" "j2 = append_file j1 p (batch_line C evs' @ [newline])"
    using assms(4,8) j1 by (auto simp: fj_persist_def next_write_def append_file_def)
  have faults: "fj_faults j2 = []" using j1 j2 by (simp add: append_file_def)
  have c2: "file_content j2 p = lines_text C bs @ ?t @ batch_line C evs' @ [newline]"
    using bs j1 j2 by (simp add: append_file_def file_content_def)
  have stop: "decode_after C j' p k = decode_after C j p k"
    if "fj_files j' p = Some (lines_text C bs @ (?t @ batch_line C evs') @ newline # rest)" for j' rest
  proof -
    let ?l = "?t @ batch_line C evs'"
    have nl: "newline \<notin> set ?l" "?l \<noteq> []"
      using batch_line_facts [OF assms(1)] by (auto dest: in_set_takeD)
    have "split_on newline (lines_text C bs @ ?l @ newline # rest) =
        map (batch_line C) bs @ ?l # split_on newline rest"
      using split_on_append [OF nl(1), of rest]
      by (induction bs)
        (simp_all add: lines_text_def split_on_append batch_line_facts [OF assms(1)])
    moreover have "split_on newline rest \<noteq> []" by (induction rest) (auto split: list.splits)
    ultimately have "butlast (split_on newline (lines_text C bs @ ?l @ newline # rest)) =
        map (batch_line C) bs @ ?l # butlast (split_on newline rest)"
      by (simp add: butlast_append)
    moreover have "decode_lines C k m (map (batch_line C) xs @ ?l # ls) = map Inr (drop (k - m) (concat xs))"
      for m xs ls
      using assms(7) nl(2)
      by (induction xs arbitrary: m)
        (simp_all add: batch_line_facts [OF assms(1)] decode_events_encoded [OF assms(1)] diff_diff_left)
    ultimately show ?thesis
      using that decode_after_text [OF assms(1), of "[]" j p bs k] bs
      by (simp add: decode_after_def [of C j'])
  qed
  have f2: "fj_files j2 p = Some (lines_text C bs @ (?t @ batch_line C evs') @ newline # [])"
    using c2 j2 by (simp add: append_file_def file_content_def)
  have "r3 = Inr () \<and> (\<exists>rest. fj_files j3 p = Some (lines_text C bs @ (?t @ batch_line C evs') @ newline # rest))"
  proof (cases "evs'' = []")
    case True
    with assms(9) f2 show ?thesis by (auto simp: fj_persist_def)
  next
    case False
    with assms(9) faults f2 show ?thesis
      by (auto simp: fj_persist_def next_write_def append_file_def file_content_def)
  qed
  then obtain rest where "r3 = Inr ()" "fj_files j3 p = Some (lines_text C bs @ (?t @ batch_line C evs') @ newline # rest)"
    by blast
  with j2(1) stop [OF f2] stop show ?thesis by blast
qed

text \<open>A write reported as failed after its text reached the file is replayed all the same.\<close>

lemma unsynced_write_replayed:
  assumes "codec_laws C" and "fj_ok C j" and "evs \<noteq> []"
    and "fj_persist C (j\<lparr>fj_faults := NotSynced e # fs\<rparr>) p evs = (j', r)"
  shows "r = Inl (Backend e) \<and> decode_after C j' p 0 = decode_after C j p 0 @ map Inr evs"
proof -
  obtain bs where bs: "file_content j p = lines_text C bs" using assms(2) by (auto simp: fj_ok_def)
  have j': "r = Inl (Backend e)" "j' = append_file (j\<lparr>fj_faults := fs\<rparr>) p (batch_line C evs @ [newline])"
    using assms(3,4) by (auto simp: fj_persist_def next_write_def)
  then have "file_content j' p = lines_text C (bs @ [evs])"
    using bs by (simp add: append_file_def file_content_def lines_text_def)
  with decode_after_text [OF assms(1), of "[]" j' p "bs @ [evs]" 0] decode_after_text [OF assms(1), of "[]" j p bs 0]
    bs j'(1) show ?thesis by simp
qed


subsection \<open>Sample files\<close>

definition empty_files :: file_journal where
  "empty_files = \<lparr>fj_files = Map.empty, fj_faults = []\<rparr>"

lemma empty_files_ok: "fj_ok C empty_files"
  by (auto simp: fj_ok_def empty_files_def file_content_def lines_text_def intro: exI [of _ "[]"])

theorem torn_batch_dropped_witness:
  "decode_after nibble_codec
     (fst (fj_persist nibble_codec (empty_files\<lparr>fj_faults := [TornWrite 5 ''ENOSPC'']\<rparr>) (agent_pid ''s'') [[1], [2]]))
     (agent_pid ''s'') 0 = []"
proof -
  obtain j' r where h: "fj_persist nibble_codec (empty_files\<lparr>fj_faults := [TornWrite 5 ''ENOSPC'']\<rparr>)
      (agent_pid ''s'') [[1], [2]] = (j', r)" by fastforce
  have "5 \<le> length (batch_line nibble_codec [[1], [2]])" by code_simp
  from torn_batch_dropped [OF nibble_codec_laws empty_files_ok this h] h
  show ?thesis by (simp add: decode_after_def empty_files_def)
qed

end
