(* ===== verification/Daemon_Recovery.thy ===== *)
theory Daemon_Recovery
  imports Supervisor File_Recovery
begin

text \<open>
  The actors of a daemon on the one journal they share, as \<open>spawn_root\<close> and \<open>ActorContext::spawn\<close>
  hand it to them (\<open>actor/src/runtime.rs\<close>): the supervisor, jobs, workflows and agents, each known by
  its persistence id. An actor starts by recovering, then takes commands one by one, interleaved with
  the others' in any order; the whole process may die between two of them, and start again. The locale
  \<open>shared_journal\<close> is what sharing asks of a journal beyond \<open>journal_contract\<close>: a copied snapshot
  touches its target only. Both journals of the code provide it.
\<close>

subsection \<open>Actors that share a journal\<close>

locale shared_journal = journal_contract J ok view
  for J :: "('j, 'b) journal_ops" and ok view +
  assumes copy_frame: "ok j \<Longrightarrow> jo_copy_snapshot J j src dst = (j', r) \<Longrightarrow>
    ok j' \<and> (\<forall>p. p \<noteq> dst \<longrightarrow> view j' p = view j p)"

interpretation ims: shared_journal in_memory_ops im_ok im_view
proof unfold_locales
  fix j j' :: "'b in_memory" and src dst r
  assume ok: "im_ok j" and c: "jo_copy_snapshot in_memory_ops j src dst = (j', r)"
  have "pid_kind dst @ ''+'' \<noteq> pid_kind dst" by simp
  then have "mk_pid (pid_kind dst @ ''+'') [] \<noteq> dst" by (metis mk_pid_def persistence_id.select_convs(1))
  from im_copy_other [OF ok _ this] c have "im_ok j'" by simp
  moreover have "\<forall>p. p \<noteq> dst \<longrightarrow> im_view j' p = im_view j p" using im_copy_other [OF ok] c by simp
  ultimately show "im_ok j' \<and> (\<forall>p. p \<noteq> dst \<longrightarrow> im_view j' p = im_view j p)" by simp
qed

lemma file_shared: "codec_laws C \<Longrightarrow> shared_journal (file_ops C) (fj_ok C) (fj_view C)"
  unfolding shared_journal_def shared_journal_axioms_def
  using file_contract [of C] by (auto simp: file_ops_def)

interpretation fjs: shared_journal "file_ops nibble_codec" "fj_ok nibble_codec" "fj_view nibble_codec"
  by (rule file_shared) (rule nibble_codec_laws)

text \<open>A live actor, without the journal it shares.\<close>

record ('a, 's) actor_task =
  tk_actor :: 'a
  tk_state :: 's
  tk_seq :: nat

definition task_start ::
  "('j, 'b) journal_ops \<Rightarrow> ('a, 's, 'c, 'e, 'j, 'o) actor_ops \<Rightarrow> ('e, 's, 'b) codec \<Rightarrow> 'a \<Rightarrow> 'j
     \<Rightarrow> (('a, 's) actor_task \<times> 'o list) option" where
  "task_start J A K a j =
     (case recover J A K j (ao_persistence_id A a) of
        Inl e \<Rightarrow> None
      | Inr (s, n) \<Rightarrow>
          (case ao_on_recovery_complete A a s of
             (a', out) \<Rightarrow> Some (\<lparr>tk_actor = a', tk_state = s, tk_seq = n\<rparr>, out)))"

definition task_command ::
  "('j, 'b) journal_ops \<Rightarrow> ('a, 's, 'c, 'e, 'j, 'o) actor_ops \<Rightarrow> ('e, 's, 'b) codec \<Rightarrow> persistence_id
     \<Rightarrow> ('a, 's) actor_task \<Rightarrow> 'c \<Rightarrow> 'j \<Rightarrow> ('a, 's) actor_task option \<times> 'j \<times> 'o list" where
  "task_command J A K p t c j =
     (let l = run_command J A K p
            \<lparr>lv_actor = tk_actor t, lv_state = tk_state t, lv_seq = tk_seq t, lv_journal = j, lv_out = [],
             lv_stopped = False\<rparr> c
      in (if lv_stopped l then None
          else Some \<lparr>tk_actor = lv_actor l, tk_state = lv_state l, tk_seq = lv_seq l\<rparr>,
          lv_journal l, lv_out l))"

text \<open>\<open>run_actor\<close> is a start and the commands after it.\<close>

lemma task_start_run_actor:
  "run_actor J A K a j [] =
     (case recover J A K j (ao_persistence_id A a) of
        Inl e \<Rightarrow> Inl e
      | Inr _ \<Rightarrow>
          (case the (task_start J A K a j) of
             (t, out) \<Rightarrow> Inr \<lparr>lv_actor = tk_actor t, lv_state = tk_state t, lv_seq = tk_seq t, lv_journal = j,
                            lv_out = out, lv_stopped = False\<rparr>))"
  by (simp add: run_actor_def task_start_def Let_def split: sum.splits prod.splits)

context actor_contract
begin

lemma lv_persist_frame:
  assumes "ok (lv_journal l)" and "q \<noteq> p"
  shows "view (lv_journal (lv_persist J A K p l evs)) q = view (lv_journal l) q"
  using assms persist_ok [OF assms(1)] persist_err [OF assms(1)]
  by (auto simp: lv_persist_def persist_events_def split: sum.splits prod.splits)

lemma lv_snapshot_frame:
  assumes "synced l" and "q \<noteq> p"
  shows "view (lv_journal (lv_snapshot J K p l)) q = view (lv_journal l) q"
proof (cases "ser_state K (lv_state l)")
  case (Inr b)
  let ?j = "lv_journal l"
  have ok: "ok ?j" and n: "lv_seq l = snap_seq (fst (view ?j p)) + length (snd (view ?j p))"
    using assms(1) recover_seq by (auto simp: synced_def)
  obtain j1 r where sv: "jo_save_snapshot J ?j p b (lv_seq l) = (j1, r)" by fastforce
  obtain j2 r2 where d: "jo_delete_events_before J j1 p (lv_seq l) = (j2, r2)" by fastforce
  show ?thesis
  proof (cases r)
    case (Inl e)
    with sv have "jo_save_snapshot J ?j p b (lv_seq l) = (j1, Inl e)" by simp
    from save_err [OF ok this] Inr sv Inl show ?thesis by (simp add: lv_snapshot_def snapshot_state_def)
  next
    case r: (Inr u)
    with sv have sv: "jo_save_snapshot J ?j p b (lv_seq l) = (j1, Inr u)" by simp
    from save_ok [OF ok n sv] compact [OF ok n sv d] Inr sv d assms(2) show ?thesis
      by (auto simp: lv_snapshot_def snapshot_state_def)
  qed
qed (simp add: lv_snapshot_def snapshot_state_def)

lemma run_effect_frame:
  assumes "synced l" and "q \<noteq> p"
  shows "view (lv_journal (run_effect J A K p l eff)) q = view (lv_journal l) q"
proof -
  have "ok (lv_journal l)" using assms(1) by (simp add: synced_def)
  note pf = lv_persist_frame [OF this assms(2)]
  show ?thesis
    using pf lv_snapshot_frame [OF assms] lv_snapshot_frame [OF lv_persist_synced [OF assms(1)] assms(2)]
    by (cases eff) simp_all
qed

text \<open>A command leaves its actor recoverable, and every log its handler leaves alone as it was.\<close>

lemma task_command_recoverable:
  assumes "ok j" and "recover J A K j p = Inr (tk_state t, tk_seq t)"
    and "task_command J A K p t c j = (t', j', out)"
  shows "ok j' \<and> (\<forall>x. t' = Some x \<longrightarrow> recover J A K j' p = Inr (tk_state x, tk_seq x))"
proof -
  let ?l = "\<lparr>lv_actor = tk_actor t, lv_state = tk_state t, lv_seq = tk_seq t, lv_journal = j, lv_out = [],
      lv_stopped = False\<rparr>"
  have "synced ?l" using assms(1,2) by (simp add: synced_def)
  from run_command_synced [OF this, of c] assms(3) show ?thesis
    by (auto simp: task_command_def synced_def Let_def split: if_splits)
qed

lemma task_command_frame:
  assumes "ok j" and "recover J A K j p = Inr (tk_state t, tk_seq t)"
    and "task_command J A K p t c j = (t', j', out)" and "q \<noteq> p"
    and "\<And>a' j1 out eff. ao_handle_command A (tk_actor t) (tk_state t) c j = (a', j1, out, eff) \<Longrightarrow> view j1 q = view j q"
  shows "view j' q = view j q"
proof -
  let ?l = "\<lparr>lv_actor = tk_actor t, lv_state = tk_state t, lv_seq = tk_seq t, lv_journal = j, lv_out = [],
      lv_stopped = False\<rparr>"
  obtain a1 j1 o1 eff where h: "ao_handle_command A (tk_actor t) (tk_state t) c j = (a1, j1, o1, eff)"
    by (metis prod_cases4)
  let ?l1 = "?l\<lparr>lv_actor := a1, lv_journal := j1, lv_out := o1\<rparr>"
  have "ok j1" "view j1 p = view j p" using handler_frame [OF assms(1) h] by simp_all
  with assms(1,2) recover_cong [OF assms(1), of j1] have "synced ?l1" by (simp add: synced_def)
  from run_effect_frame [OF this assms(4), of eff] assms(3,5) h show ?thesis
    by (auto simp: task_command_def run_command_def Let_def)
qed

lemma task_start_recoverable:
  assumes "ao_persistence_id A a = p" and "task_start J A K a j = Some (t, out)"
  shows "recover J A K j p = Inr (tk_state t, tk_seq t)"
  using assms by (auto simp: task_start_def split: sum.splits prod.splits)

end

subsection \<open>A daemon's actors\<close>

record 'b codecs =
  co_supervisor :: "(supervisor_event, supervisor_state, 'b) codec"
  co_job :: "(job_event, job_state, 'b) codec"
  co_workflow :: "(workflow_event, workflow_state, 'b) codec"
  co_agent :: "(agent_domain_event, agent_state, 'b) codec"

definition codecs_ok :: "'b codecs \<Rightarrow> bool" where
  "codecs_ok Ks \<longleftrightarrow>
     codec_ok (co_supervisor Ks) \<and> codec_ok (co_job Ks) \<and> codec_ok (co_workflow Ks) \<and> codec_ok (co_agent Ks)"

record 'j actors =
  da_journal :: 'j
  da_supervisor :: "(supervisor_actor, supervisor_state) actor_task option"
  da_jobs :: "string \<rightharpoonup> (job_actor, job_state) actor_task"
  da_workflows :: "string \<rightharpoonup> (workflow_actor, workflow_state) actor_task"
  da_agents :: "string \<rightharpoonup> (agent_actor, agent_state) actor_task"

definition no_actors :: "'j \<Rightarrow> 'j actors" where
  "no_actors j =
     \<lparr>da_journal = j, da_supervisor = None, da_jobs = Map.empty, da_workflows = Map.empty, da_agents = Map.empty\<rparr>"

text \<open>
  A session is fresh when no live agent has the id a fork would draw next (they are UUIDs). A task of
  None is an actor that stopped.
\<close>

definition fork_fresh :: "'j actors \<Rightarrow> workflow_actor \<Rightarrow> bool" where
  "fork_fresh d wa \<longleftrightarrow> da_agents d (wa_new_id wa (wa_drawn wa)) = None"

inductive actors_step ::
  "('j, 'b) journal_ops \<Rightarrow> 'b codecs \<Rightarrow> 'j actors \<Rightarrow> 'j actors \<Rightarrow> bool"
  for J :: "('j, 'b) journal_ops" and Ks :: "'b codecs" where
  supervisor_starts:
    "da_supervisor d = None \<Longrightarrow>
     task_start J supervisor_ops (co_supervisor Ks) sa (da_journal d) = Some (t, out) \<Longrightarrow>
     actors_step J Ks d (d\<lparr>da_supervisor := Some t\<rparr>)"
| supervisor_runs:
    "da_supervisor d = Some t \<Longrightarrow>
     task_command J supervisor_ops (co_supervisor Ks) supervisor_pid t scmd (da_journal d) = (t', j', out) \<Longrightarrow>
     actors_step J Ks d (d\<lparr>da_supervisor := t', da_journal := j'\<rparr>)"
| job_starts:
    "da_jobs d job = None \<Longrightarrow> ja_job_id ja = job \<Longrightarrow>
     task_start J job_ops (co_job Ks) ja (da_journal d) = Some (tj, jout) \<Longrightarrow>
     actors_step J Ks d (d\<lparr>da_jobs := (da_jobs d)(job \<mapsto> tj)\<rparr>)"
| job_runs:
    "da_jobs d job = Some tj \<Longrightarrow>
     task_command J job_ops (co_job Ks) (job_pid job) tj jcmd (da_journal d) = (tj', j', jout) \<Longrightarrow>
     actors_step J Ks d (d\<lparr>da_jobs := (da_jobs d)(job := tj'), da_journal := j'\<rparr>)"
| workflow_starts:
    "da_workflows d rid = None \<Longrightarrow> wa_run_id wa = rid \<Longrightarrow>
     task_start J (workflow_ops J) (co_workflow Ks) wa (da_journal d) = Some (tw, wout) \<Longrightarrow>
     actors_step J Ks d (d\<lparr>da_workflows := (da_workflows d)(rid \<mapsto> tw)\<rparr>)"
| workflow_runs:
    "da_workflows d rid = Some tw \<Longrightarrow> fork_fresh d (tk_actor tw) \<Longrightarrow>
     task_command J (workflow_ops J) (co_workflow Ks) (workflow_pid rid) tw wcmd (da_journal d) = (tw', j', wout) \<Longrightarrow>
     actors_step J Ks d (d\<lparr>da_workflows := (da_workflows d)(rid := tw'), da_journal := j'\<rparr>)"
| agent_starts:
    "da_agents d sid = None \<Longrightarrow> aa_session_id aa = sid \<Longrightarrow>
     task_start J agent_ops (co_agent Ks) aa (da_journal d) = Some (ta, aout) \<Longrightarrow>
     actors_step J Ks d (d\<lparr>da_agents := (da_agents d)(sid \<mapsto> ta)\<rparr>)"
| agent_runs:
    "da_agents d sid = Some ta \<Longrightarrow>
     task_command J agent_ops (co_agent Ks) (agent_pid sid) ta acmd (da_journal d) = (ta', j', aout) \<Longrightarrow>
     actors_step J Ks d (d\<lparr>da_agents := (da_agents d)(sid := ta'), da_journal := j'\<rparr>)"
| daemon_dies:
    "actors_step J Ks d (no_actors (da_journal d))"

inductive actors_reach :: "('j, 'b) journal_ops \<Rightarrow> 'b codecs \<Rightarrow> 'j \<Rightarrow> 'j actors \<Rightarrow> bool"
  for J :: "('j, 'b) journal_ops" and Ks :: "'b codecs" and j0 :: 'j where
  actors_boot: "actors_reach J Ks j0 (no_actors j0)"
| actors_more: "actors_reach J Ks j0 d \<Longrightarrow> actors_step J Ks d d' \<Longrightarrow> actors_reach J Ks j0 d'"

text \<open>Each live actor's state is what its log gives.\<close>

definition recoverable ::
  "('j, 'b) journal_ops \<Rightarrow> ('a, 's, 'c, 'e, 'j, 'o) actor_ops \<Rightarrow> ('e, 's, 'b) codec \<Rightarrow> persistence_id
     \<Rightarrow> 'j \<Rightarrow> ('a, 's) actor_task option \<Rightarrow> bool" where
  "recoverable J A K p j x \<longleftrightarrow> (\<forall>t. x = Some t \<longrightarrow> recover J A K j p = Inr (tk_state t, tk_seq t))"

definition all_recoverable :: "('j, 'b) journal_ops \<Rightarrow> 'b codecs \<Rightarrow> 'j actors \<Rightarrow> bool" where
  "all_recoverable J Ks d \<longleftrightarrow>
     recoverable J supervisor_ops (co_supervisor Ks) supervisor_pid (da_journal d) (da_supervisor d) \<and>
     (\<forall>job. recoverable J job_ops (co_job Ks) (job_pid job) (da_journal d) (da_jobs d job)) \<and>
     (\<forall>rid. recoverable J (workflow_ops J) (co_workflow Ks) (workflow_pid rid) (da_journal d) (da_workflows d rid)) \<and>
     (\<forall>sid. recoverable J agent_ops (co_agent Ks) (agent_pid sid) (da_journal d) (da_agents d sid))"

lemma pids_differ [simp]:
  "job_pid job \<noteq> supervisor_pid" "workflow_pid rid \<noteq> supervisor_pid" "agent_pid sid \<noteq> supervisor_pid"
  "supervisor_pid \<noteq> job_pid job" "supervisor_pid \<noteq> workflow_pid rid" "supervisor_pid \<noteq> agent_pid sid"
  "job_pid job \<noteq> workflow_pid rid" "workflow_pid rid \<noteq> job_pid job" "job_pid job \<noteq> agent_pid sid"
  "agent_pid sid \<noteq> job_pid job" "workflow_pid rid \<noteq> agent_pid sid" "agent_pid sid \<noteq> workflow_pid rid"
  "job_pid job = job_pid job' \<longleftrightarrow> job = job'" "workflow_pid rid = workflow_pid rid' \<longleftrightarrow> rid = rid'"
  "agent_pid sid = agent_pid sid' \<longleftrightarrow> sid = sid'"
  by (simp_all add: job_pid_def workflow_pid_def agent_pid_def supervisor_pid_def)

subsection \<open>Every live actor is recoverable\<close>

context shared_journal
begin

lemma recoverable_kept:
  assumes "ok j" and "ok j'" and "view j' q = view j q"
  shows "recoverable J A K q j' x = recoverable J A K q j x"
proof -
  have "jo_latest_snapshot J j' q = jo_latest_snapshot J j q"
    using latest [OF assms(1), of q] latest [OF assms(2), of q] assms(3) by simp
  moreover have "jo_replay J j' q (snap_seq (fst (view j q))) = jo_replay J j q (snap_seq (fst (view j q)))"
    using replay [OF assms(1), of q] replay [OF assms(2), of q] assms(3) by simp
  ultimately have "recover J A K j' q = recover J A K j q"
    using latest [OF assms(1), of q] by (auto simp: recover_def split: option.splits sum.splits)
  then show ?thesis by (simp add: recoverable_def)
qed

lemma pure_contract:
  assumes "codec_ok K" and "\<And>a s c j. fst (snd (ao_handle_command A a s c j)) = j"
  shows "actor_contract J ok view A K p"
proof
  show "ser_event K ev = Inr b \<Longrightarrow> de_event K b = Inr ev" for ev b using assms(1) by (simp add: codec_ok_def)
  show "ser_state K s = Inr b \<Longrightarrow> de_state K b = Inr s" for s b using assms(1) by (simp add: codec_ok_def)
  show "ok j \<Longrightarrow> ao_handle_command A a s c j = (a', j', out, eff) \<Longrightarrow> ok j' \<and> view j' p = view j p"
    for j a s c a' j' out eff using assms(2) [of a s c j] by simp
qed

lemma fork_frame:
  assumes "ok j" and "workflow_handle_command J a s cmd j = (j', a', out, eff)"
  shows "ok j' \<and> (\<forall>p. p \<noteq> agent_pid (wa_new_id a (wa_drawn a)) \<longrightarrow> view j' p = view j p)"
proof (cases cmd)
  case (ForkWorkflow sid msg)
  with assms show ?thesis
    by (auto simp: workflow_handle_command_def on_fork_def new_session_def
        split: if_splits option.splits sum.splits prod.splits dest: copy_frame)
qed (use assms in \<open>auto simp: workflow_handle_command_def\<close>)

lemma shared_workflow_contract:
  assumes "codec_ok K"
  shows "actor_contract J ok view (workflow_ops J) K (workflow_pid rid)"
proof
  show "ser_event K ev = Inr b \<Longrightarrow> de_event K b = Inr ev" for ev b using assms by (simp add: codec_ok_def)
  show "ser_state K s = Inr b \<Longrightarrow> de_state K b = Inr s" for s b using assms by (simp add: codec_ok_def)
  show "ok j \<Longrightarrow> ao_handle_command (workflow_ops J) a s c j = (a', j', out, eff) \<Longrightarrow>
      ok j' \<and> view j' (workflow_pid rid) = view j (workflow_pid rid)" for j a s c a' j' out eff
    by (auto simp: workflow_ops_def split: prod.splits dest: fork_frame)
qed

lemma pure_command:
  assumes "codec_ok K" and "\<And>a s c j. fst (snd (ao_handle_command A a s c j)) = j"
    and "ok j" and "recoverable J A K p j (Some t)" and "task_command J A K p t c j = (t', j', out)"
  shows "ok j' \<and> recoverable J A K p j' t' \<and> (\<forall>q. q \<noteq> p \<longrightarrow> view j' q = view j q)"
proof -
  note ac = pure_contract [OF assms(1,2)]
  have rec: "recover J A K j p = Inr (tk_state t, tk_seq t)" using assms(4) by (simp add: recoverable_def)
  have "view j' q = view j q" if "q \<noteq> p" for q
    by (rule actor_contract.task_command_frame [OF ac assms(3) rec assms(5) that])
      (use assms(2) [of "tk_actor t" "tk_state t" c j] in simp)
  with actor_contract.task_command_recoverable [OF ac assms(3) rec assms(5)] show ?thesis
    by (simp add: recoverable_def)
qed

lemma workflow_command:
  assumes "codec_ok K" and "ok j" and "recoverable J (workflow_ops J) K (workflow_pid rid) j (Some t)"
    and "task_command J (workflow_ops J) K (workflow_pid rid) t c j = (t', j', out)"
  shows "ok j' \<and> recoverable J (workflow_ops J) K (workflow_pid rid) j' t' \<and>
    (\<forall>q. q \<noteq> workflow_pid rid \<longrightarrow> q \<noteq> agent_pid (wa_new_id (tk_actor t) (wa_drawn (tk_actor t))) \<longrightarrow> view j' q = view j q)"
proof -
  note ac = shared_workflow_contract [OF assms(1), of rid]
  have rec: "recover J (workflow_ops J) K j (workflow_pid rid) = Inr (tk_state t, tk_seq t)"
    using assms(3) by (simp add: recoverable_def)
  have "view j' q = view j q"
    if "q \<noteq> workflow_pid rid" "q \<noteq> agent_pid (wa_new_id (tk_actor t) (wa_drawn (tk_actor t)))" for q
    by (rule actor_contract.task_command_frame [OF ac assms(2) rec assms(4) that(1)])
      (use that(2) in \<open>auto simp: workflow_ops_def split: prod.splits dest: fork_frame [OF assms(2)]\<close>)
  with actor_contract.task_command_recoverable [OF ac assms(2) rec assms(4)] show ?thesis
    by (simp add: recoverable_def)
qed

lemma actors_start_kept:
  assumes "all_recoverable J Ks d" and "task_start J A K a (da_journal d) = Some (t, out)"
    and "ao_persistence_id A a = p"
  shows "recoverable J A K p (da_journal d) (Some t)"
  using assms(2,3) by (auto simp: recoverable_def task_start_def split: sum.splits prod.splits)

lemma others_kept:
  assumes "ok (da_journal d)" and "all_recoverable J Ks d" and "ok j'"
    and "\<forall>q. q \<noteq> p \<longrightarrow> q \<noteq> p' \<longrightarrow> view j' q = view (da_journal d) q"
  shows "p \<noteq> supervisor_pid \<Longrightarrow> p' \<noteq> supervisor_pid \<Longrightarrow>
      recoverable J supervisor_ops (co_supervisor Ks) supervisor_pid j' (da_supervisor d)"
    and "p \<noteq> job_pid job \<Longrightarrow> p' \<noteq> job_pid job \<Longrightarrow>
      recoverable J job_ops (co_job Ks) (job_pid job) j' (da_jobs d job)"
    and "p \<noteq> workflow_pid rid \<Longrightarrow> p' \<noteq> workflow_pid rid \<Longrightarrow>
      recoverable J (workflow_ops J) (co_workflow Ks) (workflow_pid rid) j' (da_workflows d rid)"
    and "p \<noteq> agent_pid sid \<Longrightarrow> p' \<noteq> agent_pid sid \<Longrightarrow>
      recoverable J agent_ops (co_agent Ks) (agent_pid sid) j' (da_agents d sid)"
  using assms(2) by (simp_all add: recoverable_kept [OF assms(1,3)] assms(4) all_recoverable_def)

lemma actors_step_kept:
  assumes Ks: "codecs_ok Ks" and inv: "ok (da_journal d)" "all_recoverable J Ks d" and step: "actors_step J Ks d d'"
  shows "ok (da_journal d') \<and> all_recoverable J Ks d'"
  using step
proof cases
  case (supervisor_runs t scmd t' j' out)
  have "ok j' \<and> recoverable J supervisor_ops (co_supervisor Ks) supervisor_pid j' t' \<and>
      (\<forall>q. q \<noteq> supervisor_pid \<longrightarrow> view j' q = view (da_journal d) q)"
    by (rule pure_command [OF _ supervisor_ops_pure inv(1) _ supervisor_runs(3)])
      (use Ks inv(2) supervisor_runs(2) in \<open>auto simp: codecs_ok_def all_recoverable_def\<close>)
  with others_kept [OF inv, of j' supervisor_pid supervisor_pid] supervisor_runs(1) show ?thesis
    by (simp add: all_recoverable_def)
next
  case (job_runs job tj jcmd tj' j' jout)
  have "ok j' \<and> recoverable J job_ops (co_job Ks) (job_pid job) j' tj' \<and>
      (\<forall>q. q \<noteq> job_pid job \<longrightarrow> view j' q = view (da_journal d) q)"
    by (rule pure_command [OF _ job_ops_pure inv(1) _ job_runs(3)])
      (use Ks inv(2) job_runs(2) in \<open>auto simp: codecs_ok_def all_recoverable_def dest: spec [of _ job]\<close>)
  with others_kept [OF inv, of j' "job_pid job" "job_pid job"] job_runs(1) show ?thesis
    by (simp add: all_recoverable_def)
next
  case (workflow_runs rid tw wcmd tw' j' wout)
  let ?fork = "wa_new_id (tk_actor tw) (wa_drawn (tk_actor tw))"
  have "ok j' \<and> recoverable J (workflow_ops J) (co_workflow Ks) (workflow_pid rid) j' tw' \<and>
      (\<forall>q. q \<noteq> workflow_pid rid \<longrightarrow> q \<noteq> agent_pid ?fork \<longrightarrow> view j' q = view (da_journal d) q)"
    by (rule workflow_command [OF _ inv(1) _ workflow_runs(4)])
      (use Ks inv(2) workflow_runs(2) in \<open>auto simp: codecs_ok_def all_recoverable_def dest: spec [of _ rid]\<close>)
  moreover have "recoverable J agent_ops (co_agent Ks) (agent_pid ?fork) j' (da_agents d ?fork)"
    using workflow_runs(3) by (simp add: fork_fresh_def recoverable_def)
  ultimately show ?thesis
    using others_kept [OF inv, of j' "workflow_pid rid" "agent_pid ?fork"] workflow_runs(1)
    by (simp add: all_recoverable_def) metis
next
  case (agent_runs sid ta acmd ta' j' aout)
  have "ok j' \<and> recoverable J agent_ops (co_agent Ks) (agent_pid sid) j' ta' \<and>
      (\<forall>q. q \<noteq> agent_pid sid \<longrightarrow> view j' q = view (da_journal d) q)"
    by (rule pure_command [OF _ agent_ops_pure inv(1) _ agent_runs(3)])
      (use Ks inv(2) agent_runs(2) in \<open>auto simp: codecs_ok_def all_recoverable_def dest: spec [of _ sid]\<close>)
  with others_kept [OF inv, of j' "agent_pid sid" "agent_pid sid"] agent_runs(1) show ?thesis
    by (simp add: all_recoverable_def)
qed (use inv in \<open>auto simp: all_recoverable_def no_actors_def recoverable_def task_start_def supervisor_ops_def
        job_ops_def workflow_ops_def agent_ops_def split: sum.splits prod.splits\<close>)

lemma actors_reach_recoverable:
  assumes "codecs_ok Ks" and "ok j0"
  shows "actors_reach J Ks j0 d \<Longrightarrow> ok (da_journal d) \<and> all_recoverable J Ks d"
proof (induction rule: actors_reach.induct)
  case actors_boot
  with assms(2) show ?case by (simp add: no_actors_def all_recoverable_def recoverable_def)
next
  case (actors_more d d')
  with actors_step_kept [OF assms(1)] show ?case by blast
qed

end

subsection \<open>A daemon restarts\<close>

lemma task_restart:
  assumes "recoverable J A K p j (Some t)" and "ao_persistence_id A a = p"
    and "ao_on_recovery_complete A a (tk_state t) = (a', out)"
  shows "task_start J A K a j = Some (\<lparr>tk_actor = a', tk_state = tk_state t, tk_seq = tk_seq t\<rparr>, out)"
  using assms by (simp add: recoverable_def task_start_def)

lemma supervisor_respawns:
  assumes "sa_children sa = []" and "bt_get s job = Some r" and "\<not> is_terminal (jr_status r)"
    and "supervisor_on_recovery_complete sa s = (sa', out)"
  shows "\<exists>c. SpawnJob c job (jr_spec r) \<in> set out"
proof -
  let ?js = "map (\<lambda>(job, r). (job, jr_spec r)) (filter (\<lambda>(_, r). \<not> is_terminal (jr_status r)) s)"
  have "map (\<lambda>out. case out of SpawnJob _ job spec \<Rightarrow> Some (job, spec) | _ \<Rightarrow> None) out = map Some ?js"
    using spawn_jobs_children [OF assms(4) [unfolded supervisor_on_recovery_complete_def]] assms(1) by simp
  moreover have "(job, jr_spec r) \<in> set ?js"
    using map_of_SomeD [OF assms(2)] assms(3) by force
  ultimately have "Some (job, jr_spec r) \<in>
      (\<lambda>out. case out of SpawnJob _ job spec \<Rightarrow> Some (job, spec) | _ \<Rightarrow> None) ` set out"
    by (metis (no_types, lifting) image_eqI list.set_map)
  then show ?thesis by (auto split: supervisor_out.splits)
qed

text \<open>
  C3. A daemon that dies goes on where it was. The supervisor, the jobs, their workflows and the agents
  share the journal of files and take their commands in any interleaving, also after earlier deaths. When
  the daemon dies and starts again, each of them recovers its state; the supervisor spawns the active job
  with its specification, the job launches again, its running workflow spawns its current agent on the same
  session, and that agent's run is started with the conversation it had, its interrupted calls answered.
\<close>

theorem daemon_restart:
  assumes "codec_laws C" and "codecs_ok Ks" and "fj_ok C j0" and "actors_reach (file_ops C) Ks j0 d"
    and "da_supervisor d = Some ts" and "bt_get (tk_state ts) job = Some r" and "\<not> is_terminal (jr_status r)"
    and "da_jobs d job = Some tj" and "tk_state tj = Some JobRunning"
    and "da_workflows d job = Some tw" and "ws_status (tk_state tw) = WRunning"
    and "ws_current_agent (tk_state tw) = Some name" and "ws_current_session (tk_state tw) = Some sid"
    and "da_agents d sid = Some ta" and "conv [] (tk_state ta) = Some q" and "tk_state ta \<noteq> []"
    and "distinct (assistant_calls (tk_state ta))" and "only_tools_answer (tk_state ta)"
    and "sa_children sa = []"
    and "ja_job_id ja = job" and "ja_launch ja (ja_launches ja) = Inr ()"
    and "wa_run_id wa = job" and "agent_def wa name = Some ad" and "ad_model ad \<in> set (wa_models wa)"
    and "aa_session_id aa = sid"
  shows "(\<exists>sa' souts c. task_start (file_ops C) supervisor_ops (co_supervisor Ks) sa (da_journal d) =
            Some (ts\<lparr>tk_actor := sa'\<rparr>, souts) \<and> SpawnJob c job (jr_spec r) \<in> set souts) \<and>
         (\<exists>ja'. task_start (file_ops C) job_ops (co_job Ks) ja (da_journal d) =
            Some (tj\<lparr>tk_actor := ja'\<rparr>, [Launch (ja_launches ja) KickRecover])) \<and>
         (\<exists>wa'. task_start (file_ops C) (workflow_ops (file_ops C)) (co_workflow Ks) wa (da_journal d) =
            Some (tw\<lparr>tk_actor := wa'\<rparr>, [SpawnAgent (wa_spawned wa) sid ad])) \<and>
         (\<exists>aa' mid h. task_start (file_ops C) agent_ops (co_agent Ks) aa (da_journal d) =
            Some (ta\<lparr>tk_actor := aa'\<rparr>,
              [StartRun (aa_tokens aa) (input_user_message mid ''continue the interrupted task'') h]) \<and>
            h = tk_state ta @ map (\<lambda>i. message_tool_result i ''interrupted by shutdown, not completed'' True) q \<and>
            closed (h @ [input_to_message (input_user_message mid ''continue the interrupted task'')]))"
proof -
  let ?j = "da_journal d"
  from shared_journal.actors_reach_recoverable [OF file_shared [OF assms(1)] assms(2-4)]
  have rec: "recoverable (file_ops C) supervisor_ops (co_supervisor Ks) supervisor_pid ?j (Some ts)"
      "recoverable (file_ops C) job_ops (co_job Ks) (job_pid job) ?j (Some tj)"
      "recoverable (file_ops C) (workflow_ops (file_ops C)) (co_workflow Ks) (workflow_pid job) ?j (Some tw)"
      "recoverable (file_ops C) agent_ops (co_agent Ks) (agent_pid sid) ?j (Some ta)"
    using assms(5,8,10,14) by (auto simp: all_recoverable_def) metis+
  obtain sa' souts where s: "supervisor_on_recovery_complete sa (tk_state ts) = (sa', souts)" by fastforce
  obtain c where c: "SpawnJob c job (jr_spec r) \<in> set souts" using supervisor_respawns [OF assms(19,6,7) s] by blast
  obtain ja' where jb: "job_on_recovery_complete ja (tk_state tj) = (ja', [Launch (ja_launches ja) KickRecover])"
    using assms(9,21) by (simp add: job_on_recovery_complete_def launch_workflow_def Let_def)
  obtain wa' where wf: "workflow_on_recovery_complete wa (tk_state tw) = (wa', [SpawnAgent (wa_spawned wa) sid ad])"
    using assms(11-13,23,24) by (simp add: workflow_on_recovery_complete_def spawn_agent_def)
  let ?mid = "fst (new_message_id aa)"
  obtain aa' where ag: "agent_on_recovery_complete aa (tk_state ta) =
      (aa', [StartRun (aa_tokens aa) (input_user_message ?mid ''continue the interrupted task'')
               (sanitize_for_resume (tk_state ta))])"
    using assms(16) by (simp add: agent_on_recovery_complete_def new_message_id_def start_run_def Let_def)
  have im: "input_to_message (input_user_message m t) = message_user m t" for m t
    by (simp add: input_user_message_def message_user_def)
  note h = sanitize_pending [OF assms(15,17,18), of ?mid "''continue the interrupted task''", folded im]
  have starts:
    "task_start (file_ops C) supervisor_ops (co_supervisor Ks) sa ?j = Some (ts\<lparr>tk_actor := sa'\<rparr>, souts)"
    "task_start (file_ops C) job_ops (co_job Ks) ja ?j = Some (tj\<lparr>tk_actor := ja'\<rparr>, [Launch (ja_launches ja) KickRecover])"
    "task_start (file_ops C) (workflow_ops (file_ops C)) (co_workflow Ks) wa ?j =
       Some (tw\<lparr>tk_actor := wa'\<rparr>, [SpawnAgent (wa_spawned wa) sid ad])"
    "task_start (file_ops C) agent_ops (co_agent Ks) aa ?j =
       Some (ta\<lparr>tk_actor := aa'\<rparr>, [StartRun (aa_tokens aa) (input_user_message ?mid ''continue the interrupted task'')
         (sanitize_for_resume (tk_state ta))])"
    using task_restart [OF rec(1), of sa sa' souts] task_restart [OF rec(2), of ja ja']
      task_restart [OF rec(3), of wa wa'] task_restart [OF rec(4), of aa aa'] s jb wf ag assms(20,22,25)
    by (simp_all add: supervisor_ops_def job_ops_def workflow_ops_def agent_ops_def)
  show ?thesis using starts c h by metis
qed

subsection \<open>A sample daemon\<close>

text \<open>A serializer of the events in a table, as their position.\<close>

definition table_codec :: "'e list \<Rightarrow> ('e, 's, bytes) codec" where
  "table_codec es =
     \<lparr>ser_event = (\<lambda>ev. if ev \<in> set es then Inr (replicate (length (takeWhile (\<lambda>e. e \<noteq> ev) es)) 0)
                    else Inl ''unsupported''),
      de_event = (\<lambda>b. if length b < length es then Inr (es ! length b) else Inl ''unsupported''),
      ser_state = (\<lambda>s. Inl ''unsupported''), de_state = (\<lambda>b. Inl ''unsupported'')\<rparr>"

lemma position_found:
  "ev \<in> set es \<Longrightarrow> length (takeWhile (\<lambda>e. e \<noteq> ev) es) < length es \<and> es ! length (takeWhile (\<lambda>e. e \<noteq> ev) es) = ev"
  by (induction es) auto

lemma table_codec_ok [simp]: "codec_ok (table_codec es)"
  by (auto simp: codec_ok_def table_codec_def position_found split: if_splits)

lemma first_start:
  assumes "fj_files j (ao_persistence_id A a) = None" and "ao_on_recovery_complete A a (ao_initial_state A) = (a', out)"
  shows "task_start (file_ops C) A K a j = Some (\<lparr>tk_actor = a', tk_state = ao_initial_state A, tk_seq = 0\<rparr>, out)"
  using assms by (simp add: task_start_def recover_def file_ops_def decode_after_def)

lemma first_command:
  fixes A :: "('a, 's, 'c, 'e, file_journal, 'o) actor_ops"
  assumes "fj_faults j = []" and "evs \<noteq> []" and "set evs \<subseteq> set es"
    and "ao_handle_command A (tk_actor t) (tk_state t) c j = (a', j, out, Persist evs)"
  shows "\<exists>f. task_command (file_ops C) A (table_codec es) p t c j =
    (Some \<lparr>tk_actor = a', tk_state = foldl (ao_apply_event A) (tk_state t) evs, tk_seq = tk_seq t + length evs\<rparr>,
     j\<lparr>fj_files := (fj_files j)(p \<mapsto> f)\<rparr>, out)"
proof -
  define bs where "bs = map (\<lambda>ev. replicate (length (takeWhile (\<lambda>e. e \<noteq> ev) es)) (0 :: u8)) evs"
  let ?K = "table_codec es :: ('e, 's, bytes) codec"
  have "map (ser_event ?K) evs = map Inr bs"
    using assms(3) by (auto simp: bs_def table_codec_def)
  then have "collect_results (map (ser_event ?K) evs) = Inr bs" "bs \<noteq> []"
    using assms(2) by (simp_all only: collect_results_Inr_iff) (simp add: bs_def)
  with assms(1,4) show ?thesis
    by (auto simp: task_command_def run_command_def lv_persist_def persist_events_def file_ops_def fj_persist_def
        next_write_def append_file_def Let_def)
qed

definition restart_codecs :: "bytes codecs" where
  "restart_codecs =
     \<lparr>co_supervisor = table_codec [JobSubmitted ''j'' demo_spec 7], co_job = table_codec [JobStarted],
      co_workflow = table_codec [WorkflowStarted, AgentStarted ''a'' ''s'' ''go''],
      co_agent = table_codec [EvInputMessage (message_user ''0'' ''go''),
        EvMessageComplete \<lparr>msg_id = ''u'', msg_role = Assistant, msg_parts = [call_part ''c'' ''bash'']\<rparr>]\<rparr>"

definition restart_workflow :: workflow_actor where
  "restart_workflow = demo_workflow\<lparr>wa_run_id := ''j''\<rparr>"

definition restart_agent :: agent_actor where
  "restart_agent = demo_actor\<lparr>aa_session_id := ''s''\<rparr>"

definition restart_conversation :: "message list" where
  "restart_conversation =
     [message_user ''0'' ''go'', \<lparr>msg_id = ''u'', msg_role = Assistant, msg_parts = [call_part ''c'' ''bash'']\<rparr>]"

text \<open>Its actors start and handle their first commands; the agent has a tool call open when it dies.\<close>

definition restart_actors ::
  "(persistence_id \<rightharpoonup> string) \<Rightarrow> (supervisor_actor, supervisor_state) actor_task option \<Rightarrow> (job_actor, job_state) actor_task option
     \<Rightarrow> (workflow_actor, workflow_state) actor_task option \<Rightarrow> (agent_actor, agent_state) actor_task option \<Rightarrow> file_journal actors" where
  "restart_actors files ts tj tw ta =
     \<lparr>da_journal = \<lparr>fj_files = files, fj_faults = []\<rparr>, da_supervisor = ts,
      da_jobs = Map.empty(''j'' := tj), da_workflows = Map.empty(''j'' := tw), da_agents = Map.empty(''s'' := ta)\<rparr>"

definition restart_reached :: "line_codec \<Rightarrow> file_journal actors \<Rightarrow> bool" where
  "restart_reached C d \<longleftrightarrow> actors_reach (file_ops C) restart_codecs \<lparr>fj_files = Map.empty, fj_faults = []\<rparr> d"

lemma restart_more: "restart_reached C d \<Longrightarrow> actors_step (file_ops C) restart_codecs d d' \<Longrightarrow> restart_reached C d'"
  unfolding restart_reached_def by (rule actors_more)

lemma restart_supervisor_runs:
  "\<exists>f ts. restart_reached C (restart_actors [supervisor_pid \<mapsto> f] (Some ts) None None None) \<and>
     tk_state ts = [(''j'', demo_record JobRunning)]"
proof -
  let ?j = "\<lparr>fj_files = Map.empty, fj_faults = []\<rparr>"
  let ?t = "\<lparr>tk_actor = demo_supervisor, tk_state = [], tk_seq = 0\<rparr>"
  let ?d = "restart_actors Map.empty None None None None" and ?d1 = "restart_actors Map.empty (Some ?t) None None None"
  let ?ev = "JobSubmitted ''j'' demo_spec 7"
  have "task_start (file_ops C) supervisor_ops (co_supervisor restart_codecs) demo_supervisor ?j = Some (?t, [])"
    using first_start [of ?j supervisor_ops demo_supervisor demo_supervisor "[]"]
    by (simp add: supervisor_ops_def supervisor_on_recovery_complete_def)
  then have "actors_step (file_ops C) restart_codecs ?d ?d1"
    using supervisor_starts [where d = ?d] by (simp add: restart_actors_def)
  moreover have "restart_reached C ?d"
    using actors_boot [of "file_ops C" restart_codecs ?j] by (simp add: restart_reached_def restart_actors_def no_actors_def)
  ultimately have r: "restart_reached C ?d1" by (blast intro: restart_more)
  obtain sa out f where c: "task_command (file_ops C) supervisor_ops (co_supervisor restart_codecs) supervisor_pid ?t
      (Submit demo_spec 7) ?j =
      (Some \<lparr>tk_actor = sa, tk_state = [(''j'', demo_record JobRunning)], tk_seq = 1\<rparr>,
       \<lparr>fj_files = [supervisor_pid \<mapsto> f], fj_faults = []\<rparr>, out)"
    using first_command [of ?j "[?ev]" "[?ev]" supervisor_ops ?t "Submit demo_spec 7" _ _ C supervisor_pid] demo_submit
    by (auto simp: supervisor_ops_def restart_codecs_def demo_record_def)
  have "actors_step (file_ops C) restart_codecs ?d1
      (restart_actors [supervisor_pid \<mapsto> f] (Some \<lparr>tk_actor = sa, tk_state = [(''j'', demo_record JobRunning)], tk_seq = 1\<rparr>)
         None None None)"
    using supervisor_runs [where d = ?d1 and t = ?t and scmd = "Submit demo_spec 7"] c by (simp add: restart_actors_def)
  from restart_more [OF r this] show ?thesis by (intro exI conjI, assumption) simp
qed

lemma restart_job_runs:
  "\<exists>files ts tj. restart_reached C (restart_actors files (Some ts) (Some tj) None None) \<and>
     files (workflow_pid ''j'') = None \<and> files (agent_pid ''s'') = None \<and>
     tk_state ts = [(''j'', demo_record JobRunning)] \<and> tk_state tj = Some JobRunning"
proof -
  obtain f ts where r: "restart_reached C (restart_actors [supervisor_pid \<mapsto> f] (Some ts) None None None)"
    "tk_state ts = [(''j'', demo_record JobRunning)]" using restart_supervisor_runs by blast
  let ?j = "\<lparr>fj_files = [supervisor_pid \<mapsto> f], fj_faults = []\<rparr>"
  let ?ja = "demo_job (Inr ())"
  let ?t = "\<lparr>tk_actor = ?ja, tk_state = None, tk_seq = 0\<rparr>"
  let ?d = "restart_actors [supervisor_pid \<mapsto> f] (Some ts) None None None"
  let ?d1 = "restart_actors [supervisor_pid \<mapsto> f] (Some ts) (Some ?t) None None"
  have id: "ja_job_id ?ja = ''j''" by (simp add: demo_job_def)
  have "task_start (file_ops C) job_ops (co_job restart_codecs) ?ja ?j = Some (?t, [])"
    using first_start [of ?j job_ops ?ja ?ja "[]"] by (simp add: job_ops_def job_on_recovery_complete_def id)
  then have "actors_step (file_ops C) restart_codecs ?d ?d1"
    using job_starts [where d = ?d, OF _ id] by (simp add: restart_actors_def fun_upd_def)
  with r(1) have r1: "restart_reached C ?d1" by (rule restart_more)
  let ?a1 = "demo_job (Inr ())\<lparr>ja_launches := 1, ja_workflow := Some 0, ja_shutdown := True\<rparr>"
  have "job_handle_command ?ja StartJob = (?a1, [Launch 0 KickStart], Persist [JobStarted])"
    by (simp add: job_handle_command_def launch_workflow_def demo_job_def)
  then obtain g where c: "task_command (file_ops C) job_ops (co_job restart_codecs) (job_pid ''j'') ?t StartJob ?j =
      (Some \<lparr>tk_actor = ?a1, tk_state = Some JobRunning, tk_seq = 1\<rparr>,
       \<lparr>fj_files = [supervisor_pid \<mapsto> f, job_pid ''j'' \<mapsto> g], fj_faults = []\<rparr>, [Launch 0 KickStart])"
    using first_command [of ?j "[JobStarted]" "[JobStarted]" job_ops ?t StartJob ?a1 "[Launch 0 KickStart]" C "job_pid ''j''"]
    by (auto simp: job_ops_def restart_codecs_def job_apply_event_def)
  have "actors_step (file_ops C) restart_codecs ?d1
      (restart_actors [supervisor_pid \<mapsto> f, job_pid ''j'' \<mapsto> g] (Some ts)
        (Some \<lparr>tk_actor = ?a1, tk_state = Some JobRunning, tk_seq = 1\<rparr>) None None)"
    using job_runs [where d = ?d1 and job = "''j''" and tj = ?t and jcmd = StartJob] c
    by (simp add: restart_actors_def)
  note reached = restart_more [OF r1 this]
  show ?thesis by (intro exI conjI, rule reached) (simp_all add: r(2))
qed

lemma restart_workflow_runs:
  "\<exists>files ts tj tw. restart_reached C (restart_actors files (Some ts) (Some tj) (Some tw) None) \<and>
     files (agent_pid ''s'') = None \<and>
     tk_state ts = [(''j'', demo_record JobRunning)] \<and> tk_state tj = Some JobRunning \<and>
     tk_state tw = workflow_initial\<lparr>ws_current_agent := Some ''a'', ws_current_session := Some ''s'', ws_status := WRunning\<rparr>"
proof -
  obtain files ts tj where r: "restart_reached C (restart_actors files (Some ts) (Some tj) None None)"
    "files (workflow_pid ''j'') = None" "files (agent_pid ''s'') = None"
    "tk_state ts = [(''j'', demo_record JobRunning)]" "tk_state tj = Some JobRunning" using restart_job_runs by blast
  let ?J = "file_ops C"
  let ?j = "\<lparr>fj_files = files, fj_faults = []\<rparr>"
  let ?wa = restart_workflow
  let ?t = "\<lparr>tk_actor = ?wa, tk_state = workflow_initial, tk_seq = 0\<rparr>"
  let ?d = "restart_actors files (Some ts) (Some tj) None None" and ?d1 = "restart_actors files (Some ts) (Some tj) (Some ?t) None"
  have id: "wa_run_id ?wa = ''j''" by (simp add: restart_workflow_def)
  have "task_start ?J (workflow_ops ?J) (co_workflow restart_codecs) ?wa ?j = Some (?t, [])"
    using first_start [of ?j "workflow_ops ?J" ?wa ?wa "[]"] r(2)
    by (simp add: workflow_ops_def workflow_on_recovery_complete_def workflow_initial_def id)
  then have "actors_step ?J restart_codecs ?d ?d1"
    using workflow_starts [where d = ?d, OF _ id] by (simp add: restart_actors_def fun_upd_def)
  with r(1) have r1: "restart_reached C ?d1" by (rule restart_more)
  let ?w1 = "?wa\<lparr>wa_drawn := 1, wa_spawned := 1, wa_current_child := Some 0\<rparr>"
  let ?evs = "[WorkflowStarted, AgentStarted ''a'' ''s'' ''go'']"
  let ?s1 = "workflow_initial\<lparr>ws_current_agent := Some ''a'', ws_current_session := Some ''s'', ws_status := WRunning\<rparr>"
  obtain outs where "workflow_handle_command ?J ?wa workflow_initial (StartWorkflow ''go'') ?j = (?j, ?w1, outs, Persist ?evs)"
    by (simp add: workflow_handle_command_def on_start_def restart_workflow_def demo_workflow_def agent_def_def
        demo_agent_def_def new_session_def spawn_agent_def Let_def)
  then obtain g where c: "task_command ?J (workflow_ops ?J) (co_workflow restart_codecs) (workflow_pid ''j'') ?t
      (StartWorkflow ''go'') ?j =
      (Some \<lparr>tk_actor = ?w1, tk_state = ?s1, tk_seq = 2\<rparr>, \<lparr>fj_files = files(workflow_pid ''j'' \<mapsto> g), fj_faults = []\<rparr>, outs)"
    using first_command [of ?j ?evs ?evs "workflow_ops ?J" ?t "StartWorkflow ''go''" ?w1 outs C "workflow_pid ''j''"]
    by (auto simp: workflow_ops_def restart_codecs_def workflow_initial_def)
  have "fork_fresh ?d1 ?wa" by (simp add: fork_fresh_def restart_actors_def)
  then have "actors_step ?J restart_codecs ?d1
      (restart_actors (files(workflow_pid ''j'' \<mapsto> g)) (Some ts) (Some tj)
        (Some \<lparr>tk_actor = ?w1, tk_state = ?s1, tk_seq = 2\<rparr>) None)"
    using workflow_runs [where d = ?d1 and rid = "''j''" and tw = ?t and wcmd = "StartWorkflow ''go''"] c
    by (simp add: restart_actors_def)
  note reached = restart_more [OF r1 this]
  show ?thesis by (intro exI conjI, rule reached) (simp_all add: r)
qed

lemma restart_agent_runs:
  "\<exists>files ts tj tw ta. restart_reached C (restart_actors files (Some ts) (Some tj) (Some tw) (Some ta)) \<and>
     tk_state ts = [(''j'', demo_record JobRunning)] \<and> tk_state tj = Some JobRunning \<and>
     tk_state tw = workflow_initial\<lparr>ws_current_agent := Some ''a'', ws_current_session := Some ''s'', ws_status := WRunning\<rparr> \<and>
     tk_state ta = restart_conversation"
proof -
  obtain files ts tj tw where r: "restart_reached C (restart_actors files (Some ts) (Some tj) (Some tw) None)"
    "files (agent_pid ''s'') = None" "tk_state ts = [(''j'', demo_record JobRunning)]" "tk_state tj = Some JobRunning"
    "tk_state tw = workflow_initial\<lparr>ws_current_agent := Some ''a'', ws_current_session := Some ''s'', ws_status := WRunning\<rparr>"
    using restart_workflow_runs by blast
  let ?J = "file_ops C" and ?j = "\<lparr>fj_files = files, fj_faults = []\<rparr>" and ?aa = restart_agent
  let ?t = "\<lparr>tk_actor = ?aa, tk_state = [], tk_seq = 0\<rparr>"
  let ?call = "\<lparr>msg_id = ''u'', msg_role = Assistant, msg_parts = [call_part ''c'' ''bash'']\<rparr>"
  let ?evs = "[EvInputMessage (message_user ''0'' ''go''), EvMessageComplete ?call]"
  let ?d = "restart_actors files (Some ts) (Some tj) (Some tw) None"
    and ?d1 = "restart_actors files (Some ts) (Some tj) (Some tw) (Some ?t)"
  have id: "aa_session_id ?aa = ''s''" by (simp add: restart_agent_def)
  have "task_start ?J agent_ops (co_agent restart_codecs) ?aa ?j = Some (?t, [])"
    using first_start [of ?j agent_ops ?aa ?aa "[]"] r(2) by (simp add: agent_ops_def agent_on_recovery_complete_def id)
  then have "actors_step ?J restart_codecs ?d ?d1"
    using agent_starts [where d = ?d, OF _ id] by (simp add: restart_actors_def fun_upd_def)
  with r(1) have r1: "restart_reached C ?d1" by (rule restart_more)
  obtain g where c: "task_command ?J agent_ops (co_agent restart_codecs) (agent_pid ''s'') ?t (PersistProgress ?evs) ?j =
      (Some \<lparr>tk_actor = ?aa, tk_state = restart_conversation, tk_seq = 2\<rparr>,
       \<lparr>fj_files = files(agent_pid ''s'' \<mapsto> g), fj_faults = []\<rparr>, [])"
    using first_command [of ?j ?evs ?evs agent_ops ?t "PersistProgress ?evs" ?aa "[]" C "agent_pid ''s''"]
    by (auto simp: agent_ops_def agent_handle_command_def restart_codecs_def restart_conversation_def)
  have "actors_step ?J restart_codecs ?d1
      (restart_actors (files(agent_pid ''s'' \<mapsto> g)) (Some ts) (Some tj) (Some tw)
        (Some \<lparr>tk_actor = ?aa, tk_state = restart_conversation, tk_seq = 2\<rparr>))"
    using agent_runs [where d = ?d1 and sid = "''s''" and ta = ?t and acmd = "PersistProgress ?evs"] c
    by (simp add: restart_actors_def)
  note reached = restart_more [OF r1 this]
  show ?thesis by (intro exI conjI, rule reached) (simp_all add: r)
qed

lemma daemon_restart_witness:
  "\<exists>d ta aa' mid h. actors_reach (file_ops nibble_codec) restart_codecs \<lparr>fj_files = Map.empty, fj_faults = []\<rparr> d \<and>
     da_agents d ''s'' = Some ta \<and> tk_state ta = restart_conversation \<and>
     task_start (file_ops nibble_codec) agent_ops (co_agent restart_codecs) restart_agent (da_journal d) =
       Some (ta\<lparr>tk_actor := aa'\<rparr>, [StartRun 0 (input_user_message mid ''continue the interrupted task'') h]) \<and>
     h = restart_conversation @ [message_tool_result ''c'' ''interrupted by shutdown, not completed'' True]"
proof -
  let ?j0 = "\<lparr>fj_files = Map.empty, fj_faults = []\<rparr>"
  obtain files ts tj tw ta where r: "restart_reached nibble_codec (restart_actors files (Some ts) (Some tj) (Some tw) (Some ta))"
    "tk_state ts = [(''j'', demo_record JobRunning)]" "tk_state tj = Some JobRunning"
    "tk_state tw = workflow_initial\<lparr>ws_current_agent := Some ''a'', ws_current_session := Some ''s'', ws_status := WRunning\<rparr>"
    "tk_state ta = restart_conversation" using restart_agent_runs by blast
  let ?d = "restart_actors files (Some ts) (Some tj) (Some tw) (Some ta)"
  have ks: "codecs_ok restart_codecs" by (simp add: codecs_ok_def restart_codecs_def)
  have j: "fj_ok nibble_codec ?j0"
    by (auto simp: fj_ok_def file_content_def lines_text_def intro: exI [of _ "[]"])
  have reach: "actors_reach (file_ops nibble_codec) restart_codecs ?j0 ?d" using r(1) by (simp add: restart_reached_def)
  have d: "da_supervisor ?d = Some ts" "da_jobs ?d ''j'' = Some tj" "da_workflows ?d ''j'' = Some tw"
      "da_agents ?d ''s'' = Some ta" by (simp_all add: restart_actors_def)
  have st: "bt_get (tk_state ts) ''j'' = Some (demo_record JobRunning)" "\<not> is_terminal (jr_status (demo_record JobRunning))"
      "ws_status (tk_state tw) = WRunning" "ws_current_agent (tk_state tw) = Some ''a''"
      "ws_current_session (tk_state tw) = Some ''s''"
    by (simp_all add: r demo_record_def)
  have cv: "conv [] (tk_state ta) = Some [''c'']" "tk_state ta \<noteq> []" "distinct (assistant_calls (tk_state ta))"
      "only_tools_answer (tk_state ta)"
    by (simp_all add: r restart_conversation_def conv_step_def call_part_def only_tools_answer_def)
  have ac: "sa_children demo_supervisor = []" "ja_job_id (demo_job (Inr ())) = ''j''"
      "ja_launch (demo_job (Inr ())) (ja_launches (demo_job (Inr ()))) = Inr ()" "wa_run_id restart_workflow = ''j''"
      "aa_session_id restart_agent = ''s''" "aa_tokens restart_agent = 0"
    by (simp_all add: demo_supervisor_def demo_job_def restart_workflow_def restart_agent_def demo_actor_def)
  obtain ad where ad: "agent_def restart_workflow ''a'' = Some ad" "ad_model ad \<in> set (wa_models restart_workflow)"
    by (simp add: restart_workflow_def demo_workflow_def agent_def_def demo_agent_def_def)
  from daemon_restart [OF nibble_codec_laws ks j reach d(1) st(1,2) d(2) r(3) d(3) st(3-5) d(4) cv ac(1-4) ad ac(5)]
  have "\<exists>aa' mid h. task_start (file_ops nibble_codec) agent_ops (co_agent restart_codecs) restart_agent (da_journal ?d) =
      Some (ta\<lparr>tk_actor := aa'\<rparr>, [StartRun 0 (input_user_message mid ''continue the interrupted task'') h]) \<and>
      h = restart_conversation @ [message_tool_result ''c'' ''interrupted by shutdown, not completed'' True]"
    unfolding ac(6) r(5) list.map by blast
  then obtain aa' mid h where w: "task_start (file_ops nibble_codec) agent_ops (co_agent restart_codecs) restart_agent (da_journal ?d) =
      Some (ta\<lparr>tk_actor := aa'\<rparr>, [StartRun 0 (input_user_message mid ''continue the interrupted task'') h])"
      "h = restart_conversation @ [message_tool_result ''c'' ''interrupted by shutdown, not completed'' True]" by blast
  show ?thesis
    by (rule exI [of _ ?d], rule exI [of _ ta], rule exI [of _ aa'], rule exI [of _ mid], rule exI [of _ h])
      (intro conjI reach d(4) r(5) w)
qed

end
