(* ===== verification/Executor.thy ===== *)
theory Executor
  imports Models
begin

text \<open>
  The executor: the registry of runtimes (\<open>src/executor/src/registry.rs\<close>), the command handlers
  and the health check (\<open>executor.rs\<close>), the in-process transport (\<open>inmem_transport.rs\<close>), the table
  of connected runtimes (\<open>connected_registry.rs\<close>), and the client (\<open>executor-client/src/client.rs\<close>).
  A provider and its handles act on a world \<open>'w\<close>. Handlers run in two tasks, commands and health
  check, which interleave between the registry's locked operations; each operation is one function
  of the registry, and \<open>reg_reach\<close> is any interleaving of them. A \<open>HashMap\<close> iterates in an
  unspecified order, which is a parameter where it is observable.
\<close>

subsection \<open>Errors and providers\<close>

datatype runtime_error =
    AlreadyExists string
  | NotFound string
  | InvalidTransition string string
  | ProviderError string

fun runtime_error_display :: "runtime_error \<Rightarrow> string" where
  "runtime_error_display (AlreadyExists i) = ''runtime already exists: '' @ i"
| "runtime_error_display (NotFound i) = ''runtime not found: '' @ i"
| "runtime_error_display (InvalidTransition from_state action) =
     ''invalid state transition from '' @ from_state @ '': cannot '' @ action"
| "runtime_error_display (ProviderError e) = ''provider error: '' @ e"

fun state_debug :: "runtime_state \<Rightarrow> string" where
  "state_debug RsCreating = ''Creating''"
| "state_debug RsRunning = ''Running''"
| "state_debug RsStopping = ''Stopping''"
| "state_debug RsStopped = ''Stopped''"
| "state_debug RsFailed = ''Failed''"

text \<open>\<open>rp_healthy\<close> is whether \<open>health_check\<close> answers \<open>Ok(Healthy)\<close>; the result of \<open>stop\<close> is ignored
  at every call.\<close>

record ('h, 'w) runtime_provider =
  rp_create :: "string \<Rightarrow> string \<Rightarrow> 'w \<Rightarrow> (runtime_error, 'h) result \<times> 'w"
  rp_stop :: "'h \<Rightarrow> 'w \<Rightarrow> 'w"
  rp_healthy :: "'h \<Rightarrow> 'w \<Rightarrow> bool \<times> 'w"

subsection \<open>The registry\<close>

record 'h runtime_entry =
  re_state :: runtime_state
  re_config :: string
  re_restart_count :: u32
  re_handle :: "'h option"

type_synonym 'h registry = "string \<rightharpoonup> 'h runtime_entry"

type_synonym ('h, 'a) reg_result = "(runtime_error, 'a) result \<times> 'h registry"

definition begin_create :: "'h registry \<Rightarrow> string \<Rightarrow> string \<Rightarrow> ('h, unit) reg_result" where
  "begin_create r i config =
     (if r i \<noteq> None then (Inl (AlreadyExists i), r)
      else (Inr (), r(i \<mapsto> \<lparr>re_state = RsCreating, re_config = config, re_restart_count = 0, re_handle = None\<rparr>)))"

definition complete_create :: "'h registry \<Rightarrow> string \<Rightarrow> 'h \<Rightarrow> ('h, unit) reg_result" where
  "complete_create r i h =
     (case r i of
        None \<Rightarrow> (Inl (NotFound i), r)
      | Some e \<Rightarrow> (Inr (), r(i \<mapsto> e\<lparr>re_state := RsRunning, re_handle := Some h\<rparr>)))"

definition mark_failed :: "'h registry \<Rightarrow> string \<Rightarrow> ('h, unit) reg_result" where
  "mark_failed r i =
     (case r i of
        None \<Rightarrow> (Inl (NotFound i), r)
      | Some e \<Rightarrow> (Inr (), r(i \<mapsto> e\<lparr>re_state := RsFailed, re_handle := None\<rparr>)))"

definition begin_stop :: "'h registry \<Rightarrow> string \<Rightarrow> ('h, 'h option) reg_result" where
  "begin_stop r i =
     (case r i of
        None \<Rightarrow> (Inl (NotFound i), r)
      | Some e \<Rightarrow>
          if re_state e = RsRunning \<or> re_state e = RsFailed
          then (Inr (re_handle e), r(i \<mapsto> e\<lparr>re_state := RsStopping, re_handle := None\<rparr>))
          else (Inl (InvalidTransition (state_debug (re_state e)) ''stop''), r))"

definition complete_stop :: "'h registry \<Rightarrow> string \<Rightarrow> ('h, unit) reg_result" where
  "complete_stop r i = (case r i of None \<Rightarrow> (Inl (NotFound i), r) | Some _ \<Rightarrow> (Inr (), r(i := None)))"

definition begin_restart :: "'h registry \<Rightarrow> string \<Rightarrow> ('h, 'h option) reg_result" where
  "begin_restart r i =
     (case r i of
        None \<Rightarrow> (Inl (NotFound i), r)
      | Some e \<Rightarrow>
          if re_state e = RsRunning \<or> re_state e = RsFailed
          then (Inr (re_handle e),
                r(i \<mapsto> e\<lparr>re_state := RsCreating, re_restart_count := re_restart_count e + 1, re_handle := None\<rparr>))
          else (Inl (InvalidTransition (state_debug (re_state e)) ''restart''), r))"

definition list_runtimes :: "string list \<Rightarrow> 'h registry \<Rightarrow> runtime_info list" where
  "list_runtimes order r =
     List.map_filter (\<lambda>i. map_option (\<lambda>e.
       \<lparr>ri_runtime_id = i, ri_state = re_state e, ri_restart_count = re_restart_count e\<rparr>) (r i)) order"

definition running_handles :: "string list \<Rightarrow> 'h registry \<Rightarrow> (string \<times> 'h) list" where
  "running_handles order r =
     List.map_filter (\<lambda>i. case r i of
         None \<Rightarrow> None
       | Some e \<Rightarrow> if re_state e = RsRunning then map_option (\<lambda>h. (i, h)) (re_handle e) else None) order"

definition get_config :: "'h registry \<Rightarrow> string \<Rightarrow> string option" where
  "get_config r i = map_option re_config (r i)"

definition get_restart_count :: "'h registry \<Rightarrow> string \<Rightarrow> u32 option" where
  "get_restart_count r i = map_option re_restart_count (r i)"

subsection \<open>Handlers\<close>

text \<open>The executor's state as a handler sees it; \<open>xe_sent\<close> is what it has sent to the server.\<close>

record ('h, 'w) exec =
  xe_registry :: "'h registry"
  xe_world :: 'w
  xe_sent :: "(string \<times> executor_event) list"

definition send_event :: "string \<Rightarrow> executor_event \<Rightarrow> ('h, 'w) exec \<Rightarrow> ('h, 'w) exec" where
  "send_event req ev x = x\<lparr>xe_sent := xe_sent x @ [(req, ev)]\<rparr>"

definition emit_state :: "string \<Rightarrow> string \<Rightarrow> runtime_state \<Rightarrow> ('h, 'w) exec \<Rightarrow> ('h, 'w) exec" where
  "emit_state req i st x = send_event req (RuntimeStateChanged i st) x"

definition stop_handle :: "('h, 'w) runtime_provider \<Rightarrow> 'h option \<Rightarrow> ('h, 'w) exec \<Rightarrow> ('h, 'w) exec" where
  "stop_handle P h x =
     (case h of None \<Rightarrow> x | Some h \<Rightarrow> x\<lparr>xe_world := rp_stop P h (xe_world x)\<rparr>)"

definition create_core ::
  "('h, 'w) runtime_provider \<Rightarrow> string \<Rightarrow> string \<Rightarrow> ('h, 'w) exec
     \<Rightarrow> (runtime_error, unit) result \<times> ('h, 'w) exec" where
  "create_core P i config x =
     (case begin_create (xe_registry x) i config of
        (Inl e, _) \<Rightarrow> (Inl e, x)
      | (Inr _, reg) \<Rightarrow>
          (case rp_create P i config (xe_world x) of
             (Inr h, w) \<Rightarrow>
               (case complete_create reg i h of
                  (r, reg2) \<Rightarrow> (r, x\<lparr>xe_world := w, xe_registry := reg2\<rparr>))
           | (Inl e, w) \<Rightarrow>
               (Inl e, x\<lparr>xe_world := w, xe_registry := snd (mark_failed reg i)\<rparr>)))"

definition do_create ::
  "('h, 'w) runtime_provider \<Rightarrow> string \<Rightarrow> string \<Rightarrow> string \<Rightarrow> ('h, 'w) exec
     \<Rightarrow> (runtime_error, unit) result \<times> ('h, 'w) exec" where
  "do_create P req i config x =
     (case create_core P i config (emit_state req i RsCreating x) of
        (Inr _, x1) \<Rightarrow> (Inr (), emit_state req i RsRunning x1)
      | (Inl e, x1) \<Rightarrow> (Inl e, emit_state req i RsFailed x1))"

definition do_destroy ::
  "('h, 'w) runtime_provider \<Rightarrow> string \<Rightarrow> string \<Rightarrow> ('h, 'w) exec
     \<Rightarrow> (runtime_error, unit) result \<times> ('h, 'w) exec" where
  "do_destroy P req i x =
     (case begin_stop (xe_registry x) i of
        (Inl e, _) \<Rightarrow> (Inl e, x)
      | (Inr h, reg) \<Rightarrow>
          let x1 = stop_handle P h (emit_state req i RsStopping (x\<lparr>xe_registry := reg\<rparr>))
          in case complete_stop (xe_registry x1) i of
               (Inl e, _) \<Rightarrow> (Inl e, x1)
             | (Inr _, reg2) \<Rightarrow> (Inr (), emit_state req i RsStopped (x1\<lparr>xe_registry := reg2\<rparr>)))"

definition do_restart ::
  "('h, 'w) runtime_provider \<Rightarrow> string \<Rightarrow> string \<Rightarrow> ('h, 'w) exec
     \<Rightarrow> (runtime_error, unit) result \<times> ('h, 'w) exec" where
  "do_restart P req i x =
     (case get_config (xe_registry x) i of
        None \<Rightarrow> (Inl (NotFound i), x)
      | Some config \<Rightarrow>
          (case begin_restart (xe_registry x) i of
             (Inl e, _) \<Rightarrow> (Inl e, x)
           | (Inr old, reg) \<Rightarrow>
               let x1 = stop_handle P old (emit_state req i RsCreating (x\<lparr>xe_registry := reg\<rparr>))
               in case rp_create P i config (xe_world x1) of
                    (Inr h, w) \<Rightarrow>
                      (case complete_create (xe_registry x1) i h of
                         (Inl e, _) \<Rightarrow> (Inl e, x1\<lparr>xe_world := w\<rparr>)
                       | (Inr _, reg2) \<Rightarrow>
                           (Inr (), emit_state req i RsRunning (x1\<lparr>xe_world := w, xe_registry := reg2\<rparr>)))
                  | (Inl e, w) \<Rightarrow>
                      (Inl e, emit_state req i RsFailed
                         (x1\<lparr>xe_world := w, xe_registry := snd (mark_failed (xe_registry x1) i)\<rparr>))))"

text \<open>One runtime of the health check; \<open>u32::MAX\<close> stands for a missing restart count.\<close>

definition check_runtime ::
  "('h, 'w) runtime_provider \<Rightarrow> u32 \<Rightarrow> (nat \<Rightarrow> string) \<Rightarrow> string \<times> 'h \<Rightarrow> ('h, 'w) exec \<Rightarrow> ('h, 'w) exec" where
  "check_runtime P max_restarts new_id ih x =
     (case ih of (i, h) \<Rightarrow>
        (case rp_healthy P h (xe_world x) of
           (healthy, w) \<Rightarrow>
             if healthy then x\<lparr>xe_world := w\<rparr>
             else
               let req = new_id (length (xe_sent x));
                   x1 = emit_state req i RsFailed
                          (x\<lparr>xe_world := w, xe_registry := snd (mark_failed (xe_registry x) i)\<rparr>);
                   count = (case get_restart_count (xe_registry x1) i of None \<Rightarrow> -1 | Some c \<Rightarrow> c)
               in if count \<ge> max_restarts then x1
                  else
                    (case get_config (xe_registry x1) i of
                       None \<Rightarrow> x1
                     | Some config \<Rightarrow>
                         (case begin_restart (xe_registry x1) i of
                            (Inl _, _) \<Rightarrow> x1
                          | (Inr old, reg) \<Rightarrow>
                              let x2 = stop_handle P old (emit_state req i RsCreating (x1\<lparr>xe_registry := reg\<rparr>))
                              in case rp_create P i config (xe_world x2) of
                                   (Inr h', w') \<Rightarrow>
                                     emit_state req i RsRunning
                                       (x2\<lparr>xe_world := w',
                                           xe_registry := snd (complete_create (xe_registry x2) i h')\<rparr>)
                                 | (Inl _, w') \<Rightarrow>
                                     emit_state req i RsFailed
                                       (x2\<lparr>xe_world := w',
                                           xe_registry := snd (mark_failed (xe_registry x2) i)\<rparr>)))))"

definition run_health_check ::
  "('h, 'w) runtime_provider \<Rightarrow> u32 \<Rightarrow> (nat \<Rightarrow> string) \<Rightarrow> string list \<Rightarrow> ('h, 'w) exec \<Rightarrow> ('h, 'w) exec" where
  "run_health_check P max_restarts new_id order x =
     fold (check_runtime P max_restarts new_id) (running_handles order (xe_registry x)) x"


subsection \<open>Connected runtimes and tool calls\<close>

text \<open>
  \<open>cn_pending\<close> holds the waiters of \<open>notify_when_ready\<close>, each named by a number; registering a
  transport fires the waiter, and a second waiter for an id drops the first.
\<close>

record 't connected =
  cn_transports :: "string \<rightharpoonup> 't"
  cn_pending :: "string \<rightharpoonup> nat"

definition register_transport :: "'t connected \<Rightarrow> string \<Rightarrow> 't \<Rightarrow> 't connected \<times> nat option" where
  "register_transport c i t =
     (c\<lparr>cn_transports := (cn_transports c)(i \<mapsto> t), cn_pending := (cn_pending c)(i := None)\<rparr>, cn_pending c i)"

definition notify_when_ready :: "'t connected \<Rightarrow> string \<Rightarrow> nat \<Rightarrow> 't connected" where
  "notify_when_ready c i waiter = c\<lparr>cn_pending := (cn_pending c)(i \<mapsto> waiter)\<rparr>"

definition runtime_transport :: "'t connected \<Rightarrow> string \<Rightarrow> 't option" where
  "runtime_transport c i = cn_transports c i"

definition remove_transport :: "'t connected \<Rightarrow> string \<Rightarrow> 't connected" where
  "remove_transport c i = c\<lparr>cn_transports := (cn_transports c)(i := None)\<rparr>"

text \<open>A runtime's connection: after the handshake it registers, and when the link closes it removes
  whatever is registered under its id.\<close>

datatype 't conn_event = ConnReady string 't | ConnClosed string

fun handle_connection :: "'t connected \<Rightarrow> 't conn_event \<Rightarrow> 't connected" where
  "handle_connection c (ConnReady i t) = fst (register_transport c i t)"
| "handle_connection c (ConnClosed i) = remove_transport c i"

record ('t, 'w) transport_ops =
  to_invoke :: "'t \<Rightarrow> string \<Rightarrow> runtime_call \<Rightarrow> 'w \<Rightarrow> (string, tool_result) result \<times> 'w"
  to_cancel :: "'t \<Rightarrow> string \<Rightarrow> 'w \<Rightarrow> 'w"

text \<open>A spawned tool call: the transport, the runtime, the call's id and the call.\<close>

type_synonym 't tool_task = "'t \<times> string \<times> string \<times> runtime_call"

definition do_tool_call ::
  "'t connected option \<Rightarrow> string \<Rightarrow> string \<Rightarrow> runtime_call \<Rightarrow> (runtime_error, 't tool_task) result" where
  "do_tool_call conn i call_id call =
     (case conn of
        None \<Rightarrow> Inl (ProviderError ''no runtime listener configured'')
      | Some c \<Rightarrow>
          (case runtime_transport c i of
             None \<Rightarrow> Inl (ProviderError (''runtime '' @ quoted i @ '' not connected''))
           | Some t \<Rightarrow> Inr (t, i, call_id, call)))"

definition run_tool_task :: "('t, 'w) transport_ops \<Rightarrow> 't tool_task \<Rightarrow> ('h, 'w) exec \<Rightarrow> ('h, 'w) exec" where
  "run_tool_task T task x =
     (case task of
        (t, i, call_id, call) \<Rightarrow>
          (case to_invoke T t call_id call (xe_world x) of
             (r, w) \<Rightarrow>
               send_event call_id
                 (ToolResultEvent i call_id (case r of Inr res \<Rightarrow> res | Inl e \<Rightarrow> ToolErr e))
                 (x\<lparr>xe_world := w\<rparr>)))"

definition do_cancel_tool_call ::
  "('t, 'w) transport_ops \<Rightarrow> 't connected option \<Rightarrow> string \<Rightarrow> string \<Rightarrow> ('h, 'w) exec \<Rightarrow> ('h, 'w) exec" where
  "do_cancel_tool_call T conn i call_id x =
     (case conn of
        None \<Rightarrow> x
      | Some c \<Rightarrow>
          (case runtime_transport c i of
             None \<Rightarrow> x
           | Some t \<Rightarrow> x\<lparr>xe_world := to_cancel T t call_id (xe_world x)\<rparr>))"

definition dispatch ::
  "('h, 'w) runtime_provider \<Rightarrow> ('t, 'w) transport_ops \<Rightarrow> 't connected option \<Rightarrow> string list
     \<Rightarrow> string \<Rightarrow> executor_command \<Rightarrow> ('h, 'w) exec \<Rightarrow> 't tool_task list \<times> ('h, 'w) exec" where
  "dispatch P T conn order req cmd x =
     (case (case cmd of
              CreateRuntime i config \<Rightarrow> (case do_create P req i config x of (r, x1) \<Rightarrow> (r, [], x1))
            | DestroyRuntime i \<Rightarrow> (case do_destroy P req i x of (r, x1) \<Rightarrow> (r, [], x1))
            | RestartRuntime i \<Rightarrow> (case do_restart P req i x of (r, x1) \<Rightarrow> (r, [], x1))
            | QueryRuntimes \<Rightarrow>
                (Inr (), [], send_event req (RuntimesListed (list_runtimes order (xe_registry x))) x)
            | ExecToolCall i call_id call \<Rightarrow>
                (case do_tool_call conn i call_id call of
                   Inl e \<Rightarrow> (Inl e, [], x)
                 | Inr task \<Rightarrow> (Inr (), [task], x))
            | CancelToolCall i call_id \<Rightarrow> (Inr (), [], do_cancel_tool_call T conn i call_id x)) of
        (Inl e, tasks, x1) \<Rightarrow> (tasks, send_event req (CommandFailed (runtime_error_display e)) x1)
      | (Inr _, tasks, x1) \<Rightarrow> (tasks, x1))"

subsection \<open>The in-process transport and the client\<close>

text \<open>\<open>InMemExecutorTransport::send\<close>: the one event it puts into the channel it returns.\<close>

definition im_send ::
  "('h, 'w) runtime_provider \<Rightarrow> executor_command \<Rightarrow> ('h, 'w) exec \<Rightarrow> executor_event \<times> ('h, 'w) exec" where
  "im_send P cmd x =
     (case cmd of
        CreateRuntime i config \<Rightarrow>
          (case create_core P i config x of
             (Inr _, x1) \<Rightarrow> (RuntimeStateChanged i RsRunning, x1)
           | (Inl e, x1) \<Rightarrow> (CommandFailed (runtime_error_display e), x1))
      | DestroyRuntime i \<Rightarrow>
          (case begin_stop (xe_registry x) i of
             (Inl e, _) \<Rightarrow> (CommandFailed (runtime_error_display e), x)
           | (Inr h, reg) \<Rightarrow>
               let x1 = stop_handle P h (x\<lparr>xe_registry := reg\<rparr>)
               in (RuntimeStateChanged i RsStopped,
                   x1\<lparr>xe_registry := snd (complete_stop (xe_registry x1) i)\<rparr>))
      | _ \<Rightarrow> (CommandFailed ''command not supported by in-process executor'', x))"

datatype client_error =
    ClientSendFailed string
  | ClientSerialization string
  | ClientCommandFailed string
  | ClientDisconnected

fun client_error_display :: "client_error \<Rightarrow> string" where
  "client_error_display (ClientSendFailed e) = ''send failed: '' @ e"
| "client_error_display (ClientSerialization e) = ''serialization error: '' @ e"
| "client_error_display (ClientCommandFailed e) = ''command failed: '' @ e"
| "client_error_display ClientDisconnected = ''disconnected''"

text \<open>The receive loop of \<open>create_runtime\<close> and \<open>destroy_runtime\<close> over the events of one request.\<close>

fun await_state :: "runtime_state \<Rightarrow> executor_event list \<Rightarrow> (client_error, unit) result" where
  "await_state target [] = Inl ClientDisconnected"
| "await_state target (ev # evs) =
     (case ev of
        RuntimeStateChanged i st \<Rightarrow> if st = target then Inr () else await_state target evs
      | CommandFailed msg \<Rightarrow> Inl (ClientCommandFailed msg)
      | _ \<Rightarrow> await_state target evs)"

definition client_create_runtime ::
  "('h, 'w) runtime_provider \<Rightarrow> string \<Rightarrow> string \<Rightarrow> ('h, 'w) exec \<Rightarrow> (client_error, unit) result \<times> ('h, 'w) exec" where
  "client_create_runtime P i config x =
     (case im_send P (CreateRuntime i config) x of (ev, x1) \<Rightarrow> (await_state RsRunning [ev], x1))"

definition client_destroy_runtime ::
  "('h, 'w) runtime_provider \<Rightarrow> string \<Rightarrow> ('h, 'w) exec \<Rightarrow> (client_error, unit) result \<times> ('h, 'w) exec" where
  "client_destroy_runtime P i x =
     (case im_send P (DestroyRuntime i) x of (ev, x1) \<Rightarrow> (await_state RsStopped [ev], x1))"

subsection \<open>The registry under interleaving\<close>

inductive reg_reach :: "'h registry \<Rightarrow> bool" where
  reg_empty: "reg_reach Map.empty"
| reg_begin_create: "reg_reach r \<Longrightarrow> reg_reach (snd (begin_create r i config))"
| reg_complete_create: "reg_reach r \<Longrightarrow> reg_reach (snd (complete_create r i h))"
| reg_mark_failed: "reg_reach r \<Longrightarrow> reg_reach (snd (mark_failed r i))"
| reg_begin_stop: "reg_reach r \<Longrightarrow> reg_reach (snd (begin_stop r i))"
| reg_complete_stop: "reg_reach r \<Longrightarrow> reg_reach (snd (complete_stop r i))"
| reg_begin_restart: "reg_reach r \<Longrightarrow> reg_reach (snd (begin_restart r i))"

lemmas reg_ops = begin_create_def complete_create_def mark_failed_def begin_stop_def
  complete_stop_def begin_restart_def

definition entry_live :: "'h runtime_entry \<Rightarrow> bool" where
  "entry_live e \<longleftrightarrow> (re_handle e \<noteq> None \<longleftrightarrow> re_state e = RsRunning) \<and> re_state e \<noteq> RsStopped"

lemma reg_reach_live: "reg_reach r \<Longrightarrow> r i = Some e \<Longrightarrow> entry_live e"
  by (induction arbitrary: i e rule: reg_reach.induct)
    (auto simp: reg_ops entry_live_def split: if_splits option.splits)

end
