(* ===== verification/Executor_Properties.thy ===== *)
theory Executor_Properties
  imports Executor
begin

text \<open>
  What the executor guarantees: handles exactly for running runtimes under any interleaving of the
  registry's operations, the effect of a health check on every runtime, and the client's view of a
  create; and what it does not: the health check never stops a handle, a duplicate create announces
  a running runtime as failed, the health check can take over a create in flight, and a late close
  of an old connection removes the new one.
\<close>

subsection \<open>Running runtimes and their handles\<close>

text \<open>
  C32. Under any interleaving of the registry's operations, the health check examines exactly the
  runtimes the registry lists as running, each with its handle, and no runtime in another state
  holds one.
\<close>

theorem health_check_covers_running:
  assumes "reg_reach r"
  shows "map fst (running_handles order r) =
           map ri_runtime_id (filter (\<lambda>ri. ri_state ri = RsRunning) (list_runtimes order r)) \<and>
         list_all (\<lambda>(i, h). \<exists>e. r i = Some e \<and> re_handle e = Some h) (running_handles order r) \<and>
         (\<forall>i e. r i = Some e \<longrightarrow> re_state e \<noteq> RsRunning \<longrightarrow> re_handle e = None)"
proof -
  have "map fst (running_handles order r) =
      map ri_runtime_id (filter (\<lambda>ri. ri_state ri = RsRunning) (list_runtimes order r))"
    using reg_reach_live [OF assms]
    by (induction order)
      (auto simp: running_handles_def list_runtimes_def List.map_filter_simps entry_live_def
        split: option.splits)
  moreover have "list_all (\<lambda>(i, h). \<exists>e. r i = Some e \<and> re_handle e = Some h) (running_handles order r)"
    by (induction order)
      (auto simp: running_handles_def List.map_filter_simps split: option.splits)
  moreover have "re_handle e = None" if "r i = Some e" "re_state e \<noteq> RsRunning" for i e
    using reg_reach_live [OF assms that(1)] that(2) by (cases "re_handle e") (auto simp: entry_live_def)
  ultimately show ?thesis by blast
qed

text \<open>A registry with a running runtime and one being created.\<close>

definition demo_registry :: "nat registry" where
  "demo_registry =
     snd (begin_create (snd (complete_create (snd (begin_create Map.empty ''a'' ''/w'')) ''a'' 7)) ''b'' ''/w'')"

lemma demo_registry_reach: "reg_reach demo_registry"
  unfolding demo_registry_def by (intro reg_reach.intros)

lemma demo_registry_at:
  "demo_registry ''a'' = Some \<lparr>re_state = RsRunning, re_config = ''/w'', re_restart_count = 0, re_handle = Some 7\<rparr>"
  "demo_registry ''b'' = Some \<lparr>re_state = RsCreating, re_config = ''/w'', re_restart_count = 0, re_handle = None\<rparr>"
  by (simp_all add: demo_registry_def reg_ops)

lemma health_check_covers_running_witness:
  "map fst (running_handles [''b'', ''a''] demo_registry) = [''a''] \<and>
   map_option re_handle (demo_registry ''b'') = Some None"
  using health_check_covers_running [OF demo_registry_reach, of "[''b'', ''a'']"]
  by (simp add: list_runtimes_def List.map_filter_simps demo_registry_at)

subsection \<open>The health check\<close>

lemma send_state_sel [simp]:
  "xe_registry (emit_state req i st x) = xe_registry x" "xe_world (emit_state req i st x) = xe_world x"
  "xe_sent (emit_state req i st x) = xe_sent x @ [(req, RuntimeStateChanged i st)]"
  by (simp_all add: emit_state_def send_event_def)

lemma stop_handle_sel [simp]:
  "xe_registry (stop_handle P h x) = xe_registry x" "xe_sent (stop_handle P h x) = xe_sent x"
  "stop_handle P None x = x"
  by (simp_all add: stop_handle_def split: option.splits)

text \<open>The states of one runtime that the executor has announced.\<close>

definition announced :: "string \<Rightarrow> (string \<times> executor_event) list \<Rightarrow> runtime_state list" where
  "announced i =
     List.map_filter (\<lambda>(_, ev). case ev of RuntimeStateChanged j st \<Rightarrow> if j = i then Some st else None | _ \<Rightarrow> None)"

lemma announced_simps [simp]:
  "announced i [] = []" "announced i (xs @ ys) = announced i xs @ announced i ys"
  "announced i ((req, RuntimeStateChanged j st) # evs) = (if j = i then st # announced i evs else announced i evs)"
  by (simp_all add: announced_def List.map_filter_def)

text \<open>
  What the check of a running runtime \<open>i\<close> with handle \<open>h\<close> makes of its entry and announces, by what
  the provider says of the handle in the world of that moment, and of the create that restarts it.
\<close>

definition verdict ::
  "('h, 'w) runtime_provider \<Rightarrow> u32 \<Rightarrow> string \<Rightarrow> 'h \<Rightarrow> 'w \<Rightarrow> 'h runtime_entry \<Rightarrow> 'h runtime_entry \<times> runtime_state list" where
  "verdict P m i h w e =
     (case rp_healthy P h w of
        (True, _) \<Rightarrow> (e, [])
      | (False, w1) \<Rightarrow>
          if re_restart_count e \<ge> m then (e\<lparr>re_state := RsFailed, re_handle := None\<rparr>, [RsFailed])
          else
            (case fst (rp_create P i (re_config e) w1) of
               Inr h' \<Rightarrow>
                 (e\<lparr>re_state := RsRunning, re_restart_count := re_restart_count e + 1, re_handle := Some h'\<rparr>,
                  [RsFailed, RsCreating, RsRunning])
             | Inl _ \<Rightarrow>
                 (e\<lparr>re_state := RsFailed, re_restart_count := re_restart_count e + 1, re_handle := None\<rparr>,
                  [RsFailed, RsCreating, RsFailed])))"

lemma check_runtime_verdict:
  assumes "xe_registry x i = Some e"
  shows "xe_registry (check_runtime P m new_id (i, h) x) i = Some (fst (verdict P m i h (xe_world x) e))"
    and "announced i (xe_sent (check_runtime P m new_id (i, h) x)) =
           announced i (xe_sent x) @ snd (verdict P m i h (xe_world x) e)"
proof -
  obtain healthy w where p: "rp_healthy P h (xe_world x) = (healthy, w)" by fastforce
  obtain r w' where c: "rp_create P i (re_config e) w = (r, w')" by fastforce
  show "xe_registry (check_runtime P m new_id (i, h) x) i = Some (fst (verdict P m i h (xe_world x) e))"
    using assms p c
    by (cases healthy; cases r)
      (simp_all add: check_runtime_def verdict_def mark_failed_def get_restart_count_def get_config_def
        begin_restart_def complete_create_def Let_def)
  show "announced i (xe_sent (check_runtime P m new_id (i, h) x)) =
      announced i (xe_sent x) @ snd (verdict P m i h (xe_world x) e)"
    using assms p c
    by (cases healthy; cases r)
      (simp_all add: check_runtime_def verdict_def mark_failed_def get_restart_count_def get_config_def
        begin_restart_def complete_create_def Let_def)
qed

lemma check_runtime_others:
  assumes "j \<noteq> i"
  shows "xe_registry (check_runtime P m new_id (j, h) x) i = xe_registry x i"
    and "announced i (xe_sent (check_runtime P m new_id (j, h) x)) = announced i (xe_sent x)"
  using assms
  by (auto simp: check_runtime_def mark_failed_def get_restart_count_def get_config_def begin_restart_def
      complete_create_def Let_def split: prod.splits option.splits sum.splits)

lemma check_fold_others:
  assumes "i \<notin> fst ` set hs"
  shows "xe_registry (fold (check_runtime P m new_id) hs x) i = xe_registry x i \<and>
         announced i (xe_sent (fold (check_runtime P m new_id) hs x)) = announced i (xe_sent x)"
  using assms
proof (induction hs arbitrary: x)
  case (Cons jh hs)
  obtain j h where "jh = (j, h)" by fastforce
  with Cons check_runtime_others [where j = j and i = i and h = h and x = x and P = P and m = m and new_id = new_id]
  show ?case by auto
qed simp

lemma running_handles_keys:
  "distinct order \<Longrightarrow> distinct (map fst (running_handles order r)) \<and>
     fst ` set (running_handles order r) \<subseteq> set order"
  by (induction order)
    (auto simp: running_handles_def List.map_filter_simps split: option.splits)

lemma running_handles_iff:
  "(i, h) \<in> set (running_handles order r) \<longleftrightarrow>
     i \<in> set order \<and> (\<exists>e. r i = Some e \<and> re_state e = RsRunning \<and> re_handle e = Some h)"
  by (induction order) (auto simp: running_handles_def List.map_filter_simps split: option.splits if_splits)

text \<open>The runtimes examined before \<open>i\<close>.\<close>

definition checked_before :: "string \<Rightarrow> (string \<times> 'h) list \<Rightarrow> (string \<times> 'h) list" where
  "checked_before i hs = takeWhile (\<lambda>(j, _). j \<noteq> i) hs"

lemma before_split:
  assumes "(i, h) \<in> set hs" and "distinct (map fst hs)"
  shows "\<exists>rest. hs = checked_before i hs @ (i, h) # rest \<and> i \<notin> fst ` set rest"
  using assms
proof (induction hs)
  case (Cons jk hs)
  then show ?case by (cases jk) (auto simp: checked_before_def rev_image_eqI)
qed simp

lemma before_others: "i \<notin> fst ` set (checked_before i hs)"
  by (auto simp: checked_before_def dest: set_takeWhileD)

text \<open>
  C33. A health check neither adds nor removes runtimes, and says and changes nothing about one that is
  not running. Each running one is examined once, in its turn: one that its provider finds healthy stays
  as it is; any other is announced as failed and, unless it has used up \<open>max_restarts\<close>, restarted once
  through the provider, to run with the new handle, or to be failed if that create fails.
\<close>

theorem health_check_effect:
  assumes "distinct order"
  shows "case xe_registry x i of
      None \<Rightarrow> xe_registry (run_health_check P m new_id order x) i = None
    | Some e \<Rightarrow>
        (let w = xe_world (fold (check_runtime P m new_id) (checked_before i (running_handles order (xe_registry x))) x);
             (e', states) =
               (case re_handle e of
                  Some h \<Rightarrow> if i \<in> set order \<and> re_state e = RsRunning then verdict P m i h w e else (e, [])
                | None \<Rightarrow> (e, []))
         in xe_registry (run_health_check P m new_id order x) i = Some e' \<and>
            announced i (xe_sent (run_health_check P m new_id order x)) = announced i (xe_sent x) @ states)"
proof -
  let ?hs = "running_handles order (xe_registry x)"
  let ?check = "fold (check_runtime P m new_id)"
  have d: "distinct (map fst ?hs)" using running_handles_keys [OF assms] by blast
  have run: "run_health_check P m new_id order x = ?check ?hs x" by (simp add: run_health_check_def)
  show ?thesis
  proof (cases "\<exists>h. (i, h) \<in> set ?hs")
    case False
    then have "i \<notin> fst ` set ?hs" by force
    from check_fold_others [OF this, where P = P and m = m and new_id = new_id and x = x] False show ?thesis
      by (auto simp: run running_handles_iff Let_def split: option.splits)
  next
    case True
    then obtain h where h: "(i, h) \<in> set ?hs" by blast
    then obtain e where e: "xe_registry x i = Some e" "re_state e = RsRunning" "re_handle e = Some h" "i \<in> set order"
      by (auto simp: running_handles_iff)
    from before_split [OF h d] obtain rest where
      hs: "?hs = checked_before i ?hs @ (i, h) # rest" "i \<notin> fst ` set rest" by blast
    let ?x1 = "?check (checked_before i ?hs) x"
    have x1: "xe_registry ?x1 i = Some e" "announced i (xe_sent ?x1) = announced i (xe_sent x)"
      using check_fold_others [OF before_others, where P = P and m = m and new_id = new_id and x = x] e(1) by simp_all
    have "?check ?hs x = ?check rest (check_runtime P m new_id (i, h) ?x1)"
      by (subst hs(1)) simp
    with check_fold_others [OF hs(2), where P = P and m = m and new_id = new_id and x = "check_runtime P m new_id (i, h) ?x1"]
      check_runtime_verdict [OF x1(1), where P = P and m = m and new_id = new_id and h = h] x1(2) e show ?thesis
      by (simp add: run Let_def case_prod_beta)
  qed
qed

text \<open>
  Two runtimes, of which the provider finds the one with handle 7 dead; its creates succeed.
\<close>

definition demo_provider :: "(nat, nat) runtime_provider" where
  "demo_provider =
     \<lparr>rp_create = (\<lambda>i config w. (Inr (w + 8), w + 1)), rp_stop = (\<lambda>h w. w), rp_healthy = (\<lambda>h w. (h \<noteq> 7, w))\<rparr>"

definition demo_exec :: "(nat, nat) exec" where
  "demo_exec =
     \<lparr>xe_registry = snd (complete_create demo_registry ''b'' 5), xe_world = 0, xe_sent = []\<rparr>"

lemma health_check_effect_witness:
  "let x' = run_health_check demo_provider 3 show_nat [''b'', ''a''] demo_exec
   in xe_registry x' ''b'' = xe_registry demo_exec ''b'' \<and>
      (\<exists>e'. xe_registry x' ''a'' = Some e' \<and> re_state e' = RsRunning \<and> re_handle e' = Some 8 \<and> re_restart_count e' = 1) \<and>
      announced ''a'' (xe_sent x') = [RsFailed, RsCreating, RsRunning] \<and> announced ''b'' (xe_sent x') = []"
proof -
  have d: "distinct [''b'', ''a'']" by simp
  have r: "xe_registry demo_exec ''b'' =
        Some \<lparr>re_state = RsRunning, re_config = ''/w'', re_restart_count = 0, re_handle = Some 5\<rparr>"
      "xe_registry demo_exec ''a'' =
        Some \<lparr>re_state = RsRunning, re_config = ''/w'', re_restart_count = 0, re_handle = Some 7\<rparr>"
      "xe_sent demo_exec = []"
    by (simp_all add: demo_exec_def complete_create_def demo_registry_at)
  have w: "xe_world (fold (check_runtime demo_provider 3 show_nat)
      (checked_before ''a'' (running_handles [''b'', ''a''] (xe_registry demo_exec))) demo_exec) = 0"
    by (simp add: running_handles_def List.map_filter_simps r checked_before_def check_runtime_def demo_provider_def)
      (simp add: demo_exec_def)
  show ?thesis
    using health_check_effect [OF d, where x = demo_exec and i = "''a''" and P = demo_provider and m = 3
        and new_id = show_nat]
      health_check_effect [OF d, where x = demo_exec and i = "''b''" and P = demo_provider and m = 3
        and new_id = show_nat]
    by (simp add: r w verdict_def) (simp add: demo_provider_def Let_def)
qed

lemma check_runtime_stop:
  "check_runtime (P\<lparr>rp_stop := f\<rparr>) m new_id ih x = check_runtime P m new_id ih x"
proof -
  obtain i h where ih: "ih = (i, h)" by fastforce
  have none: "begin_restart (snd (mark_failed r i)) i = (Inr old, reg) \<Longrightarrow> old = None" for r old reg
    by (auto simp: begin_restart_def mark_failed_def split: option.splits if_splits)
  show ?thesis
    unfolding ih
    by (auto simp: check_runtime_def Let_def dest!: none split: prod.splits sum.splits option.splits)
qed

text \<open>
  The health check never stops a runtime it replaces: marking the runtime failed drops its
  handle, so the restart finds none to stop, and the check does the same whatever stopping would do.
\<close>

lemma health_check_never_stops:
  "run_health_check (P\<lparr>rp_stop := f\<rparr>) m new_id order x = run_health_check P m new_id order x"
proof -
  have "check_runtime (P\<lparr>rp_stop := f\<rparr>) m new_id = check_runtime P m new_id"
    by (simp add: fun_eq_iff check_runtime_stop)
  then show ?thesis by (simp add: run_health_check_def)
qed

subsection \<open>Creating a runtime\<close>

text \<open>
  A create for a runtime that already runs leaves it running, untouched, but tells the server
  that it is being created and then that it failed.
\<close>

lemma duplicate_create_announces_failure:
  assumes "xe_registry x i = Some e" and "re_state e = RsRunning"
    and "dispatch P T conn order req (CreateRuntime i config) x = (tasks, x')"
  shows "xe_registry x' = xe_registry x \<and> xe_world x' = xe_world x \<and>
         xe_sent x' = xe_sent x @
           [(req, RuntimeStateChanged i RsCreating), (req, RuntimeStateChanged i RsFailed),
            (req, CommandFailed (''runtime already exists: '' @ i))]"
  using assms
  by (auto simp: dispatch_def do_create_def create_core_def begin_create_def send_event_def)

text \<open>The client of the in-process executor: a create succeeds exactly when the runtime runs.\<close>

lemma client_create_result:
  assumes "client_create_runtime P i config x = (r, x')"
  shows "case r of
      Inr _ \<Rightarrow> xe_registry x i = None \<and> (\<exists>e. xe_registry x' i = Some e \<and> re_state e = RsRunning \<and> re_config e = config)
    | Inl (ClientCommandFailed msg) \<Rightarrow>
        (if xe_registry x i = None then \<exists>e. xe_registry x' i = Some e \<and> re_state e = RsFailed
         else xe_registry x' = xe_registry x)
    | Inl _ \<Rightarrow> False"
  using assms
  by (auto simp: client_create_runtime_def im_send_def create_core_def begin_create_def
      complete_create_def mark_failed_def split: prod.splits sum.splits if_splits)

text \<open>
  The health check can take over a create in flight: when, between its snapshot of the running
  runtimes and its verdict on one of them, the server destroys that runtime and creates it anew,
  the check marks the new one failed and begins a restart, so that two creations of the same id run
  at once, and neither is refused.
\<close>

lemma health_check_races_create:
  assumes "r0 i = Some e" and "re_state e = RsRunning"
  shows "let (s1, r1) = begin_stop r0 i;
             (s2, r2) = complete_stop r1 i;
             (s3, r3) = begin_create r2 i config;
             (s4, r4) = mark_failed r3 i;
             (s5, r5) = begin_restart r4 i;
             (s6, r6) = complete_create r5 i h1;
             (s7, r7) = complete_create r6 i h2
         in is_ok s1 \<and> is_ok s2 \<and> is_ok s3 \<and> is_ok s4 \<and> s5 = Inr None \<and> is_ok s6 \<and> is_ok s7 \<and>
            (\<exists>e7. r7 i = Some e7 \<and> re_handle e7 = Some h2)"
  using assms by (simp add: reg_ops Let_def)

text \<open>A close of an old connection that arrives after the new one registered removes the new one.\<close>

lemma stale_close_removes_new:
  "runtime_transport
     (foldl handle_connection c [ConnReady i old, ConnReady i new, ConnClosed i]) i = None"
  by (simp add: runtime_transport_def remove_transport_def)

end
