(* ===== verification/Runtime_Tools.thy ===== *)
theory Runtime_Tools
  imports Models Text "HOL-Library.List_Lexorder" "HOL-Library.Char_ord"
begin

text \<open>
  The tools a runtime executes (\<open>src/runtime/src/tools/*.rs\<close>) over an environment: the file system,
  the shell, and the crates \<open>regex\<close> and \<open>glob\<close>. Each tool runs in a blocking task; a panic in it, as
  an out-of-range slice, becomes an error result with the text of the join error.
\<close>

subsection \<open>The environment\<close>

record regex =
  rx_is_match :: "string \<Rightarrow> bool"
  rx_replace_all :: "string \<Rightarrow> string \<Rightarrow> string"

text \<open>
  \<open>en_read\<close> is \<open>read_to_string\<close>, \<open>en_write\<close> \<open>fs::write\<close>, \<open>en_create_parents\<close> \<open>create_dir_all\<close> of the
  path's parent when it has one; an entry of \<open>en_read_dir\<close> says whether it is a directory, or why it
  cannot be read. \<open>en_bash\<close> gives the exit code, if any, and both streams as lossy UTF-8.
\<close>

record 'w runtime_env =
  en_read :: "string \<Rightarrow> 'w \<Rightarrow> (string, string) result"
  en_write :: "string \<Rightarrow> string \<Rightarrow> 'w \<Rightarrow> (string, unit) result \<times> 'w"
  en_create_parents :: "string \<Rightarrow> 'w \<Rightarrow> (string, unit) result \<times> 'w"
  en_read_dir :: "string \<Rightarrow> 'w \<Rightarrow> (string, (string, bool \<times> string) result list) result"
  en_is_file :: "string \<Rightarrow> 'w \<Rightarrow> bool"
  en_regex :: "string \<Rightarrow> (string, regex) result"
  en_glob :: "string \<Rightarrow> 'w \<Rightarrow> (string, (string, string) result list) result"
  en_bash :: "string \<Rightarrow> string \<Rightarrow> 'w \<Rightarrow> (string, u32 option \<times> string \<times> string) result \<times> 'w"
  en_panic :: string

definition blocking_result :: "(string, string) result \<Rightarrow> tool_result" where
  "blocking_result r =
     (case r of
        Inr out \<Rightarrow> ToolOk \<lparr>to_stdout = out, to_stderr = [], to_exit_code = 0\<rparr>
      | Inl reason \<Rightarrow> ToolErr reason)"

subsection \<open>Ranges\<close>

text \<open>\<open>&xs[a..b]\<close>, \<open>None\<close> when it panics.\<close>

definition slice :: "nat \<Rightarrow> nat \<Rightarrow> 'a list \<Rightarrow> 'a list option" where
  "slice a b xs = (if a \<le> b \<and> b \<le> length xs then Some (take (b - a) (drop a xs)) else None)"

text \<open>The bounds of a 1-based range of lines: \<open>saturating_sub(1).min(len)\<close> and \<open>min(len)\<close>.\<close>

definition range_start :: "u64 \<Rightarrow> nat \<Rightarrow> nat" where
  "range_start s len = min (unat s - 1) len"

definition range_end :: "u64 \<Rightarrow> nat \<Rightarrow> nat" where
  "range_end e len = min (unat e) len"

subsection \<open>The tools\<close>

definition read_range :: "string \<Rightarrow> u64 option \<Rightarrow> u64 option \<Rightarrow> string option" where
  "read_range content first final =
     (let ls = str_lines content in
      case (first, final) of
        (Some s, Some e) \<Rightarrow>
          map_option (join [newline]) (slice (range_start s (length ls)) (range_end e (length ls)) ls)
      | (Some s, None) \<Rightarrow> Some (join [newline] (drop (range_start s (length ls)) ls))
      | _ \<Rightarrow> Some content)"

definition exec_read_file ::
  "'w runtime_env \<Rightarrow> string \<Rightarrow> string \<Rightarrow> u64 option \<Rightarrow> u64 option \<Rightarrow> 'w \<Rightarrow> tool_result" where
  "exec_read_file E wd path first final w =
     blocking_result
       (case en_read E (join_path wd path) w of
          Inl e \<Rightarrow> Inl e
        | Inr content \<Rightarrow>
            (case read_range content first final of None \<Rightarrow> Inl (en_panic E) | Some t \<Rightarrow> Inr t))"

definition exec_write_file ::
  "'w runtime_env \<Rightarrow> string \<Rightarrow> string \<Rightarrow> string \<Rightarrow> 'w \<Rightarrow> tool_result \<times> 'w" where
  "exec_write_file E wd path content w =
     (case en_create_parents E (join_path wd path) w of
        (Inl e, w1) \<Rightarrow> (blocking_result (Inl e), w1)
      | (Inr _, w1) \<Rightarrow>
          (case en_write E (join_path wd path) content w1 of
             (Inl e, w2) \<Rightarrow> (blocking_result (Inl e), w2)
           | (Inr _, w2) \<Rightarrow> (blocking_result (Inr ''File written.''), w2)))"

definition exec_edit_file ::
  "'w runtime_env \<Rightarrow> string \<Rightarrow> string \<Rightarrow> string \<Rightarrow> string \<Rightarrow> 'w \<Rightarrow> tool_result \<times> 'w" where
  "exec_edit_file E wd path old new w =
     (case en_read E (join_path wd path) w of
        Inl e \<Rightarrow> (blocking_result (Inl e), w)
      | Inr content \<Rightarrow>
          if \<not> str_contains old content
          then (blocking_result (Inl (''old_text not found in '' @ quoted path)), w)
          else
            (case en_write E (join_path wd path) (replace_first old new content) w of
               (Inl e, w1) \<Rightarrow> (blocking_result (Inl e), w1)
             | (Inr _, w1) \<Rightarrow> (blocking_result (Inr (''Edited '' @ quoted path @ ''.'')), w1)))"

text \<open>\<open>lines.splice(start..end, replacement)\<close>, which panics like a slice.\<close>

definition splice_lines :: "string \<Rightarrow> string \<Rightarrow> u64 \<Rightarrow> u64 \<Rightarrow> string option" where
  "splice_lines content replacement first final =
     (let ls = str_lines content;
          a = range_start first (length ls);
          b = range_end final (length ls)
      in if a \<le> b then Some (join [newline] (take a ls @ str_lines replacement @ drop b ls)) else None)"

definition replaced_content ::
  "'w runtime_env \<Rightarrow> string \<Rightarrow> string \<Rightarrow> replace_mode \<Rightarrow> (string, string) result" where
  "replaced_content E content replacement mode =
     (case mode of
        RegexMode pat \<Rightarrow>
          (case en_regex E pat of Inl e \<Rightarrow> Inl e | Inr re \<Rightarrow> Inr (rx_replace_all re content replacement))
      | LinesMode s e \<Rightarrow>
          (case splice_lines content replacement s e of None \<Rightarrow> Inl (en_panic E) | Some t \<Rightarrow> Inr t))"

definition exec_replace_in_file ::
  "'w runtime_env \<Rightarrow> string \<Rightarrow> string \<Rightarrow> string \<Rightarrow> replace_mode \<Rightarrow> 'w \<Rightarrow> tool_result \<times> 'w" where
  "exec_replace_in_file E wd path replacement mode w =
     (case en_read E (join_path wd path) w of
        Inl e \<Rightarrow> (blocking_result (Inl e), w)
      | Inr content \<Rightarrow>
          (case replaced_content E content replacement mode of
             Inl e \<Rightarrow> (blocking_result (Inl e), w)
           | Inr t \<Rightarrow>
               (case en_write E (join_path wd path) t w of
                  (Inl e, w1) \<Rightarrow> (blocking_result (Inl e), w1)
                | (Inr _, w1) \<Rightarrow> (blocking_result (Inr (''Replaced in '' @ quoted path @ ''.'')), w1))))"

definition exec_list_files :: "'w runtime_env \<Rightarrow> string \<Rightarrow> string \<Rightarrow> 'w \<Rightarrow> tool_result" where
  "exec_list_files E wd path w =
     blocking_result
       (case en_read_dir E (join_path wd path) w of
          Inl e \<Rightarrow> Inl e
        | Inr entries \<Rightarrow>
            (case collect_results entries of
               Inl e \<Rightarrow> Inl e
             | Inr es \<Rightarrow>
                 Inr (join [newline] (sort (map (\<lambda>(d, name). (if d then ''d '' else ''f '') @ name) es)))))"

definition search_base :: "string \<Rightarrow> string option \<Rightarrow> string" where
  "search_base wd path = (case path of None \<Rightarrow> wd | Some p \<Rightarrow> join_path wd p)"

definition result_limit :: "u64 option \<Rightarrow> nat" where
  "result_limit n = (case n of None \<Rightarrow> 1000 | Some k \<Rightarrow> unat k)"

definition ok_items :: "('e, 'a) result list \<Rightarrow> 'a list" where
  "ok_items rs = List.map_filter (\<lambda>r. case r of Inl _ \<Rightarrow> None | Inr a \<Rightarrow> Some a) rs"

definition exec_glob ::
  "'w runtime_env \<Rightarrow> string \<Rightarrow> string \<Rightarrow> string option \<Rightarrow> u64 option \<Rightarrow> 'w \<Rightarrow> tool_result" where
  "exec_glob E wd pat path limit w =
     blocking_result
       (case en_glob E (search_base wd path @ ''/'' @ pat) w of
          Inl e \<Rightarrow> Inl e
        | Inr items \<Rightarrow> Inr (join [newline] (ok_items (take (result_limit limit) items))))"

definition hit :: "string \<Rightarrow> nat \<Rightarrow> string \<Rightarrow> string" where
  "hit p i line = p @ '':'' @ show_nat i @ '': '' @ line"

text \<open>The loop over a file's lines, from number \<open>i\<close>, and whether it broke out of the search.\<close>

fun grep_lines ::
  "nat \<Rightarrow> (string \<Rightarrow> bool) \<Rightarrow> string \<Rightarrow> nat \<Rightarrow> string list \<Rightarrow> string list \<Rightarrow> string list \<times> bool" where
  "grep_lines limit m p i [] results = (results, False)"
| "grep_lines limit m p i (line # ls) results =
     (if m line
      then
        let results' = results @ [hit p i line]
        in if length results' \<ge> limit then (results', True)
           else grep_lines limit m p (i + 1) ls results'
      else grep_lines limit m p (i + 1) ls results)"

fun grep_files ::
  "'w runtime_env \<Rightarrow> nat \<Rightarrow> (string \<Rightarrow> bool) \<Rightarrow> 'w \<Rightarrow> string list \<Rightarrow> string list \<Rightarrow> string list" where
  "grep_files E limit m w [] results = results"
| "grep_files E limit m w (p # ps) results =
     (if en_is_file E p w
      then
        (case en_read E p w of
           Inl _ \<Rightarrow> grep_files E limit m w ps results
         | Inr content \<Rightarrow>
             (case grep_lines limit m p 1 (str_lines content) results of
                (results', True) \<Rightarrow> results'
              | (results', False) \<Rightarrow> grep_files E limit m w ps results'))
      else grep_files E limit m w ps results)"

definition exec_grep ::
  "'w runtime_env \<Rightarrow> string \<Rightarrow> string \<Rightarrow> string option \<Rightarrow> string option \<Rightarrow> u64 option \<Rightarrow> 'w \<Rightarrow> tool_result" where
  "exec_grep E wd pat path file_pat limit w =
     blocking_result
       (case en_regex E pat of
          Inl e \<Rightarrow> Inl e
        | Inr re \<Rightarrow>
            (case en_glob E (search_base wd path @ ''/'' @ (case file_pat of None \<Rightarrow> ''**/*'' | Some f \<Rightarrow> f)) w of
               Inl e \<Rightarrow> Inl e
             | Inr items \<Rightarrow>
                 Inr (join [newline]
                   (grep_files E (result_limit limit) (rx_is_match re) w (ok_items items) []))))"

definition exec_bash :: "'w runtime_env \<Rightarrow> string \<Rightarrow> string \<Rightarrow> 'w \<Rightarrow> tool_result \<times> 'w" where
  "exec_bash E wd command w =
     (case en_bash E wd command w of
        (Inl e, w1) \<Rightarrow> (ToolErr e, w1)
      | (Inr (code, out, err), w1) \<Rightarrow>
          (ToolOk \<lparr>to_stdout = out, to_stderr = err,
                   to_exit_code = (case code of None \<Rightarrow> - 1 | Some c \<Rightarrow> c)\<rparr>, w1))"

definition tools_dispatch :: "'w runtime_env \<Rightarrow> string \<Rightarrow> runtime_call \<Rightarrow> 'w \<Rightarrow> tool_result \<times> 'w" where
  "tools_dispatch E wd call w =
     (case call of
        CallBash command \<Rightarrow> exec_bash E wd command w
      | CallReadFile path s e \<Rightarrow> (exec_read_file E wd path s e w, w)
      | CallWriteFile path content \<Rightarrow> exec_write_file E wd path content w
      | CallEditFile path old new \<Rightarrow> exec_edit_file E wd path old new w
      | CallReplaceInFile path replacement mode \<Rightarrow> exec_replace_in_file E wd path replacement mode w
      | CallListFiles path \<Rightarrow> (exec_list_files E wd path w, w)
      | CallGlob pat path limit \<Rightarrow> (exec_glob E wd pat path limit w, w)
      | CallGrep pat path file_pat limit \<Rightarrow> (exec_grep E wd pat path file_pat limit w, w))"

end
