(* ===== verification/Tool_Properties.thy ===== *)
theory Tool_Properties
  imports Runtime_Tools
begin

text \<open>
  What the runtime's tools do to the files: the locale \<open>file_system\<close> states what they rely on, an
  in-memory file system with a full-disk fault meets it, and the properties say what each tool
  leaves behind and what it returns.
\<close>

subsection \<open>The file system\<close>

locale file_system =
  fixes E :: "'w runtime_env"
    and file_at :: "'w \<Rightarrow> string \<Rightarrow> string option"
  assumes reads: "en_read E p w = Inr t \<longleftrightarrow> file_at w p = Some t"
    and writes: "en_write E p t w = (Inr u, w') \<Longrightarrow> file_at w' = (file_at w)(p := Some t)"
    and failed_write: "en_write E p t w = (Inl e, w') \<Longrightarrow> q \<noteq> p \<Longrightarrow> file_at w' q = file_at w q"
    and keeps_files: "en_create_parents E p w = (r, w') \<Longrightarrow> file_at w' = file_at w"
begin

lemma write_file_effect:
  assumes "exec_write_file E wd path content w = (r, w')"
  shows "(\<forall>q. q \<noteq> join_path wd path \<longrightarrow> file_at w' q = file_at w q) \<and>
         (case r of ToolOk out \<Rightarrow> file_at w' (join_path wd path) = Some content | ToolErr e \<Rightarrow> True)"
  using assms
  by (auto simp: exec_write_file_def blocking_result_def split: prod.splits sum.splits
      dest!: writes keeps_files dest: failed_write)

lemma write_then_read:
  assumes "exec_write_file E wd path content w = (ToolOk out, w')"
  shows "exec_read_file E wd path None None w' = ToolOk \<lparr>to_stdout = content, to_stderr = [], to_exit_code = 0\<rparr>"
proof -
  have "en_read E (join_path wd path) w' = Inr content"
    using write_file_effect [OF assms] by (simp add: reads)
  then show ?thesis by (simp add: exec_read_file_def read_range_def blocking_result_def Let_def)
qed

lemma unreadable: "file_at w p = None \<Longrightarrow> \<exists>e. en_read E p w = Inl e"
  using reads [of p w] by (cases "en_read E p w") auto

lemma edit_effect:
  assumes "exec_edit_file E wd path old new w = (r, w')"
  shows "case file_at w (join_path wd path) of
      None \<Rightarrow> w' = w \<and> (\<exists>e. r = ToolErr e)
    | Some t \<Rightarrow>
        if sublist old t
        then (\<forall>q. q \<noteq> join_path wd path \<longrightarrow> file_at w' q = file_at w q) \<and>
             (\<exists>a b. t = a @ old @ b \<and> (\<forall>a' b'. t = a' @ old @ b' \<longrightarrow> length a \<le> length a') \<and>
                (case r of
                   ToolOk out \<Rightarrow> file_at w' (join_path wd path) = Some (a @ new @ b)
                 | ToolErr e \<Rightarrow> True))
        else w' = w \<and> r = ToolErr (''old_text not found in '' @ quoted path)"
proof (cases "file_at w (join_path wd path)")
  case None
  with assms unreadable [OF this] show ?thesis
    by (auto simp: exec_edit_file_def blocking_result_def)
next
  case (Some t)
  then have rd: "en_read E (join_path wd path) w = Inr t" by (simp add: reads)
  show ?thesis
  proof (cases "sublist old t")
    case False
    with assms Some rd show ?thesis
      by (simp add: exec_edit_file_def blocking_result_def str_contains_sublist)
  next
    case True
    obtain x w1 where wr: "en_write E (join_path wd path) (replace_first old new t) w = (x, w1)" by fastforce
    have w': "w' = w1" "(case r of ToolOk out \<Rightarrow> x = Inr () | ToolErr e \<Rightarrow> True)"
      using assms rd True wr
      by (auto simp: exec_edit_file_def blocking_result_def str_contains_sublist split: sum.splits)
    have frame: "\<forall>q. q \<noteq> join_path wd path \<longrightarrow> file_at w1 q = file_at w q"
      using wr by (cases x) (auto dest: failed_write writes)
    obtain a b where ab: "t = a @ old @ b" "replace_first old new t = a @ new @ b"
        "\<forall>a' b'. t = a' @ old @ b' \<longrightarrow> length a \<le> length a'"
      using replace_first_spec [of old t new] True by (auto simp: str_contains_sublist)
    have "case r of ToolOk out \<Rightarrow> file_at w' (join_path wd path) = Some (a @ new @ b) | ToolErr e \<Rightarrow> True"
      using w' wr ab(2) by (auto split: tool_result.splits dest: writes)
    with Some True frame w'(1) ab show ?thesis by auto
  qed
qed

end

text \<open>Files by path, and whether the disk is full: then a write truncates its file and fails.\<close>

record mem_fs =
  mf_files :: "string \<rightharpoonup> string"
  mf_full :: bool

definition mem_env :: "mem_fs runtime_env" where
  "mem_env =
     \<lparr>en_read = (\<lambda>p w. case mf_files w p of None \<Rightarrow> Inl ''No such file or directory (os error 2)'' | Some t \<Rightarrow> Inr t),
      en_write = (\<lambda>p t w.
        if mf_full w
        then (Inl ''No space left on device (os error 28)'', w\<lparr>mf_files := (mf_files w)(p \<mapsto> [])\<rparr>)
        else (Inr (), w\<lparr>mf_files := (mf_files w)(p \<mapsto> t)\<rparr>)),
      en_create_parents = (\<lambda>p w. (Inr (), w)),
      en_read_dir = (\<lambda>p w. Inr []),
      en_is_file = (\<lambda>p w. mf_files w p \<noteq> None),
      en_regex = (\<lambda>pat. Inr \<lparr>rx_is_match = str_contains pat, rx_replace_all = (\<lambda>t r. replace_first pat r t)\<rparr>),
      en_glob = (\<lambda>pat w. Inr [Inr ''/w/a'', Inl ''permission denied'', Inr ''/w/b'']),
      en_bash = (\<lambda>wd c w. (Inr (Some 0, c, []), w)),
      en_panic = ''task 1 panicked''\<rparr>"

interpretation mem: file_system mem_env mf_files
  by unfold_locales (auto simp: mem_env_def split: option.splits if_splits)

definition mem_demo :: mem_fs where
  "mem_demo = \<lparr>mf_files = [''/w/a'' \<mapsto> ''xyxy'', ''/w/b'' \<mapsto> ''y''], mf_full = False\<rparr>"

subsection \<open>Reading in pages\<close>

lemma join_append:
  "xs \<noteq> [] \<Longrightarrow> ys \<noteq> [] \<Longrightarrow> join sep (xs @ ys) = join sep xs @ sep @ join sep ys"
proof (induction sep xs rule: join.induct)
  case (2 sep x)
  then show ?case by (cases ys) auto
qed auto

lemma slice_split:
  assumes "a \<le> b" and "b \<le> c" and "c \<le> length xs"
  shows "slice a c xs = Some (take (b - a) (drop a xs) @ take (c - b) (drop b xs))"
  using assms take_add [of "b - a" "c - b" "drop a xs"] by (simp add: slice_def)

definition output_of :: "string \<Rightarrow> tool_result" where
  "output_of t = ToolOk \<lparr>to_stdout = t, to_stderr = [], to_exit_code = 0\<rparr>"

lemma read_range_some:
  assumes "en_read E (join_path wd path) w = Inr t"
    and "range_start s (length (str_lines t)) \<le> range_end e (length (str_lines t))"
  shows "exec_read_file E wd path (Some s) (Some e) w =
           output_of (join [newline] (take (range_end e (length (str_lines t)) - range_start s (length (str_lines t)))
             (drop (range_start s (length (str_lines t))) (str_lines t))))"
  using assms by (simp add: exec_read_file_def read_range_def slice_def range_end_def blocking_result_def
      output_of_def Let_def)

text \<open>Pages of a file join up: lines \<open>s\<close> to \<open>k\<close>, then \<open>k + 1\<close> to \<open>e\<close>, are lines \<open>s\<close> to \<open>e\<close>.\<close>

lemma read_file_pages:
  assumes "en_read E (join_path wd path) w = Inr t"
    and "0 < s" and "s \<le> k" and "k < e" and "unat k < length (str_lines t)"
  shows "\<exists>x y. exec_read_file E wd path (Some s) (Some k) w = output_of x \<and>
           exec_read_file E wd path (Some (k + 1)) (Some e) w = output_of y \<and>
           exec_read_file E wd path (Some s) (Some e) w = output_of (x @ [newline] @ y)"
proof -
  let ?ls = "str_lines t"
  let ?n = "length ?ls"
  have u: "0 < unat s" "unat s \<le> unat k" "unat k < unat e"
    using assms(2-4) by (simp_all add: word_less_nat_alt word_le_nat_alt)
  have k1: "unat (k + 1) = Suc (unat k)"
    using assms(4) by (metis unat_less_increases)
  define a b c where "a = unat s - 1" and "b = unat k" and "c = min (unat e) ?n"
  have r: "range_start s ?n = a" "range_end k ?n = b" "range_start (k + 1) ?n = b" "range_end e ?n = c"
    using u k1 assms(5) by (simp_all add: range_start_def range_end_def a_def b_def c_def)
  have o: "a < b" "b < c" "c \<le> ?n" using u assms(5) by (auto simp: a_def b_def c_def)
  have ne: "take (b - a) (drop a ?ls) \<noteq> []" "take (c - b) (drop b ?ls) \<noteq> []" using o by auto
  have sp: "take (c - a) (drop a ?ls) = take (b - a) (drop a ?ls) @ take (c - b) (drop b ?ls)"
    using slice_split [of a b c ?ls] o by (simp add: slice_def)
  have "exec_read_file E wd path (Some s) (Some k) w = output_of (join [newline] (take (b - a) (drop a ?ls)))"
      "exec_read_file E wd path (Some (k + 1)) (Some e) w = output_of (join [newline] (take (c - b) (drop b ?ls)))"
      "exec_read_file E wd path (Some s) (Some e) w =
         output_of (join [newline] (take (b - a) (drop a ?ls)) @ [newline] @ join [newline] (take (c - b) (drop b ?ls)))"
    using read_range_some [OF assms(1), of s k] read_range_some [OF assms(1), of "k + 1" e]
      read_range_some [OF assms(1), of s e] r o join_append [OF ne, of "[newline]"] sp
    by simp_all
  then show ?thesis by blast
qed

text \<open>A range that ends before it starts, inside the file, panics.\<close>

lemma read_file_backwards:
  assumes "en_read E (join_path wd path) w = Inr t"
    and "unat e < unat s - 1" and "unat e < length (str_lines t)"
  shows "exec_read_file E wd path (Some s) (Some e) w = ToolErr (en_panic E)"
  using assms by (simp add: exec_read_file_def read_range_def slice_def range_start_def range_end_def
      blocking_result_def Let_def min_def)

text \<open>An end without a start is ignored.\<close>

lemma read_file_end_only:
  "exec_read_file E wd path None (Some e) w = exec_read_file E wd path None None w"
proof -
  have "read_range t None (Some e) = Some t" "read_range t None None = Some t" for t
    by (simp_all add: read_range_def Let_def)
  then show ?thesis
    by (cases "en_read E (join_path wd path) w") (simp_all add: exec_read_file_def)
qed

subsection \<open>Searching\<close>

definition file_hits :: "(string \<Rightarrow> bool) \<Rightarrow> string \<Rightarrow> nat \<Rightarrow> string list \<Rightarrow> string list" where
  "file_hits m p i ls = map (\<lambda>(k, l). hit p k l) (filter (\<lambda>(k, l). m l) (List.enumerate i ls))"

definition all_hits :: "'w runtime_env \<Rightarrow> (string \<Rightarrow> bool) \<Rightarrow> 'w \<Rightarrow> string list \<Rightarrow> string list" where
  "all_hits E m w ps =
     concat (map (\<lambda>p. if en_is_file E p w
                      then (case en_read E p w of Inl _ \<Rightarrow> [] | Inr t \<Rightarrow> file_hits m p 1 (str_lines t))
                      else []) ps)"

lemma grep_lines_hits:
  "length results < max 1 limit \<Longrightarrow>
   grep_lines limit m p i ls results =
     (take (max 1 limit) (results @ file_hits m p i ls),
      max 1 limit \<le> length (results @ file_hits m p i ls))"
proof (induction ls arbitrary: i results)
  case Nil
  then show ?case by (auto simp: file_hits_def max_def split: if_splits)
next
  case (Cons line ls)
  show ?case
  proof (cases "m line")
    case False
    with Cons.IH [OF Cons.prems, of "i + 1"] show ?thesis by (simp add: file_hits_def)
  next
    case True
    have h: "file_hits m p i (line # ls) = hit p i line # file_hits m p (Suc i) ls"
      using True by (simp add: file_hits_def)
    show ?thesis
    proof (cases "limit \<le> length (results @ [hit p i line])")
      case True
      with Cons.prems have l: "max 1 limit = length (results @ [hit p i line])" by simp
      with True \<open>m line\<close> show ?thesis by (simp add: h Let_def)
    next
      case False
      then have "length (results @ [hit p i line]) < max 1 limit" by simp
      from Cons.IH [OF this, of "i + 1"] False \<open>m line\<close> show ?thesis by (simp add: h Let_def)
    qed
  qed
qed

lemma grep_files_hits:
  "length results < max 1 limit \<Longrightarrow>
   grep_files E limit m w ps results = take (max 1 limit) (results @ all_hits E m w ps)"
proof (induction ps arbitrary: results)
  case Nil
  then show ?case by (simp add: all_hits_def)
next
  case (Cons p ps)
  show ?case
  proof (cases "en_is_file E p w")
    case False
    with Cons show ?thesis by (simp add: all_hits_def)
  next
    case True
    show ?thesis
    proof (cases "en_read E p w")
      case (Inl e)
      with True Cons show ?thesis by (simp add: all_hits_def)
    next
      case (Inr t)
      let ?r = "results @ file_hits m p 1 (str_lines t)"
      have g: "grep_lines limit m p 1 (str_lines t) results = (take (max 1 limit) ?r, max 1 limit \<le> length ?r)"
        by (rule grep_lines_hits [OF Cons.prems])
      have a: "results @ all_hits E m w (p # ps) = ?r @ all_hits E m w ps"
        using True Inr by (simp add: all_hits_def)
      show ?thesis
      proof (cases "max 1 limit \<le> length ?r")
        case True
        then have "grep_lines limit m p 1 (str_lines t) results = (take (max 1 limit) ?r, True)"
          by (simp only: g)
        with True \<open>en_is_file E p w\<close> Inr show ?thesis unfolding a by simp
      next
        case False
        then have lt: "length ?r < max 1 limit" by linarith
        then have "take (max 1 limit) ?r = ?r" by (intro take_all) linarith
        with False have "grep_lines limit m p 1 (str_lines t) results = (?r, False)"
          by (simp only: g)
        with False \<open>en_is_file E p w\<close> Inr Cons.IH [OF lt] show ?thesis
          unfolding a by (simp del: take_append)
      qed
    qed
  qed
qed

text \<open>
  C40. A search returns the first matching lines, in the order of the files and of their lines, each
  with its path and number: as many as \<open>max_results\<close> says, but at least one when any line matches.
\<close>

theorem grep_first_hits:
  assumes "en_regex E pat = Inr re"
    and "en_glob E (search_base wd path @ ''/'' @ (case file_pat of None \<Rightarrow> ''**/*'' | Some f \<Rightarrow> f)) w = Inr items"
  shows "exec_grep E wd pat path file_pat limit w =
           output_of (join [newline]
             (take (max 1 (case limit of None \<Rightarrow> 1000 | Some k \<Rightarrow> unat k))
                (all_hits E (rx_is_match re) w (ok_items items))))"
  using assms grep_files_hits [of "[]" "result_limit limit" E "rx_is_match re" w "ok_items items"]
  by (simp add: exec_grep_def output_of_def blocking_result_def result_limit_def)

theorem grep_first_hits_witness:
  "exec_grep mem_env ''/w'' ''y'' None None (Some 0) mem_demo = output_of ''/w/a:1: xyxy''"
proof -
  have r: "en_regex mem_env ''y'' = Inr \<lparr>rx_is_match = str_contains ''y'', rx_replace_all = (\<lambda>t r. replace_first ''y'' r t)\<rparr>"
    by (simp add: mem_env_def)
  have g: "en_glob mem_env (search_base ''/w'' None @ ''/'' @ (case None of None \<Rightarrow> ''**/*'' | Some f \<Rightarrow> f)) mem_demo =
      Inr [Inr ''/w/a'', Inl ''permission denied'', Inr ''/w/b'']"
    by (simp add: mem_env_def)
  have h: "join [newline] (take (max 1 (case Some (0::u64) of None \<Rightarrow> 1000 | Some k \<Rightarrow> unat k))
      (all_hits mem_env (str_contains ''y'') mem_demo (ok_items [Inr ''/w/a'', Inl ''permission denied'', Inr ''/w/b'']))) =
      ''/w/a:1: xyxy''"
    by code_simp
  show ?thesis using grep_first_hits [OF r g, of "Some 0"] h by simp
qed

end
