(* ===== verification/Runtime_Link.thy ===== *)
theory Runtime_Link
  imports Executor
begin

text \<open>
  The link between an executor and a runtime: the runtime's message loop with its map of tasks in
  flight (\<open>src/runtime/src/main.rs\<close>), the transport that matches responses to waiting calls
  (\<open>src/executor/src/socket_transport.rs\<close>), and the relay that rides on an executor's connection
  (\<open>src/executor-client/src/ws_transport.rs\<close>).
\<close>

datatype transport_error =
    LinkSendFailed string
  | LinkSerialization string
  | Disconnected

fun transport_error_display :: "transport_error \<Rightarrow> string" where
  "transport_error_display (LinkSendFailed e) = ''send failed: '' @ e"
| "transport_error_display (LinkSerialization e) = ''serialization error: '' @ e"
| "transport_error_display Disconnected = ''disconnected''"

datatype runtime_inbound =
    InToolCall string runtime_call
  | InCancelCall string

datatype runtime_outbound =
    OutReady string
  | OutResponse string tool_result

subsection \<open>The runtime's loop\<close>

text \<open>
  A spawned task first sends its response, then removes its call from the map; the loop inserts the
  task into the map only after spawning it, so the two interleave. An aborted task ends at its next
  suspension, and may have sent its response before that.
\<close>

record task =
  tk_call :: string
  tk_responded :: bool
  tk_aborted :: bool

record runtime_loop =
  rl_tasks :: "nat \<rightharpoonup> task"
  rl_next :: nat
  rl_in_flight :: "string \<rightharpoonup> nat"
  rl_spawned :: "(string \<times> nat) option"
  rl_sent :: "runtime_outbound list"

definition loop_start :: "string \<Rightarrow> runtime_loop" where
  "loop_start runtime_id =
     \<lparr>rl_tasks = Map.empty, rl_next = 0, rl_in_flight = Map.empty, rl_spawned = None,
      rl_sent = [OutReady runtime_id]\<rparr>"

definition spawn_call :: "string \<Rightarrow> runtime_loop \<Rightarrow> runtime_loop" where
  "spawn_call cid l =
     l\<lparr>rl_tasks := (rl_tasks l)(rl_next l \<mapsto> \<lparr>tk_call = cid, tk_responded = False, tk_aborted = False\<rparr>),
       rl_next := rl_next l + 1, rl_spawned := Some (cid, rl_next l)\<rparr>"

definition insert_task :: "runtime_loop \<Rightarrow> runtime_loop" where
  "insert_task l =
     (case rl_spawned l of
        None \<Rightarrow> l
      | Some (cid, n) \<Rightarrow> l\<lparr>rl_in_flight := (rl_in_flight l)(cid \<mapsto> n), rl_spawned := None\<rparr>)"

definition abort_task :: "nat \<Rightarrow> runtime_loop \<Rightarrow> runtime_loop" where
  "abort_task n l =
     l\<lparr>rl_tasks := (rl_tasks l)(n := map_option (\<lambda>t. t\<lparr>tk_aborted := True\<rparr>) (rl_tasks l n))\<rparr>"

definition cancel_call :: "string \<Rightarrow> runtime_loop \<Rightarrow> runtime_loop" where
  "cancel_call cid l =
     (let l1 = (case rl_in_flight l cid of
          None \<Rightarrow> l
        | Some n \<Rightarrow> abort_task n (l\<lparr>rl_in_flight := (rl_in_flight l)(cid := None)\<rparr>))
      in l1\<lparr>rl_sent := rl_sent l1 @ [OutResponse cid (ToolErr ''cancelled'')]\<rparr>)"

definition task_respond :: "nat \<Rightarrow> task \<Rightarrow> tool_result \<Rightarrow> runtime_loop \<Rightarrow> runtime_loop" where
  "task_respond n t r l =
     l\<lparr>rl_sent := rl_sent l @ [OutResponse (tk_call t) r],
       rl_tasks := (rl_tasks l)(n \<mapsto> t\<lparr>tk_responded := True\<rparr>)\<rparr>"

definition task_remove :: "nat \<Rightarrow> task \<Rightarrow> runtime_loop \<Rightarrow> runtime_loop" where
  "task_remove n t l =
     l\<lparr>rl_in_flight := (rl_in_flight l)(tk_call t := None), rl_tasks := (rl_tasks l)(n := None)\<rparr>"

text \<open>The reachable states, with the ids of the calls received so far.\<close>

inductive loop_reach :: "string list \<Rightarrow> runtime_loop \<Rightarrow> bool" where
  lr_start: "loop_reach [] (loop_start runtime_id)"
| lr_call: "loop_reach cs l \<Longrightarrow> rl_spawned l = None \<Longrightarrow> loop_reach (cid # cs) (spawn_call cid l)"
| lr_insert: "loop_reach cs l \<Longrightarrow> loop_reach cs (insert_task l)"
| lr_cancel: "loop_reach cs l \<Longrightarrow> rl_spawned l = None \<Longrightarrow> loop_reach cs (cancel_call cid l)"
| lr_respond: "loop_reach cs l \<Longrightarrow> rl_tasks l n = Some t \<Longrightarrow> \<not> tk_responded t \<Longrightarrow>
    loop_reach cs (task_respond n t r l)"
| lr_remove: "loop_reach cs l \<Longrightarrow> rl_tasks l n = Some t \<Longrightarrow> tk_responded t \<Longrightarrow>
    loop_reach cs (task_remove n t l)"
| lr_aborted: "loop_reach cs l \<Longrightarrow> rl_tasks l n = Some t \<Longrightarrow> tk_aborted t \<Longrightarrow>
    loop_reach cs (l\<lparr>rl_tasks := (rl_tasks l)(n := None)\<rparr>)"

lemmas loop_ops = loop_start_def spawn_call_def insert_task_def abort_task_def cancel_call_def
  task_respond_def task_remove_def

text \<open>Task numbers are fresh, and the map and the spawned task name tasks of their call.\<close>

definition loop_ok :: "runtime_loop \<Rightarrow> bool" where
  "loop_ok l \<longleftrightarrow>
     (\<forall>n\<ge>rl_next l. rl_tasks l n = None) \<and>
     (\<forall>cid n t. rl_in_flight l cid = Some n \<or> rl_spawned l = Some (cid, n) \<longrightarrow>
        n < rl_next l \<and> (rl_tasks l n = Some t \<longrightarrow> tk_call t = cid))"

definition answered :: "string \<Rightarrow> runtime_loop \<Rightarrow> bool" where
  "answered cid l \<longleftrightarrow> (\<exists>r. OutResponse cid r \<in> set (rl_sent l))"

definition working :: "string \<Rightarrow> runtime_loop \<Rightarrow> bool" where
  "working cid l \<longleftrightarrow>
     (\<exists>n t. rl_tasks l n = Some t \<and> tk_call t = cid \<and> \<not> tk_responded t \<and> \<not> tk_aborted t)"

lemma loop_okI:
  assumes "\<And>n. rl_next l \<le> n \<Longrightarrow> rl_tasks l n = None"
    and "\<And>c n. rl_in_flight l c = Some n \<Longrightarrow> n < rl_next l"
    and "\<And>c n t. rl_in_flight l c = Some n \<Longrightarrow> rl_tasks l n = Some t \<Longrightarrow> tk_call t = c"
    and "\<And>c n. rl_spawned l = Some (c, n) \<Longrightarrow> n < rl_next l"
    and "\<And>c n t. rl_spawned l = Some (c, n) \<Longrightarrow> rl_tasks l n = Some t \<Longrightarrow> tk_call t = c"
  shows "loop_ok l"
  using assms unfolding loop_ok_def by blast

lemma loop_okD:
  assumes "loop_ok l"
  shows "rl_next l \<le> n \<Longrightarrow> rl_tasks l n = None"
    and "rl_in_flight l c = Some n \<Longrightarrow> n < rl_next l"
    and "rl_in_flight l c = Some n \<Longrightarrow> rl_tasks l n = Some t \<Longrightarrow> tk_call t = c"
    and "rl_spawned l = Some (c, n) \<Longrightarrow> n < rl_next l"
    and "rl_spawned l = Some (c, n) \<Longrightarrow> rl_tasks l n = Some t \<Longrightarrow> tk_call t = c"
    and "rl_tasks l n = Some t \<Longrightarrow> n < rl_next l"
  using assms unfolding loop_ok_def by (blast, blast, blast, blast, blast, (metis not_le option.discI))

lemma loop_reach_ok: "loop_reach cs l \<Longrightarrow> loop_ok l"
proof (induction rule: loop_reach.induct)
  case (lr_start i)
  show ?case by (rule loop_okI) (simp_all add: loop_start_def)
next
  case (lr_call cs l cid)
  note ok = loop_okD [OF lr_call.IH]
  show ?case
    by (rule loop_okI) (auto simp: spawn_call_def less_Suc_eq split: if_splits dest: ok intro: ok(1) Suc_leD)
next
  case (lr_insert cs l)
  note ok = loop_okD [OF lr_insert.IH]
  show ?case
  proof (cases "rl_spawned l")
    case None
    with lr_insert.IH show ?thesis by (simp add: insert_task_def)
  next
    case (Some cn)
    then show ?thesis
      by (cases cn) (rule loop_okI, auto simp: insert_task_def split: if_splits dest: ok)
  qed
next
  case (lr_cancel cs l cid)
  note ok = loop_okD [OF lr_cancel.IH]
  show ?case
  proof (cases "rl_in_flight l cid")
    case None
    then show ?thesis
      by (intro loop_okI) (auto simp: cancel_call_def dest: ok)
  next
    case (Some n)
    then show ?thesis using lr_cancel.hyps
      by (intro loop_okI) (auto simp: cancel_call_def abort_task_def split: if_splits dest: ok)
  qed
next
  case (lr_respond cs l n t r)
  note ok = loop_okD [OF lr_respond.IH]
  show ?case using lr_respond.hyps
    by (intro loop_okI) (auto simp: task_respond_def split: if_splits dest: ok)
next
  case (lr_remove cs l n t)
  note ok = loop_okD [OF lr_remove.IH]
  show ?case using lr_remove.hyps
    by (intro loop_okI) (auto simp: task_remove_def split: if_splits dest: ok)
next
  case (lr_aborted cs l n t)
  note ok = loop_okD [OF lr_aborted.IH]
  show ?case using lr_aborted.hyps
    by (intro loop_okI) (auto split: if_splits dest: ok)
qed

lemma workingI:
  "rl_tasks l n = Some t \<Longrightarrow> tk_call t = cid \<Longrightarrow> \<not> tk_responded t \<Longrightarrow> \<not> tk_aborted t \<Longrightarrow> working cid l"
  by (auto simp: working_def)

lemma sent_grows:
  "answered cid l \<Longrightarrow> answered cid (spawn_call c l)" "answered cid l \<Longrightarrow> answered cid (insert_task l)"
  "answered cid l \<Longrightarrow> answered cid (cancel_call c l)" "answered cid l \<Longrightarrow> answered cid (task_respond n t r l)"
  "answered cid l \<Longrightarrow> answered cid (task_remove n t l)"
  by (auto simp: answered_def loop_ops Let_def split: option.splits)

text \<open>A step leaves a working task working, or answers its call.\<close>

lemma working_steps:
  assumes "loop_ok l" and "working cid l"
  shows "rl_spawned l = None \<Longrightarrow> working cid (spawn_call c l)"
    and "working cid (insert_task l)"
    and "answered cid (cancel_call c l) \<or> working cid (cancel_call c l)"
    and "rl_tasks l n = Some t \<Longrightarrow> answered cid (task_respond n t r l) \<or> working cid (task_respond n t r l)"
    and "rl_tasks l n = Some t \<Longrightarrow> tk_responded t \<Longrightarrow> working cid (task_remove n t l)"
    and "rl_tasks l n = Some t \<Longrightarrow> tk_aborted t \<Longrightarrow> working cid (l\<lparr>rl_tasks := (rl_tasks l)(n := None)\<rparr>)"
proof -
  obtain k u where w: "rl_tasks l k = Some u" "tk_call u = cid" "\<not> tk_responded u" "\<not> tk_aborted u"
    using assms(2) by (auto simp: working_def)
  have k: "k \<noteq> rl_next l" using loop_okD(6) [OF assms(1) w(1)] by simp
  show "working cid (spawn_call c l)" if "rl_spawned l = None"
    by (rule workingI [of _ k u]) (use w k in \<open>simp_all add: spawn_call_def\<close>)
  show "working cid (insert_task l)"
    by (rule workingI [of _ k u]) (use w in \<open>simp_all add: insert_task_def split: option.splits prod.splits\<close>)
  show "answered cid (cancel_call c l) \<or> working cid (cancel_call c l)"
  proof (cases "rl_in_flight l c = Some k")
    case True
    from loop_okD(3) [OF assms(1) this w(1)] w(2) have "c = cid" by simp
    then show ?thesis by (simp add: answered_def cancel_call_def Let_def) blast
  next
    case False
    then have "rl_tasks (cancel_call c l) k = Some u"
      using w(1) by (auto simp: cancel_call_def abort_task_def Let_def split: option.splits)
    with w(2-4) workingI show ?thesis by blast
  qed
  show "answered cid (task_respond n t r l) \<or> working cid (task_respond n t r l)" if t: "rl_tasks l n = Some t"
  proof (cases "n = k")
    case True
    with t w(1,2) have "OutResponse cid r \<in> set (rl_sent (task_respond n t r l))" by (simp add: task_respond_def)
    then show ?thesis by (auto simp: answered_def)
  next
    case False
    with w(1) have "rl_tasks (task_respond n t r l) k = Some u" by (simp add: task_respond_def)
    with w(2-4) workingI show ?thesis by blast
  qed
  show "working cid (task_remove n t l)" if "rl_tasks l n = Some t" "tk_responded t"
    by (rule workingI [of _ k u]) (use w that in \<open>auto simp: task_remove_def\<close>)
  show "working cid (l\<lparr>rl_tasks := (rl_tasks l)(n := None)\<rparr>)" if "rl_tasks l n = Some t" "tk_aborted t"
    by (rule workingI [of _ k u]) (use w that in auto)
qed

text \<open>
  C34. The runtime leaves no call without an answer: of every call it has received, either a response
  has been sent or a task that nobody aborted is still at work on it, however calls, cancellations
  and task completions interleave, and also when call ids repeat.
\<close>

theorem runtime_answers_calls:
  assumes "loop_reach cs l" and "cid \<in> set cs"
  shows "(\<exists>r. OutResponse cid r \<in> set (rl_sent l)) \<or>
         (\<exists>n t. rl_tasks l n = Some t \<and> tk_call t = cid \<and> \<not> tk_responded t \<and> \<not> tk_aborted t)"
proof -
  have "answered cid l \<or> working cid l" using assms
  proof (induction rule: loop_reach.induct)
    case (lr_call cs l c)
    show ?case
    proof (cases "c = cid")
      case True
      then show ?thesis by (auto simp: working_def spawn_call_def)
    next
      case False
      with lr_call working_steps(1) [OF loop_reach_ok] sent_grows(1) show ?thesis by auto
    qed
  next
    case (lr_insert cs l)
    with working_steps(2) [OF loop_reach_ok] sent_grows(2) show ?case by blast
  next
    case (lr_cancel cs l c)
    with working_steps(3) [OF loop_reach_ok] sent_grows(3) show ?case by blast
  next
    case (lr_respond cs l n t r)
    with working_steps(4) [OF loop_reach_ok] sent_grows(4) show ?case by blast
  next
    case (lr_remove cs l n t)
    with working_steps(5) [OF loop_reach_ok] sent_grows(5) show ?case by blast
  next
    case (lr_aborted cs l n t)
    with working_steps(6) [OF loop_reach_ok, of cs l cid n t] show ?case by (auto simp: answered_def)
  qed simp
  then show ?thesis by (simp add: answered_def working_def)
qed

text \<open>A call that is cancelled while its task works.\<close>

definition demo_loop :: runtime_loop where
  "demo_loop = cancel_call ''c'' (insert_task (spawn_call ''c'' (loop_start ''r'')))"

lemma demo_loop_reach: "loop_reach [''c''] demo_loop"
  unfolding demo_loop_def
  by (intro lr_cancel lr_insert lr_call lr_start)
    (simp_all add: loop_start_def spawn_call_def insert_task_def)

theorem runtime_answers_calls_witness: "\<exists>r. OutResponse ''c'' r \<in> set (rl_sent demo_loop)"
proof -
  have t: "\<not> (\<exists>n t. rl_tasks demo_loop n = Some t \<and> tk_call t = ''c'' \<and> \<not> tk_responded t \<and> \<not> tk_aborted t)"
    by (auto simp: demo_loop_def loop_ops Let_def split: if_splits)
  show ?thesis using runtime_answers_calls [OF demo_loop_reach, of "''c''"] t by auto
qed

text \<open>A task that ends before the loop inserts it leaves its entry in the map for good.\<close>

lemma finished_task_in_flight:
  "let t = \<lparr>tk_call = cid, tk_responded = False, tk_aborted = False\<rparr>;
       l1 = task_respond 0 t r (spawn_call cid (loop_start i));
       l2 = insert_task (task_remove 0 (t\<lparr>tk_responded := True\<rparr>) l1)
   in loop_reach [cid] l2 \<and> rl_in_flight l2 cid = Some 0 \<and> rl_tasks l2 0 = None"
proof -
  let ?t = "\<lparr>tk_call = cid, tk_responded = False, tk_aborted = False\<rparr>"
  have 1: "loop_reach [cid] (spawn_call cid (loop_start i))"
    by (rule lr_call [OF lr_start]) (simp add: loop_start_def)
  have 2: "loop_reach [cid] (task_respond 0 ?t r (spawn_call cid (loop_start i)))"
    by (rule lr_respond [OF 1]) (simp_all add: loop_ops)
  have 3: "loop_reach [cid] (insert_task (task_remove 0 (?t\<lparr>tk_responded := True\<rparr>)
      (task_respond 0 ?t r (spawn_call cid (loop_start i)))))"
    by (rule lr_insert [OF lr_remove [OF 2]]) (simp_all add: loop_ops)
  then show ?thesis by (simp add: Let_def) (simp add: loop_ops)
qed

subsection \<open>The socket transport\<close>

text \<open>
  A call waits under its id for the reader task; a number names each waiting \<open>invoke\<close>, and
  \<open>lk_results\<close> is what it returns. A waiter whose sender is dropped returns \<open>Disconnected\<close>. The reader
  ends when the link closes or sends anything but text, and then it fails every waiting call.
\<close>

record link =
  lk_pending :: "string \<rightharpoonup> nat"
  lk_next :: nat
  lk_results :: "nat \<rightharpoonup> (transport_error, tool_result) result"
  lk_reading :: bool
  lk_written :: "runtime_inbound list"

definition link_open :: link where
  "link_open =
     \<lparr>lk_pending = Map.empty, lk_next = 0, lk_results = Map.empty, lk_reading = True, lk_written = []\<rparr>"

definition drop_sender :: "string \<Rightarrow> link \<Rightarrow> link" where
  "drop_sender cid l =
     (case lk_pending l cid of
        None \<Rightarrow> l
      | Some n \<Rightarrow> l\<lparr>lk_pending := (lk_pending l)(cid := None), lk_results := (lk_results l)(n \<mapsto> Inl Disconnected)\<rparr>)"

text \<open>
  The two parts of \<open>invoke\<close>, with the locks released between them, and the reader. \<open>LkSend\<close> carries
  the waiter's number and whether the write succeeded.
\<close>

datatype link_event =
    LkRegister string
  | LkSend nat string runtime_call "string option"
  | LkMessage runtime_outbound
  | LkClose

fun link_step :: "link \<Rightarrow> link_event \<Rightarrow> link" where
  "link_step l (LkRegister cid) =
     (let l1 = drop_sender cid l
      in l1\<lparr>lk_pending := (lk_pending l1)(cid \<mapsto> lk_next l1), lk_next := lk_next l1 + 1\<rparr>)"
| "link_step l (LkSend n cid call failure) =
     (case failure of
        None \<Rightarrow> l\<lparr>lk_written := lk_written l @ [InToolCall cid call]\<rparr>
      | Some e \<Rightarrow>
          let l1 = drop_sender cid l
          in l1\<lparr>lk_results := (lk_results l1)(n \<mapsto> Inl (LinkSendFailed e))\<rparr>)"
| "link_step l (LkMessage msg) =
     (if \<not> lk_reading l then l
      else
        (case msg of
           OutReady _ \<Rightarrow> l
         | OutResponse cid r \<Rightarrow>
             (case lk_pending l cid of
                None \<Rightarrow> l
              | Some n \<Rightarrow> l\<lparr>lk_pending := (lk_pending l)(cid := None), lk_results := (lk_results l)(n \<mapsto> Inr r)\<rparr>)))"
| "link_step l LkClose =
     (if \<not> lk_reading l then l
      else l\<lparr>lk_reading := False, lk_pending := Map.empty,
             lk_results := (\<lambda>n. if n \<in> ran (lk_pending l) then Some (Inl Disconnected) else lk_results l n)\<rparr>)"

text \<open>\<open>cancel\<close> only writes.\<close>

definition link_cancel :: "string \<Rightarrow> string option \<Rightarrow> link \<Rightarrow> (transport_error, unit) result \<times> link" where
  "link_cancel cid failure l =
     (case failure of
        None \<Rightarrow> (Inr (), l\<lparr>lk_written := lk_written l @ [InCancelCall cid]\<rparr>)
      | Some e \<Rightarrow> (Inl (LinkSendFailed e), l))"

text \<open>A send belongs to a call that has registered.\<close>

fun sends_registered :: "link \<Rightarrow> link_event list \<Rightarrow> bool" where
  "sends_registered l [] = True"
| "sends_registered l (ev # evs) =
     ((case ev of LkSend n _ _ _ \<Rightarrow> n < lk_next l | _ \<Rightarrow> True) \<and> sends_registered (link_step l ev) evs)"

definition link_ok :: "link \<Rightarrow> bool" where
  "link_ok l \<longleftrightarrow>
     (\<forall>c n. lk_pending l c = Some n \<longrightarrow> n < lk_next l) \<and>
     (\<forall>n. lk_next l \<le> n \<longrightarrow> lk_results l n = None) \<and>
     (\<forall>n. n < lk_next l \<longrightarrow> lk_results l n = None \<longrightarrow> (\<exists>c. lk_pending l c = Some n))"

lemma link_okD:
  assumes "link_ok l"
  shows "lk_pending l c = Some n \<Longrightarrow> n < lk_next l"
    and "lk_next l \<le> n \<Longrightarrow> lk_results l n = None"
    and "n < lk_next l \<Longrightarrow> lk_results l n = None \<Longrightarrow> \<exists>c. lk_pending l c = Some n"
    and "lk_results l n = Some r \<Longrightarrow> n < lk_next l"
  using assms unfolding link_ok_def by (blast, blast, blast, (metis not_le option.discI))

lemma link_okI:
  assumes "\<And>c n. lk_pending l c = Some n \<Longrightarrow> n < lk_next l"
    and "\<And>n. lk_next l \<le> n \<Longrightarrow> lk_results l n = None"
    and "\<And>n. n < lk_next l \<Longrightarrow> lk_results l n = None \<Longrightarrow> \<exists>c. lk_pending l c = Some n"
  shows "link_ok l"
  using assms unfolding link_ok_def by blast

lemma link_ok_answer:
  assumes "link_ok l" and "lk_pending l cid = Some k"
  shows "link_ok (l\<lparr>lk_pending := (lk_pending l)(cid := None), lk_results := (lk_results l)(k \<mapsto> r)\<rparr>)"
proof (rule link_okI)
  let ?l = "l\<lparr>lk_pending := (lk_pending l)(cid := None), lk_results := (lk_results l)(k \<mapsto> r)\<rparr>"
  note ok = link_okD [OF assms(1)]
  show "n < lk_next ?l" if "lk_pending ?l c = Some n" for c n
    using that ok(1) by (simp split: if_splits)
  show "lk_results ?l n = None" if "lk_next ?l \<le> n" for n
    using that ok(1) [OF assms(2)] ok(2) by simp
  show "\<exists>c. lk_pending ?l c = Some n" if "n < lk_next ?l" "lk_results ?l n = None" for n
  proof -
    have "n < lk_next l" "lk_results l n = None" "n \<noteq> k" using that by (auto split: if_splits)
    with ok(3) obtain c where c: "lk_pending l c = Some n" by blast
    with assms(2) \<open>n \<noteq> k\<close> have "c \<noteq> cid" by auto
    with c show ?thesis by (intro exI [of _ c]) simp
  qed
qed

lemma link_ok_result:
  assumes "link_ok l" and "k < lk_next l"
  shows "link_ok (l\<lparr>lk_results := (lk_results l)(k \<mapsto> r)\<rparr>)"
  using assms unfolding link_ok_def by auto

lemma link_ok_drop_sender: "link_ok l \<Longrightarrow> link_ok (drop_sender cid l)"
  using link_ok_answer [of l cid] by (cases "lk_pending l cid") (simp_all add: drop_sender_def)

lemma drop_sender_sel [simp]:
  "lk_next (drop_sender cid l) = lk_next l" "lk_pending (drop_sender cid l) cid = None"
  "lk_reading (drop_sender cid l) = lk_reading l"
  by (auto simp: drop_sender_def split: option.splits)

lemma link_ok_register:
  assumes "link_ok l" and "lk_pending l cid = None"
  shows "link_ok (l\<lparr>lk_pending := (lk_pending l)(cid \<mapsto> lk_next l), lk_next := lk_next l + 1\<rparr>)"
proof (rule link_okI)
  let ?l = "l\<lparr>lk_pending := (lk_pending l)(cid \<mapsto> lk_next l), lk_next := lk_next l + 1\<rparr>"
  note ok = link_okD [OF assms(1)]
  show "n < lk_next ?l" if "lk_pending ?l c = Some n" for c n
    using that ok(1) [of c n] by (auto split: if_splits)
  show "lk_results ?l n = None" if "lk_next ?l \<le> n" for n
    using that ok(2) by simp
  show "\<exists>c. lk_pending ?l c = Some n" if "n < lk_next ?l" "lk_results ?l n = None" for n
  proof (cases "n = lk_next l")
    case False
    with ok(3) [of n] that obtain c where "lk_pending l c = Some n" by auto
    with assms(2) show ?thesis by (intro exI [of _ c]) auto
  qed auto
qed

lemma link_ok_step:
  assumes "link_ok l" and "case ev of LkSend n _ _ _ \<Rightarrow> n < lk_next l | _ \<Rightarrow> True"
  shows "link_ok (link_step l ev)"
proof (cases ev)
  case (LkRegister cid)
  with link_ok_register [OF link_ok_drop_sender [OF assms(1)], of cid cid] show ?thesis by (simp add: Let_def)
next
  case (LkSend n cid call failure)
  have ok: "link_ok (l\<lparr>lk_written := x\<rparr>)" for x using assms(1) by (simp add: link_ok_def)
  from LkSend assms link_ok_result [OF link_ok_drop_sender [OF assms(1), of cid], of n] ok show ?thesis
    by (cases failure) (simp_all add: Let_def)
next
  case (LkMessage msg)
  show ?thesis
  proof (cases msg)
    case (OutReady i)
    with LkMessage assms(1) show ?thesis by simp
  next
    case (OutResponse cid r)
    with LkMessage assms(1) link_ok_answer [OF assms(1), of cid] show ?thesis
      by (cases "lk_pending l cid") auto
  qed
next
  case LkClose
  note ok = link_okD [OF assms(1)]
  show ?thesis
  proof (cases "lk_reading l")
    case True
    have lt: "n < lk_next l" if "n \<in> ran (lk_pending l)" for n using that ok(1) by (auto simp: ran_def)
    show ?thesis
    proof (rule link_okI)
      show "lk_results (link_step l ev) n = None" if "lk_next (link_step l ev) \<le> n" for n
        using that lt [of n] ok(2) True LkClose by auto
      show "\<exists>c. lk_pending (link_step l ev) c = Some n"
        if "n < lk_next (link_step l ev)" "lk_results (link_step l ev) n = None" for n
        using that ok(3) [of n] True LkClose by (auto simp: ran_def split: if_splits)
    qed (use True LkClose in simp)
  qed (use LkClose assms(1) in simp)
qed

lemma link_run_ok: "link_ok l \<Longrightarrow> sends_registered l evs \<Longrightarrow> link_ok (foldl link_step l evs)"
  by (induction evs arbitrary: l) (auto intro: link_ok_step)

lemma link_open_ok: "link_ok link_open"
  by (simp add: link_ok_def link_open_def)

text \<open>
  C35. Every tool call over a runtime's socket gets its answer: at any moment a call that was made
  has its result or waits under its id, the response for that id is what it returns, and when the
  link closes no call made before is left waiting.
\<close>

theorem link_calls_resolved:
  assumes "sends_registered link_open evs" and "l = foldl link_step link_open evs" and "n < lk_next l"
  shows "(lk_results l n \<noteq> None \<or> (\<exists>cid. lk_pending l cid = Some n)) \<and>
         (lk_reading l \<longrightarrow>
            lk_results (link_step l LkClose) n \<noteq> None \<and>
            (\<forall>cid r. lk_pending l cid = Some n \<longrightarrow>
               lk_results (link_step l (LkMessage (OutResponse cid r))) n = Some (Inr r)))"
proof -
  have "link_ok l" using link_run_ok [OF link_open_ok assms(1)] assms(2) by simp
  from link_okD(3) [OF this assms(3)] show ?thesis
    by (auto simp: ran_def)
qed

definition demo_events :: "link_event list" where
  "demo_events = [LkRegister ''c'', LkRegister ''d'', LkSend 0 ''c'' (CallBash ''ls'') None]"

theorem link_calls_resolved_witness:
  "lk_results (link_step (foldl link_step link_open demo_events) LkClose) 1 \<noteq> None \<and>
   lk_results (link_step (foldl link_step link_open demo_events) (LkMessage (OutResponse ''c'' (ToolErr ''x'')))) 0 =
     Some (Inr (ToolErr ''x''))"
proof -
  have d: "sends_registered link_open demo_events" "1 < lk_next (foldl link_step link_open demo_events)"
      "lk_reading (foldl link_step link_open demo_events)"
      "lk_pending (foldl link_step link_open demo_events) ''c'' = Some 0"
      "0 < lk_next (foldl link_step link_open demo_events)"
    by (simp_all add: demo_events_def link_open_def drop_sender_def)
  from link_calls_resolved [OF d(1) refl d(2)] link_calls_resolved [OF d(1) refl d(5)] d(3,4)
  show ?thesis by blast
qed

text \<open>
  A call made after the reader ended, as it does on the first frame that is not text, and written
  without an error, waits for ever.
\<close>

fun disturbs :: "string \<Rightarrow> link_event \<Rightarrow> bool" where
  "disturbs cid (LkRegister c) = (c = cid)"
| "disturbs cid (LkSend n c call failure) = (failure \<noteq> None)"
| "disturbs cid _ = False"

lemma late_call_waits:
  "\<not> lk_reading l \<Longrightarrow> lk_pending l cid = Some n \<Longrightarrow> lk_results l n = None \<Longrightarrow>
   \<forall>c. c \<noteq> cid \<longrightarrow> lk_pending l c \<noteq> Some n \<Longrightarrow> n < lk_next l \<Longrightarrow>
   list_all (\<lambda>ev. \<not> disturbs cid ev) evs \<Longrightarrow> lk_results (foldl link_step l evs) n = None"
proof (induction evs arbitrary: l)
  case (Cons ev evs)
  show ?case
  proof (cases ev)
    case (LkRegister c)
    with Cons.prems have c: "c \<noteq> cid" by simp
    let ?l = "link_step l (LkRegister c)"
    have "\<not> lk_reading ?l" "lk_pending ?l cid = Some n" "lk_results ?l n = None"
      "\<forall>d. d \<noteq> cid \<longrightarrow> lk_pending ?l d \<noteq> Some n" "n < lk_next ?l"
      using Cons.prems c by (auto simp: Let_def drop_sender_def split: option.splits if_splits)
    from Cons.IH [OF this] Cons.prems(6) LkRegister show ?thesis by simp
  qed (use Cons in \<open>auto split: option.splits\<close>)
qed simp

subsection \<open>The relay\<close>

text \<open>
  The receive loop of the relay's \<open>invoke\<close>, over the events of its request: \<open>None\<close> while it waits. The
  channel closes only when another request takes its id; the reader of the connection drops no
  sender when it ends.
\<close>

fun await_tool :: "string \<Rightarrow> executor_event list \<Rightarrow> bool \<Rightarrow> (transport_error, tool_result) result option" where
  "await_tool cid [] channel_closed = (if channel_closed then Some (Inl Disconnected) else None)"
| "await_tool cid (ev # evs) channel_closed =
     (case ev of
        ToolResultEvent i c r \<Rightarrow> if c = cid then Some (Inr r) else await_tool cid evs channel_closed
      | _ \<Rightarrow> await_tool cid evs channel_closed)"

text \<open>The events the executor sends under a request id after a point.\<close>

definition sent_under :: "string \<Rightarrow> nat \<Rightarrow> ('h, 'w) exec \<Rightarrow> executor_event list" where
  "sent_under req n x = map snd (filter (\<lambda>(r, _). r = req) (drop n (xe_sent x)))"

text \<open>
  A tool call relayed through an executor returns exactly when the runtime is connected there:
  then its task answers with the runtime's result, or with the transport's error as a failed tool;
  otherwise the executor refuses the command, and the relay, which looks only for a tool result,
  waits for ever.
\<close>

lemma relayed_call_returns:
  assumes "dispatch P T conn order cid (ExecToolCall i cid call) x = (tasks, x')"
  shows "case (case conn of None \<Rightarrow> None | Some c \<Rightarrow> runtime_transport c i) of
      None \<Rightarrow> tasks = [] \<and> (\<exists>msg. sent_under cid (length (xe_sent x)) x' = [CommandFailed msg]) \<and>
              await_tool cid (sent_under cid (length (xe_sent x)) x') False = None
    | Some t \<Rightarrow> tasks = [(t, i, cid, call)] \<and>
        await_tool cid (sent_under cid (length (xe_sent x)) (run_tool_task T (t, i, cid, call) x')) False =
          Some (Inr (case fst (to_invoke T t cid call (xe_world x')) of Inr r \<Rightarrow> r | Inl e \<Rightarrow> ToolErr e))"
  using assms
  by (auto simp: dispatch_def do_tool_call_def run_tool_task_def send_event_def sent_under_def
      split: option.splits prod.splits)

definition demo_transport :: "(string, nat) transport_ops" where
  "demo_transport =
     \<lparr>to_invoke = (\<lambda>t cid call w. (Inr (ToolErr t), w)), to_cancel = (\<lambda>t cid w. w)\<rparr>"

definition demo_executor :: "(nat, nat) runtime_provider" where
  "demo_executor =
     \<lparr>rp_create = (\<lambda>i config w. (Inr 0, w)), rp_stop = (\<lambda>h w. w), rp_healthy = (\<lambda>h w. (True, w))\<rparr>"

end
