(* ===== verification/Client_Tools.thy ===== *)
theory Client_Tools
  imports Agentcore Runtime_Link
begin

text \<open>
  The tools an agent has for its runtime (\<open>src/runtime-client/src\<close>): the client, which turns a call
  into one request over a transport, and a tool per call, which parses the model's input. A model
  sees the standard output of a call, or an error.
\<close>

subsection \<open>The client\<close>

record 'w rt_transport =
  tp_uuid :: "'w \<Rightarrow> string \<times> 'w"
  tp_invoke :: "string \<Rightarrow> runtime_call \<Rightarrow> 'w \<Rightarrow> (transport_error, tool_result) result \<times> 'w"

datatype runtime_call_error =
    CallTransport transport_error
  | ToolFailed string

fun call_error_display :: "runtime_call_error \<Rightarrow> string" where
  "call_error_display (CallTransport e) = ''transport: '' @ transport_error_display e"
| "call_error_display (ToolFailed r) = ''tool failed: '' @ r"

definition client_invoke ::
  "'w rt_transport \<Rightarrow> runtime_call \<Rightarrow> 'w \<Rightarrow> (runtime_call_error, tool_output) result \<times> 'w" where
  "client_invoke C call w =
     (case tp_uuid C w of
        (cid, w1) \<Rightarrow>
          (case tp_invoke C cid call w1 of
             (Inl e, w2) \<Rightarrow> (Inl (CallTransport e), w2)
           | (Inr (ToolOk out), w2) \<Rightarrow> (Inr out, w2)
           | (Inr (ToolErr reason), w2) \<Rightarrow> (Inl (ToolFailed reason), w2)))"

subsection \<open>Parsing inputs\<close>

definition required_str :: "json \<Rightarrow> string \<Rightarrow> (tool_call_error, string) result" where
  "required_str input key =
     (case json_as_str (json_index input key) of
        None \<Rightarrow> Inl (InvalidInput (''missing '' @ quoted key))
      | Some s \<Rightarrow> Inr s)"

definition optional_str :: "json \<Rightarrow> string \<Rightarrow> string option" where
  "optional_str input key = json_as_str (json_index input key)"

definition optional_u64 :: "json \<Rightarrow> string \<Rightarrow> u64 option" where
  "optional_u64 input key = json_as_u64 (json_index input key)"

definition bash_call :: "json \<Rightarrow> (tool_call_error, runtime_call) result" where
  "bash_call input =
     (case required_str input ''command'' of Inl e \<Rightarrow> Inl e | Inr c \<Rightarrow> Inr (CallBash c))"

definition read_file_call :: "json \<Rightarrow> (tool_call_error, runtime_call) result" where
  "read_file_call input =
     (case required_str input ''path'' of
        Inl e \<Rightarrow> Inl e
      | Inr p \<Rightarrow> Inr (CallReadFile p (optional_u64 input ''start_line'') (optional_u64 input ''end_line'')))"

definition write_file_call :: "json \<Rightarrow> (tool_call_error, runtime_call) result" where
  "write_file_call input =
     (case required_str input ''path'' of
        Inl e \<Rightarrow> Inl e
      | Inr p \<Rightarrow>
          (case required_str input ''content'' of Inl e \<Rightarrow> Inl e | Inr c \<Rightarrow> Inr (CallWriteFile p c)))"

definition edit_file_call :: "json \<Rightarrow> (tool_call_error, runtime_call) result" where
  "edit_file_call input =
     (case required_str input ''path'' of
        Inl e \<Rightarrow> Inl e
      | Inr p \<Rightarrow>
          (case required_str input ''old_text'' of
             Inl e \<Rightarrow> Inl e
           | Inr old \<Rightarrow>
               (case required_str input ''new_text'' of
                  Inl e \<Rightarrow> Inl e | Inr new \<Rightarrow> Inr (CallEditFile p old new))))"

definition replace_mode_of :: "json \<Rightarrow> (tool_call_error, replace_mode) result" where
  "replace_mode_of input =
     (case optional_str input ''regex'' of
        Some pat \<Rightarrow> Inr (RegexMode pat)
      | None \<Rightarrow>
          (case optional_u64 input ''start_line'' of
             None \<Rightarrow> Inl (InvalidInput (''provide '' @ quoted ''regex'' @ '' or '' @ quoted ''start_line'' @
                                       ''+'' @ quoted ''end_line''))
           | Some s \<Rightarrow>
               (case optional_u64 input ''end_line'' of
                  None \<Rightarrow> Inl (InvalidInput (''missing '' @ quoted ''end_line''))
                | Some e \<Rightarrow> Inr (LinesMode s e))))"

definition replace_in_file_call :: "json \<Rightarrow> (tool_call_error, runtime_call) result" where
  "replace_in_file_call input =
     (case required_str input ''path'' of
        Inl e \<Rightarrow> Inl e
      | Inr p \<Rightarrow>
          (case required_str input ''replacement'' of
             Inl e \<Rightarrow> Inl e
           | Inr r \<Rightarrow>
               (case replace_mode_of input of Inl e \<Rightarrow> Inl e | Inr m \<Rightarrow> Inr (CallReplaceInFile p r m))))"

definition list_files_call :: "json \<Rightarrow> (tool_call_error, runtime_call) result" where
  "list_files_call input =
     (case required_str input ''path'' of Inl e \<Rightarrow> Inl e | Inr p \<Rightarrow> Inr (CallListFiles p))"

definition glob_call :: "json \<Rightarrow> (tool_call_error, runtime_call) result" where
  "glob_call input =
     (case required_str input ''pattern'' of
        Inl e \<Rightarrow> Inl e
      | Inr p \<Rightarrow> Inr (CallGlob p (optional_str input ''path'') (optional_u64 input ''max_results'')))"

definition grep_call :: "json \<Rightarrow> (tool_call_error, runtime_call) result" where
  "grep_call input =
     (case required_str input ''pattern'' of
        Inl e \<Rightarrow> Inl e
      | Inr p \<Rightarrow> Inr (CallGrep p (optional_str input ''path'') (optional_str input ''file_pattern'')
                       (optional_u64 input ''max_results'')))"

subsection \<open>The tools\<close>

definition schema :: "(string \<times> string) list \<Rightarrow> string list \<Rightarrow> json" where
  "schema props req =
     JObject [(''type'', JString ''object''),
              (''properties'', JObject (map (\<lambda>(k, t). (k, JObject [(''type'', JString t)])) props)),
              (''required'', JArray (map JString req))]"

text \<open>The body every \<open>execute\<close> shares once its input is parsed.\<close>

definition runtime_tool ::
  "tool_spec \<Rightarrow> (json \<Rightarrow> (tool_call_error, runtime_call) result) \<Rightarrow> 'w rt_transport \<Rightarrow> 'w tool" where
  "runtime_tool spec parse C =
     \<lparr>tool_spec = spec,
      tool_execute = (\<lambda>input w.
        case parse input of
          Inl e \<Rightarrow> (Inl e, w)
        | Inr call \<Rightarrow>
            (case client_invoke C call w of
               (Inr out, w1) \<Rightarrow> (Inr (JString (to_stdout out)), w1)
             | (Inl e, w1) \<Rightarrow> (Inl (ExecutionFailed (call_error_display e)), w1)))\<rparr>"

definition bash_tool :: "'w rt_transport \<Rightarrow> 'w tool" where
  "bash_tool =
     runtime_tool
       \<lparr>ts_name = ''bash'', ts_description = ''Execute a bash command in the runtime'' @ [quote_char] @ ''s working directory.'',
        ts_input_schema = schema [(''command'', ''string'')] [''command'']\<rparr> bash_call"

definition read_file_tool :: "'w rt_transport \<Rightarrow> 'w tool" where
  "read_file_tool =
     runtime_tool
       \<lparr>ts_name = ''read_file'',
        ts_description = ''Read file contents, optionally limited to a 1-based line range.'',
        ts_input_schema = schema [(''path'', ''string''), (''start_line'', ''integer''), (''end_line'', ''integer'')]
                            [''path'']\<rparr> read_file_call"

definition write_file_tool :: "'w rt_transport \<Rightarrow> 'w tool" where
  "write_file_tool =
     runtime_tool
       \<lparr>ts_name = ''write_file'',
        ts_description = ''Create or overwrite a file with the given content. Parent dirs are created as needed.'',
        ts_input_schema = schema [(''path'', ''string''), (''content'', ''string'')] [''path'', ''content'']\<rparr>
       write_file_call"

definition edit_file_tool :: "'w rt_transport \<Rightarrow> 'w tool" where
  "edit_file_tool =
     runtime_tool
       \<lparr>ts_name = ''edit_file'',
        ts_description = ''Replace the first occurrence of old_text with new_text in a file.'',
        ts_input_schema = schema [(''path'', ''string''), (''old_text'', ''string''), (''new_text'', ''string'')]
                            [''path'', ''old_text'', ''new_text'']\<rparr> edit_file_call"

definition replace_in_file_tool :: "'w rt_transport \<Rightarrow> 'w tool" where
  "replace_in_file_tool =
     runtime_tool
       \<lparr>ts_name = ''replace_in_file'',
        ts_description = ''Replace in a file by regex pattern or line range.'',
        ts_input_schema = schema [(''path'', ''string''), (''replacement'', ''string''), (''regex'', ''string''),
                                  (''start_line'', ''integer''), (''end_line'', ''integer'')]
                            [''path'', ''replacement'']\<rparr> replace_in_file_call"

definition list_files_tool :: "'w rt_transport \<Rightarrow> 'w tool" where
  "list_files_tool =
     runtime_tool
       \<lparr>ts_name = ''list_files'', ts_description = ''List directory contents.'',
        ts_input_schema = schema [(''path'', ''string'')] [''path'']\<rparr> list_files_call"

definition glob_tool :: "'w rt_transport \<Rightarrow> 'w tool" where
  "glob_tool =
     runtime_tool
       \<lparr>ts_name = ''glob'', ts_description = ''Find files by glob pattern.'',
        ts_input_schema = schema [(''pattern'', ''string''), (''path'', ''string''), (''max_results'', ''integer'')]
                            [''pattern'']\<rparr> glob_call"

definition grep_tool :: "'w rt_transport \<Rightarrow> 'w tool" where
  "grep_tool =
     runtime_tool
       \<lparr>ts_name = ''grep'', ts_description = ''Search file contents with a regex pattern.'',
        ts_input_schema = schema [(''pattern'', ''string''), (''path'', ''string''), (''file_pattern'', ''string''),
                                  (''max_results'', ''integer'')] [''pattern'']\<rparr> grep_call"

definition add_runtime_tools :: "'w tool list \<Rightarrow> 'w rt_transport \<Rightarrow> 'w tool list" where
  "add_runtime_tools tools C =
     foldl toolbox_add tools
       [bash_tool C, read_file_tool C, write_file_tool C, edit_file_tool C, replace_in_file_tool C,
        list_files_tool C, glob_tool C, grep_tool C]"

subsection \<open>What an agent can do to its runtime\<close>

text \<open>The name of the tool that makes a call.\<close>

fun call_tool :: "runtime_call \<Rightarrow> string" where
  "call_tool (CallBash _) = ''bash''"
| "call_tool (CallReadFile _ _ _) = ''read_file''"
| "call_tool (CallWriteFile _ _) = ''write_file''"
| "call_tool (CallEditFile _ _ _) = ''edit_file''"
| "call_tool (CallReplaceInFile _ _ _) = ''replace_in_file''"
| "call_tool (CallListFiles _) = ''list_files''"
| "call_tool (CallGlob _ _ _) = ''glob''"
| "call_tool (CallGrep _ _ _ _) = ''grep''"

lemmas call_parsers = bash_call_def read_file_call_def write_file_call_def edit_file_call_def
  replace_in_file_call_def list_files_call_def glob_call_def grep_call_def

lemmas runtime_tools = bash_tool_def read_file_tool_def write_file_tool_def edit_file_tool_def
  replace_in_file_tool_def list_files_tool_def glob_tool_def grep_tool_def

lemma parsed_call_tool:
  "bash_call input = Inr call \<Longrightarrow> call_tool call = ''bash''"
  "read_file_call input = Inr call \<Longrightarrow> call_tool call = ''read_file''"
  "write_file_call input = Inr call \<Longrightarrow> call_tool call = ''write_file''"
  "edit_file_call input = Inr call \<Longrightarrow> call_tool call = ''edit_file''"
  "replace_in_file_call input = Inr call \<Longrightarrow> call_tool call = ''replace_in_file''"
  "list_files_call input = Inr call \<Longrightarrow> call_tool call = ''list_files''"
  "glob_call input = Inr call \<Longrightarrow> call_tool call = ''glob''"
  "grep_call input = Inr call \<Longrightarrow> call_tool call = ''grep''"
  by (auto simp: call_parsers split: sum.splits)

lemma runtime_tool_spec [simp]: "tool_spec (runtime_tool spec parse C) = spec"
  by (simp add: runtime_tool_def)

text \<open>One request, and what the model sees of its outcome.\<close>

definition request_result :: "'w rt_transport \<Rightarrow> runtime_call \<Rightarrow> 'w \<Rightarrow> (tool_call_error, json) result \<times> 'w" where
  "request_result C call w =
     (case client_invoke C call w of
        (Inr out, w1) \<Rightarrow> (Inr (JString (to_stdout out)), w1)
      | (Inl e, w1) \<Rightarrow> (Inl (ExecutionFailed (call_error_display e)), w1))"

lemma runtime_tool_execute:
  "tool_execute (runtime_tool spec parse C) input w =
     (case parse input of Inl e \<Rightarrow> (Inl e, w) | Inr call \<Rightarrow> request_result C call w)"
  by (cases "parse input") (simp_all add: runtime_tool_def request_result_def)

lemma add_runtime_tools_simp:
  "add_runtime_tools tools C =
     tools @ [bash_tool C, read_file_tool C, write_file_tool C, edit_file_tool C, replace_in_file_tool C,
              list_files_tool C, glob_tool C, grep_tool C]"
  by (simp add: add_runtime_tools_def toolbox_add_def)

text \<open>A tool of the list is a parser under the name its calls carry.\<close>

lemma runtime_tool_kind:
  "(\<And>input call. parse input = Inr call \<Longrightarrow> call_tool call = ts_name spec) \<Longrightarrow>
   \<exists>spec' parse'. runtime_tool spec parse C = runtime_tool spec' parse' C \<and>
     (\<forall>input call. parse' input = Inr call \<longrightarrow> call_tool call = ts_name spec')"
  by blast

lemma runtime_tool_of_list:
  assumes "t \<in> set (add_runtime_tools [] C)"
  shows "\<exists>spec parse. t = runtime_tool spec parse C \<and>
           (\<forall>input call. parse input = Inr call \<longrightarrow> call_tool call = ts_name spec)"
proof -
  consider "t = bash_tool C" | "t = read_file_tool C" | "t = write_file_tool C" | "t = edit_file_tool C"
    | "t = replace_in_file_tool C" | "t = list_files_tool C" | "t = glob_tool C" | "t = grep_tool C"
    using assms by (auto simp: add_runtime_tools_simp)
  then show ?thesis
    by cases (simp only: runtime_tools, rule runtime_tool_kind, simp add: parsed_call_tool)+
qed

text \<open>
  C14. What an agent can make its runtime do: whatever tool a model names and whatever input it
  gives, the toolbox of the agent either refuses it, with nothing sent, or sends the runtime exactly
  one request, of the kind the name stands for and only if the agent's allowlist has it; and the
  model sees that request's standard output or its error.
\<close>

theorem agent_runtime_calls:
  "(\<exists>e. tb_execute (for_agent (add_runtime_tools [] C) d) name input w = (Inl e, w)) \<or>
   (\<exists>call. call_tool call = name \<and>
      (case ad_allowed_tools d of None \<Rightarrow> True | Some names \<Rightarrow> name \<in> set names) \<and>
      tb_execute (for_agent (add_runtime_tools [] C) d) name input w =
        (case client_invoke C call w of
           (Inr out, w1) \<Rightarrow> (Inr (JString (to_stdout out)), w1)
         | (Inl e, w1) \<Rightarrow> (Inl (ExecutionFailed (call_error_display e)), w1)))"
proof -
  let ?tools = "add_runtime_tools [] C"
  let ?tb = "toolbox_impl ?tools"
  have base: "(\<exists>e. tb_execute ?tb name input w = (Inl e, w)) \<or>
      (\<exists>call. call_tool call = name \<and> tb_execute ?tb name input w = request_result C call w)"
  proof (cases "find (\<lambda>t. ts_name (tool_spec t) = name) ?tools")
    case None
    then show ?thesis by (simp add: toolbox_impl_def)
  next
    case (Some t)
    from find_Some_in [OF this] have m: "t \<in> set ?tools" and n: "ts_name (tool_spec t) = name" by auto
    from runtime_tool_of_list [OF m] obtain spec parse where t: "t = runtime_tool spec parse C"
      and k: "\<forall>input call. parse input = Inr call \<longrightarrow> call_tool call = ts_name spec" by blast
    from n t have spec: "ts_name spec = name" by simp
    have ex: "tb_execute ?tb name input w =
        (case parse input of Inl e \<Rightarrow> (Inl e, w) | Inr call \<Rightarrow> request_result C call w)"
      using Some by (simp only: toolbox_impl_def toolbox.simps option.case t runtime_tool_execute)
    show ?thesis
    proof (cases "parse input")
      case (Inl e)
      then show ?thesis unfolding ex by simp
    next
      case (Inr call)
      with k spec have "call_tool call = name" by blast
      with Inr show ?thesis unfolding ex by auto
    qed
  qed
  from for_agent_execute [of ?tools d name input w]
  show ?thesis
  proof
    assume "\<exists>e. tb_execute (for_agent ?tools d) name input w = (Inl e, w)"
    then show ?thesis by (rule disjI1)
  next
    assume a: "(case ad_allowed_tools d of None \<Rightarrow> True | Some names \<Rightarrow> name \<in> set names) \<and>
        tb_execute (for_agent ?tools d) name input w = tb_execute ?tb name input w"
    from base a show ?thesis unfolding request_result_def [symmetric] by metis
  qed
qed

end
