(* ===== verification/Anthropic.thy ===== *)
theory Anthropic
  imports Agentcore Text Ordered_Map
begin

text \<open>
  The Anthropic provider, \<open>src/providers/anthropic/src/lib.rs\<close>: the conversion of a completion
  request, the retries of an overloaded stream, and the assembly of a response from the stream's
  events. The crate \<open>async_anthropic\<close>, \<open>serde_json\<close> and the timer are parameters. A \<open>HashMap\<close> of blocks
  is read in index order only, so it is an ordered entry list; a \<open>usize\<close> index is a natural number.
\<close>

subsection \<open>The crate's types\<close>

datatype api_error =
    NetworkError string
  | Unauthorized
  | BadRequest string
  | ApiErrorText string
  | UnknownError string
  | DeserializationError string
  | UnexpectedError
  | StreamError string

datatype api_role = ApiUser | ApiAssistant

text \<open>The last field of a block is whether it carries an ephemeral cache mark.\<close>

datatype api_content =
    ApiText string bool
  | ApiToolUse string string json bool
  | ApiToolResult string string bool bool
  | ApiThinking string string bool

record api_message =
  am_role :: api_role
  am_content :: "api_content list"

datatype api_tool_choice = ApiAny | ApiTool string

text \<open>\<open>max_tokens\<close> is an \<open>i32\<close>; \<open>ar_tools\<close> and \<open>ar_tool_choice\<close> are unset when there are no tools.\<close>

record api_request =
  ar_model :: string
  ar_messages :: "api_message list"
  ar_max_tokens :: u32
  ar_system :: "string option"
  ar_tools :: "(string \<times> json) list list option"
  ar_tool_choice :: "api_tool_choice option"
  ar_thinking :: "u32 option"

datatype block_start =
    StartText
  | StartToolUse string string
  | StartThinking
  | StartToolResult

datatype block_delta =
    TextDelta string
  | InputJsonDelta string
  | ThinkingDelta string
  | SignatureDelta string

text \<open>\<open>StreamStart\<close> has the message's usage, when it has one, with its input tokens; \<open>StreamDelta\<close> the stop
  reason and the usage with its output tokens.\<close>

datatype stream_event =
    StreamStart "u32 option option"
  | BlockStart nat block_start
  | BlockDelta nat block_delta
  | BlockStop nat
  | StreamDelta "string option" "u32 option option"
  | StreamStop

text \<open>\<open>ac_check_message\<close> and \<open>ac_check_request\<close> are the errors of the builders.\<close>

record ('c, 'w) api_client =
  ac_check_message :: "api_message \<Rightarrow> string option"
  ac_check_request :: "api_request \<Rightarrow> string option"
  ac_stream :: "'c \<Rightarrow> api_request \<Rightarrow> 'w \<Rightarrow> (api_error, stream_event) result list \<times> 'w"
  ac_display :: "api_error \<Rightarrow> string"
  ac_sleep :: "u64 \<Rightarrow> 'w \<Rightarrow> 'w"
  ac_from_str :: "string \<Rightarrow> json option"

subsection \<open>The provider value\<close>

definition DEFAULT_MODEL :: string where
  "DEFAULT_MODEL = ''claude-3-5-sonnet-20241022''"

definition DEFAULT_MAX_TOKENS :: u32 where
  "DEFAULT_MAX_TOKENS = 16384"

definition MAX_STREAM_RETRIES :: nat where
  "MAX_STREAM_RETRIES = 6"

definition BACKOFF_BASE_SECS :: u64 where
  "BACKOFF_BASE_SECS = 5"

record 'c anthropic =
  an_client :: 'c
  an_model :: string
  an_api_key :: "string option"
  an_base_url :: "string option"
  an_session_id :: "string option"
  an_thinking_budget :: "u32 option"
  an_max_tokens :: "u32 option"
  an_retry_base_secs :: u64

text \<open>
  \<open>cb_http\<close> builds the HTTP client, with the headers it sends by default; \<open>cb_client\<close> the API client
  over it, with the base URL and the key. \<open>cb_header_ok\<close> is whether a text is a header value.
\<close>

record ('h, 'c) client_builder =
  cb_header_ok :: "string \<Rightarrow> bool"
  cb_http :: "(string \<times> string) list \<Rightarrow> (string, 'h) result"
  cb_client :: "'h \<Rightarrow> string option \<Rightarrow> string option \<Rightarrow> (string, 'c) result"

definition env_base_url :: "(string \<Rightarrow> string option) \<Rightarrow> string option" where
  "env_base_url env =
     (case env ''ANTHROPIC_BASE_URL'' of None \<Rightarrow> None | Some s \<Rightarrow> if s = [] then None else Some s)"

definition build_client ::
  "('h, 'c) client_builder \<Rightarrow> string option \<Rightarrow> string option \<Rightarrow> string option \<Rightarrow> (llm_error, 'c) result" where
  "build_client B key url sid =
     (case cb_http B (case sid of None \<Rightarrow> [] | Some i \<Rightarrow> if cb_header_ok B i then [(''X-Session-Id'', i)] else []) of
        Inl e \<Rightarrow> Inl (Network e)
      | Inr http \<Rightarrow> (case cb_client B http url key of Inl e \<Rightarrow> Inl (Network e) | Inr c \<Rightarrow> Inr c))"

definition anthropic_with_key ::
  "('h, 'c) client_builder \<Rightarrow> (string \<Rightarrow> string option) \<Rightarrow> string option \<Rightarrow> (llm_error, 'c anthropic) result" where
  "anthropic_with_key B env key =
     (case build_client B key (env_base_url env) None of
        Inl e \<Rightarrow> Inl e
      | Inr c \<Rightarrow>
          Inr \<lparr>an_client = c, an_model = DEFAULT_MODEL, an_api_key = key, an_base_url = env_base_url env,
               an_session_id = None, an_thinking_budget = None, an_max_tokens = None,
               an_retry_base_secs = BACKOFF_BASE_SECS\<rparr>)"

definition anthropic_new ::
  "('h, 'c) client_builder \<Rightarrow> (string \<Rightarrow> string option) \<Rightarrow> (llm_error, 'c anthropic) result" where
  "anthropic_new B env = anthropic_with_key B env None"

definition with_api_key ::
  "('h, 'c) client_builder \<Rightarrow> (string \<Rightarrow> string option) \<Rightarrow> string \<Rightarrow> (llm_error, 'c anthropic) result" where
  "with_api_key B env key = anthropic_with_key B env (Some key)"

text \<open>A client that cannot be rebuilt leaves the old one in place.\<close>

definition rebuild_client :: "('h, 'c) client_builder \<Rightarrow> 'c anthropic \<Rightarrow> 'c anthropic" where
  "rebuild_client B p =
     (case build_client B (an_api_key p) (an_base_url p) (an_session_id p) of
        Inr c \<Rightarrow> p\<lparr>an_client := c\<rparr>
      | Inl _ \<Rightarrow> p)"

definition with_model :: "string \<Rightarrow> 'c anthropic \<Rightarrow> 'c anthropic" where
  "with_model m p = p\<lparr>an_model := m\<rparr>"

definition with_base_url :: "('h, 'c) client_builder \<Rightarrow> string \<Rightarrow> 'c anthropic \<Rightarrow> 'c anthropic" where
  "with_base_url B url p = rebuild_client B (p\<lparr>an_base_url := Some url\<rparr>)"

definition with_session_id :: "('h, 'c) client_builder \<Rightarrow> string \<Rightarrow> 'c anthropic \<Rightarrow> 'c anthropic" where
  "with_session_id B i p = rebuild_client B (p\<lparr>an_session_id := Some i\<rparr>)"

definition with_max_tokens :: "u32 option \<Rightarrow> 'c anthropic \<Rightarrow> 'c anthropic" where
  "with_max_tokens n p = p\<lparr>an_max_tokens := n\<rparr>"

definition with_thinking :: "u32 \<Rightarrow> 'c anthropic \<Rightarrow> 'c anthropic" where
  "with_thinking n p = p\<lparr>an_thinking_budget := Some n\<rparr>"

definition with_retry_delay_secs :: "u64 \<Rightarrow> 'c anthropic \<Rightarrow> 'c anthropic" where
  "with_retry_delay_secs secs p = p\<lparr>an_retry_base_secs := secs\<rparr>"

subsection \<open>Errors\<close>

definition is_retryable :: "string \<Rightarrow> bool" where
  "is_retryable msg \<longleftrightarrow>
     str_contains ''overloaded_error'' msg \<or> str_contains ''overloaded'' msg \<or>
     str_contains ''rate_limit_error'' msg \<or> str_contains ''529'' msg \<or>
     str_contains ''Too Many Requests'' msg"

definition to_llm_error :: "(api_error \<Rightarrow> string) \<Rightarrow> api_error \<Rightarrow> llm_error" where
  "to_llm_error display e =
     (let msg = display e
      in if str_contains ''overloaded_error'' msg \<or> str_contains ''overloaded'' msg \<or> str_contains ''529'' msg
         then Overloaded
         else if str_contains ''rate_limit_error'' msg \<or> str_contains ''Too Many Requests'' msg \<or>
                 str_contains ''429'' msg
         then RateLimit None
         else (case e of
                 NetworkError m \<Rightarrow> Network m
               | Unauthorized \<Rightarrow> ApiError 401 ''Unauthorized''
               | BadRequest m \<Rightarrow> Network m
               | ApiErrorText m \<Rightarrow> Network m
               | UnknownError m \<Rightarrow> Network m
               | DeserializationError m \<Rightarrow> Network m
               | UnexpectedError \<Rightarrow> Network ''unexpected error''
               | StreamError m \<Rightarrow> Network m))"

subsection \<open>The request\<close>

fun to_api_role :: "role \<Rightarrow> api_role" where
  "to_api_role Assistant = ApiAssistant"
| "to_api_role User = ApiUser"
| "to_api_role Tool = ApiUser"

fun part_to_api :: "content_part \<Rightarrow> api_content" where
  "part_to_api (TextPart t) = ApiText t False"
| "part_to_api (ToolCallPart tc) = ApiToolUse (tc_id tc) (tc_name tc) (tc_input tc) False"
| "part_to_api (ToolResultPart tr) = ApiToolResult (tr_call_id tr) (tr_output tr) (tr_is_error tr) False"
| "part_to_api (ThinkingPart t sig) = ApiThinking t (case sig of None \<Rightarrow> [] | Some s \<Rightarrow> s) False"

definition parts_to_api_content :: "content_part list \<Rightarrow> api_content list" where
  "parts_to_api_content parts = map part_to_api parts"

fun mark_content :: "api_content \<Rightarrow> api_content" where
  "mark_content (ApiText t _) = ApiText t True"
| "mark_content (ApiToolUse i n v _) = ApiToolUse i n v True"
| "mark_content (ApiToolResult i t e _) = ApiToolResult i t e True"
| "mark_content (ApiThinking t s _) = ApiThinking t s True"

text \<open>\<open>last_mut\<close>: a change to the last element, when there is one.\<close>

fun map_last :: "('a \<Rightarrow> 'a) \<Rightarrow> 'a list \<Rightarrow> 'a list" where
  "map_last f [] = []"
| "map_last f [x] = [f x]"
| "map_last f (x # y # xs) = x # map_last f (y # xs)"

definition mark_last_message_cacheable :: "api_message list \<Rightarrow> api_message list" where
  "mark_last_message_cacheable ms = map_last (\<lambda>m. m\<lparr>am_content := map_last mark_content (am_content m)\<rparr>) ms"

definition mark_last_tool_cacheable :: "(string \<times> json) list list \<Rightarrow> (string \<times> json) list list" where
  "mark_last_tool_cacheable tools =
     map_last (\<lambda>t. t @ [(''cache_control'', JObject [(''type'', JString ''ephemeral'')])]) tools"

definition message_to_api :: "('c, 'w) api_client \<Rightarrow> message \<Rightarrow> (llm_error, api_message) result" where
  "message_to_api C m =
     (let am = \<lparr>am_role = to_api_role (msg_role m), am_content = parts_to_api_content (msg_parts m)\<rparr>
      in case ac_check_message C am of None \<Rightarrow> Inr am | Some e \<Rightarrow> Inl (Network e))"

definition tool_def :: "tool_spec \<Rightarrow> (string \<times> json) list" where
  "tool_def t =
     [(''name'', JString (ts_name t)), (''description'', JString (ts_description t)),
      (''input_schema'', ts_input_schema t)]"

definition build_request ::
  "('c, 'w) api_client \<Rightarrow> 'c anthropic \<Rightarrow> completion_request \<Rightarrow> (llm_error, api_request) result" where
  "build_request C p req =
     (case collect_results (map (message_to_api C) (cr_messages req)) of
        Inl e \<Rightarrow> Inl e
      | Inr ms \<Rightarrow>
          let defs = mark_last_tool_cacheable (map tool_def (cr_tools req));
              ar = \<lparr>ar_model = an_model p, ar_messages = mark_last_message_cacheable ms,
                    ar_max_tokens = (case an_max_tokens p of
                        Some n \<Rightarrow> n
                      | None \<Rightarrow> (case cr_max_tokens req of Some n \<Rightarrow> n | None \<Rightarrow> DEFAULT_MAX_TOKENS)),
                    ar_system = cr_system req,
                    ar_tools = (if defs = [] then None else Some defs),
                    ar_tool_choice =
                      (if defs = [] then None
                       else (case cr_tool_choice req of
                               ToolAuto \<Rightarrow> None
                             | ToolAny \<Rightarrow> Some ApiAny
                             | ToolRequired name \<Rightarrow> Some (ApiTool name))),
                    ar_thinking = an_thinking_budget p\<rparr>
          in (case ac_check_request C ar of None \<Rightarrow> Inr ar | Some e \<Rightarrow> Inl (Network e)))"

subsection \<open>The stream\<close>

record stream_state =
  ss_text :: "(nat \<times> string) list"
  ss_tool :: "(nat \<times> string \<times> string \<times> string) list"
  ss_thinking :: "(nat \<times> string \<times> string) list"
  ss_stop :: stop_reason
  ss_in :: u32
  ss_out :: u32

definition stream_empty :: stream_state where
  "stream_empty =
     \<lparr>ss_text = [], ss_tool = [], ss_thinking = [], ss_stop = EndTurn, ss_in = 0, ss_out = 0\<rparr>"

definition no_blocks :: "stream_state \<Rightarrow> bool" where
  "no_blocks s \<longleftrightarrow> ss_text s = [] \<and> ss_tool s = [] \<and> ss_thinking s = []"

definition index_u32 :: "nat \<Rightarrow> u32" where
  "index_u32 i = word_of_nat i"

fun stop_reason_of :: "string option \<Rightarrow> stop_reason" where
  "stop_reason_of r =
     (if r = Some ''tool_use'' then ToolUse else if r = Some ''max_tokens'' then MaxTokens else EndTurn)"

declare stop_reason_of.simps [simp del]

fun start_block :: "string \<Rightarrow> nat \<Rightarrow> block_start \<Rightarrow> stream_state \<Rightarrow> stream_state \<times> agent_event list" where
  "start_block mid i StartText s = (s\<lparr>ss_text := bt_insert i [] (ss_text s)\<rparr>, [])"
| "start_block mid i (StartToolUse cid name) s =
     (s\<lparr>ss_tool := bt_insert i (cid, name, []) (ss_tool s)\<rparr>, [ToolCallStart mid (index_u32 i) cid name])"
| "start_block mid i StartThinking s = (s\<lparr>ss_thinking := bt_insert i ([], []) (ss_thinking s)\<rparr>, [])"
| "start_block mid i StartToolResult s = (s, [])"

fun delta_block :: "string \<Rightarrow> nat \<Rightarrow> block_delta \<Rightarrow> stream_state \<Rightarrow> stream_state \<times> agent_event list" where
  "delta_block mid i (TextDelta t) s =
     ((case bt_get (ss_text s) i of
         None \<Rightarrow> s
       | Some acc \<Rightarrow> s\<lparr>ss_text := bt_insert i (acc @ t) (ss_text s)\<rparr>),
      [TextChunk mid (index_u32 i) t])"
| "delta_block mid i (InputJsonDelta t) s =
     (case bt_get (ss_tool s) i of
        None \<Rightarrow> (s, [])
      | Some (cid, name, acc) \<Rightarrow>
          (s\<lparr>ss_tool := bt_insert i (cid, name, acc @ t) (ss_tool s)\<rparr>,
           [ToolCallInputDelta mid (index_u32 i) cid t]))"
| "delta_block mid i (ThinkingDelta t) s =
     ((case bt_get (ss_thinking s) i of
         None \<Rightarrow> s
       | Some (acc, sig) \<Rightarrow> s\<lparr>ss_thinking := bt_insert i (acc @ t, sig) (ss_thinking s)\<rparr>),
      [ThinkingChunk mid (index_u32 i) t])"
| "delta_block mid i (SignatureDelta t) s =
     (case bt_get (ss_thinking s) i of
        None \<Rightarrow> (s, [])
      | Some (acc, sig) \<Rightarrow> (s\<lparr>ss_thinking := bt_insert i (acc, sig @ t) (ss_thinking s)\<rparr>, []))"

fun on_stream_event :: "string \<Rightarrow> stream_event \<Rightarrow> stream_state \<Rightarrow> stream_state \<times> agent_event list" where
  "on_stream_event mid (StreamStart u) s =
     ((case u of
         None \<Rightarrow> s
       | Some n \<Rightarrow> s\<lparr>ss_in := (case n of None \<Rightarrow> 0 | Some k \<Rightarrow> k)\<rparr>), [])"
| "on_stream_event mid (BlockStart i b) s = start_block mid i b s"
| "on_stream_event mid (BlockDelta i d) s = delta_block mid i d s"
| "on_stream_event mid (BlockStop i) s =
     (s, case bt_get (ss_tool s) i of
           None \<Rightarrow> []
         | Some (cid, _, _) \<Rightarrow> [ToolCallInputDone mid (index_u32 i) cid])"
| "on_stream_event mid (StreamDelta r u) s =
     (let s1 = s\<lparr>ss_stop := stop_reason_of r\<rparr>
      in ((case u of
             None \<Rightarrow> s1
           | Some n \<Rightarrow> s1\<lparr>ss_out := (case n of None \<Rightarrow> ss_out s1 | Some k \<Rightarrow> k)\<rparr>), []))"
| "on_stream_event mid StreamStop s = (s, [])"

text \<open>
  The loop over one attempt's stream: it ends with the stream, or at an error, which is retried as
  long as no block has begun.
\<close>

datatype attempt_end = StreamDone | StreamRetry api_error | StreamFatal api_error

fun run_stream ::
  "(api_error \<Rightarrow> string) \<Rightarrow> string \<Rightarrow> (api_error, stream_event) result list \<Rightarrow> stream_state
     \<Rightarrow> attempt_end \<times> stream_state \<times> agent_event list" where
  "run_stream display mid [] s = (StreamDone, s, [])"
| "run_stream display mid (Inl e # xs) s =
     (if is_retryable (display e) \<and> no_blocks s then StreamRetry e else StreamFatal e, s, [])"
| "run_stream display mid (Inr ev # xs) s =
     (case on_stream_event mid ev s of
        (s1, evs) \<Rightarrow>
          (case run_stream display mid xs s1 of (r, s2, evs2) \<Rightarrow> (r, s2, evs @ evs2)))"

text \<open>The delay before an attempt, which wraps as \<open>u64\<close> multiplication does in a release build.\<close>

definition retry_delay :: "'c anthropic \<Rightarrow> nat \<Rightarrow> u64" where
  "retry_delay p attempt = an_retry_base_secs p * 2 ^ (attempt - 1)"

text \<open>
  \<open>for attempt in 0..=MAX_STREAM_RETRIES\<close>, with the last error so far. The result is the error of a
  fatal end, or the last error and the state the loop leaves.
\<close>

function stream_attempts ::
  "('c, 'w) api_client \<Rightarrow> 'c anthropic \<Rightarrow> string \<Rightarrow> api_request \<Rightarrow> nat \<Rightarrow> llm_error option \<Rightarrow> stream_state \<Rightarrow> 'w
     \<Rightarrow> (llm_error, llm_error option \<times> stream_state) result \<times> agent_event list \<times> 'w" where
  "stream_attempts C p mid req attempt err s w =
     (if attempt > MAX_STREAM_RETRIES then (Inr (err, s), [], w)
      else
        let w1 = (if attempt > 0 then ac_sleep C (retry_delay p attempt) w else w);
            s1 = (if attempt > 0 then stream_empty else s)
        in case ac_stream C (an_client p) req w1 of
             (xs, w2) \<Rightarrow>
               (case run_stream (ac_display C) mid xs s1 of
                  (StreamDone, s2, evs) \<Rightarrow> (Inr (err, s2), evs, w2)
                | (StreamFatal e, s2, evs) \<Rightarrow> (Inl (to_llm_error (ac_display C) e), evs, w2)
                | (StreamRetry e, s2, evs) \<Rightarrow>
                    (case stream_attempts C p mid req (attempt + 1)
                            (Some (to_llm_error (ac_display C) e)) s2 w2 of
                       (r, evs2, w3) \<Rightarrow> (r, evs @ evs2, w3))))"
  by pat_completeness auto
termination
  by (relation "measure (\<lambda>(C, p, mid, req, attempt, err, s, w). Suc MAX_STREAM_RETRIES - attempt)") auto

declare stream_attempts.simps [simp del]

subsection \<open>The response\<close>

definition block_indices :: "stream_state \<Rightarrow> nat list" where
  "block_indices s =
     remdups_adj (sort (map fst (ss_text s) @ map fst (ss_tool s) @ map fst (ss_thinking s)))"

definition assemble_block :: "(string \<Rightarrow> json option) \<Rightarrow> stream_state \<Rightarrow> nat \<Rightarrow> content_part list" where
  "assemble_block from_str s i =
     (case bt_get (ss_text s) i of
        Some t \<Rightarrow> if t = [] then [] else [TextPart t]
      | None \<Rightarrow>
          (case bt_get (ss_tool s) i of
             Some (cid, name, js) \<Rightarrow>
               [ToolCallPart \<lparr>tc_id = cid, tc_name = name,
                  tc_input = (case from_str js of Some v \<Rightarrow> v | None \<Rightarrow> JObject [])\<rparr>]
           | None \<Rightarrow>
               (case bt_get (ss_thinking s) i of
                  Some (t, sig) \<Rightarrow> if t = [] then [] else [ThinkingPart t (if sig = [] then None else Some sig)]
                | None \<Rightarrow> [])))"

definition assemble :: "(string \<Rightarrow> json option) \<Rightarrow> stream_state \<Rightarrow> completion_response" where
  "assemble from_str s =
     \<lparr>cp_parts = concat (map (assemble_block from_str s) (block_indices s)),
      cp_stop_reason = ss_stop s,
      cp_usage = \<lparr>input_tokens = ss_in s, output_tokens = ss_out s\<rparr>\<rparr>"

definition anthropic_complete :: "('c, 'w) api_client \<Rightarrow> 'c anthropic \<Rightarrow> 'w provider" where
  "anthropic_complete C p req mid w =
     (case build_request C p req of
        Inl e \<Rightarrow> (Inl e, [], w)
      | Inr ar \<Rightarrow>
          (case stream_attempts C p mid ar 0 None stream_empty w of
             (Inl e, evs, w1) \<Rightarrow> (Inl e, evs, w1)
           | (Inr (err, s), evs, w1) \<Rightarrow>
               ((case err of
                   Some e \<Rightarrow> if no_blocks s then Inl e else Inr (assemble (ac_from_str C) s)
                 | None \<Rightarrow> Inr (assemble (ac_from_str C) s)), evs, w1)))"

end
