(* ===== verification/Anthropic_Properties.thy ===== *)
theory Anthropic_Properties
  imports Anthropic
begin

text \<open>
  What the provider delivers: a message streamed in any chunks is the message it was, the caller
  sees the events of one attempt only, a request carries the conversation unchanged but for its
  cache marks, and the number of attempts is bounded.
\<close>

subsection \<open>A stream of blocks\<close>

text \<open>A message as the API streams it: one block after the other, each in chunks.\<close>

datatype streamed =
    SText "string list"
  | STool string string "string list"
  | SThinking "string list" "string list"

fun block_deltas :: "streamed \<Rightarrow> block_delta list" where
  "block_deltas (SText cs) = map TextDelta cs"
| "block_deltas (STool _ _ cs) = map InputJsonDelta cs"
| "block_deltas (SThinking cs gs) = map ThinkingDelta cs @ map SignatureDelta gs"

fun block_start_of :: "streamed \<Rightarrow> block_start" where
  "block_start_of (SText _) = StartText"
| "block_start_of (STool i n _) = StartToolUse i n"
| "block_start_of (SThinking _ _) = StartThinking"

definition block_stream :: "nat \<Rightarrow> streamed \<Rightarrow> stream_event list" where
  "block_stream i b = BlockStart i (block_start_of b) # map (BlockDelta i) (block_deltas b) @ [BlockStop i]"

fun blocks_stream :: "nat \<Rightarrow> streamed list \<Rightarrow> stream_event list" where
  "blocks_stream i [] = []"
| "blocks_stream i (b # bs) = block_stream i b @ blocks_stream (i + 1) bs"

text \<open>The part a block is, and what the sink should see of it.\<close>

fun part_of :: "(string \<Rightarrow> json option) \<Rightarrow> streamed \<Rightarrow> content_part list" where
  "part_of from_str (SText cs) = (if concat cs = [] then [] else [TextPart (concat cs)])"
| "part_of from_str (STool i n cs) =
     [ToolCallPart \<lparr>tc_id = i, tc_name = n,
        tc_input = (case from_str (concat cs) of Some v \<Rightarrow> v | None \<Rightarrow> JObject [])\<rparr>]"
| "part_of from_str (SThinking cs gs) =
     (if concat cs = [] then []
      else [ThinkingPart (concat cs) (if concat gs = [] then None else Some (concat gs))])"

fun block_shown :: "string \<Rightarrow> nat \<Rightarrow> streamed \<Rightarrow> agent_event list" where
  "block_shown mid i (SText cs) = map (TextChunk mid (index_u32 i)) cs"
| "block_shown mid i (STool c n cs) =
     ToolCallStart mid (index_u32 i) c n # map (ToolCallInputDelta mid (index_u32 i) c) cs @
     [ToolCallInputDone mid (index_u32 i) c]"
| "block_shown mid i (SThinking cs gs) = map (ThinkingChunk mid (index_u32 i)) cs"

fun blocks_shown :: "string \<Rightarrow> nat \<Rightarrow> streamed list \<Rightarrow> agent_event list" where
  "blocks_shown mid i [] = []"
| "blocks_shown mid i (b # bs) = block_shown mid i b @ blocks_shown mid (i + 1) bs"

fun add_block :: "nat \<Rightarrow> streamed \<Rightarrow> stream_state \<Rightarrow> stream_state" where
  "add_block i (SText cs) s = s\<lparr>ss_text := ss_text s @ [(i, concat cs)]\<rparr>"
| "add_block i (STool c n cs) s = s\<lparr>ss_tool := ss_tool s @ [(i, c, n, concat cs)]\<rparr>"
| "add_block i (SThinking cs gs) s = s\<lparr>ss_thinking := ss_thinking s @ [(i, concat cs, concat gs)]\<rparr>"

fun add_blocks :: "nat \<Rightarrow> streamed list \<Rightarrow> stream_state \<Rightarrow> stream_state" where
  "add_blocks i [] s = s"
| "add_blocks i (b # bs) s = add_blocks (i + 1) bs (add_block i b s)"

subsection \<open>Running a stream\<close>

fun feed :: "string \<Rightarrow> stream_event list \<Rightarrow> stream_state \<Rightarrow> stream_state \<times> agent_event list" where
  "feed mid [] s = (s, [])"
| "feed mid (e # es) s =
     (case on_stream_event mid e s of (s1, evs) \<Rightarrow> (case feed mid es s1 of (s2, evs2) \<Rightarrow> (s2, evs @ evs2)))"

lemma run_stream_ok:
  "run_stream display mid (map Inr es @ rest) s =
     (case feed mid es s of
        (s1, evs) \<Rightarrow> (case run_stream display mid rest s1 of (r, s2, evs2) \<Rightarrow> (r, s2, evs @ evs2)))"
  by (induction es arbitrary: s) (auto split: prod.splits)

lemma feed_append:
  "feed mid (es @ es') s =
     (case feed mid es s of (s1, evs) \<Rightarrow> (case feed mid es' s1 of (s2, evs2) \<Rightarrow> (s2, evs @ evs2)))"
  by (induction es arbitrary: s) (auto split: prod.splits)

text \<open>Blocks come with growing indices: a new one goes to the end of its table.\<close>

definition below :: "nat \<Rightarrow> (nat \<times> 'v) list \<Rightarrow> bool" where
  "below i m \<longleftrightarrow> (\<forall>k\<in>fst ` set m. k < i)"

lemma below_insert: "below i m \<Longrightarrow> bt_insert i v m = m @ [(i, v)]"
  unfolding below_def by (induction i v m rule: bt_insert.induct) auto

lemma below_update: "below i m \<Longrightarrow> bt_insert i v' (m @ [(i, v)]) = m @ [(i, v')]"
  unfolding below_def by (induction m) auto

lemma below_get: "below i m \<Longrightarrow> bt_get m i = None" "below i m \<Longrightarrow> ([i \<mapsto> v] ++ bt_get m) i = Some v"
  by (auto simp: below_def map_of_eq_None_iff map_add_def split: option.splits dest!: map_of_SomeD)

lemmas below_simps = below_insert below_update below_get

definition fresh :: "nat \<Rightarrow> stream_state \<Rightarrow> bool" where
  "fresh i s \<longleftrightarrow> below i (ss_text s) \<and> below i (ss_tool s) \<and> below i (ss_thinking s)"

lemma feed_text:
  "below i m \<Longrightarrow>
   feed mid (map (BlockDelta i) (map TextDelta cs)) (s\<lparr>ss_text := m @ [(i, t)]\<rparr>) =
     (s\<lparr>ss_text := m @ [(i, t @ concat cs)]\<rparr>, map (TextChunk mid (index_u32 i)) cs)"
  by (induction cs arbitrary: t) (simp_all add: below_simps)

lemma feed_tool:
  "below i m \<Longrightarrow>
   feed mid (map (BlockDelta i) (map InputJsonDelta cs)) (s\<lparr>ss_tool := m @ [(i, c, n, t)]\<rparr>) =
     (s\<lparr>ss_tool := m @ [(i, c, n, t @ concat cs)]\<rparr>, map (ToolCallInputDelta mid (index_u32 i) c) cs)"
  by (induction cs arbitrary: t) (simp_all add: below_simps)

lemma feed_thinking:
  "below i m \<Longrightarrow>
   feed mid (map (BlockDelta i) (map ThinkingDelta cs)) (s\<lparr>ss_thinking := m @ [(i, t, g)]\<rparr>) =
     (s\<lparr>ss_thinking := m @ [(i, t @ concat cs, g)]\<rparr>, map (ThinkingChunk mid (index_u32 i)) cs)"
  by (induction cs arbitrary: t) (simp_all add: below_simps)

lemma feed_signature:
  "below i m \<Longrightarrow>
   feed mid (map (BlockDelta i) (map SignatureDelta gs)) (s\<lparr>ss_thinking := m @ [(i, t, g)]\<rparr>) =
     (s\<lparr>ss_thinking := m @ [(i, t, g @ concat gs)]\<rparr>, [])"
  by (induction gs arbitrary: g) (simp_all add: below_simps)

lemma feed_block:
  assumes "fresh i s"
  shows "feed mid (block_stream i b) s = (add_block i b s, block_shown mid i b)"
proof -
  have l: "below i (ss_text s)" "below i (ss_tool s)" "below i (ss_thinking s)"
    using assms by (auto simp: fresh_def)
  show ?thesis
  proof (cases b)
    case (SText cs)
    with feed_text [OF l(1), of mid cs "[]" s] l show ?thesis
      by (simp add: block_stream_def feed_append below_simps)
  next
    case (STool c n cs)
    with feed_tool [OF l(2), of mid cs c n "[]" s] l show ?thesis
      by (simp add: block_stream_def feed_append below_simps)
  next
    case (SThinking cs gs)
    with feed_thinking [OF l(3), of mid cs "[]" "[]" s] l
      feed_signature [OF l(3), of mid gs "concat cs" "[]" s] show ?thesis
      by (simp add: block_stream_def feed_append below_simps)
  qed
qed

lemma fresh_add_block: "fresh i s \<Longrightarrow> fresh (Suc i) (add_block i b s)"
  by (cases b) (auto simp: fresh_def below_def)

lemma stream_empty_fresh: "fresh 0 (stream_empty\<lparr>ss_in := n\<rparr>)"
  by (simp add: fresh_def below_def stream_empty_def)

lemma feed_blocks:
  "fresh i s \<Longrightarrow> feed mid (blocks_stream i bs) s = (add_blocks i bs s, blocks_shown mid i bs)"
proof (induction bs arbitrary: i s)
  case (Cons b bs)
  from Cons.IH [OF fresh_add_block [OF Cons.prems]] feed_block [OF Cons.prems]
  show ?case by (simp add: feed_append)
qed simp

subsection \<open>Assembling the blocks\<close>

definition block_keys :: "stream_state \<Rightarrow> nat set" where
  "block_keys s = fst ` set (ss_text s) \<union> fst ` set (ss_tool s) \<union> fst ` set (ss_thinking s)"

lemma no_blocks_keys: "no_blocks s \<longleftrightarrow> block_keys s = {}"
  by (auto simp: no_blocks_def block_keys_def)

lemma block_keys_more [simp]:
  "block_keys (s\<lparr>ss_stop := r\<rparr>) = block_keys s" "block_keys (s\<lparr>ss_out := m\<rparr>) = block_keys s"
  by (simp_all add: block_keys_def)

lemma set_block_indices [simp]: "set (block_indices s) = block_keys s"
  by (auto simp: block_indices_def block_keys_def)

lemma sorted_block_indices: "sorted_wrt (<) (block_indices s)"
proof -
  have "distinct (remdups_adj (sort xs))" for xs :: "nat list"
  proof -
    have "sorted xs \<Longrightarrow> distinct (remdups_adj xs)" for xs :: "nat list"
      by (induction xs rule: remdups_adj.induct) auto
    then show ?thesis by simp
  qed
  then show ?thesis by (simp add: block_indices_def strict_sorted_iff)
qed

lemma block_indices_upto: "block_keys s = {0..<n} \<Longrightarrow> block_indices s = [0..<n]"
  using sorted_distinct_set_unique [of "block_indices s" "[0..<n]"] sorted_block_indices [of s]
  by (simp add: strict_sorted_iff)

lemma add_blocks_snoc: "add_blocks i (bs @ [b]) s = add_block (i + length bs) b (add_blocks i bs s)"
  by (induction bs arbitrary: i s) simp_all

lemma add_block_keys [simp]: "block_keys (add_block i b s) = insert i (block_keys s)"
  by (cases b) (auto simp: block_keys_def)

lemma add_blocks_keys: "block_keys (add_blocks i bs s) = block_keys s \<union> {i..<i + length bs}"
  by (induction bs arbitrary: i s) auto

lemma assemble_add_block:
  assumes "i \<notin> block_keys s"
  shows "assemble_block from_str (add_block i b s) j =
           (if j = i then part_of from_str b else assemble_block from_str s j)"
proof -
  have n: "bt_get (ss_text s) i = None" "bt_get (ss_tool s) i = None" "bt_get (ss_thinking s) i = None"
    using assms by (auto simp: block_keys_def map_of_eq_None_iff)
  then show ?thesis
    by (cases b) (auto simp: assemble_block_def map_add_def split: option.splits)
qed

lemma assemble_blocks:
  "block_keys s = {} \<Longrightarrow>
   concat (map (assemble_block from_str (add_blocks 0 bs s)) [0..<length bs]) =
     concat (map (part_of from_str) bs)"
proof (induction bs rule: rev_induct)
  case (snoc b bs)
  let ?s = "add_blocks 0 bs s"
  have k: "length bs \<notin> block_keys ?s" using snoc.prems by (simp add: add_blocks_keys)
  have eq: "map (assemble_block from_str (add_blocks 0 (bs @ [b]) s)) [0..<length bs] =
      map (assemble_block from_str ?s) [0..<length bs]"
    by (simp add: add_blocks_snoc assemble_add_block [OF k])
  have lst: "assemble_block from_str (add_blocks 0 (bs @ [b]) s) (length bs) = part_of from_str b"
    by (simp add: add_blocks_snoc assemble_add_block [OF k])
  from snoc.IH [OF snoc.prems] show ?case by (simp add: eq lst)
qed simp

lemma add_blocks_more [simp]:
  "ss_stop (add_blocks i bs s) = ss_stop s" "ss_in (add_blocks i bs s) = ss_in s"
  "ss_out (add_blocks i bs s) = ss_out s"
proof -
  have *: "ss_stop (add_block i b s) = ss_stop s" "ss_in (add_block i b s) = ss_in s"
      "ss_out (add_block i b s) = ss_out s" for i b s by (cases b; simp)+
  show "ss_stop (add_blocks i bs s) = ss_stop s" "ss_in (add_blocks i bs s) = ss_in s"
    "ss_out (add_blocks i bs s) = ss_out s" by (induction bs arbitrary: i s) (simp_all add: *)
qed

lemma assemble_block_more [simp]:
  "assemble_block from_str (s\<lparr>ss_stop := r\<rparr>) = assemble_block from_str s"
  "assemble_block from_str (s\<lparr>ss_out := m\<rparr>) = assemble_block from_str s"
  by (auto simp: assemble_block_def fun_eq_iff split: option.splits)

text \<open>The stream of a whole message.\<close>

definition message_stream :: "u32 \<Rightarrow> streamed list \<Rightarrow> string option \<Rightarrow> u32 \<Rightarrow> stream_event list" where
  "message_stream n bs stop m =
     StreamStart (Some (Some n)) # blocks_stream 0 bs @ [StreamDelta stop (Some (Some m)), StreamStop]"

lemma feed_message:
  "\<exists>s. feed mid (message_stream n bs stop m) stream_empty = (s, blocks_shown mid 0 bs) \<and>
     (no_blocks s \<longleftrightarrow> bs = []) \<and>
     assemble from_str s =
       \<lparr>cp_parts = concat (map (part_of from_str) bs), cp_stop_reason = stop_reason_of stop,
        cp_usage = \<lparr>input_tokens = n, output_tokens = m\<rparr>\<rparr>"
proof -
  let ?init = "stream_empty\<lparr>ss_in := n\<rparr>"
  let ?mid = "add_blocks 0 bs ?init"
  let ?final = "?mid\<lparr>ss_stop := stop_reason_of stop, ss_out := m\<rparr>"
  have k0: "block_keys ?init = {}" by (simp add: block_keys_def stream_empty_def)
  have fd: "feed mid (message_stream n bs stop m) stream_empty = (?final, blocks_shown mid 0 bs)"
    using feed_blocks [OF stream_empty_fresh, of mid bs n]
    by (simp add: message_stream_def feed_append Let_def)
  have ks: "block_keys ?final = {0..<length bs}"
    using add_blocks_keys [of 0 bs ?init] by (simp add: k0)
  have nb: "no_blocks ?final \<longleftrightarrow> bs = []" unfolding no_blocks_keys ks by simp
  have "cp_parts (assemble from_str ?final) = concat (map (part_of from_str) bs)"
    using assemble_blocks [OF k0] block_indices_upto [OF ks] by (simp add: assemble_def)
  then have "assemble from_str ?final =
      \<lparr>cp_parts = concat (map (part_of from_str) bs), cp_stop_reason = stop_reason_of stop,
       cp_usage = \<lparr>input_tokens = n, output_tokens = m\<rparr>\<rparr>"
    by (simp add: assemble_def)
  with fd nb show ?thesis by blast
qed

lemma run_message:
  "\<exists>s. run_stream display mid (map Inr (message_stream n bs stop m)) stream_empty =
       (StreamDone, s, blocks_shown mid 0 bs) \<and>
     (no_blocks s \<longleftrightarrow> bs = []) \<and>
     assemble from_str s =
       \<lparr>cp_parts = concat (map (part_of from_str) bs), cp_stop_reason = stop_reason_of stop,
        cp_usage = \<lparr>input_tokens = n, output_tokens = m\<rparr>\<rparr>"
  using feed_message [of mid n bs stop m from_str] run_stream_ok [of display mid "message_stream n bs stop m" "[]"]
  by auto

text \<open>
  C8. A message comes out of the stream as it went in, however it is cut into chunks: the parts are
  its blocks in order, each with its chunks joined, less empty text and thinking; stop reason and
  usage are the message's; and the sink saw each chunk once, under its block's index.
\<close>

theorem streamed_message_delivered:
  assumes "build_request C p req = Inr ar"
    and "ac_stream C (an_client p) ar w = (map Inr (message_stream n bs stop m), w')"
  shows "anthropic_complete C p req mid w =
    (Inr \<lparr>cp_parts = concat (map (part_of (ac_from_str C)) bs), cp_stop_reason = stop_reason_of stop,
          cp_usage = \<lparr>input_tokens = n, output_tokens = m\<rparr>\<rparr>,
     blocks_shown mid 0 bs, w')"
proof -
  obtain s where s: "run_stream (ac_display C) mid (map Inr (message_stream n bs stop m)) stream_empty =
        (StreamDone, s, blocks_shown mid 0 bs)"
      "assemble (ac_from_str C) s =
         \<lparr>cp_parts = concat (map (part_of (ac_from_str C)) bs), cp_stop_reason = stop_reason_of stop,
          cp_usage = \<lparr>input_tokens = n, output_tokens = m\<rparr>\<rparr>"
    using run_message [of "ac_display C" mid n bs stop m "ac_from_str C"] by blast
  then have "stream_attempts C p mid ar 0 None stream_empty w = (Inr (None, s), blocks_shown mid 0 bs, w')"
    using assms(2) by (subst stream_attempts.simps) (simp add: MAX_STREAM_RETRIES_def)
  with assms(1) s(2) show ?thesis by (simp add: anthropic_complete_def)
qed

definition plain_client :: "(unit, nat) api_client" where
  "plain_client =
     \<lparr>ac_check_message = (\<lambda>_. None), ac_check_request = (\<lambda>_. None),
      ac_stream = (\<lambda>_ _ w.
        if w < 2 then ([Inr (StreamStart None), Inl (StreamError ''overloaded_error: wait'')], w + 1)
        else (map Inr (message_stream 10
                [SThinking [''let '', ''me''] [''sig''], SText [''he'', ''llo''], STool ''t1'' ''bash'' [''{'', ''}'']]
                (Some ''tool_use'') 20), w + 1)),
      ac_display = (\<lambda>e. case e of StreamError m \<Rightarrow> m | _ \<Rightarrow> []),
      ac_sleep = (\<lambda>_ w. w),
      ac_from_str = (\<lambda>t. if t = ''{}'' then Some (JObject []) else None)\<rparr>"

definition plain_provider :: "unit anthropic" where
  "plain_provider =
     \<lparr>an_client = (), an_model = ''m'', an_api_key = None, an_base_url = None, an_session_id = None,
      an_thinking_budget = None, an_max_tokens = None, an_retry_base_secs = 5\<rparr>"

definition plain_request :: completion_request where
  "plain_request =
     \<lparr>cr_messages = [message_user ''u'' ''hi''], cr_system = None, cr_tools = [], cr_tool_choice = ToolAuto,
      cr_max_tokens = None\<rparr>"

lemma plain_builds: "\<exists>ar. build_request plain_client plain_provider plain_request = Inr ar"
  by (simp add: build_request_def plain_client_def plain_request_def message_to_api_def Let_def)

theorem streamed_message_delivered_witness:
  "\<exists>evs. anthropic_complete plain_client plain_provider plain_request ''m'' 2 =
     (Inr \<lparr>cp_parts = [ThinkingPart ''let me'' (Some ''sig''), TextPart ''hello'',
             ToolCallPart \<lparr>tc_id = ''t1'', tc_name = ''bash'', tc_input = JObject []\<rparr>],
           cp_stop_reason = ToolUse, cp_usage = \<lparr>input_tokens = 10, output_tokens = 20\<rparr>\<rparr>, evs, 3)"
proof -
  obtain ar where ar: "build_request plain_client plain_provider plain_request = Inr ar"
    using plain_builds by blast
  have st: "ac_stream plain_client (an_client plain_provider) ar 2 =
      (map Inr (message_stream 10
         [SThinking [''let '', ''me''] [''sig''], SText [''he'', ''llo''], STool ''t1'' ''bash'' [''{'', ''}'']]
         (Some ''tool_use'') 20), 3)"
    by (simp add: plain_client_def)
  show ?thesis using streamed_message_delivered [OF ar st, of "''m''"]
    by (simp add: plain_client_def stop_reason_of.simps)
qed

subsection \<open>One attempt is seen\<close>

text \<open>
  What the API's protocol says of a stream: a delta of a text or thinking block comes after the
  block's start.
\<close>

fun deltas_started :: "nat set \<Rightarrow> nat set \<Rightarrow> (api_error, stream_event) result list \<Rightarrow> bool" where
  "deltas_started T H [] = True"
| "deltas_started T H (Inr (BlockStart i StartText) # xs) = deltas_started (insert i T) H xs"
| "deltas_started T H (Inr (BlockStart i StartThinking) # xs) = deltas_started T (insert i H) xs"
| "deltas_started T H (Inr (BlockDelta i (TextDelta t)) # xs) = (i \<in> T \<and> deltas_started T H xs)"
| "deltas_started T H (Inr (BlockDelta i (ThinkingDelta t)) # xs) = (i \<in> H \<and> deltas_started T H xs)"
| "deltas_started T H (x # xs) = deltas_started T H xs"

lemma bt_insert_not_Nil [simp]: "bt_insert k v m \<noteq> []"
  by (cases "(k, v, m)" rule: bt_insert.cases) auto

lemma bt_update_keys: "bt_get m i = Some v \<Longrightarrow> insert i (fst ` set m) = fst ` set m"
  by (force dest: map_of_SomeD)

text \<open>A step keeps the tables' keys the started indices, and shows nothing while no block has begun.\<close>

lemma started_step:
  assumes "on_stream_event mid ev s = (s1, evs)"
    and "deltas_started (fst ` set (ss_text s)) (fst ` set (ss_thinking s)) (Inr ev # xs)"
  shows "deltas_started (fst ` set (ss_text s1)) (fst ` set (ss_thinking s1)) xs"
    and "no_blocks s1 \<Longrightarrow> no_blocks s \<and> evs = []"
proof -
  have "deltas_started (fst ` set (ss_text s1)) (fst ` set (ss_thinking s1)) xs \<and>
      (no_blocks s1 \<longrightarrow> no_blocks s \<and> evs = [])"
  proof (cases ev)
    case (StreamStart u)
    with assms show ?thesis by (cases u) (auto simp: no_blocks_def)
  next
    case (BlockStart i b)
    with assms show ?thesis by (cases b) (auto simp: no_blocks_def)
  next
    case (BlockDelta i d)
    show ?thesis
    proof (cases d)
      case (TextDelta t)
      with assms BlockDelta show ?thesis
        by (cases "bt_get (ss_text s) i") (auto simp: no_blocks_def bt_update_keys map_of_eq_None_iff)
    next
      case (InputJsonDelta t)
      with assms BlockDelta show ?thesis by (cases "bt_get (ss_tool s) i") (auto simp: no_blocks_def)
    next
      case (ThinkingDelta t)
      with assms BlockDelta show ?thesis
        by (cases "bt_get (ss_thinking s) i") (auto simp: no_blocks_def bt_update_keys map_of_eq_None_iff)
    next
      case (SignatureDelta t)
      with assms BlockDelta show ?thesis
        by (cases "bt_get (ss_thinking s) i") (auto simp: no_blocks_def bt_update_keys)
    qed
  next
    case (BlockStop i)
    with assms show ?thesis by (auto simp: no_blocks_def split: option.splits)
  next
    case (StreamDelta a u)
    with assms show ?thesis by (cases u) (auto simp: no_blocks_def Let_def)
  next
    case StreamStop
    with assms show ?thesis by simp
  qed
  then show "deltas_started (fst ` set (ss_text s1)) (fst ` set (ss_thinking s1)) xs"
    and "no_blocks s1 \<Longrightarrow> no_blocks s \<and> evs = []" by auto
qed

lemma retried_emits_nothing:
  "deltas_started (fst ` set (ss_text s)) (fst ` set (ss_thinking s)) xs \<Longrightarrow>
   run_stream display mid xs s = (StreamRetry e, s', evs) \<Longrightarrow> no_blocks s \<and> evs = []"
proof (induction xs arbitrary: s evs)
  case (Cons x xs)
  show ?case
  proof (cases x)
    case (Inl err)
    with Cons.prems show ?thesis by (simp split: if_splits)
  next
    case (Inr ev)
    obtain s1 evs1 where st: "on_stream_event mid ev s = (s1, evs1)" by fastforce
    obtain evs2 where r: "run_stream display mid xs s1 = (StreamRetry e, s', evs2)" "evs = evs1 @ evs2"
      using Cons.prems(2) Inr st by (auto split: prod.splits)
    from started_step [OF st Cons.prems(1) [unfolded Inr]] Cons.IH [OF _ r(1)] r(2)
    show ?thesis by simp
  qed
qed simp

lemma run_stream_retry_state: "run_stream display mid xs s = (StreamRetry e, s', evs) \<Longrightarrow> no_blocks s'"
  by (induction xs arbitrary: s evs rule: list.induct) (auto split: sum.splits if_splits prod.splits elim: run_stream.elims)

text \<open>How a run of attempts ends: what its last stream, opened in \<open>w0\<close>, came to.\<close>

definition last_attempt ::
  "('c, 'w) api_client \<Rightarrow> 'c anthropic \<Rightarrow> string \<Rightarrow> api_request \<Rightarrow> attempt_end \<Rightarrow> stream_state
     \<Rightarrow> agent_event list \<Rightarrow> 'w \<Rightarrow> bool" where
  "last_attempt C p mid req fin s evs w' \<longleftrightarrow>
     (\<exists>w0 xs. ac_stream C (an_client p) req w0 = (xs, w') \<and>
        run_stream (ac_display C) mid xs stream_empty = (fin, s, evs))"

lemma stream_attempts_last:
  assumes "\<And>w0. deltas_started {} {} (fst (ac_stream C (an_client p) req w0))"
    and "stream_attempts C p mid req attempt err s w = (r, evs, w')"
    and "attempt \<le> MAX_STREAM_RETRIES" and "attempt = 0 \<Longrightarrow> s = stream_empty"
  shows "\<exists>fin s2. last_attempt C p mid req fin s2 evs w' \<and>
           (case fin of
              StreamDone \<Rightarrow> \<exists>err'. r = Inr (err', s2)
            | StreamFatal e \<Rightarrow> r = Inl (to_llm_error (ac_display C) e)
            | StreamRetry e \<Rightarrow> r = Inr (Some (to_llm_error (ac_display C) e), s2))"
  using assms(2-)
proof (induction "Suc MAX_STREAM_RETRIES - attempt" arbitrary: attempt err s w r evs w')
  case (Suc k)
  define w1 where "w1 = (if attempt > 0 then ac_sleep C (retry_delay p attempt) w else w)"
  have s1: "(if attempt > 0 then stream_empty else s) = stream_empty" using Suc.prems(3) by auto
  obtain xs w2 where st: "ac_stream C (an_client p) req w1 = (xs, w2)" by fastforce
  obtain fin s2 evs1 where run: "run_stream (ac_display C) mid xs stream_empty = (fin, s2, evs1)"
    using prod_cases3 by blast
  have last: "last_attempt C p mid req fin s2 evs1 w2"
    using st run by (auto simp: last_attempt_def)
  note eq = Suc.prems(1) [unfolded stream_attempts.simps [of C p mid req attempt err s w] s1, folded w1_def]
  show ?case
  proof (cases fin)
    case StreamDone
    with eq st run Suc.prems(2) have "r = Inr (err, s2)" "evs = evs1" "w' = w2" by (auto simp: Let_def s1)
    with StreamDone last show ?thesis by (intro exI [of _ fin] exI [of _ s2]) simp
  next
    case (StreamFatal e)
    with eq st run Suc.prems(2) have "r = Inl (to_llm_error (ac_display C) e)" "evs = evs1" "w' = w2"
      by (auto simp: Let_def s1)
    with StreamFatal last show ?thesis by (intro exI [of _ fin] exI [of _ s2]) simp
  next
    case (StreamRetry e)
    have "deltas_started {} {} xs" using assms(1) [of w1] st by simp
    with retried_emits_nothing [of stream_empty xs "ac_display C" mid e s2 evs1] run StreamRetry
    have none: "evs1 = []" by (simp add: stream_empty_def)
    obtain r2 evs2 w3 where rec: "stream_attempts C p mid req (attempt + 1)
        (Some (to_llm_error (ac_display C) e)) s2 w2 = (r2, evs2, w3)" using prod_cases3 by blast
    have e: "r = r2" "evs = evs2" "w' = w3"
      using eq st run StreamRetry rec none Suc.prems(2) by (auto simp: Let_def s1)
    show ?thesis
    proof (cases "attempt < MAX_STREAM_RETRIES")
      case True
      then have k: "k = Suc MAX_STREAM_RETRIES - (attempt + 1)" "attempt + 1 \<le> MAX_STREAM_RETRIES"
        using Suc.hyps(2) by linarith+
      from Suc.hyps(1) [OF k(1) rec k(2)] show ?thesis unfolding e by simp
    next
      case False
      then have "r2 = Inr (Some (to_llm_error (ac_display C) e), s2)" "evs2 = []" "w3 = w2"
        using rec stream_attempts.simps [of C p mid req "attempt + 1" "Some (to_llm_error (ac_display C) e)" s2 w2]
        by auto
      with e StreamRetry last none show ?thesis by (intro exI [of _ fin] exI [of _ s2]) simp
    qed
  qed
qed simp

text \<open>
  C22. The caller sees one attempt. Whatever was retried before, the events that reached the sink and
  the response are those of the last stream opened, as long as the API sends no delta before its
  block's start; an error is that stream's, unless that stream ended without a block.
\<close>

theorem one_attempt_seen:
  assumes "build_request C p req = Inr ar"
    and "\<forall>w0. deltas_started {} {} (fst (ac_stream C (an_client p) ar w0))"
    and "anthropic_complete C p req mid w = (r, evs, w')"
  shows "\<exists>w0 xs fin s. ac_stream C (an_client p) ar w0 = (xs, w') \<and>
           run_stream (ac_display C) mid xs stream_empty = (fin, s, evs) \<and>
           (case r of
              Inr resp \<Rightarrow> fin = StreamDone \<and> resp = assemble (ac_from_str C) s
            | Inl e \<Rightarrow>
                (\<exists>e'. fin \<in> {StreamRetry e', StreamFatal e'} \<and> e = to_llm_error (ac_display C) e') \<or>
                fin = StreamDone \<and> no_blocks s)"
proof -
  obtain r1 evs1 w1 where at: "stream_attempts C p mid ar 0 None stream_empty w = (r1, evs1, w1)"
    using prod_cases3 by blast
  have ev: "evs = evs1" "w' = w1"
    using assms(1,3) at by (auto simp: anthropic_complete_def split: sum.splits prod.splits)
  from stream_attempts_last [OF _ at] assms(2) obtain fin s where
    last: "last_attempt C p mid ar fin s evs w'" and
    fin: "case fin of
            StreamDone \<Rightarrow> \<exists>err'. r1 = Inr (err', s)
          | StreamFatal e \<Rightarrow> r1 = Inl (to_llm_error (ac_display C) e)
          | StreamRetry e \<Rightarrow> r1 = Inr (Some (to_llm_error (ac_display C) e), s)"
    unfolding ev by auto
  have retried: "no_blocks s" if "fin = StreamRetry e" for e
    using last run_stream_retry_state unfolding that last_attempt_def by blast
  have "case r of
      Inr resp \<Rightarrow> fin = StreamDone \<and> resp = assemble (ac_from_str C) s
    | Inl e \<Rightarrow> (\<exists>e'. fin \<in> {StreamRetry e', StreamFatal e'} \<and> e = to_llm_error (ac_display C) e') \<or>
               fin = StreamDone \<and> no_blocks s"
    using assms(1,3) at fin retried
    by (cases fin) (auto simp: anthropic_complete_def split: option.splits if_splits)
  with last show ?thesis by (auto simp: last_attempt_def)
qed

theorem one_attempt_seen_witness:
  "\<exists>evs s. anthropic_complete plain_client plain_provider plain_request ''m'' 0 =
       (Inr (assemble (ac_from_str plain_client) s), evs, 3)"
proof -
  obtain ar where ar: "build_request plain_client plain_provider plain_request = Inr ar"
    using plain_builds by blast
  have ds: "\<forall>w0. deltas_started {} {} (fst (ac_stream plain_client (an_client plain_provider) ar w0))"
    by (simp add: plain_client_def message_stream_def block_stream_def)
  have ev: "case anthropic_complete plain_client plain_provider plain_request ''m'' 0 of
      (r, evs, w) \<Rightarrow> is_ok r \<and> w = 3"
    by code_simp
  obtain r evs w where c: "anthropic_complete plain_client plain_provider plain_request ''m'' 0 = (r, evs, w)"
    using prod_cases3 by blast
  with ev have r: "is_ok r" "w = 3" by simp_all
  from one_attempt_seen [OF ar ds c] r obtain s where "r = Inr (assemble (ac_from_str plain_client) s)"
    by (cases r) auto
  with c r show ?thesis by auto
qed

subsection \<open>Bounds\<close>

text \<open>What is left of the delays from an attempt on, in units of the base delay.\<close>

definition delays_left :: "nat \<Rightarrow> nat" where
  "delays_left attempt = (if attempt = 0 then 63 else 64 - 2 ^ (attempt - 1))"

lemma delays_left_step:
  "attempt \<le> MAX_STREAM_RETRIES \<Longrightarrow>
   delays_left attempt = (if attempt > 0 then 2 ^ (attempt - 1) else 0) + delays_left (attempt + 1)"
proof -
  assume "attempt \<le> MAX_STREAM_RETRIES"
  then have "attempt \<in> {0, 1, 2, 3, 4, 5, 6}" by (auto simp: MAX_STREAM_RETRIES_def)
  then show ?thesis by (auto simp: delays_left_def)
qed

lemma unat_mult_le: "unat (a * b) \<le> unat a * unat b" for a b :: "'a::len word"
  by (simp add: unat_word_ariths)

lemma unat_power_le: "unat ((2 :: u64) ^ n) \<le> 2 ^ n"
proof (induction n)
  case (Suc n)
  have "unat ((2 :: u64) ^ Suc n) \<le> unat (2 :: u64) * unat ((2 :: u64) ^ n)"
    unfolding power_Suc by (rule unat_mult_le)
  with Suc.IH show ?case by simp
qed simp

lemma retry_delay_le: "unat (retry_delay p attempt) \<le> unat (an_retry_base_secs p) * 2 ^ (attempt - 1)"
  unfolding retry_delay_def using unat_mult_le unat_power_le
  by (meson le_trans mult_le_mono2)

lemma stream_attempts_bounded:
  assumes "\<And>cl req w. opened (snd (ac_stream C cl req w)) = Suc (opened w)"
    and "\<And>d w. opened (ac_sleep C d w) = opened w"
    and "\<And>cl req w. slept (snd (ac_stream C cl req w)) \<le> slept w"
    and "\<And>d w. slept (ac_sleep C d w) \<le> slept w + unat d"
    and "stream_attempts C p mid req attempt err s w = (r, evs, w')"
    and "attempt \<le> Suc MAX_STREAM_RETRIES"
  shows "opened w' \<le> opened w + (Suc MAX_STREAM_RETRIES - attempt) \<and>
         slept w' \<le> slept w + unat (an_retry_base_secs p) * delays_left attempt"
  using assms(5,6)
proof (induction "Suc MAX_STREAM_RETRIES - attempt" arbitrary: attempt err s w r evs w')
  case 0
  then show ?case by (simp add: stream_attempts.simps [of C p mid req attempt])
next
  case (Suc k)
  let ?b = "unat (an_retry_base_secs p)"
  define w1 where "w1 = (if attempt > 0 then ac_sleep C (retry_delay p attempt) w else w)"
  obtain xs w2 where st: "ac_stream C (an_client p) req w1 = (xs, w2)" by fastforce
  let ?s = "if attempt > 0 then stream_empty else s"
  obtain fin s2 evs1 where run: "run_stream (ac_display C) mid xs ?s = (fin, s2, evs1)"
    using prod_cases3 by blast
  have le: "attempt \<le> MAX_STREAM_RETRIES" using Suc.hyps(2) by linarith
  note eq = Suc.prems(1) [unfolded stream_attempts.simps [of C p mid req attempt err s w], folded w1_def]
  have o: "opened w2 = Suc (opened w)" using assms(1) [of "an_client p" req w1] st assms(2) by (simp add: w1_def)
  have "slept w1 \<le> slept w + ?b * (if attempt > 0 then 2 ^ (attempt - 1) else 0)"
    using le_trans [OF assms(4) [of "retry_delay p attempt" w] add_left_mono [OF retry_delay_le [of p attempt]]]
    by (simp add: w1_def)
  moreover have "slept w2 \<le> slept w1" using assms(3) [of "an_client p" req w1] st by simp
  ultimately have sl: "slept w2 + ?b * delays_left (attempt + 1) \<le> slept w + ?b * delays_left attempt"
    unfolding delays_left_step [OF le] by (simp add: distrib_left)
  show ?case
  proof (cases "\<exists>e. fin = StreamRetry e")
    case True
    then obtain e where e: "fin = StreamRetry e" by blast
    obtain r2 evs2 w3 where rec: "stream_attempts C p mid req (attempt + 1)
        (Some (to_llm_error (ac_display C) e)) s2 w2 = (r2, evs2, w3)" using prod_cases3 by blast
    have "w' = w3" using eq st run e rec le by (simp add: Let_def)
    moreover have "k = Suc MAX_STREAM_RETRIES - (attempt + 1)" using Suc.hyps(2) by linarith
    ultimately have "opened w' \<le> opened w2 + (Suc MAX_STREAM_RETRIES - (attempt + 1)) \<and>
        slept w' \<le> slept w2 + ?b * delays_left (attempt + 1)"
      using Suc.hyps(1) [OF _ rec] le by simp
    with o sl le show ?thesis by linarith
  next
    case False
    with eq st run le have "w' = w2" by (cases fin) (auto simp: Let_def)
    with o sl le show ?thesis by simp
  qed
qed

text \<open>
  C23. A completion opens at most seven streams and waits at most 63 times its base delay between them,
  also when the delays wrap.
\<close>

theorem attempts_bounded:
  assumes "\<forall>cl req w. opened (snd (ac_stream C cl req w)) = Suc (opened w) \<and>
             slept (snd (ac_stream C cl req w)) = slept w"
    and "\<forall>d w. opened (ac_sleep C d w) = opened w \<and> slept (ac_sleep C d w) = slept w + unat d"
    and "anthropic_complete C p req mid w = (r, evs, w')"
  shows "opened w' \<le> opened w + 7 \<and> slept w' \<le> slept w + 63 * unat (an_retry_base_secs p)"
proof (cases "build_request C p req")
  case (Inl e)
  with assms(3) show ?thesis by (simp add: anthropic_complete_def)
next
  case (Inr ar)
  obtain r1 evs1 w1 where at: "stream_attempts C p mid ar 0 None stream_empty w = (r1, evs1, w1)"
    using prod_cases3 by blast
  with Inr assms(3) have "w' = w1" by (auto simp: anthropic_complete_def split: sum.splits prod.splits)
  with stream_attempts_bounded [where opened = opened and slept = slept, OF _ _ _ _ at] assms(1,2)
  show ?thesis by (simp add: MAX_STREAM_RETRIES_def delays_left_def mult.commute)
qed

definition busy_client :: "(unit, nat \<times> nat) api_client" where
  "busy_client =
     \<lparr>ac_check_message = (\<lambda>_. None), ac_check_request = (\<lambda>_. None),
      ac_stream = (\<lambda>_ _ (n, s). ([Inl (StreamError ''overloaded'')], (Suc n, s))),
      ac_display = (\<lambda>e. case e of StreamError m \<Rightarrow> m | _ \<Rightarrow> []),
      ac_sleep = (\<lambda>d (n, s). (n, s + unat d)), ac_from_str = (\<lambda>_. None)\<rparr>"

theorem attempts_bounded_witness:
  "snd (snd (anthropic_complete busy_client plain_provider plain_request ''m'' (0, 0))) = (7, 315) \<and>
   fst (7, 315 :: nat) \<le> (0 :: nat) + 7 \<and> (315 :: nat) \<le> 0 + 63 * unat (5 :: u64)"
proof -
  have e: "snd (snd (anthropic_complete busy_client plain_provider plain_request ''m'' (0, 0))) = (7, 315)"
    by code_simp
  obtain r evs w where c: "anthropic_complete busy_client plain_provider plain_request ''m'' (0, 0) = (r, evs, w)"
    using prod_cases3 by blast
  have h: "\<forall>cl req w. fst (snd (ac_stream busy_client cl req w)) = Suc (fst w) \<and>
      snd (snd (ac_stream busy_client cl req w)) = snd w"
    "\<forall>d w. fst (ac_sleep busy_client d w) = fst w \<and> snd (ac_sleep busy_client d w) = snd w + unat d"
    by (auto simp: busy_client_def)
  from attempts_bounded [OF h c] e c show ?thesis by (simp add: plain_provider_def)
qed

subsection \<open>The conversation sent back\<close>

text \<open>Reading a block of a request, without its cache mark, as a part.\<close>

fun part_of_api :: "api_content \<Rightarrow> content_part" where
  "part_of_api (ApiText t _) = TextPart t"
| "part_of_api (ApiToolUse i n v _) = ToolCallPart \<lparr>tc_id = i, tc_name = n, tc_input = v\<rparr>"
| "part_of_api (ApiToolResult i t e _) = ToolResultPart \<lparr>tr_call_id = i, tr_output = t, tr_is_error = e\<rparr>"
| "part_of_api (ApiThinking t sig _) = ThinkingPart t (if sig = [] then None else Some sig)"

fun cache_mark :: "api_content \<Rightarrow> bool" where
  "cache_mark (ApiText _ m) = m"
| "cache_mark (ApiToolUse _ _ _ m) = m"
| "cache_mark (ApiToolResult _ _ _ m) = m"
| "cache_mark (ApiThinking _ _ m) = m"

definition plain_part :: "content_part \<Rightarrow> bool" where
  "plain_part p \<longleftrightarrow> (\<forall>t. p \<noteq> ThinkingPart t (Some []))"

lemma part_roundtrip: "plain_part p \<Longrightarrow> part_of_api (part_to_api p) = p"
  by (cases p) (auto simp: plain_part_def split: option.splits)

lemma part_of_api_mark [simp]: "part_of_api (mark_content c) = part_of_api c"
  by (cases c) auto

lemma cache_mark_simps [simp]: "cache_mark (mark_content c)" "\<not> cache_mark (part_to_api p)"
  by (cases c; simp) (cases p; simp)

lemma map_map_last: "(\<And>x. g (f x) = g x) \<Longrightarrow> map g (map_last f xs) = map g xs"
  by (induction f xs rule: map_last.induct) auto

lemma map_last_append: "xs \<noteq> [] \<Longrightarrow> map_last f xs = butlast xs @ [f (last xs)]"
  by (induction f xs rule: map_last.induct) auto

definition decode_message :: "api_message \<Rightarrow> api_role \<times> content_part list" where
  "decode_message m = (am_role m, map part_of_api (am_content m))"

lemma build_request_messages:
  assumes "build_request C p req = Inr ar" and "\<forall>m\<in>set (cr_messages req). list_all plain_part (msg_parts m)"
  shows "map decode_message (ar_messages ar) = map (\<lambda>m. (to_api_role (msg_role m), msg_parts m)) (cr_messages req)"
proof -
  let ?api = "\<lambda>m. \<lparr>am_role = to_api_role (msg_role m), am_content = parts_to_api_content (msg_parts m)\<rparr>"
  obtain ms where ms: "collect_results (map (message_to_api C) (cr_messages req)) = Inr ms"
    and ar: "ar_messages ar = mark_last_message_cacheable ms"
    using assms(1) by (auto simp: build_request_def Let_def split: sum.splits option.splits)
  have "ms = map ?api (cr_messages req)"
    by (rule collect_results_map [OF ms]) (auto simp: message_to_api_def Let_def split: option.splits)
  moreover have "map decode_message (mark_last_message_cacheable ms) = map decode_message ms"
    unfolding mark_last_message_cacheable_def
    by (rule map_map_last) (simp add: decode_message_def map_map_last)
  moreover have "map (part_of_api \<circ> part_to_api) (msg_parts m) = msg_parts m" if "m \<in> set (cr_messages req)" for m
    using assms(2) that by (auto simp: list_all_iff part_roundtrip intro!: map_idI)
  ultimately show ?thesis
    by (simp add: ar decode_message_def parts_to_api_content_def)
qed

lemma response_plain: "list_all plain_part (cp_parts (assemble from_str s))"
  by (auto simp: assemble_def assemble_block_def list_all_iff plain_part_def split: option.splits if_splits)

text \<open>
  C36. What the model said is sent back to it as it said it. A response, put into the conversation of a
  later request as the assistant's message, arrives there with its parts in order, tool inputs and
  thinking signatures included; so does every other message, with the roles the API knows.
\<close>

theorem response_sent_back:
  assumes "anthropic_complete C p req mid w = (Inr resp, evs, w')"
    and "cr_messages req2 = ms @ \<lparr>msg_id = i, msg_role = Assistant, msg_parts = cp_parts resp\<rparr> # ms2"
    and "\<forall>m\<in>set (ms @ ms2). \<forall>t. ThinkingPart t (Some []) \<notin> set (msg_parts m)"
    and "build_request C p2 req2 = Inr ar"
  shows "map decode_message (ar_messages ar) =
           map (\<lambda>m. (to_api_role (msg_role m), msg_parts m)) ms @
           (ApiAssistant, cp_parts resp) # map (\<lambda>m. (to_api_role (msg_role m), msg_parts m)) ms2"
proof -
  obtain s where "resp = assemble (ac_from_str C) s"
    using assms(1) by (auto simp: anthropic_complete_def split: sum.splits prod.splits option.splits if_splits)
  then have "list_all plain_part (cp_parts resp)" using response_plain by simp
  moreover have "list_all plain_part (msg_parts m)" if "m \<in> set (ms @ ms2)" for m
    using assms(3) that by (auto simp: list_all_iff plain_part_def)
  ultimately have "\<forall>m\<in>set (cr_messages req2). list_all plain_part (msg_parts m)"
    using assms(2) by auto
  from build_request_messages [OF assms(4) this] assms(2) show ?thesis by simp
qed

theorem response_sent_back_witness:
  "\<exists>ar. build_request plain_client plain_provider
     (plain_request\<lparr>cr_messages := [message_user ''u'' ''hi''] @
        \<lparr>msg_id = ''a'', msg_role = Assistant,
         msg_parts = [ThinkingPart ''let me'' (Some ''sig''), TextPart ''hello'',
           ToolCallPart \<lparr>tc_id = ''t1'', tc_name = ''bash'', tc_input = JObject []\<rparr>]\<rparr> #
        [message_tool_result ''t1'' ''ok'' False]\<rparr>) = Inr ar \<and>
     map decode_message (ar_messages ar) =
       [(ApiUser, [TextPart ''hi'']),
        (ApiAssistant, [ThinkingPart ''let me'' (Some ''sig''), TextPart ''hello'',
           ToolCallPart \<lparr>tc_id = ''t1'', tc_name = ''bash'', tc_input = JObject []\<rparr>]),
        (ApiUser, [ToolResultPart \<lparr>tr_call_id = ''t1'', tr_output = ''ok'', tr_is_error = False\<rparr>])]"
proof -
  have "case anthropic_complete plain_client plain_provider plain_request ''m'' 2 of
      (r, evs, w) \<Rightarrow> (case r of Inl e \<Rightarrow> False | Inr resp \<Rightarrow>
        cp_parts resp = [ThinkingPart ''let me'' (Some ''sig''), TextPart ''hello'',
           ToolCallPart \<lparr>tc_id = ''t1'', tc_name = ''bash'', tc_input = JObject []\<rparr>])"
    by code_simp
  then obtain resp evs w where c: "anthropic_complete plain_client plain_provider plain_request ''m'' 2 = (Inr resp, evs, w)"
    and parts: "cp_parts resp = [ThinkingPart ''let me'' (Some ''sig''), TextPart ''hello'',
           ToolCallPart \<lparr>tc_id = ''t1'', tc_name = ''bash'', tc_input = JObject []\<rparr>]"
    by (auto split: sum.splits prod.splits)
  let ?req = "plain_request\<lparr>cr_messages := [message_user ''u'' ''hi''] @
      \<lparr>msg_id = ''a'', msg_role = Assistant, msg_parts = cp_parts resp\<rparr> # [message_tool_result ''t1'' ''ok'' False]\<rparr>"
  obtain ar where ar: "build_request plain_client plain_provider ?req = Inr ar"
    by (simp add: build_request_def plain_client_def message_to_api_def Let_def)
  have m: "cr_messages ?req = [message_user ''u'' ''hi''] @
      \<lparr>msg_id = ''a'', msg_role = Assistant, msg_parts = cp_parts resp\<rparr> # [message_tool_result ''t1'' ''ok'' False]"
    by simp
  have pl: "\<forall>m\<in>set ([message_user ''u'' ''hi''] @ [message_tool_result ''t1'' ''ok'' False]).
      \<forall>t. ThinkingPart t (Some []) \<notin> set (msg_parts m)" by simp
  from response_sent_back [OF c m pl ar] ar show ?thesis unfolding parts by (intro exI [of _ ar]) simp
qed

text \<open>A stream that ends early, without an error, is taken for the whole message; tool input cut short
  is an empty object.\<close>

lemma truncated_stream_completes:
  assumes "build_request C p req = Inr ar"
    and "ac_stream C (an_client p) ar w =
           ([Inr (BlockStart 0 (StartToolUse cid name)), Inr (BlockDelta 0 (InputJsonDelta part))], w')"
    and "ac_from_str C part = None"
  shows "fst (anthropic_complete C p req mid w) =
           Inr \<lparr>cp_parts = [ToolCallPart \<lparr>tc_id = cid, tc_name = name, tc_input = JObject []\<rparr>],
                cp_stop_reason = EndTurn, cp_usage = \<lparr>input_tokens = 0, output_tokens = 0\<rparr>\<rparr>"
  using assms
  by (simp add: anthropic_complete_def stream_attempts.simps [of C p mid ar 0] Let_def assemble_def
      assemble_block_def block_indices_def stream_empty_def MAX_STREAM_RETRIES_def)

text \<open>A successful attempt without blocks, after a retried one, reports the retried one's error.\<close>

lemma empty_after_retry_fails:
  assumes "build_request C p req = Inr ar"
    and "ac_stream C (an_client p) ar w = ([Inl e], w1)" and "is_retryable (ac_display C e)"
    and "ac_stream C (an_client p) ar (ac_sleep C (retry_delay p 1) w1) = ([Inr StreamStop], w2)"
  shows "anthropic_complete C p req mid w = (Inl (to_llm_error (ac_display C) e), [], w2)"
  using assms
  by (simp add: anthropic_complete_def stream_attempts.simps [of C p mid ar 0]
      stream_attempts.simps [of C p mid ar "Suc 0"] Let_def no_blocks_def stream_empty_def
      MAX_STREAM_RETRIES_def)

text \<open>A token limit of \<open>2 ^ 31\<close> or more is sent as a negative number.\<close>

lemma large_max_tokens_negative:
  assumes "build_request C (with_max_tokens (Some n) p) req = Inr ar" and "0x80000000 \<le> n"
  shows "sint (ar_max_tokens ar) < 0"
proof -
  have "ar_max_tokens ar = n"
    using assms(1) by (auto simp: build_request_def with_max_tokens_def Let_def split: sum.splits option.splits)
  with assms(2) large_u32_negative show ?thesis by simp
qed

end
