(* ===== verification/Sandbox.thy ===== *)
theory Sandbox
  imports Models Text
begin

text \<open>
  Capabilities, from the file a user writes to the sandbox a runtime enters: home-relative paths and
  the default spec (\<open>src/cli/src/capabilities.rs\<close>), \<open>CapabilitySpec::load\<close> (\<open>src/models/src/lib.rs\<close>), the
  translation into the crate \<open>nono\<close>'s capability set (\<open>src/runtime/src/sandbox.rs\<close>), and the start of the
  runtime's \<open>main\<close> (\<open>src/runtime/src/main.rs\<close>), built for Linux with the \<open>sandbox\<close> feature. \<open>nono\<close>, the
  file system, the environment and JSON are parameters.
\<close>

subsection \<open>Capability files\<close>

text \<open>\<open>expand_home\<close>, with \<open>$HOME\<close> injected.\<close>

definition expand_home :: "string \<Rightarrow> string option \<Rightarrow> string" where
  "expand_home path home =
     (case home of
        None \<Rightarrow> path
      | Some h0 \<Rightarrow>
          let h = trim_end_char (CHR ''/'') h0
          in if path = ''~'' then h
             else (case strip_prefix ''~/'' path of
                     Some rest \<Rightarrow> h @ ''/'' @ rest
                   | None \<Rightarrow> replace_all ''$HOME'' h (replace_all ''${HOME}'' h path)))"

fun resolve_grant :: "string option \<Rightarrow> grant \<Rightarrow> grant" where
  "resolve_grant home (DirGrant p a) = DirGrant (expand_home p home) a"
| "resolve_grant home (FileGrant p a) = FileGrant (expand_home p home) a"
| "resolve_grant home (WorkingDirGrant a) = WorkingDirGrant a"

definition resolve_user_paths_with :: "capability_spec \<Rightarrow> string option \<Rightarrow> capability_spec" where
  "resolve_user_paths_with spec home =
     \<lparr>cs_network = cs_network spec, cs_grants = map (resolve_grant home) (cs_grants spec)\<rparr>"

definition resolve_user_paths :: "(string \<Rightarrow> string option) \<Rightarrow> capability_spec \<Rightarrow> capability_spec" where
  "resolve_user_paths env spec = resolve_user_paths_with spec (env ''HOME'')"

text \<open>\<open>CapabilitySpec::load\<close>.\<close>

definition load_capabilities ::
  "(string \<Rightarrow> (string, string) result) \<Rightarrow> (string \<Rightarrow> (string, capability_spec) result) \<Rightarrow> string
     \<Rightarrow> (string, capability_spec) result" where
  "load_capabilities read_file parse path =
     (case read_file path of
        Inl e \<Rightarrow> Inl (''read capability file '' @ path @ '': '' @ e)
      | Inr text \<Rightarrow>
          (case parse text of
             Inl e \<Rightarrow> Inl (''parse capability file '' @ path @ '': '' @ e)
           | Inr spec \<Rightarrow> Inr spec))"

subsection \<open>The capability set\<close>

datatype nono_mode = ModeRead | ModeReadWrite

fun access_mode :: "access \<Rightarrow> nono_mode" where
  "access_mode Read = ModeRead"
| "access_mode ReadWrite = ModeReadWrite"

text \<open>
  The crate: \<open>nn_unsupported\<close> is the platform and the reason when there is no sandbox; a grant may fail;
  \<open>nn_apply\<close> confines the process for good.
\<close>

record ('c, 'w) nono =
  nn_unsupported :: "(string \<times> string) option"
  nn_new :: 'c
  nn_allow_path :: "string \<Rightarrow> nono_mode \<Rightarrow> 'c \<Rightarrow> (string, 'c) result"
  nn_allow_file :: "string \<Rightarrow> nono_mode \<Rightarrow> 'c \<Rightarrow> (string, 'c) result"
  nn_allow_unix_socket :: "string \<Rightarrow> 'c \<Rightarrow> (string, 'c) result"
  nn_block_network :: "'c \<Rightarrow> 'c"
  nn_set_debug_deny :: "bool \<Rightarrow> 'c \<Rightarrow> 'c"
  nn_apply :: "'c \<Rightarrow> 'w \<Rightarrow> (string, unit) result \<times> 'w"

text \<open>What the runtime's process sees of its host.\<close>

record host =
  ho_is_dir :: "string \<Rightarrow> bool"
  ho_exists :: "string \<Rightarrow> bool"
  ho_read :: "string \<Rightarrow> (string, string) result"
  ho_env :: "string \<Rightarrow> string option"
  ho_parse_caps :: "string \<Rightarrow> (string, capability_spec) result"

definition add_grant :: "('c, 'w) nono \<Rightarrow> host \<Rightarrow> string \<Rightarrow> grant \<Rightarrow> 'c \<Rightarrow> (string, 'c) result" where
  "add_grant N H working_dir g caps =
     (case g of
        DirGrant p a \<Rightarrow> if ho_is_dir H p then nn_allow_path N p (access_mode a) caps else Inr caps
      | FileGrant p a \<Rightarrow> if ho_exists H p then nn_allow_file N p (access_mode a) caps else Inr caps
      | WorkingDirGrant a \<Rightarrow> nn_allow_path N working_dir (access_mode a) caps)"

fun add_grants :: "('c, 'w) nono \<Rightarrow> host \<Rightarrow> string \<Rightarrow> grant list \<Rightarrow> 'c \<Rightarrow> (string, 'c) result" where
  "add_grants N H wd [] caps = Inr caps"
| "add_grants N H wd (g # gs) caps =
     (case add_grant N H wd g caps of Inl e \<Rightarrow> Inl e | Inr caps1 \<Rightarrow> add_grants N H wd gs caps1)"

definition sandbox_caps ::
  "('c, 'w) nono \<Rightarrow> host \<Rightarrow> string \<Rightarrow> string option \<Rightarrow> capability_spec \<Rightarrow> (string, 'c) result" where
  "sandbox_caps N H working_dir socket spec =
     (case add_grants N H working_dir (cs_grants spec) (nn_new N) of
        Inl e \<Rightarrow> Inl e
      | Inr caps \<Rightarrow>
          (case (case socket of None \<Rightarrow> Inr caps | Some s \<Rightarrow> nn_allow_unix_socket N s caps) of
             Inl e \<Rightarrow> Inl e
           | Inr caps1 \<Rightarrow>
               let caps2 = (case cs_network spec of Block \<Rightarrow> nn_block_network N caps1 | Allow \<Rightarrow> caps1)
               in Inr (if ho_env H ''OCTOBER_SANDBOX_DEBUG_DENY'' \<noteq> None
                       then nn_set_debug_deny N True caps2 else caps2)))"

definition sandbox_apply ::
  "('c, 'w) nono \<Rightarrow> host \<Rightarrow> string \<Rightarrow> string option \<Rightarrow> string \<Rightarrow> 'w \<Rightarrow> (string, unit) result \<times> 'w" where
  "sandbox_apply N H working_dir socket caps_file w =
     (case nn_unsupported N of
        Some (platform, details) \<Rightarrow> (Inl (''nono sandbox unsupported on '' @ platform @ '': '' @ details), w)
      | None \<Rightarrow>
          (case load_capabilities (ho_read H) (ho_parse_caps H) caps_file of
             Inl e \<Rightarrow> (Inl e, w)
           | Inr spec \<Rightarrow>
               (case sandbox_caps N H working_dir socket spec of
                  Inl e \<Rightarrow> (Inl e, w)
                | Inr caps \<Rightarrow> nn_apply N caps w)))"

subsection \<open>The runtime's start\<close>

record runtime_cli =
  rc_endpoint :: string
  rc_runtime_id :: string
  rc_working_dir :: string
  rc_sandbox_caps :: "string option"

datatype endpoint = Ws string | Unix string

definition parse_endpoint :: "string \<Rightarrow> (string, endpoint) result" where
  "parse_endpoint s =
     (case strip_prefix ''unix:'' s of
        Some rest \<Rightarrow> Inr (Unix rest)
      | None \<Rightarrow>
          if starts_with ''ws://'' s \<or> starts_with ''wss://'' s then Inr (Ws s)
          else Inl (''unsupported endpoint scheme: '' @ s))"

text \<open>How far \<open>main\<close> comes: an exit with a code, or the connection to the endpoint and the loop.\<close>

datatype runtime_start = RuntimeExit nat | RuntimeConnect endpoint string string

definition runtime_main ::
  "('c, 'w) nono \<Rightarrow> host \<Rightarrow> runtime_cli \<Rightarrow> 'w \<Rightarrow> runtime_start \<times> 'w" where
  "runtime_main N H cli w =
     (case parse_endpoint (rc_endpoint cli) of
        Inl e \<Rightarrow> (RuntimeExit 2, w)
      | Inr ep \<Rightarrow>
          let go = RuntimeConnect ep (rc_working_dir cli) (rc_runtime_id cli)
          in case rc_sandbox_caps cli of
               None \<Rightarrow> (go, w)
             | Some caps_file \<Rightarrow>
                 let socket = (case ep of Unix p \<Rightarrow> Some p | Ws _ \<Rightarrow> None)
                 in case sandbox_apply N H (rc_working_dir cli) socket caps_file w of
                      (Inl e, w1) \<Rightarrow> (RuntimeExit 3, w1)
                    | (Inr _, w1) \<Rightarrow> (go, w1))"

text \<open>The connection: of the socket, for a unix endpoint, and then the WebSocket handshake; None when the loop
  starts, else the exit code.\<close>

definition runtime_connect :: "endpoint \<Rightarrow> (string, unit) result \<Rightarrow> (string, unit) result \<Rightarrow> nat option" where
  "runtime_connect ep socket handshake =
     (case ep of
        Ws url \<Rightarrow> (case handshake of Inr _ \<Rightarrow> None | Inl _ \<Rightarrow> Some 1)
      | Unix path \<Rightarrow>
          (case socket of
             Inr _ \<Rightarrow> (case handshake of Inr _ \<Rightarrow> None | Inl _ \<Rightarrow> Some 1)
           | Inl _ \<Rightarrow> Some 1))"

subsection \<open>What is granted\<close>

text \<open>
  What the code relies on in \<open>nono\<close>: a set grants nothing at first, each operation adds its own rule and
  no other, and \<open>nn_apply\<close> confines the process to the set it is given, or fails and leaves it as it was.
\<close>

datatype rule =
    PathRule string nono_mode
  | FileRule string nono_mode
  | SocketRule string

text \<open>The rule a grant stands for on a host.\<close>

definition grant_rule :: "host \<Rightarrow> string \<Rightarrow> grant \<Rightarrow> rule set" where
  "grant_rule H wd g =
     (case g of
        DirGrant p a \<Rightarrow> if ho_is_dir H p then {PathRule p (access_mode a)} else {}
      | FileGrant p a \<Rightarrow> if ho_exists H p then {FileRule p (access_mode a)} else {}
      | WorkingDirGrant a \<Rightarrow> {PathRule wd (access_mode a)})"

definition nono_laws ::
  "('c, 'w) nono \<Rightarrow> ('c \<Rightarrow> rule set) \<Rightarrow> ('c \<Rightarrow> bool) \<Rightarrow> ('w \<Rightarrow> 'c option) \<Rightarrow> bool" where
  "nono_laws N rules blocked confined \<longleftrightarrow>
     rules (nn_new N) = {} \<and> \<not> blocked (nn_new N) \<and>
     (\<forall>p m c c'. nn_allow_path N p m c = Inr c' \<longrightarrow>
        rules c' = insert (PathRule p m) (rules c) \<and> blocked c' = blocked c) \<and>
     (\<forall>p m c c'. nn_allow_file N p m c = Inr c' \<longrightarrow>
        rules c' = insert (FileRule p m) (rules c) \<and> blocked c' = blocked c) \<and>
     (\<forall>p c c'. nn_allow_unix_socket N p c = Inr c' \<longrightarrow>
        rules c' = insert (SocketRule p) (rules c) \<and> blocked c' = blocked c) \<and>
     (\<forall>c. rules (nn_block_network N c) = rules c \<and> blocked (nn_block_network N c)) \<and>
     (\<forall>b c. rules (nn_set_debug_deny N b c) = rules c \<and> blocked (nn_set_debug_deny N b c) = blocked c) \<and>
     (\<forall>c w w'. nn_apply N c w = (Inr (), w') \<longrightarrow> confined w' = Some c)"

text \<open>The rules a working directory, a socket and a spec stand for on a host.\<close>

definition spec_rules :: "host \<Rightarrow> string \<Rightarrow> string option \<Rightarrow> capability_spec \<Rightarrow> rule set" where
  "spec_rules H wd socket spec =
     (\<Union>g\<in>set (cs_grants spec). grant_rule H wd g) \<union>
     (case socket of None \<Rightarrow> {} | Some s \<Rightarrow> {SocketRule s})"

lemma nono_lawsD:
  assumes "nono_laws N rules blocked confined"
  shows "rules (nn_new N) = {}" "\<not> blocked (nn_new N)"
    and "nn_allow_path N p m c = Inr c' \<Longrightarrow>
          rules c' = insert (PathRule p m) (rules c) \<and> blocked c' = blocked c"
    and "nn_allow_file N p m c = Inr c' \<Longrightarrow>
          rules c' = insert (FileRule p m) (rules c) \<and> blocked c' = blocked c"
    and "nn_allow_unix_socket N p c = Inr c' \<Longrightarrow>
          rules c' = insert (SocketRule p) (rules c) \<and> blocked c' = blocked c"
    and "rules (nn_block_network N c) = rules c" "blocked (nn_block_network N c)"
    and "rules (nn_set_debug_deny N b c) = rules c" "blocked (nn_set_debug_deny N b c) = blocked c"
    and "nn_apply N c w = (Inr (), w') \<Longrightarrow> confined w' = Some c"
  using assms by (simp_all add: nono_laws_def)

lemma add_grant_rules:
  assumes "nono_laws N rules blocked confined" and "add_grant N H wd g c = Inr c'"
  shows "rules c' = grant_rule H wd g \<union> rules c \<and> blocked c' = blocked c"
  using assms(2) nono_lawsD(3,4) [OF assms(1)]
  by (auto simp: add_grant_def grant_rule_def split: grant.splits if_splits)

lemma add_grants_rules:
  assumes "nono_laws N rules blocked confined"
  shows "add_grants N H wd gs c = Inr c' \<Longrightarrow>
     rules c' = (\<Union>g\<in>set gs. grant_rule H wd g) \<union> rules c \<and> blocked c' = blocked c"
proof (induction gs arbitrary: c)
  case (Cons g gs)
  then obtain c1 where c1: "add_grant N H wd g c = Inr c1" "add_grants N H wd gs c1 = Inr c'"
    by (auto split: sum.splits)
  from Cons.IH [OF c1(2)] add_grant_rules [OF assms c1(1)] show ?case by auto
qed simp

lemma sandbox_caps_rules:
  assumes N: "nono_laws N rules blocked confined" and "sandbox_caps N H wd socket spec = Inr c"
  shows "rules c = spec_rules H wd socket spec" and "blocked c \<longleftrightarrow> cs_network spec = Block"
proof -
  obtain c1 c2 where c: "add_grants N H wd (cs_grants spec) (nn_new N) = Inr c1"
      "(case socket of None \<Rightarrow> Inr c1 | Some s \<Rightarrow> nn_allow_unix_socket N s c1) = Inr c2"
    and eq: "c = (let c3 = (case cs_network spec of Block \<Rightarrow> nn_block_network N c2 | Allow \<Rightarrow> c2)
        in if ho_env H ''OCTOBER_SANDBOX_DEBUG_DENY'' \<noteq> None then nn_set_debug_deny N True c3 else c3)"
    using assms(2) by (auto simp: sandbox_caps_def Let_def split: sum.splits)
  note laws = nono_lawsD [OF N]
  have r2: "rules c2 = (case socket of None \<Rightarrow> {} | Some s \<Rightarrow> {SocketRule s}) \<union> rules c1 \<and> blocked c2 = blocked c1"
    using c(2) by (cases socket) (auto dest: laws(5))
  note r1 = add_grants_rules [OF N c(1)]
  show "rules c = spec_rules H wd socket spec"
    using r1 r2 laws(1) by (auto simp: spec_rules_def eq Let_def laws(6,8) split: network_policy.splits)
  show "blocked c \<longleftrightarrow> cs_network spec = Block"
    using r1 r2 laws(2) by (auto simp: eq Let_def laws(7,9) split: network_policy.splits)
qed

lemma sandbox_apply_confines:
  assumes N: "nono_laws N rules blocked confined"
    and "sandbox_apply N H wd socket caps_file w = (Inr u, w')"
  obtains spec c where "load_capabilities (ho_read H) (ho_parse_caps H) caps_file = Inr spec"
    and "confined w' = Some c" and "rules c = spec_rules H wd socket spec"
    and "blocked c \<longleftrightarrow> cs_network spec = Block"
proof -
  obtain spec c where c: "load_capabilities (ho_read H) (ho_parse_caps H) caps_file = Inr spec"
      "sandbox_caps N H wd socket spec = Inr c" "nn_apply N c w = (Inr (), w')"
    using assms(2) by (auto simp: sandbox_apply_def split: option.splits sum.splits prod.splits)
  from that [OF c(1) nono_lawsD(10) [OF N c(3)] sandbox_caps_rules [OF N c(2)]] show thesis .
qed

text \<open>A runtime asked to be confined connects only once it is.\<close>

lemma runtime_main_confined:
  assumes N: "nono_laws N rules blocked confined"
    and run: "runtime_main N H cli w = (RuntimeConnect ep wd i, w')" and caps: "rc_sandbox_caps cli = Some f"
  obtains spec c where "load_capabilities (ho_read H) (ho_parse_caps H) f = Inr spec"
    and "confined w' = Some c"
    and "rules c = spec_rules H wd (case ep of Unix p \<Rightarrow> Some p | Ws _ \<Rightarrow> None) spec"
    and "blocked c \<longleftrightarrow> cs_network spec = Block"
    and "parse_endpoint (rc_endpoint cli) = Inr ep" "wd = rc_working_dir cli" "i = rc_runtime_id cli"
proof -
  from run caps obtain u where p: "parse_endpoint (rc_endpoint cli) = Inr ep" "wd = rc_working_dir cli"
      "i = rc_runtime_id cli"
    and a: "sandbox_apply N H wd (case ep of Unix p \<Rightarrow> Some p | Ws _ \<Rightarrow> None) f w = (Inr u, w')"
    by (auto simp: runtime_main_def Let_def split: sum.splits prod.splits)
  show thesis by (rule sandbox_apply_confines [OF N a]) (rule that, assumption+, (rule p)+)
qed

end
