(* ===== verification/Process_Runtime.thy ===== *)
theory Process_Runtime
  imports Sandbox Executor Job_Actor
begin

text \<open>
  Runtimes as child processes: the scrubbed environment (\<open>src/executor/src/env_scrub.rs\<close>), the provider
  that spawns \<open>october-runtime\<close> (\<open>process_provider.rs\<close>), the listener it connects back to
  (\<open>runtime_listener.rs\<close>), and \<open>ProcessJobRuntime::launch\<close> (\<open>src/supervisor/src/job_actor.rs\<close>), which puts
  them together for a job. The operating system is a record of operations over a world.
\<close>

subsection \<open>The environment of a child\<close>

definition SANDBOX_ENV_ALLOWLIST :: "string list" where
  "SANDBOX_ENV_ALLOWLIST = [''PATH'', ''HOME'', ''TMPDIR'', ''LANG'', ''LC_ALL'', ''LC_CTYPE'', ''TERM'']"

definition scrubbed_env :: "(string \<Rightarrow> string option) \<Rightarrow> (string \<times> string) list" where
  "scrubbed_env env = List.map_filter (\<lambda>k. map_option (\<lambda>v. (k, v)) (env k)) SANDBOX_ENV_ALLOWLIST"

text \<open>A command line; \<open>pc_env\<close> is the environment after \<open>env_clear\<close>, unset when the child inherits.\<close>

record process_command =
  pc_program :: string
  pc_args :: "string list"
  pc_env :: "(string \<times> string) list option"

definition child_env :: "(string \<Rightarrow> string option) \<Rightarrow> process_command \<Rightarrow> string \<Rightarrow> string option" where
  "child_env env cmd k = (case pc_env cmd of None \<Rightarrow> env k | Some kvs \<Rightarrow> map_of kvs k)"

subsection \<open>The world of processes\<close>

text \<open>
  Children are numbered as they are spawned. \<open>pw_held\<close> are those whose handle still has them, \<open>pw_serving\<close>
  the sockets whose accept loop runs, \<open>pw_files\<close> what the daemon has written.
\<close>

record 't proc_world =
  pw_connected :: "'t connected"
  pw_waiters :: nat
  pw_children :: "process_command list"
  pw_alive :: "nat set"
  pw_held :: "nat set"
  pw_serving :: "string set"
  pw_files :: "string \<rightharpoonup> string"

datatype ready_wait = Ready | TimedOut | ChannelDropped

text \<open>
  \<open>po_wait\<close> is what happens while \<open>create\<close> waits for its runtime: connections come and go, children
  may die. The other operations say why they fail, if they do.
\<close>

record 't proc_ops =
  po_env :: "string \<Rightarrow> string option"
  po_spawn :: "process_command \<Rightarrow> 't proc_world \<Rightarrow> string option"
  po_wait :: "nat \<Rightarrow> 't proc_world \<Rightarrow> ready_wait \<times> 't proc_world"
  po_create_dir_all :: "string \<Rightarrow> 't proc_world \<Rightarrow> string option"
  po_set_mode :: "string \<Rightarrow> nat \<Rightarrow> 't proc_world \<Rightarrow> string option"
  po_bind_unix :: "string \<Rightarrow> 't proc_world \<Rightarrow> string option"
  po_bind_tcp :: "string \<Rightarrow> 't proc_world \<Rightarrow> string option"
  po_write :: "string \<Rightarrow> 't proc_world \<Rightarrow> string option"
  po_ser_caps :: "capability_spec \<Rightarrow> (string, string) result"
  po_temp_dir :: string
  po_token :: "nat \<Rightarrow> string"
  po_tell :: "workflow_command \<Rightarrow> 't proc_world \<Rightarrow> string option"

subsection \<open>The listener\<close>

datatype runtime_endpoint = EpTcp string | EpUnix string

definition endpoint_arg :: "runtime_endpoint \<Rightarrow> string" where
  "endpoint_arg ep = (case ep of EpTcp addr \<Rightarrow> ''ws://'' @ addr | EpUnix path \<Rightarrow> ''unix:'' @ path)"

text \<open>The socket's directory is made private before the socket exists in it.\<close>

definition listener_bind ::
  "'t proc_ops \<Rightarrow> runtime_endpoint \<Rightarrow> 't proc_world \<Rightarrow> (string, unit) result \<times> 't proc_world" where
  "listener_bind OS ep w =
     (case ep of
        EpTcp addr \<Rightarrow> (case po_bind_tcp OS addr w of Some e \<Rightarrow> (Inl (''bind failed: '' @ e), w) | None \<Rightarrow> (Inr (), w))
      | EpUnix path \<Rightarrow>
          (case (case path_parent path of
                   None \<Rightarrow> None
                 | Some dir \<Rightarrow>
                     (case po_create_dir_all OS dir w of Some e \<Rightarrow> Some e | None \<Rightarrow> po_set_mode OS dir 448 w)) of
             Some e \<Rightarrow> (Inl (''bind failed: '' @ e), w)
           | None \<Rightarrow>
               let w1 = w\<lparr>pw_files := (pw_files w)(path := None)\<rparr>
               in case po_bind_unix OS path w1 of
                    Some e \<Rightarrow> (Inl (''bind failed: '' @ e), w1)
                  | None \<Rightarrow> (Inr (), w1)))"

text \<open>\<open>serve_runtime_connections\<close> until its token is cancelled, when the listener is dropped.\<close>

definition serve_connections :: "runtime_endpoint \<Rightarrow> 't proc_world \<Rightarrow> 't proc_world" where
  "serve_connections ep w = w\<lparr>pw_serving := insert (endpoint_arg ep) (pw_serving w)\<rparr>"

definition cancel_serving :: "runtime_endpoint \<Rightarrow> 't proc_world \<Rightarrow> 't proc_world" where
  "cancel_serving ep w = w\<lparr>pw_serving := pw_serving w - {endpoint_arg ep}\<rparr>"

text \<open>\<open>accept\<close> is a connection and the WebSocket handshake on it; the loop handles the connections it gets
  until one of the two fails, or the token is cancelled.\<close>

datatype 'c accept_outcome = TcpAccepted 'c | UnixAccepted 'c | AcceptFailed string | HandshakeFailed string

fun listener_accept :: "'c accept_outcome \<Rightarrow> (string, 'c) result" where
  "listener_accept (TcpAccepted ws) = Inr ws"
| "listener_accept (UnixAccepted ws) = Inr ws"
| "listener_accept (AcceptFailed e) = Inl (''connection failed: '' @ e)"
| "listener_accept (HandshakeFailed e) = Inl (''connection failed: '' @ e)"

text \<open>The connections handled, and whether the loop still runs; None is the token seen cancelled.\<close>

fun accept_loop :: "'c accept_outcome option list \<Rightarrow> 'c list \<times> bool" where
  "accept_loop [] = ([], True)"
| "accept_loop (None # evs) = ([], False)"
| "accept_loop (Some a # evs) =
     (case listener_accept a of
        Inl _ \<Rightarrow> ([], False)
      | Inr ws \<Rightarrow> (case accept_loop evs of (conns, running) \<Rightarrow> (ws # conns, running)))"

subsection \<open>The provider\<close>

record process_provider =
  pp_binary :: string
  pp_endpoint :: runtime_endpoint
  pp_sandbox :: "string option"

definition process_provider_new :: "string \<Rightarrow> runtime_endpoint \<Rightarrow> process_provider" where
  "process_provider_new bin ep = \<lparr>pp_binary = bin, pp_endpoint = ep, pp_sandbox = None\<rparr>"

definition with_sandbox :: "string \<Rightarrow> process_provider \<Rightarrow> process_provider" where
  "with_sandbox caps_file P = P\<lparr>pp_sandbox := Some caps_file\<rparr>"

record process_handle =
  ph_child :: nat
  ph_runtime_id :: string

definition runtime_command ::
  "process_provider \<Rightarrow> (string \<Rightarrow> string option) \<Rightarrow> string \<Rightarrow> string \<Rightarrow> process_command" where
  "runtime_command P env i working_dir =
     \<lparr>pc_program = pp_binary P,
      pc_args =
        [''--endpoint'', endpoint_arg (pp_endpoint P), ''--runtime-id'', i, ''--working-dir'', working_dir] @
        (case pp_sandbox P of None \<Rightarrow> [] | Some f \<Rightarrow> [''--sandbox-caps'', f]),
      pc_env = map_option (\<lambda>_. scrubbed_env env) (pp_sandbox P)\<rparr>"

definition kill_child :: "nat \<Rightarrow> 't proc_world \<Rightarrow> 't proc_world" where
  "kill_child n w = w\<lparr>pw_alive := pw_alive w - {n}\<rparr>"

text \<open>A child that is dropped before its handle exists is killed (\<open>kill_on_drop\<close>).\<close>

definition process_create ::
  "'t proc_ops \<Rightarrow> process_provider \<Rightarrow> string \<Rightarrow> string \<Rightarrow> 't proc_world
     \<Rightarrow> (runtime_error, process_handle) result \<times> 't proc_world" where
  "process_create OS P i working_dir w =
     (let waiter = pw_waiters w;
          w1 = w\<lparr>pw_connected := notify_when_ready (pw_connected w) i waiter, pw_waiters := waiter + 1\<rparr>;
          cmd = runtime_command P (po_env OS) i working_dir
      in case po_spawn OS cmd w1 of
           Some e \<Rightarrow> (Inl (ProviderError e), w1)
         | None \<Rightarrow>
             let n = length (pw_children w1);
                 w2 = w1\<lparr>pw_children := pw_children w1 @ [cmd], pw_alive := insert n (pw_alive w1)\<rparr>
             in case po_wait OS waiter w2 of
                  (TimedOut, w3) \<Rightarrow> (Inl (ProviderError ''runtime connection timed out''), kill_child n w3)
                | (ChannelDropped, w3) \<Rightarrow> (Inl (ProviderError ''connection channel dropped''), kill_child n w3)
                | (Ready, w3) \<Rightarrow>
                    (Inr \<lparr>ph_child = n, ph_runtime_id = i\<rparr>, w3\<lparr>pw_held := insert n (pw_held w3)\<rparr>))"

definition process_stop :: "process_handle \<Rightarrow> 't proc_world \<Rightarrow> 't proc_world" where
  "process_stop h w =
     (let w1 = (if ph_child h \<in> pw_held w
                then (kill_child (ph_child h) w)\<lparr>pw_held := pw_held w - {ph_child h}\<rparr> else w)
      in w1\<lparr>pw_connected := remove_transport (pw_connected w1) (ph_runtime_id h)\<rparr>)"

definition process_healthy :: "process_handle \<Rightarrow> 't proc_world \<Rightarrow> bool \<times> 't proc_world" where
  "process_healthy h w = (runtime_transport (pw_connected w) (ph_runtime_id h) \<noteq> None, w)"

definition process_runtime_provider ::
  "'t proc_ops \<Rightarrow> process_provider \<Rightarrow> (process_handle, 't proc_world) runtime_provider" where
  "process_runtime_provider OS P =
     \<lparr>rp_create = process_create OS P, rp_stop = process_stop, rp_healthy = process_healthy\<rparr>"

subsection \<open>Launching a job\<close>

definition socket_path :: "string \<Rightarrow> string \<Rightarrow> (string, string) result" where
  "socket_path temp_dir token =
     (let path = join_path (join_path temp_dir (''october-'' @ take 12 token)) ''rt.sock''
      in if length path > 107
         then Inl (''unix socket path too long ('' @ show_nat (length path) @ '' bytes, max 107): '' @ path)
         else Inr path)"

definition im_runtime_transport :: "'t connected \<Rightarrow> string \<Rightarrow> (client_error, 't) result" where
  "im_runtime_transport c i =
     (case runtime_transport c i of
        None \<Rightarrow> Inl (ClientCommandFailed (''runtime '' @ quoted i @ '' not connected''))
      | Some t \<Rightarrow> Inr t)"

text \<open>What a launch hands to the job: the executor's registry, the runtime's transport, the first
  command its workflow was sent, and what the teardown needs.\<close>

record 't launched =
  la_registry :: "process_handle registry"
  la_transport :: 't
  la_first :: "workflow_command option"
  la_endpoint :: runtime_endpoint
  la_runtime_id :: string

text \<open>A launch that fails drops its client, and with it the handle, which kills the child.\<close>

definition drop_client :: "string \<Rightarrow> (process_handle, 't proc_world) exec \<Rightarrow> 't proc_world" where
  "drop_client i x =
     (let w = xe_world x
      in case Option.bind (xe_registry x i) re_handle of
           None \<Rightarrow> w
         | Some h \<Rightarrow> if ph_child h \<in> pw_held w
                     then (kill_child (ph_child h) w)\<lparr>pw_held := pw_held w - {ph_child h}\<rparr> else w)"

definition job_dir :: "string \<Rightarrow> string \<Rightarrow> string" where
  "job_dir state_dir job_id = join_path (join_path state_dir ''jobs'') job_id"

definition job_caps_path :: "string \<Rightarrow> string \<Rightarrow> string" where
  "job_caps_path state_dir job_id = join_path (job_dir state_dir job_id) ''capabilities.json''"

text \<open>The first half of \<open>launch\<close>: the socket its runtime will connect to, listening, and the job's capabilities
  in a file.\<close>

definition launch_prepare ::
  "'t proc_ops \<Rightarrow> string \<Rightarrow> nat \<Rightarrow> string \<Rightarrow> job_spec \<Rightarrow> 't proc_world
     \<Rightarrow> (string, string \<times> string) result \<times> 't proc_world" where
  "launch_prepare OS state_dir n job_id spec w0 =
     (let w = w0\<lparr>pw_connected := \<lparr>cn_transports = Map.empty, cn_pending = Map.empty\<rparr>\<rparr>
      in case socket_path (po_temp_dir OS) (po_token OS n) of
           Inl e \<Rightarrow> (Inl e, w)
         | Inr sock \<Rightarrow>
             (case listener_bind OS (EpUnix sock) w of
                (Inl e, w1) \<Rightarrow> (Inl e, w1)
              | (Inr _, w1) \<Rightarrow>
                  let w2 = serve_connections (EpUnix sock) w1;
                      jdir = job_dir state_dir job_id;
                      caps_path = job_caps_path state_dir job_id
                  in case po_create_dir_all OS jdir w2 of
                       Some e \<Rightarrow> (Inl e, w2)
                     | None \<Rightarrow>
                         (case po_ser_caps OS (jp_capabilities spec) of
                            Inl e \<Rightarrow> (Inl e, w2)
                          | Inr txt \<Rightarrow>
                              (case po_write OS caps_path w2 of
                                 Some e \<Rightarrow> (Inl e, w2)
                               | None \<Rightarrow>
                                   (Inr (sock, caps_path), w2\<lparr>pw_files := (pw_files w2)(caps_path \<mapsto> txt)\<rparr>)))))"

definition launch_provider :: "string \<Rightarrow> string \<Rightarrow> string \<Rightarrow> process_provider" where
  "launch_provider runtime_bin sock caps_path = with_sandbox caps_path (process_provider_new runtime_bin (EpUnix sock))"

definition process_launch ::
  "'t proc_ops \<Rightarrow> string \<Rightarrow> string \<Rightarrow> nat \<Rightarrow> string \<Rightarrow> job_spec \<Rightarrow> kickoff \<Rightarrow> 't proc_world
     \<Rightarrow> (string, 't launched) result \<times> 't proc_world" where
  "process_launch OS runtime_bin state_dir n job_id spec kick w0 =
     (case launch_prepare OS state_dir n job_id spec w0 of
        (Inl e, w1) \<Rightarrow> (Inl e, w1)
      | (Inr (sock, caps_path), w1) \<Rightarrow>
          (case client_create_runtime (process_runtime_provider OS (launch_provider runtime_bin sock caps_path))
                  job_id (jp_workdir spec) \<lparr>xe_registry = Map.empty, xe_world = w1, xe_sent = []\<rparr> of
             (Inl e, x) \<Rightarrow> (Inl (client_error_display e), xe_world x)
           | (Inr _, x) \<Rightarrow>
               (case im_runtime_transport (pw_connected (xe_world x)) job_id of
                  Inl e \<Rightarrow> (Inl (client_error_display e), drop_client job_id x)
                | Inr t \<Rightarrow>
                    let first = kickoff_command kick (jp_input spec)
                    in case (case first of None \<Rightarrow> None | Some c \<Rightarrow> po_tell OS c (xe_world x)) of
                         Some e \<Rightarrow> (Inl e, drop_client job_id x)
                       | None \<Rightarrow>
                           (Inr \<lparr>la_registry = xe_registry x, la_transport = t, la_first = first,
                                 la_endpoint = EpUnix sock, la_runtime_id = job_id\<rparr>, xe_world x))))"

definition process_shutdown ::
  "'t proc_ops \<Rightarrow> process_provider \<Rightarrow> 't launched \<Rightarrow> 't proc_world \<Rightarrow> 't proc_world" where
  "process_shutdown OS P l w =
     cancel_serving (la_endpoint l)
       (xe_world (snd (client_destroy_runtime (process_runtime_provider OS P) (la_runtime_id l)
          \<lparr>xe_registry = la_registry l, xe_world = w, xe_sent = []\<rparr>)))"

end
