(* ===== verification/Confinement.thy ===== *)
theory Confinement
  imports Process_Runtime
begin

text \<open>
  What a launched job may do: its runtime is a child with a scrubbed environment that is confined to the
  job's capabilities before it connects, and that dies with the job.
\<close>

subsection \<open>The child's command line\<close>

lemma parse_endpoint_arg:
  "parse_endpoint (endpoint_arg (EpUnix p)) = Inr (Unix p)"
  "parse_endpoint (endpoint_arg (EpTcp a)) = Inr (Ws (''ws://'' @ a))"
  by (simp_all add: parse_endpoint_def endpoint_arg_def)

lemma in_map_filter: "y \<in> set (List.map_filter f xs) \<longleftrightarrow> (\<exists>x\<in>set xs. f x = Some y)"
  by (induction xs) (auto split: option.splits)

lemma scrubbed_env_keys: "(k, v) \<in> set (scrubbed_env env) \<longleftrightarrow> k \<in> set SANDBOX_ENV_ALLOWLIST \<and> env k = Some v"
  by (auto simp: scrubbed_env_def in_map_filter)

lemma scrubbed_env_lookup:
  "map_of (scrubbed_env env) k = (if k \<in> set SANDBOX_ENV_ALLOWLIST then env k else None)"
proof (cases "map_of (scrubbed_env env) k")
  case None
  then have "\<not> (\<exists>v. (k, v) \<in> set (scrubbed_env env))" by (auto simp: map_of_eq_None_iff image_iff)
  with None show ?thesis by (cases "env k") (auto simp: scrubbed_env_keys)
next
  case (Some v)
  then have "(k, v) \<in> set (scrubbed_env env)" by (rule map_of_SomeD)
  with Some show ?thesis by (simp add: scrubbed_env_keys)
qed

lemma child_env_scrubbed:
  "pp_sandbox P \<noteq> None \<Longrightarrow>
     child_env env (runtime_command P env i wd) k = (if k \<in> set SANDBOX_ENV_ALLOWLIST then env k else None)"
  by (auto simp: child_env_def runtime_command_def scrubbed_env_lookup)

text \<open>The variable that asks the sandbox to report denials never reaches a confined child.\<close>

lemma debug_deny_unreachable:
  "pp_sandbox P \<noteq> None \<Longrightarrow>
     child_env env (runtime_command P env i wd) ''OCTOBER_SANDBOX_DEBUG_DENY'' = None"
  by (simp add: child_env_scrubbed SANDBOX_ENV_ALLOWLIST_def)

subsection \<open>The child of a launch\<close>

text \<open>
  The world is that of one launch: while it waits for its runtime, nothing else spawns a child or writes
  a file there, and children may only die.
\<close>

definition calm_wait :: "'t proc_ops \<Rightarrow> bool" where
  "calm_wait OS \<longleftrightarrow> (\<forall>k v. pw_children (snd (po_wait OS k v)) = pw_children v \<and>
     pw_files (snd (po_wait OS k v)) = pw_files v \<and> pw_alive (snd (po_wait OS k v)) \<subseteq> pw_alive v)"

text \<open>\<open>create\<close>, case by case: nothing spawned, or one child, held and alive only when the runtime connects.\<close>

lemma process_create_child:
  assumes "process_create OS P i wd w = (r, w')"
    and calm: "calm_wait OS"
  shows "pw_files w' = pw_files w"
    and "pw_children w' = pw_children w \<or> pw_children w' = pw_children w @ [runtime_command P (po_env OS) i wd]"
    and "r = Inr h \<Longrightarrow> ph_child h = length (pw_children w) \<and> ph_runtime_id h = i \<and> ph_child h \<in> pw_held w'"
    and "pw_alive w' \<subseteq> (case r of Inl _ \<Rightarrow> pw_alive w | Inr h \<Rightarrow> insert (ph_child h) (pw_alive w))"
proof -
  let ?w1 = "w\<lparr>pw_connected := notify_when_ready (pw_connected w) i (pw_waiters w), pw_waiters := pw_waiters w + 1\<rparr>"
  let ?cmd = "runtime_command P (po_env OS) i wd"
  let ?w2 = "?w1\<lparr>pw_children := pw_children ?w1 @ [?cmd], pw_alive := insert (length (pw_children ?w1)) (pw_alive ?w1)\<rparr>"
  obtain res w3 where wait: "po_wait OS (pw_waiters w) ?w2 = (res, w3)" by (cases "po_wait OS (pw_waiters w) ?w2") auto
  have w3: "pw_children w3 = pw_children w @ [?cmd]" "pw_files w3 = pw_files w"
    and alive: "pw_alive w3 \<subseteq> insert (length (pw_children w)) (pw_alive w)"
    using calm [unfolded calm_wait_def, rule_format, of "pw_waiters w" ?w2] wait by auto
  have eq: "(r, w') = (case po_spawn OS ?cmd ?w1 of
      Some e \<Rightarrow> (Inl (ProviderError e), ?w1)
    | None \<Rightarrow> (case res of
          TimedOut \<Rightarrow> (Inl (ProviderError ''runtime connection timed out''), kill_child (length (pw_children w)) w3)
        | ChannelDropped \<Rightarrow> (Inl (ProviderError ''connection channel dropped''), kill_child (length (pw_children w)) w3)
        | Ready \<Rightarrow> (Inr \<lparr>ph_child = length (pw_children w), ph_runtime_id = i\<rparr>,
                    w3\<lparr>pw_held := insert (length (pw_children w)) (pw_held w3)\<rparr>)))"
    using assms(1) wait by (simp add: process_create_def Let_def split: option.splits ready_wait.splits)
  show "pw_files w' = pw_files w"
    using eq w3 by (simp add: kill_child_def split: option.splits ready_wait.splits)
  show "pw_children w' = pw_children w \<or> pw_children w' = pw_children w @ [?cmd]"
    using eq w3 by (simp add: kill_child_def split: option.splits ready_wait.splits)
  show "ph_child h = length (pw_children w) \<and> ph_runtime_id h = i \<and> ph_child h \<in> pw_held w'" if "r = Inr h"
    using eq that by (auto split: option.splits ready_wait.splits)
  show "pw_alive w' \<subseteq> (case r of Inl _ \<Rightarrow> pw_alive w | Inr h \<Rightarrow> insert (ph_child h) (pw_alive w))"
    using eq alive by (auto simp: kill_child_def split: option.splits ready_wait.splits)
qed

text \<open>The first create of a client has no entry in its way.\<close>

lemma client_create_fresh:
  assumes "client_create_runtime P i c \<lparr>xe_registry = Map.empty, xe_world = w, xe_sent = []\<rparr> = (r, x)"
    and "rp_create P i c w = (r1, w1)"
  shows "xe_world x = w1"
    and "r = Inr () \<longleftrightarrow> (\<exists>h. r1 = Inr h)"
    and "r1 = Inr h \<Longrightarrow> xe_registry x = [i \<mapsto> \<lparr>re_state = RsRunning, re_config = c, re_restart_count = 0, re_handle = Some h\<rparr>]"
    and "r1 = Inl e \<Longrightarrow> Option.bind (xe_registry x i) re_handle = None"
  using assms
  by (auto simp: client_create_runtime_def im_send_def create_core_def reg_ops split: sum.splits)

lemma drop_client_keeps [simp]:
  "pw_children (drop_client i x) = pw_children (xe_world x)" "pw_files (drop_client i x) = pw_files (xe_world x)"
  "pw_serving (drop_client i x) = pw_serving (xe_world x)"
  by (simp_all add: drop_client_def kill_child_def Let_def split: option.split)

lemma listener_bind_keeps:
  "listener_bind OS ep w = (r, w') \<Longrightarrow> pw_children w' = pw_children w \<and> pw_alive w' = pw_alive w"
  by (auto simp: listener_bind_def Let_def split: runtime_endpoint.splits option.splits)

text \<open>The two halves of a launch.\<close>

lemma launch_prepare_stages:
  fixes w0 :: "'t proc_world"
  assumes "launch_prepare OS state_dir n job spec w0 = (r, w)"
  obtains (no_path) e where "socket_path (po_temp_dir OS) (po_token OS n) = Inl e" "r = Inl e"
      "pw_children w = pw_children w0" "pw_alive w = pw_alive w0"
  | (bound) sock w1 and rb :: "(string, unit) result" where "socket_path (po_temp_dir OS) (po_token OS n) = Inr sock"
      "pw_children w1 = pw_children w0" "pw_alive w1 = pw_alive w0"
      "(r, w) = (case rb of Inl e \<Rightarrow> (Inl e, w1)
         | Inr u \<Rightarrow>
             let w2 = serve_connections (EpUnix sock) w1; caps_path = job_caps_path state_dir job
             in case po_create_dir_all OS (job_dir state_dir job) w2 of
                  Some e \<Rightarrow> (Inl e, w2)
                | None \<Rightarrow>
                    (case po_ser_caps OS (jp_capabilities spec) of
                       Inl e \<Rightarrow> (Inl e, w2)
                     | Inr doc \<Rightarrow>
                         (case po_write OS caps_path w2 of
                            Some e \<Rightarrow> (Inl e, w2)
                          | None \<Rightarrow> (Inr (sock, caps_path), w2\<lparr>pw_files := (pw_files w2)(caps_path \<mapsto> doc)\<rparr>))))"
proof -
  let ?w0 = "w0\<lparr>pw_connected := \<lparr>cn_transports = Map.empty, cn_pending = Map.empty :: string \<rightharpoonup> nat\<rparr>\<rparr> :: 't proc_world"
  show thesis
  proof (cases "socket_path (po_temp_dir OS) (po_token OS n)")
    case (Inl e)
    with assms no_path show thesis by (auto simp: launch_prepare_def Let_def)
  next
    case (Inr sock)
    obtain rb w1 where bind: "listener_bind OS (EpUnix sock) ?w0 = (rb, w1)"
      by (cases "listener_bind OS (EpUnix sock) ?w0") auto
    from listener_bind_keeps [OF bind] have "pw_children w1 = pw_children w0" "pw_alive w1 = pw_alive w0" by simp_all
    from bound [OF Inr this, of rb] assms bind Inr show thesis
      by (cases rb) (simp_all add: launch_prepare_def Let_def eq_commute [of "(r, w)"])
  qed
qed

lemma launch_prepare_keeps:
  assumes "launch_prepare OS state_dir n job spec w0 = (r, w)"
  shows "pw_children w = pw_children w0" "pw_alive w = pw_alive w0"
proof -
  from assms have "pw_children w = pw_children w0 \<and> pw_alive w = pw_alive w0"
    by (cases rule: launch_prepare_stages)
      (simp_all add: Let_def serve_connections_def split: sum.split_asm option.split_asm)
  then show "pw_children w = pw_children w0" "pw_alive w = pw_alive w0" by simp_all
qed

lemma launch_prepare_Inr:
  assumes "launch_prepare OS state_dir n job spec w0 = (Inr (sock, caps_path), w)"
  obtains doc where "socket_path (po_temp_dir OS) (po_token OS n) = Inr sock"
    and "caps_path = job_caps_path state_dir job"
    and "po_ser_caps OS (jp_capabilities spec) = Inr doc" "pw_files w caps_path = Some doc"
    and "endpoint_arg (EpUnix sock) \<in> pw_serving w"
  using assms
  by (cases rule: launch_prepare_stages)
    (simp_all add: Let_def serve_connections_def split: sum.split_asm option.split_asm)

text \<open>A launch spawns at most one child, with the job's capabilities in the file its command names.\<close>

lemma launch_child:
  assumes launch: "process_launch OS bin state_dir n job spec kick w0 = (r, w)"
    and calm: "calm_wait OS"
  shows "pw_children w = pw_children w0 \<or>
    (\<exists>sock doc. socket_path (po_temp_dir OS) (po_token OS n) = Inr sock \<and>
       po_ser_caps OS (jp_capabilities spec) = Inr doc \<and> pw_files w (job_caps_path state_dir job) = Some doc \<and>
       pw_children w = pw_children w0 @
         [runtime_command (launch_provider bin sock (job_caps_path state_dir job)) (po_env OS) job (jp_workdir spec)])"
proof (cases "launch_prepare OS state_dir n job spec w0")
  case (Pair pr w1)
  note keeps = launch_prepare_keeps [OF Pair]
  show ?thesis
  proof (cases pr)
    case (Inl e)
    with launch Pair keeps show ?thesis by (simp add: process_launch_def)
  next
    case (Inr sc)
    then obtain sock caps_path where sc: "pr = Inr (sock, caps_path)" by (cases sc) auto
    let ?P = "launch_provider bin sock caps_path"
    obtain doc where doc: "socket_path (po_temp_dir OS) (po_token OS n) = Inr sock" "caps_path = job_caps_path state_dir job"
      "po_ser_caps OS (jp_capabilities spec) = Inr doc" "pw_files w1 caps_path = Some doc"
      using launch_prepare_Inr [OF Pair [unfolded sc]] by metis
    obtain rc w2 where create: "process_create OS ?P job (jp_workdir spec) w1 = (rc, w2)" by fastforce
    obtain c x where client: "client_create_runtime (process_runtime_provider OS ?P) job (jp_workdir spec)
        \<lparr>xe_registry = Map.empty, xe_world = w1, xe_sent = []\<rparr> = (c, x)" by fastforce
    have x: "xe_world x = w2"
      by (rule client_create_fresh(1) [OF client]) (simp add: process_runtime_provider_def create)
    have "pw_children w = pw_children w2 \<and> pw_files w = pw_files w2"
      using launch Pair sc client x
      by (auto simp: process_launch_def Let_def split: sum.split_asm option.split_asm)
    with process_create_child(1,2) [OF create calm] doc keeps show ?thesis by auto
  qed
qed

text \<open>
  What clap makes of the child's arguments, where no value can be taken for an option.
\<close>

definition cli_law :: "(string list \<Rightarrow> runtime_cli option) \<Rightarrow> bool" where
  "cli_law parse_cli \<longleftrightarrow> (\<forall>e i d f.
     list_all (\<lambda>v. \<not> starts_with ''-'' v) [e, i, d, f] \<longrightarrow>
     parse_cli [''--endpoint'', e, ''--runtime-id'', i, ''--working-dir'', d, ''--sandbox-caps'', f] =
       Some \<lparr>rc_endpoint = e, rc_runtime_id = i, rc_working_dir = d, rc_sandbox_caps = Some f\<rparr>)"

text \<open>The host as the child sees it: JSON read back as written, the files of the launch.\<close>

definition child_host :: "'t proc_ops \<Rightarrow> 't proc_world \<Rightarrow> host \<Rightarrow> bool" where
  "child_host OS w H \<longleftrightarrow>
     (\<forall>c t. po_ser_caps OS c = Inr t \<longrightarrow> ho_parse_caps H t = Inr c) \<and>
     (\<forall>p t. pw_files w p = Some t \<longrightarrow> ho_read H p = Inr t)"

text \<open>C7. Whatever child a launch spawns, its environment has the allowlisted variables only, and once it
  connects it is the job's runtime, in its working directory, on the job's socket, confined to exactly
  the rules of the job's capabilities and that socket, its network blocked when they say so.\<close>

theorem job_confined:
  assumes launch: "process_launch OS bin state_dir n job spec kick w0 = (r, w)"
    and child: "cmd \<in> set (drop (length (pw_children w0)) (pw_children w))"
    and start: "parse_cli (pc_args cmd) = Some cli"
    and main: "runtime_main N H cli u = (RuntimeConnect ep wd i, u')"
    and "calm_wait OS" "cli_law parse_cli" "child_host OS w H" "nono_laws N rules blocked confined"
    and dash: "list_all (\<lambda>v. \<not> starts_with ''-'' v) [job, jp_workdir spec, job_caps_path state_dir job]"
  shows "wd = jp_workdir spec \<and> i = job \<and>
    (\<exists>sock c. socket_path (po_temp_dir OS) (po_token OS n) = Inr sock \<and> ep = Unix sock \<and>
       confined u' = Some c \<and> rules c = spec_rules H wd (Some sock) (jp_capabilities spec) \<and>
       (blocked c \<longleftrightarrow> cs_network (jp_capabilities spec) = Block)) \<and>
    (\<forall>k. child_env (po_env OS) cmd k = (if k \<in> set SANDBOX_ENV_ALLOWLIST then po_env OS k else None))"
proof -
  let ?f = "job_caps_path state_dir job"
  from launch_child [OF launch \<open>calm_wait OS\<close>] child obtain sock doc
    where sock: "socket_path (po_temp_dir OS) (po_token OS n) = Inr sock"
      and doc: "po_ser_caps OS (jp_capabilities spec) = Inr doc" "pw_files w ?f = Some doc"
      and cmd: "cmd = runtime_command (launch_provider bin sock ?f) (po_env OS) job (jp_workdir spec)" by auto
  have cli: "cli = \<lparr>rc_endpoint = endpoint_arg (EpUnix sock), rc_runtime_id = job,
      rc_working_dir = jp_workdir spec, rc_sandbox_caps = Some ?f\<rparr>"
    using start \<open>cli_law parse_cli\<close> dash
    by (simp add: cli_law_def cmd runtime_command_def launch_provider_def with_sandbox_def process_provider_new_def endpoint_arg_def)
  then have "rc_sandbox_caps cli = Some ?f" by simp
  from runtime_main_confined [OF \<open>nono_laws N rules blocked confined\<close> main this] obtain spec' c
    where c: "load_capabilities (ho_read H) (ho_parse_caps H) ?f = Inr spec'" "confined u' = Some c"
      "rules c = spec_rules H wd (case ep of Unix p \<Rightarrow> Some p | Ws _ \<Rightarrow> None) spec'"
      "blocked c \<longleftrightarrow> cs_network spec' = Block"
      "parse_endpoint (rc_endpoint cli) = Inr ep" "wd = rc_working_dir cli" "i = rc_runtime_id cli" .
  have "spec' = jp_capabilities spec"
    using c(1) doc \<open>child_host OS w H\<close> by (auto simp: load_capabilities_def child_host_def)
  moreover have "ep = Unix sock" using c(5) by (simp add: cli parse_endpoint_arg)
  ultimately show ?thesis
    using c sock by (simp add: cli cmd child_env_scrubbed launch_provider_def with_sandbox_def process_provider_new_def)
qed

text \<open>A job on a host where every operation succeeds, its capability set a list of rules.\<close>

definition list_nono :: "(rule list \<times> bool, (rule list \<times> bool) option) nono" where
  "list_nono =
     \<lparr>nn_unsupported = None, nn_new = ([], False),
      nn_allow_path = (\<lambda>p m (rs, b). Inr (PathRule p m # rs, b)),
      nn_allow_file = (\<lambda>p m (rs, b). Inr (FileRule p m # rs, b)),
      nn_allow_unix_socket = (\<lambda>p (rs, b). Inr (SocketRule p # rs, b)),
      nn_block_network = (\<lambda>(rs, b). (rs, True)),
      nn_set_debug_deny = (\<lambda>_ c. c),
      nn_apply = (\<lambda>c w. (Inr (), Some c))\<rparr>"

lemma list_nono_laws: "nono_laws list_nono (set \<circ> fst) snd id"
  by (auto simp: nono_laws_def list_nono_def)

definition demo_caps :: capability_spec where
  "demo_caps = \<lparr>cs_network = Block, cs_grants = [WorkingDirGrant ReadWrite, DirGrant ''/usr'' Read]\<rparr>"

definition conf_spec :: job_spec where
  "conf_spec = \<lparr>jp_workflow = \<lparr>wd_start = ''a'', wd_agents = []\<rparr>, jp_workflow_name = ''w'', jp_workdir = ''/w'',
     jp_input = ''go'', jp_capabilities = demo_caps\<rparr>"

definition demo_proc :: "unit proc_ops" where
  "demo_proc =
     \<lparr>po_env = [''HOME'' \<mapsto> ''/h'', ''ANTHROPIC_API_KEY'' \<mapsto> ''k''],
      po_spawn = (\<lambda>_ _. None),
      po_wait = (\<lambda>_ w. (Ready, w\<lparr>pw_connected := fst (register_transport (pw_connected w) ''j'' ())\<rparr>)),
      po_create_dir_all = (\<lambda>_ _. None), po_set_mode = (\<lambda>_ _ _. None),
      po_bind_unix = (\<lambda>_ _. None), po_bind_tcp = (\<lambda>_ _. None), po_write = (\<lambda>_ _. None),
      po_ser_caps = (\<lambda>c. if c = demo_caps then Inr ''caps'' else Inl ''unused''),
      po_temp_dir = ''/tmp'', po_token = (\<lambda>_. ''0123456789abcdef''), po_tell = (\<lambda>_ _. None)\<rparr>"

definition demo_proc_world :: "unit proc_world" where
  "demo_proc_world =
     \<lparr>pw_connected = \<lparr>cn_transports = Map.empty, cn_pending = Map.empty\<rparr>, pw_waiters = 0, pw_children = [],
      pw_alive = {}, pw_held = {}, pw_serving = {}, pw_files = Map.empty\<rparr>"

definition demo_host :: "unit proc_world \<Rightarrow> host" where
  "demo_host w =
     \<lparr>ho_is_dir = (\<lambda>p. p = ''/w''), ho_exists = (\<lambda>_. False),
      ho_read = (\<lambda>p. case pw_files w p of None \<Rightarrow> Inl ''no file'' | Some t \<Rightarrow> Inr t),
      ho_env = Map.empty, ho_parse_caps = (\<lambda>t. if t = ''caps'' then Inr demo_caps else Inl ''bad'')\<rparr>"

definition demo_cli :: "string list \<Rightarrow> runtime_cli option" where
  "demo_cli args = (if length args = 8 then Some \<lparr>rc_endpoint = args ! 1, rc_runtime_id = args ! 3,
     rc_working_dir = args ! 5, rc_sandbox_caps = Some (args ! 7)\<rparr> else None)"

abbreviation demo_launch :: "(string, unit launched) result \<times> unit proc_world" where
  "demo_launch \<equiv> process_launch demo_proc ''rt'' ''/s'' 0 ''j'' conf_spec KickStart demo_proc_world"

lemma demo_socket: "socket_path ''/tmp'' ''0123456789abcdef'' = Inr ''/tmp/october-0123456789ab/rt.sock''"
  by (simp add: socket_path_def join_path_def)

lemma demo_caps_path: "job_caps_path ''/s'' ''j'' = ''/s/jobs/j/capabilities.json''"
  by (simp add: job_caps_path_def job_dir_def join_path_def)

lemma demo_laws:
  "calm_wait demo_proc" "cli_law demo_cli" "child_host demo_proc w (demo_host w)"
  by (simp_all add: calm_wait_def demo_proc_def cli_law_def demo_cli_def child_host_def demo_host_def)

lemma demo_launched:
  "fst demo_launch = Inr \<lparr>la_registry = [''j'' \<mapsto> \<lparr>re_state = RsRunning, re_config = ''/w'', re_restart_count = 0,
       re_handle = Some \<lparr>ph_child = 0, ph_runtime_id = ''j''\<rparr>\<rparr>],
     la_transport = (), la_first = Some (StartWorkflow ''go''),
     la_endpoint = EpUnix ''/tmp/october-0123456789ab/rt.sock'', la_runtime_id = ''j''\<rparr>"
  "pw_children (snd demo_launch) =
     [\<lparr>pc_program = ''rt'',
       pc_args = [''--endpoint'', ''unix:/tmp/october-0123456789ab/rt.sock'', ''--runtime-id'', ''j'',
         ''--working-dir'', ''/w'', ''--sandbox-caps'', ''/s/jobs/j/capabilities.json''],
       pc_env = Some [(''HOME'', ''/h'')]\<rparr>]"
  by (simp_all add: process_launch_def launch_prepare_def demo_proc_def demo_socket listener_bind_def
      demo_caps_path conf_spec_def client_create_runtime_def im_send_def create_core_def reg_ops
      process_runtime_provider_def process_create_def launch_provider_def with_sandbox_def process_provider_new_def notify_when_ready_def
      register_transport_def im_runtime_transport_def runtime_transport_def serve_connections_def
      runtime_command_def endpoint_arg_def scrubbed_env_def SANDBOX_ENV_ALLOWLIST_def
      demo_proc_world_def path_parent_def Let_def)

lemma demo_sel:
  "socket_path (po_temp_dir demo_proc) (po_token demo_proc 0) = Inr ''/tmp/october-0123456789ab/rt.sock''"
  "jp_capabilities conf_spec = demo_caps" "jp_workdir conf_spec = ''/w''"
  by (simp_all add: demo_proc_def conf_spec_def demo_socket)

lemma demo_none_spawned: "pw_children demo_proc_world = []"
  by (simp add: demo_proc_world_def)

lemma demo_files: "pw_files (snd demo_launch) ''/s/jobs/j/capabilities.json'' = Some ''caps''"
  using demo_laws(1) [unfolded calm_wait_def, rule_format]
  by (simp add: process_launch_def launch_prepare_def demo_proc_def demo_socket listener_bind_def
      demo_caps_path conf_spec_def client_create_runtime_def im_send_def create_core_def reg_ops
      process_runtime_provider_def process_create_def launch_provider_def with_sandbox_def process_provider_new_def notify_when_ready_def
      register_transport_def im_runtime_transport_def runtime_transport_def serve_connections_def
      demo_proc_world_def path_parent_def Let_def)

abbreviation demo_runtime_cli :: runtime_cli where
  "demo_runtime_cli \<equiv> \<lparr>rc_endpoint = ''unix:/tmp/october-0123456789ab/rt.sock'', rc_runtime_id = ''j'',
     rc_working_dir = ''/w'', rc_sandbox_caps = Some ''/s/jobs/j/capabilities.json''\<rparr>"

lemma demo_runtime_main:
  "runtime_main list_nono (demo_host (snd demo_launch)) demo_runtime_cli None =
     (RuntimeConnect (Unix ''/tmp/october-0123456789ab/rt.sock'') ''/w'' ''j'',
      Some ([SocketRule ''/tmp/october-0123456789ab/rt.sock'', PathRule ''/w'' ModeReadWrite], True))"
  using demo_files
  by (simp add: runtime_main_def parse_endpoint_def sandbox_apply_def sandbox_caps_def list_nono_def
      load_capabilities_def demo_host_def demo_caps_def add_grant_def)

theorem job_confined_witness:
  "set [SocketRule ''/tmp/october-0123456789ab/rt.sock'', PathRule ''/w'' ModeReadWrite] =
     spec_rules (demo_host (snd demo_launch)) ''/w'' (Some ''/tmp/october-0123456789ab/rt.sock'') demo_caps"
proof -
  obtain r w where l: "demo_launch = (r, w)" by fastforce
  let ?cmd = "hd (pw_children w)"
  note w = demo_launched(2) [unfolded l snd_conv]
  have cmd: "?cmd \<in> set (drop (length (pw_children demo_proc_world)) (pw_children w))"
    by (simp add: w demo_none_spawned)
  have cli: "demo_cli (pc_args ?cmd) = Some demo_runtime_cli"
    by (simp add: w demo_cli_def)
  have "list_all (\<lambda>v. \<not> starts_with ''-'' v) [''j'', jp_workdir conf_spec, job_caps_path ''/s'' ''j'']"
    by (simp add: conf_spec_def demo_caps_path)
  from job_confined [OF l cmd cli demo_runtime_main [unfolded l snd_conv] demo_laws(1,2) demo_laws(3) list_nono_laws this]
  show ?thesis unfolding l snd_conv demo_sel by (elim conjE exE) (simp only: sum.inject option.inject endpoint.inject o_apply id_apply, metis fst_conv)
qed

subsection \<open>What a launch leaves behind\<close>

text \<open>C28. No child outlives its launch: a launch that fails leaves none of its own alive, and after one
  that succeeds the job's shutdown, whenever it comes, kills the child, removes its transport and ends
  the accept loop of its socket.\<close>

theorem launch_released:
  assumes launch: "process_launch OS bin state_dir n job spec kick w0 = (r, w)"
    and calm: "calm_wait OS" and fresh: "pw_alive w0 \<subseteq> {..<length (pw_children w0)}"
  shows "case r of
      Inl e \<Rightarrow> pw_alive w \<subseteq> pw_alive w0
    | Inr l \<Rightarrow> \<forall>v. pw_held w \<subseteq> pw_held v \<and> pw_alive v \<subseteq> pw_alive w \<longrightarrow>
        pw_alive (process_shutdown OS P l v) \<subseteq> pw_alive w0 \<and>
        runtime_transport (pw_connected (process_shutdown OS P l v)) job = None \<and>
        endpoint_arg (la_endpoint l) \<notin> pw_serving (process_shutdown OS P l v)"
proof (cases "launch_prepare OS state_dir n job spec w0")
  case (Pair pr w1)
  note keeps = launch_prepare_keeps [OF Pair]
  show ?thesis
  proof (cases pr)
    case (Inl e)
    with launch Pair keeps show ?thesis by (auto simp: process_launch_def)
  next
    case (Inr sc)
    then obtain sock caps_path where sc: "pr = Inr (sock, caps_path)" by (cases sc) auto
    let ?P = "launch_provider bin sock caps_path"
    obtain rc w2 where create: "process_create OS ?P job (jp_workdir spec) w1 = (rc, w2)" by fastforce
    obtain c x where client: "client_create_runtime (process_runtime_provider OS ?P) job (jp_workdir spec)
        \<lparr>xe_registry = Map.empty, xe_world = w1, xe_sent = []\<rparr> = (c, x)" by fastforce
    note fresh_x = client_create_fresh [OF client, unfolded process_runtime_provider_def, simplified, OF create]
    note child = process_create_child(3,4) [OF create calm]
    show ?thesis
    proof (cases rc)
      case (Inl e)
      with fresh_x(1,2) child(2) keeps launch Pair sc client show ?thesis
        by (cases c) (auto simp: process_launch_def)
    next
      case (Inr h)
      have x: "xe_world x = w2" "c = Inr ()"
        "xe_registry x = [job \<mapsto> \<lparr>re_state = RsRunning, re_config = jp_workdir spec, re_restart_count = 0, re_handle = Some h\<rparr>]"
        using fresh_x Inr by auto
      have h: "pw_alive w2 - {ph_child h} \<subseteq> pw_alive w0" "ph_child h \<in> pw_held w2" "ph_runtime_id h = job"
        using child Inr keeps by auto
      show ?thesis
      proof (cases r)
        case (Inl e)
        with launch Pair sc client x h show ?thesis
          by (auto simp: process_launch_def drop_client_def kill_child_def Let_def split: sum.split_asm option.split_asm)
      next
        case (Inr l)
        then have l: "w = w2" "la_registry l = xe_registry x" "la_endpoint l = EpUnix sock" "la_runtime_id l = job"
          using launch Pair sc client x
          by (auto simp: process_launch_def Let_def split: sum.split_asm option.split_asm)
        have "pw_alive (process_shutdown OS P l v) \<subseteq> pw_alive w0 \<and>
            runtime_transport (pw_connected (process_shutdown OS P l v)) job = None \<and>
            endpoint_arg (la_endpoint l) \<notin> pw_serving (process_shutdown OS P l v)"
          if "pw_held w \<subseteq> pw_held v" "pw_alive v \<subseteq> pw_alive w" for v
          using that h l x
          by (auto simp: process_shutdown_def client_destroy_runtime_def im_send_def reg_ops stop_handle_def
              process_runtime_provider_def process_stop_def kill_child_def cancel_serving_def
              runtime_transport_def remove_transport_def Let_def)
        with Inr show ?thesis by simp
      qed
    qed
  qed
qed

theorem launch_released_witness:
  "\<exists>l w. demo_launch = (Inr l, w) \<and>
     pw_alive (process_shutdown demo_proc \<lparr>pp_binary = ''rt'', pp_endpoint = la_endpoint l, pp_sandbox = None\<rparr> l w) = {}"
proof -
  obtain l w where l: "demo_launch = (Inr l, w)"
    using demo_launched(1) by (cases demo_launch) auto
  have "pw_alive demo_proc_world = {}" by (simp add: demo_proc_world_def)
  with launch_released [OF l demo_laws(1)] l show ?thesis by auto
qed

text \<open>A launch that fails once it listens never cancels the loop that accepts on its socket.\<close>

lemma failed_launch_keeps_serving:
  "fst (process_launch (demo_proc\<lparr>po_spawn := \<lambda>_ _. Some ''no binary''\<rparr>) ''rt'' ''/s'' 0 ''j'' conf_spec KickStart
      demo_proc_world) = Inl ''command failed: provider error: no binary''"
  "pw_serving (snd (process_launch (demo_proc\<lparr>po_spawn := \<lambda>_ _. Some ''no binary''\<rparr>) ''rt'' ''/s'' 0 ''j'' conf_spec
      KickStart demo_proc_world)) = {''unix:/tmp/october-0123456789ab/rt.sock''}"
  by (simp_all add: process_launch_def launch_prepare_def demo_proc_def demo_socket listener_bind_def
      demo_caps_path conf_spec_def client_create_runtime_def im_send_def create_core_def reg_ops
      process_runtime_provider_def process_create_def launch_provider_def with_sandbox_def process_provider_new_def notify_when_ready_def
      serve_connections_def endpoint_arg_def demo_proc_world_def path_parent_def Let_def)

text \<open>One failed handshake ends the loop for every later connection.\<close>

lemma failed_handshake_ends_accepting:
  "accept_loop (map (Some \<circ> UnixAccepted) conns @ Some (HandshakeFailed e) # evs) = (conns, False)"
  by (induction conns) auto

text \<open>A create that timed out leaves its waiter, which the runtime's connection would still fire.\<close>

lemma timed_out_create_keeps_waiter:
  "cn_pending (pw_connected (snd (process_create (demo_proc\<lparr>po_wait := \<lambda>_ w. (TimedOut, w)\<rparr>)
     (launch_provider ''rt'' ''/s.sock'' ''/c'') ''j'' ''/w'' demo_proc_world))) ''j'' = Some 0"
  by (simp add: process_create_def demo_proc_def demo_proc_world_def notify_when_ready_def kill_child_def Let_def)

end
