(* ===== verification/Protocol.thy ===== *)
theory Protocol
  imports Models Text
begin

text \<open>
  The daemon's control protocol: requests and responses (\<open>src/fluorite/daemon.fl\<close>) in length-prefixed
  JSON frames (\<open>src/cli/src/daemon/protocol.rs\<close>). A connection is read as the bytes that will arrive and
  how they end; it is written as the bytes accepted, perhaps up to a limit where the peer is gone. The
  JSON encoder and decoder of a type are parameters.
\<close>

subsection \<open>Requests and responses\<close>

record submit_request =
  sq_workflow :: workflow_definition
  sq_workdir :: string
  sq_input :: string
  sq_capabilities :: "capability_spec option"
  sq_workflow_name :: string

datatype daemon_request =
    ReqSubmit submit_request
  | ReqList
  | ReqLogs string bool
  | ReqStop string
  | ReqResume string string
  | ReqRemove string
  | ReqStatus
  | ReqShutdown bool

record status_info =
  si_pid :: u32
  si_uptime_secs :: u64
  si_running :: u32
  si_suspended :: u32
  si_finished :: u32
  si_failed :: u32

datatype daemon_response =
    RspSubmitted string
  | RspJobList "job_summary list"
  | RspAck
  | RspStatus status_info
  | RspLogFrame string string
  | RspError string
  | RspEnd

subsection \<open>Bytes over a connection\<close>

datatype io_error = UnexpectedEof | IoOther string

fun io_display :: "io_error \<Rightarrow> string" where
  "io_display UnexpectedEof = ''early eof''"
| "io_display (IoOther e) = e"

record reader =
  rd_bytes :: string
  rd_fault :: "string option"

record writer =
  wr_bytes :: string
  wr_room :: "nat option"

definition read_exact :: "nat \<Rightarrow> reader \<Rightarrow> (io_error, string) result \<times> reader" where
  "read_exact n r =
     (if n \<le> length (rd_bytes r) then (Inr (take n (rd_bytes r)), r\<lparr>rd_bytes := drop n (rd_bytes r)\<rparr>)
      else (Inl (case rd_fault r of None \<Rightarrow> UnexpectedEof | Some e \<Rightarrow> IoOther e), r\<lparr>rd_bytes := []\<rparr>))"

definition write_all :: "string \<Rightarrow> writer \<Rightarrow> (io_error, unit) result \<times> writer" where
  "write_all bs w =
     (case wr_room w of
        None \<Rightarrow> (Inr (), w\<lparr>wr_bytes := wr_bytes w @ bs\<rparr>)
      | Some k \<Rightarrow>
          if length bs \<le> k then (Inr (), w\<lparr>wr_bytes := wr_bytes w @ bs, wr_room := Some (k - length bs)\<rparr>)
          else (Inl (IoOther ''broken pipe''), w\<lparr>wr_bytes := wr_bytes w @ take k bs, wr_room := Some 0\<rparr>))"

subsection \<open>Frames\<close>

text \<open>\<open>u32::to_be_bytes\<close> and \<open>from_be_bytes\<close>.\<close>

definition to_be_bytes :: "u32 \<Rightarrow> string" where
  "to_be_bytes n = map (\<lambda>k. char_of (unat (drop_bit k n))) [24, 16, 8, 0]"

definition from_be_bytes :: "string \<Rightarrow> u32" where
  "from_be_bytes bs = foldl (\<lambda>n c. n * 256 + word_of_nat (of_char c)) 0 bs"

text \<open>\<open>u32::try_from(usize)\<close>.\<close>

definition try_u32 :: "nat \<Rightarrow> u32 option" where
  "try_u32 n = (if n < 2 ^ 32 then Some (word_of_nat n) else None)"

definition write_frame ::
  "('a \<Rightarrow> (string, string) result) \<Rightarrow> 'a \<Rightarrow> writer \<Rightarrow> (io_error, unit) result \<times> writer" where
  "write_frame ser v w =
     (case ser v of
        Inl e \<Rightarrow> (Inl (IoOther e), w)
      | Inr bytes \<Rightarrow>
          (case try_u32 (length bytes) of
             None \<Rightarrow> (Inl (IoOther ''out of range integral type conversion attempted''), w)
           | Some len \<Rightarrow>
               (case write_all (to_be_bytes len) w of
                  (Inl e, w1) \<Rightarrow> (Inl e, w1)
                | (Inr _, w1) \<Rightarrow> write_all bytes w1)))"

definition read_frame ::
  "(string \<Rightarrow> (string, 'a) result) \<Rightarrow> reader \<Rightarrow> (io_error, 'a option) result \<times> reader" where
  "read_frame de r =
     (case read_exact 4 r of
        (Inl UnexpectedEof, r1) \<Rightarrow> (Inr None, r1)
      | (Inl e, r1) \<Rightarrow> (Inl e, r1)
      | (Inr len_buf, r1) \<Rightarrow>
          (case read_exact (unat (from_be_bytes len_buf)) r1 of
             (Inl e, r2) \<Rightarrow> (Inl e, r2)
           | (Inr buf, r2) \<Rightarrow>
               (case de buf of Inl e \<Rightarrow> (Inl (IoOther e), r2) | Inr v \<Rightarrow> (Inr (Some v), r2))))"

subsection \<open>What is written is read\<close>

text \<open>The bytes of a frame.\<close>

definition frame :: "string \<Rightarrow> string" where
  "frame bytes = to_be_bytes (word_of_nat (length bytes)) @ bytes"

lemma length_to_be_bytes [simp]: "length (to_be_bytes n) = 4"
  by (simp add: to_be_bytes_def)

lemma four_bytes:
  fixes m :: nat
  assumes "m < 2 ^ 32"
  shows "((m div 2 ^ 24 mod 256 * 256 + m div 2 ^ 16 mod 256) * 256 + m div 2 ^ 8 mod 256) * 256 + m mod 256 = m"
proof -
  have d: "m div 2 ^ 16 = m div 2 ^ 8 div 256" "m div 2 ^ 24 = m div 2 ^ 16 div 256" by (simp_all add: div_mult2_eq [symmetric])
  have "m div 2 ^ 24 < 256" using assms by simp
  then have "m div 2 ^ 24 mod 256 = m div 2 ^ 24" by simp
  moreover have "m div 2 ^ 24 * 256 + m div 2 ^ 16 mod 256 = m div 2 ^ 16" unfolding d(2) by simp
  moreover have "m div 2 ^ 16 * 256 + m div 2 ^ 8 mod 256 = m div 2 ^ 8" unfolding d(1) by simp
  moreover have "m div 2 ^ 8 * 256 + m mod 256 = m" using div_mult_mod_eq [of m 256] by simp
  ultimately show ?thesis by simp
qed

lemma from_to_be_bytes [simp]: "from_be_bytes (to_be_bytes n) = n"
proof -
  have "from_be_bytes (to_be_bytes n) = word_of_nat
      (((unat n div 2 ^ 24 mod 256 * 256 + unat n div 2 ^ 16 mod 256) * 256 + unat n div 2 ^ 8 mod 256) * 256 + unat n mod 256)"
    by (simp add: from_be_bytes_def to_be_bytes_def drop_bit_eq_div unat_div_distrib)
  also have "\<dots> = word_of_nat (unat n)"
    by (subst four_bytes) (use unsigned_less [of n, where ?'a = nat] in simp_all)
  finally show ?thesis by simp
qed

lemma write_frame_room:
  assumes "ser v = Inr bytes" "length bytes < 2 ^ 32" "wr_room w = None"
  shows "write_frame ser v w = (Inr (), w\<lparr>wr_bytes := wr_bytes w @ frame bytes\<rparr>)"
  using assms by (simp add: write_frame_def try_u32_def write_all_def frame_def)

lemma read_frame_frame:
  assumes "length bytes < 2 ^ 32" "de bytes = Inr v"
  shows "read_frame de \<lparr>rd_bytes = frame bytes @ rest, rd_fault = f\<rparr> = (Inr (Some v), \<lparr>rd_bytes = rest, rd_fault = f\<rparr>)"
  using assms by (simp add: read_frame_def read_exact_def frame_def unat_of_nat take_bit_nat_eq_self)

text \<open>A frame cut short: its end is taken for a clean one when not even the length arrived.\<close>

lemma read_frame_torn:
  assumes "length bytes < 2 ^ 32" "k < length (frame bytes)"
  shows "read_frame de \<lparr>rd_bytes = take k (frame bytes), rd_fault = None\<rparr> =
    ((if k < 4 then Inr None else Inl UnexpectedEof), \<lparr>rd_bytes = [], rd_fault = None\<rparr>)"
  using assms by (auto simp: read_frame_def read_exact_def frame_def unat_of_nat take_bit_nat_eq_self)

end
