(* ===== verification/Config.thy ===== *)
theory Config
  imports Anthropic Sandbox Workflow_Actor
begin

text \<open>
  The command line's configuration (\<open>src/cli/src/config.rs\<close>), its errors (\<open>error.rs\<close>), and the checks of a
  workflow against it (\<open>validate.rs\<close>). A \<open>HashMap\<close> is the list of its entries in the order it iterates,
  one entry for each key. Files, the environment, JSON and the builders of HTTP clients are parameters;
  \<open>eval\<close> is the evaluator the workflow uses.
\<close>

subsection \<open>Errors\<close>

datatype cli_error =
    CliIo string
  | CliConfig string
  | CliValidation string
  | CliProvider string
  | CliExecutor string

fun cli_error_display :: "cli_error \<Rightarrow> string" where
  "cli_error_display (CliIo e) = ''io error: '' @ e"
| "cli_error_display (CliConfig e) = ''config error: '' @ e"
| "cli_error_display (CliValidation e) = ''validation failed:'' @ newline # e"
| "cli_error_display (CliProvider e) = ''provider error: '' @ e"
| "cli_error_display (CliExecutor e) = ''executor error: '' @ e"

subsection \<open>The configuration\<close>

datatype provider_config = AnthropicConfig "string option" "string option" "string option"

record model_config =
  mc_provider :: string
  mc_model_id :: string
  mc_max_tokens :: "u32 option"

record storage_config =
  st_state_dir :: string
  st_data_dir :: string

record october_config =
  oc_providers :: "(string \<times> provider_config) list"
  oc_models :: "(string \<times> model_config) list"
  oc_capabilities_file :: "string option"
  oc_storage :: storage_config
  oc_runtime_bin :: "string option"

definition user_config_path_from :: "string option \<Rightarrow> string option \<Rightarrow> string option" where
  "user_config_path_from xdg_config_home home =
     (case (case xdg_config_home of
              Some x \<Rightarrow> if x \<noteq> [] then Some x else map_option (\<lambda>h. join_path h ''.config'') home
            | None \<Rightarrow> map_option (\<lambda>h. join_path h ''.config'') home) of
        None \<Rightarrow> None
      | Some dir \<Rightarrow> Some (join_path (join_path dir ''october'') ''config.json''))"

definition storage_dir_from :: "string option \<Rightarrow> string option \<Rightarrow> string \<Rightarrow> string \<Rightarrow> string" where
  "storage_dir_from xdg_base home home_subdir fallback_leaf =
     (let from_home = (case home of
            Some h \<Rightarrow> if h \<noteq> [] then join_path (join_path h home_subdir) ''october''
                      else join_path ''./.october'' fallback_leaf
          | None \<Rightarrow> join_path ''./.october'' fallback_leaf)
      in case xdg_base of
           Some x \<Rightarrow> if x \<noteq> [] then join_path x ''october'' else from_home
         | None \<Rightarrow> from_home)"

definition user_config_path :: "(string \<Rightarrow> string option) \<Rightarrow> string option" where
  "user_config_path env = user_config_path_from (env ''XDG_CONFIG_HOME'') (env ''HOME'')"

definition default_state_dir :: "(string \<Rightarrow> string option) \<Rightarrow> string" where
  "default_state_dir env = storage_dir_from (env ''XDG_STATE_HOME'') (env ''HOME'') ''.local/state'' ''state''"

definition default_data_dir :: "(string \<Rightarrow> string option) \<Rightarrow> string" where
  "default_data_dir env = storage_dir_from (env ''XDG_DATA_HOME'') (env ''HOME'') ''.local/share'' ''data''"

definition october_default_config :: "(string \<Rightarrow> string option) \<Rightarrow> october_config" where
  "october_default_config env =
     \<lparr>oc_providers = [], oc_models = [], oc_capabilities_file = None,
      oc_storage = \<lparr>st_state_dir = default_state_dir env, st_data_dir = default_data_dir env\<rparr>,
      oc_runtime_bin = None\<rparr>"

text \<open>The host of a command: files, the environment, and the parser of configurations.\<close>

record cli_host =
  ch_read :: "string \<Rightarrow> (string, string) result"
  ch_exists :: "string \<Rightarrow> bool"
  ch_env :: "string \<Rightarrow> string option"
  ch_parse_config :: "string \<Rightarrow> (string, october_config) result"
  ch_parse_workflow :: "string \<Rightarrow> (string, workflow_definition) result"
  ch_parse_caps :: "string \<Rightarrow> (string, capability_spec) result"

definition config_load :: "cli_host \<Rightarrow> string \<Rightarrow> (cli_error, october_config) result" where
  "config_load H path =
     (case ch_read H path of
        Inl e \<Rightarrow> Inl (CliIo e)
      | Inr txt \<Rightarrow> (case ch_parse_config H txt of Inl e \<Rightarrow> Inl (CliConfig e) | Inr c \<Rightarrow> Inr c))"

definition resolve_with :: "cli_host \<Rightarrow> string option \<Rightarrow> string option \<Rightarrow> (cli_error, october_config) result" where
  "resolve_with H explicit user_path =
     (case explicit of
        Some p \<Rightarrow> config_load H p
      | None \<Rightarrow>
          (case user_path of
             Some p \<Rightarrow> if ch_exists H p then config_load H p else Inr (october_default_config (ch_env H))
           | None \<Rightarrow> Inr (october_default_config (ch_env H))))"

definition config_resolve :: "cli_host \<Rightarrow> string option \<Rightarrow> (cli_error, october_config) result" where
  "config_resolve H explicit = resolve_with H explicit (user_config_path (ch_env H))"

subsection \<open>The registry of providers\<close>

definition resolve_key ::
  "(string \<Rightarrow> string option) \<Rightarrow> string \<Rightarrow> string option \<Rightarrow> string option \<Rightarrow> (cli_error, string option) result" where
  "resolve_key env provider api_key api_key_env =
     (case (api_key, api_key_env) of
        (Some k, _) \<Rightarrow>
          if k = [] then Inl (CliConfig (''inline api_key for provider '' @ quoted provider @ '' is empty''))
          else Inr (Some k)
      | (None, Some var) \<Rightarrow>
          (case env var of
             None \<Rightarrow> Inl (CliConfig (''env var '' @ quoted var @ '' for provider '' @ quoted provider @ '' is not set''))
           | Some key \<Rightarrow>
               if key = []
               then Inl (CliConfig (''env var '' @ quoted var @ '' for provider '' @ quoted provider @ '' is empty''))
               else Inr (Some key))
      | (None, None) \<Rightarrow> Inr None)"

definition build_provider ::
  "('h, 'c) client_builder \<Rightarrow> (string \<Rightarrow> string option) \<Rightarrow> model_config \<Rightarrow> provider_config
     \<Rightarrow> (cli_error, 'c anthropic) result" where
  "build_provider B env mc pc =
     (case pc of AnthropicConfig api_key api_key_env base_url \<Rightarrow>
        (case resolve_key env (mc_provider mc) api_key api_key_env of
           Inl e \<Rightarrow> Inl e
         | Inr key \<Rightarrow>
             (case (case key of Some k \<Rightarrow> with_api_key B env k | None \<Rightarrow> anthropic_new B env) of
                Inl e \<Rightarrow> Inl (CliProvider (llm_error_display e))
              | Inr p \<Rightarrow>
                  let p1 = with_max_tokens (mc_max_tokens mc) (with_model (mc_model_id mc) p)
                  in Inr (case base_url of Some u \<Rightarrow> with_base_url B u p1 | None \<Rightarrow> p1))))"

text \<open>\<open>build_registry\<close>; \<open>reg.insert\<close> of a key that is there replaces its provider.\<close>

fun build_models ::
  "('h, 'c) client_builder \<Rightarrow> (string \<Rightarrow> string option) \<Rightarrow> october_config \<Rightarrow> (string \<times> model_config) list
     \<Rightarrow> (string \<rightharpoonup> 'c anthropic) \<Rightarrow> (cli_error, string \<rightharpoonup> 'c anthropic) result" where
  "build_models B env cfg [] reg = Inr reg"
| "build_models B env cfg ((model_key, mc) # ms) reg =
     (case map_of (oc_providers cfg) (mc_provider mc) of
        None \<Rightarrow> Inl (CliConfig (''model '' @ quoted model_key @ '' references unknown provider '' @ quoted (mc_provider mc)))
      | Some pc \<Rightarrow>
          (case build_provider B env mc pc of
             Inl e \<Rightarrow> Inl e
           | Inr p \<Rightarrow> build_models B env cfg ms (reg(model_key \<mapsto> p))))"

definition build_registry ::
  "('h, 'c) client_builder \<Rightarrow> (string \<Rightarrow> string option) \<Rightarrow> october_config
     \<Rightarrow> (cli_error, string \<rightharpoonup> 'c anthropic) result" where
  "build_registry B env cfg = build_models B env cfg (oc_models cfg) Map.empty"

subsection \<open>Validation\<close>

definition backtick :: char where
  "backtick = CHR 0x60"

definition validate_transition ::
  "(string \<Rightarrow> json \<Rightarrow> (string, json) result) \<Rightarrow> string list \<Rightarrow> workflow_agent_def \<Rightarrow> workflow_transition
     \<Rightarrow> string list" where
  "validate_transition ev names a t =
     (if tr_to t \<in> set names then []
      else [''agent '' @ quoted (ad_name a) @ '' has a transition to undefined agent '' @ quoted (tr_to t)]) @
     (case tr_condition t of
        None \<Rightarrow> []
      | Some cond \<Rightarrow>
          (case ev cond (JObject []) of
             Inr _ \<Rightarrow> []
           | Inl e \<Rightarrow> [''agent '' @ quoted (ad_name a) @ '' transition condition '' @ backtick # cond @ backtick #
                        '' failed to evaluate: '' @ e]))"

definition validate_agent ::
  "(string \<Rightarrow> json \<Rightarrow> (string, json) result) \<Rightarrow> string list \<Rightarrow> october_config \<Rightarrow> workflow_agent_def
     \<Rightarrow> string list" where
  "validate_agent ev names cfg a =
     (if map_of (oc_models cfg) (ad_model a) \<noteq> None then []
      else [''agent '' @ quoted (ad_name a) @ '' uses model '' @ quoted (ad_model a) @ '' which is not in config.models'']) @
     (case ad_transitions a of
        None \<Rightarrow> []
      | Some ts \<Rightarrow> concat (map (validate_transition ev names a) ts))"

definition validate_model :: "october_config \<Rightarrow> string \<times> model_config \<Rightarrow> string list" where
  "validate_model cfg m =
     (case m of (model_key, mc) \<Rightarrow>
        if map_of (oc_providers cfg) (mc_provider mc) \<noteq> None then []
        else [''model '' @ quoted model_key @ '' references unknown provider '' @ quoted (mc_provider mc)])"

definition validate ::
  "(string \<Rightarrow> json \<Rightarrow> (string, json) result) \<Rightarrow> workflow_definition \<Rightarrow> october_config \<Rightarrow> string list" where
  "validate ev d cfg =
     (let names = map ad_name (wd_agents d)
      in (if wd_start d \<in> set names then [] else [''start agent '' @ quoted (wd_start d) @ '' is not defined'']) @
         concat (map (validate_agent ev names cfg) (wd_agents d)) @
         concat (map (validate_model cfg) (oc_models cfg)))"

end
