(* ===== verification/Daemon.thy ===== *)
theory Daemon
  imports Supervisor Protocol Config
begin

text \<open>
  The daemon, \<open>src/cli/src/daemon/mod.rs\<close>: its start, and one connection: a request frame, the supervisor
  asked through its mailbox, the response frames. The supervisor is the live actor of theory
  Supervisor over any journal; a question and its reply are one step, since the mailbox is served in
  order. What else happens while a drain sleeps, and what a log subscription delivers, are parameters.
\<close>

subsection \<open>The daemon's state\<close>

text \<open>An item of a broadcast subscription; the end of the list is \<open>Closed\<close>.\<close>

datatype tail_item = TailFrame string string | TailLagged

record 'j daemon =
  dm_supervisor :: "(supervisor_actor, supervisor_state, 'j, supervisor_out) live"
  dm_default_caps :: capability_spec
  dm_shutdown :: bool

record ('j, 'b) daemon_env =
  de_journal :: "('j, 'b) journal_ops"
  de_codec :: "(supervisor_event, supervisor_state, 'b) codec"
  de_request :: "string \<Rightarrow> (string, daemon_request) result"
  de_response :: "daemon_response \<Rightarrow> (string, string) result"
  de_env :: "string \<Rightarrow> string option"
  de_now :: "'j daemon \<Rightarrow> u64"
  de_pid :: u32
  de_uptime :: "'j daemon \<Rightarrow> u64"
  de_history :: "'j \<Rightarrow> string \<Rightarrow> (string \<times> string) list"
  de_tail :: "'j daemon \<Rightarrow> nat \<Rightarrow> tail_item list option"
  de_meanwhile :: "nat \<Rightarrow> 'j daemon \<Rightarrow> 'j daemon"

text \<open>\<open>now_millis\<close>, of the milliseconds since the epoch, None when the clock is before it.\<close>

definition now_millis :: "nat option \<Rightarrow> u64" where
  "now_millis ms = (case ms of None \<Rightarrow> 0 | Some n \<Rightarrow> if n < 2 ^ 64 then word_of_nat n else -1)"

definition daemon_socket_path :: "string \<Rightarrow> string" where
  "daemon_socket_path root = join_path root ''daemon.sock''"

definition pid_path :: "string \<Rightarrow> string" where
  "pid_path root = join_path root ''daemon.pid''"

definition default_runtime_bin :: "string option \<Rightarrow> string" where
  "default_runtime_bin current_exe =
     (case Option.bind current_exe path_parent of
        None \<Rightarrow> ''october-runtime''
      | Some d \<Rightarrow> join_path d ''october-runtime'')"

subsection \<open>Questions to the supervisor\<close>

text \<open>A command to the supervisor and its outputs; a closed mailbox takes none.\<close>

definition ask ::
  "('j, 'b) daemon_env \<Rightarrow> supervisor_command \<Rightarrow> 'j daemon \<Rightarrow> supervisor_out list \<times> 'j daemon" where
  "ask E cmd d =
     (if lv_stopped (dm_supervisor d) then ([], d)
      else let l = run_command (de_journal E) supervisor_ops (de_codec E) supervisor_pid
                     (dm_supervisor d\<lparr>lv_out := []\<rparr>) cmd
           in (lv_out l, d\<lparr>dm_supervisor := l\<rparr>))"

fun reply_id :: "supervisor_out list \<Rightarrow> string option" where
  "reply_id [] = None"
| "reply_id (ReplyId i # outs) = Some i"
| "reply_id (_ # outs) = reply_id outs"

fun reply_jobs :: "supervisor_out list \<Rightarrow> job_summary list option" where
  "reply_jobs [] = None"
| "reply_jobs (ReplyJobs js # outs) = Some js"
| "reply_jobs (_ # outs) = reply_jobs outs"

fun reply_removed :: "supervisor_out list \<Rightarrow> (string, unit) result option" where
  "reply_removed [] = None"
| "reply_removed (ReplyRemoved r # outs) = Some r"
| "reply_removed (_ # outs) = reply_removed outs"

fun reply_subscriber :: "('j, 'b) daemon_env \<Rightarrow> 'j daemon \<Rightarrow> supervisor_out list \<Rightarrow> tail_item list option" where
  "reply_subscriber E d [] = None"
| "reply_subscriber E d (TellJob c SubscribeJob # outs) = de_tail E d c"
| "reply_subscriber E d (_ # outs) = reply_subscriber E d outs"

definition list_jobs :: "('j, 'b) daemon_env \<Rightarrow> 'j daemon \<Rightarrow> job_summary list \<times> 'j daemon" where
  "list_jobs E d =
     (case ask E ListJobs d of
        (outs, d1) \<Rightarrow> ((case reply_jobs outs of None \<Rightarrow> [] | Some js \<Rightarrow> js), d1))"

subsection \<open>Draining\<close>

text \<open>Polled until no job runs; \<open>n\<close> counts the waits. It may never return.\<close>

partial_function (option) drain_running :: "('j, 'b) daemon_env \<Rightarrow> nat \<Rightarrow> 'j daemon \<Rightarrow> 'j daemon option" where
  "drain_running E n d =
     (case list_jobs E d of
        (jobs, d1) \<Rightarrow>
          if length (filter (\<lambda>j. js_status j = JobRunning) jobs) = 0 then Some d1
          else drain_running E (n + 1) (de_meanwhile E n d1))"

declare drain_running.simps [code]

subsection \<open>Responses\<close>

definition respond :: "('j, 'b) daemon_env \<Rightarrow> daemon_response \<Rightarrow> writer \<Rightarrow> bool \<times> writer" where
  "respond E rsp w = (case write_frame (de_response E) rsp w of (r, w1) \<Rightarrow> (r = Inr (), w1))"

definition write_ack :: "('j, 'b) daemon_env \<Rightarrow> writer \<Rightarrow> bool \<times> writer" where
  "write_ack E w = respond E RspAck w"

definition write_err :: "('j, 'b) daemon_env \<Rightarrow> string \<Rightarrow> writer \<Rightarrow> bool \<times> writer" where
  "write_err E msg w = respond E (RspError msg) w"

text \<open>The counters are \<open>u32\<close>.\<close>

fun count_status :: "status_info \<Rightarrow> job_status \<Rightarrow> status_info" where
  "count_status i JobRunning = i\<lparr>si_running := si_running i + 1\<rparr>"
| "count_status i JobSuspendedStatus = i\<lparr>si_suspended := si_suspended i + 1\<rparr>"
| "count_status i JobAwaitingUserInput = i\<lparr>si_suspended := si_suspended i + 1\<rparr>"
| "count_status i JobFinished = i\<lparr>si_finished := si_finished i + 1\<rparr>"
| "count_status i JobFailedStatus = i\<lparr>si_failed := si_failed i + 1\<rparr>"

definition status_of :: "u32 \<Rightarrow> u64 \<Rightarrow> job_summary list \<Rightarrow> status_info" where
  "status_of pid uptime jobs =
     foldl (\<lambda>i j. count_status i (js_status j))
       \<lparr>si_pid = pid, si_uptime_secs = uptime, si_running = 0, si_suspended = 0, si_finished = 0, si_failed = 0\<rparr>
       jobs"

fun stream_frames :: "('j, 'b) daemon_env \<Rightarrow> (string \<times> string) list \<Rightarrow> writer \<Rightarrow> bool \<times> writer" where
  "stream_frames E [] w = (True, w)"
| "stream_frames E ((job, txt) # fs) w =
     (case respond E (RspLogFrame job txt) w of
        (True, w1) \<Rightarrow> stream_frames E fs w1
      | (False, w1) \<Rightarrow> (False, w1))"

text \<open>The frames of a subscription, those that lagged skipped.\<close>

definition tail_frames :: "tail_item list \<Rightarrow> (string \<times> string) list" where
  "tail_frames items = List.map_filter (\<lambda>i. case i of TailFrame job txt \<Rightarrow> Some (job, txt) | TailLagged \<Rightarrow> None) items"

definition stream_logs ::
  "('j, 'b) daemon_env \<Rightarrow> string \<Rightarrow> bool \<Rightarrow> writer \<Rightarrow> 'j daemon \<Rightarrow> bool \<times> writer \<times> 'j daemon" where
  "stream_logs E job follow w d =
     (case stream_frames E (de_history E (lv_journal (dm_supervisor d)) job) w of
        (False, w1) \<Rightarrow> (False, w1, d)
      | (True, w1) \<Rightarrow>
          (case (if follow then (case ask E (SubscribeById job) d of (outs, d1) \<Rightarrow> (reply_subscriber E d1 outs, d1))
                 else (None, d)) of
             (sub, d1) \<Rightarrow>
               (case stream_frames E (case sub of None \<Rightarrow> [] | Some items \<Rightarrow> tail_frames items) w1 of
                  (False, w2) \<Rightarrow> (False, w2, d1)
                | (True, w2) \<Rightarrow> (case respond E RspEnd w2 of (ok, w3) \<Rightarrow> (ok, w3, d1)))))"

subsection \<open>A connection\<close>

definition submit_spec :: "('j, 'b) daemon_env \<Rightarrow> submit_request \<Rightarrow> 'j daemon \<Rightarrow> job_spec" where
  "submit_spec E s d =
     \<lparr>jp_workflow = sq_workflow s, jp_workflow_name = sq_workflow_name s, jp_workdir = sq_workdir s,
      jp_input = sq_input s,
      jp_capabilities = resolve_user_paths (de_env E)
        (case sq_capabilities s of Some c \<Rightarrow> c | None \<Rightarrow> dm_default_caps d)\<rparr>"

text \<open>\<open>handle_conn\<close>; None is a drain that never ends.\<close>

definition handle_conn ::
  "('j, 'b) daemon_env \<Rightarrow> reader \<Rightarrow> writer \<Rightarrow> 'j daemon \<Rightarrow> (writer \<times> 'j daemon) option" where
  "handle_conn E rd w d =
     (case fst (read_frame (de_request E) rd) of
        Inl _ \<Rightarrow> Some (w, d)
      | Inr None \<Rightarrow> Some (w, d)
      | Inr (Some req) \<Rightarrow>
          (case req of
             ReqSubmit s \<Rightarrow>
               (case ask E (Submit (submit_spec E s d) (de_now E d)) d of
                  (outs, d1) \<Rightarrow>
                    (case reply_id outs of
                       Some i \<Rightarrow> Some (snd (respond E (RspSubmitted i) w), d1)
                     | None \<Rightarrow> Some (snd (write_err E ''submit failed'' w), d1)))
           | ReqList \<Rightarrow>
               (case list_jobs E d of (jobs, d1) \<Rightarrow> Some (snd (respond E (RspJobList jobs) w), d1))
           | ReqStatus \<Rightarrow>
               (case list_jobs E d of
                  (jobs, d1) \<Rightarrow>
                    Some (snd (respond E (RspStatus (status_of (de_pid E) (de_uptime E d1) jobs)) w), d1))
           | ReqStop job \<Rightarrow>
               (case ask E (StopById job) d of (_, d1) \<Rightarrow> Some (snd (write_ack E w), d1))
           | ReqResume job msg \<Rightarrow>
               (case ask E (ResumeById job msg) d of (_, d1) \<Rightarrow> Some (snd (write_ack E w), d1))
           | ReqRemove job \<Rightarrow>
               (case ask E (RemoveById job) d of
                  (outs, d1) \<Rightarrow>
                    (case reply_removed outs of
                       Some (Inr _) \<Rightarrow> Some (snd (write_ack E w), d1)
                     | Some (Inl msg) \<Rightarrow> Some (snd (write_err E msg w), d1)
                     | None \<Rightarrow> Some (snd (write_err E ''remove failed'' w), d1)))
           | ReqLogs job follow \<Rightarrow>
               (case stream_logs E job follow w d of (_, w1, d1) \<Rightarrow> Some (w1, d1))
           | ReqShutdown drain \<Rightarrow>
               (case (if drain then drain_running E 0 d else Some d) of
                  None \<Rightarrow> None
                | Some d1 \<Rightarrow>
                    (case ask E ShutdownAll d1 of
                       (_, d2) \<Rightarrow> Some (snd (write_ack E w), d2\<lparr>dm_shutdown := True\<rparr>)))))"

subsection \<open>The start of the daemon\<close>

text \<open>\<open>builtin_default\<close>, from the file embedded for the platform, if it has one.\<close>

definition builtin_default ::
  "(string \<Rightarrow> (string, capability_spec) result) \<Rightarrow> string option \<Rightarrow> (cli_error, capability_spec) result" where
  "builtin_default parse embedded =
     (case embedded of
        None \<Rightarrow> Inl (CliConfig ''no built-in capability spec for this platform'')
      | Some js \<Rightarrow> (case parse js of Inl e \<Rightarrow> Inl (CliConfig (''built-in capability spec parse error: '' @ e)) | Inr c \<Rightarrow> Inr c))"

text \<open>What the start has done to the host, in order.\<close>

datatype startup =
    CreatedDir string
  | SpawnedSupervisor string string string
  | UnlinkedSocket string
  | BoundSocket string
  | WrotePid string

record ('h, 'c) serve_host =
  sh_cli :: cli_host
  sh_create_dir_all :: "string \<Rightarrow> string option"
  sh_alive :: "string \<Rightarrow> bool"
  sh_current_exe :: "string option"
  sh_builder :: "('h, 'c) client_builder"
  sh_embedded :: "string option"
  sh_bind :: "string \<Rightarrow> string option"
  sh_write_pid :: "string \<Rightarrow> string option"

definition resolve_default_caps :: "('h, 'c) serve_host \<Rightarrow> october_config \<Rightarrow> (cli_error, capability_spec) result" where
  "resolve_default_caps H cfg =
     (case (case oc_capabilities_file cfg of
              Some path \<Rightarrow>
                (case load_capabilities (ch_read (sh_cli H)) (ch_parse_caps (sh_cli H)) path of
                   Inl e \<Rightarrow> Inl (CliConfig e) | Inr c \<Rightarrow> Inr c)
            | None \<Rightarrow> builtin_default (ch_parse_caps (sh_cli H)) (sh_embedded H)) of
        Inl e \<Rightarrow> Inl e
      | Inr c \<Rightarrow> Inr (resolve_user_paths (ch_env (sh_cli H)) c))"

text \<open>\<open>serve\<close> up to its accept loop: the default capabilities it serves with, or why it does not.\<close>

definition serve_start ::
  "('h, 'c) serve_host \<Rightarrow> october_config \<Rightarrow> (cli_error, capability_spec) result \<times> startup list" where
  "serve_start H cfg =
     (let state_dir = st_state_dir (oc_storage cfg); data_dir = st_data_dir (oc_storage cfg);
          runtime_bin = (case oc_runtime_bin cfg of Some b \<Rightarrow> b | None \<Rightarrow> default_runtime_bin (sh_current_exe H));
          sock = daemon_socket_path state_dir
      in case sh_create_dir_all H state_dir of
           Some e \<Rightarrow> (Inl (CliIo e), [])
         | None \<Rightarrow>
             (case sh_create_dir_all H data_dir of
                Some e \<Rightarrow> (Inl (CliIo e), [CreatedDir state_dir])
              | None \<Rightarrow>
                  let dirs = [CreatedDir state_dir, CreatedDir data_dir]
                  in if sh_alive H sock then (Inl (CliExecutor (''a daemon is already running for '' @ state_dir)), dirs)
                     else
                       (case build_registry (sh_builder H) (ch_env (sh_cli H)) cfg of
                          Inl e \<Rightarrow> (Inl e, dirs)
                        | Inr reg \<Rightarrow>
                            let spawned = dirs @ [SpawnedSupervisor runtime_bin state_dir data_dir]
                            in case resolve_default_caps H cfg of
                                 Inl e \<Rightarrow> (Inl e, spawned)
                               | Inr caps \<Rightarrow>
                                   (case sh_bind H sock of
                                      Some e \<Rightarrow> (Inl (CliExecutor e), spawned @ [UnlinkedSocket sock])
                                    | None \<Rightarrow>
                                        let bound = spawned @ [UnlinkedSocket sock, BoundSocket sock]
                                        in case sh_write_pid H (pid_path state_dir) of
                                             Some e \<Rightarrow> (Inl (CliIo e), bound)
                                           | None \<Rightarrow> (Inr caps, bound @ [WrotePid (pid_path state_dir)])))))"

text \<open>The accept loop: the connections it hands out until the shutdown is notified.\<close>

datatype 'c serve_event = Incoming 'c | AcceptError string | ShutdownNotified

fun serve_loop :: "'c serve_event list \<Rightarrow> 'c list \<times> bool" where
  "serve_loop [] = ([], True)"
| "serve_loop (Incoming c # evs) = (case serve_loop evs of (cs, running) \<Rightarrow> (c # cs, running))"
| "serve_loop (AcceptError e # evs) = serve_loop evs"
| "serve_loop (ShutdownNotified # evs) = ([], False)"

end
