(* ===== verification/Command_Line.thy ===== *)
theory Command_Line
  imports Daemon
begin

text \<open>
  The command line: the daemon's client (\<open>src/cli/src/client.rs\<close>) and the commands (\<open>src/cli/src/main.rs\<close>).
  What answers on the control socket is a parameter, the whole response of a connection as a function of
  the bytes it was sent; None is a connection that never ends. Standard output is the text printed.
\<close>

subsection \<open>The client\<close>

text \<open>\<open>cw_connect\<close> is whether something accepts on the path; \<open>cw_room\<close> bounds what it takes.\<close>

record 'd client_world =
  cw_connect :: "string \<Rightarrow> 'd \<Rightarrow> bool"
  cw_room :: "'d \<Rightarrow> nat option"
  cw_serve :: "string \<Rightarrow> 'd \<Rightarrow> (reader \<times> 'd) option"
  cw_request :: "daemon_request \<Rightarrow> (string, string) result"
  cw_response :: "string \<Rightarrow> (string, daemon_response) result"

type_synonym ('d, 'r) client_step = "((cli_error, 'r) result \<times> 'd) option"

text \<open>Connect, write the request, and the response as it will arrive.\<close>

definition open_request :: "'d client_world \<Rightarrow> string \<Rightarrow> daemon_request \<Rightarrow> 'd \<Rightarrow> ('d, reader) client_step" where
  "open_request W root req d =
     (if \<not> cw_connect W (daemon_socket_path root) d
      then Some (Inl (CliExecutor ''no daemon running; start it with `october daemon start`''), d)
      else
        (case write_frame (cw_request W) req \<lparr>wr_bytes = [], wr_room = cw_room W d\<rparr> of
           (Inl e, _) \<Rightarrow> Some (Inl (CliExecutor (io_display e)), d)
         | (Inr _, w) \<Rightarrow> map_option (\<lambda>(rd, d1). (Inr rd, d1)) (cw_serve W (wr_bytes w) d)))"

definition request :: "'d client_world \<Rightarrow> string \<Rightarrow> daemon_request \<Rightarrow> 'd \<Rightarrow> ('d, daemon_response) client_step" where
  "request W root req d =
     (case open_request W root req d of
        None \<Rightarrow> None
      | Some (Inl e, d1) \<Rightarrow> Some (Inl e, d1)
      | Some (Inr rd, d1) \<Rightarrow>
          (case fst (read_frame (cw_response W) rd) of
             Inl e \<Rightarrow> Some (Inl (CliExecutor (io_display e)), d1)
           | Inr None \<Rightarrow> Some (Inl (CliExecutor ''daemon closed connection''), d1)
           | Inr (Some rsp) \<Rightarrow> Some (Inr rsp, d1)))"

fun unexpected :: "daemon_response \<Rightarrow> cli_error" where
  "unexpected (RspError msg) = CliExecutor msg"
| "unexpected (RspSubmitted _) = CliExecutor ''unexpected daemon response: submitted''"
| "unexpected (RspJobList _) = CliExecutor ''unexpected daemon response: job-list''"
| "unexpected RspAck = CliExecutor ''unexpected daemon response: ack''"
| "unexpected (RspStatus _) = CliExecutor ''unexpected daemon response: status''"
| "unexpected (RspLogFrame _ _) = CliExecutor ''unexpected daemon response: log-frame''"
| "unexpected RspEnd = CliExecutor ''unexpected daemon response: end''"

text \<open>What a command makes of the one response it expects.\<close>

definition expect ::
  "(daemon_response \<Rightarrow> 'r option) \<Rightarrow> ('d, daemon_response) client_step \<Rightarrow> ('d, 'r) client_step" where
  "expect f step =
     (case step of
        None \<Rightarrow> None
      | Some (Inl e, d) \<Rightarrow> Some (Inl e, d)
      | Some (Inr rsp, d) \<Rightarrow> Some ((case f rsp of Some r \<Rightarrow> Inr r | None \<Rightarrow> Inl (unexpected rsp)), d))"

definition client_submit :: "'d client_world \<Rightarrow> string \<Rightarrow> submit_request \<Rightarrow> 'd \<Rightarrow> ('d, string) client_step" where
  "client_submit W root req d =
     expect (\<lambda>rsp. case rsp of RspSubmitted i \<Rightarrow> Some i | _ \<Rightarrow> None) (request W root (ReqSubmit req) d)"

definition client_list :: "'d client_world \<Rightarrow> string \<Rightarrow> 'd \<Rightarrow> ('d, job_summary list) client_step" where
  "client_list W root d =
     expect (\<lambda>rsp. case rsp of RspJobList js \<Rightarrow> Some js | _ \<Rightarrow> None) (request W root ReqList d)"

definition client_status :: "'d client_world \<Rightarrow> string \<Rightarrow> 'd \<Rightarrow> ('d, status_info) client_step" where
  "client_status W root d =
     expect (\<lambda>rsp. case rsp of RspStatus s \<Rightarrow> Some s | _ \<Rightarrow> None) (request W root ReqStatus d)"

definition client_ack :: "'d client_world \<Rightarrow> string \<Rightarrow> daemon_request \<Rightarrow> 'd \<Rightarrow> ('d, unit) client_step" where
  "client_ack W root req d =
     expect (\<lambda>rsp. case rsp of RspAck \<Rightarrow> Some () | _ \<Rightarrow> None) (request W root req d)"

definition client_stop :: "'d client_world \<Rightarrow> string \<Rightarrow> string \<Rightarrow> 'd \<Rightarrow> ('d, unit) client_step" where
  "client_stop W root job d = client_ack W root (ReqStop job) d"

definition client_resume :: "'d client_world \<Rightarrow> string \<Rightarrow> string \<Rightarrow> string \<Rightarrow> 'd \<Rightarrow> ('d, unit) client_step" where
  "client_resume W root job msg d = client_ack W root (ReqResume job msg) d"

definition client_remove :: "'d client_world \<Rightarrow> string \<Rightarrow> string \<Rightarrow> 'd \<Rightarrow> ('d, unit) client_step" where
  "client_remove W root job d = client_ack W root (ReqRemove job) d"

definition client_shutdown :: "'d client_world \<Rightarrow> string \<Rightarrow> bool \<Rightarrow> 'd \<Rightarrow> ('d, unit) client_step" where
  "client_shutdown W root drain d = client_ack W root (ReqShutdown drain) d"

lemma read_frame_shorter:
  "read_frame de r = (Inr (Some v), r1) \<Longrightarrow> length (rd_bytes r1) < length (rd_bytes r)"
  by (auto simp: read_frame_def read_exact_def split: if_splits sum.splits option.splits)

text \<open>The loop of \<open>logs\<close> over the frames that arrive: what is printed, and how it ends.\<close>

function log_loop :: "(string \<Rightarrow> (string, daemon_response) result) \<Rightarrow> reader \<Rightarrow> string \<times> (cli_error, unit) result" where
  "log_loop de rd =
     (case read_frame de rd of
        (Inl e, _) \<Rightarrow> ([], Inl (CliExecutor (io_display e)))
      | (Inr None, _) \<Rightarrow> ([], Inr ())
      | (Inr (Some rsp), rd1) \<Rightarrow>
          (case rsp of
             RspLogFrame _ txt \<Rightarrow> (case log_loop de rd1 of (out, r) \<Rightarrow> (txt @ out, r))
           | RspEnd \<Rightarrow> ([], Inr ())
           | RspError msg \<Rightarrow> ([], Inl (CliExecutor msg))
           | _ \<Rightarrow> ([], Inl (CliExecutor ''unexpected frame in log stream''))))"
  by pat_completeness auto
termination
  by (relation "measure (\<lambda>(de, rd). length (rd_bytes rd))") (auto dest: read_frame_shorter sym)

declare log_loop.simps [simp del]

definition client_logs :: "'d client_world \<Rightarrow> string \<Rightarrow> string \<Rightarrow> bool \<Rightarrow> 'd \<Rightarrow> ('d, unit) client_step \<times> string" where
  "client_logs W root job follow d =
     (case open_request W root (ReqLogs job follow) d of
        None \<Rightarrow> (None, [])
      | Some (Inl e, d1) \<Rightarrow> (Some (Inl e, d1), [])
      | Some (Inr rd, d1) \<Rightarrow> (case log_loop (cw_response W) rd of (out, r) \<Rightarrow> (Some (r, d1), out)))"

definition run_attached :: "'d client_world \<Rightarrow> string \<Rightarrow> submit_request \<Rightarrow> 'd \<Rightarrow> ('d, nat) client_step \<times> string" where
  "run_attached W root req d =
     (case client_submit W root req d of
        None \<Rightarrow> (None, [])
      | Some (Inl e, d1) \<Rightarrow> (Some (Inl e, d1), [])
      | Some (Inr job, d1) \<Rightarrow>
          let said = ''job '' @ job @ [newline]
          in (case client_logs W root job True d1 of
                (None, out) \<Rightarrow> (None, said @ out)
              | (Some (Inl e, d2), out) \<Rightarrow> (Some (Inl e, d2), said @ out)
              | (Some (Inr _, d2), out) \<Rightarrow>
                  (case client_list W root d2 of
                     None \<Rightarrow> (None, said @ out)
                   | Some (Inl e, d3) \<Rightarrow> (Some (Inl e, d3), said @ out)
                   | Some (Inr jobs, d3) \<Rightarrow>
                       let status = map_option js_status (find (\<lambda>j. js_job_id j = job) jobs)
                       in (Some (Inr (if status = Some JobFailedStatus then 1 else 0), d3), said @ out))))"

subsection \<open>Commands\<close>

datatype command =
    Validate string "string option"
  | Run string "string option" string string "string option" bool
  | DaemonStart "string option" bool
  | DaemonStop "string option" bool
  | DaemonStatus "string option"
  | JobList "string option"
  | JobLogs string bool "string option"
  | JobStop string "string option"
  | JobResume string string "string option"
  | JobRemove string "string option"

text \<open>What a command has for the user: standard output and standard error.\<close>

type_synonym printed = "string \<times> string"

definition resolve_state_dir :: "cli_host \<Rightarrow> string option \<Rightarrow> (cli_error, string) result" where
  "resolve_state_dir H config =
     (case config_resolve H config of Inl e \<Rightarrow> Inl e | Inr cfg \<Rightarrow> Inr (st_state_dir (oc_storage cfg)))"

definition load_workflow :: "cli_host \<Rightarrow> string \<Rightarrow> (cli_error, workflow_definition) result" where
  "load_workflow H path =
     (case ch_read H path of
        Inl e \<Rightarrow> Inl (CliIo e)
      | Inr txt \<Rightarrow> (case ch_parse_workflow H txt of Inl e \<Rightarrow> Inl (CliConfig e) | Inr d \<Rightarrow> Inr d))"

definition cross_mark :: string where
  "cross_mark = [CHR 0xE2, CHR 0x9C, CHR 0x97]"

text \<open>\<open>join("\n")\<close>.\<close>

fun join_lines :: "string list \<Rightarrow> string" where
  "join_lines [] = []"
| "join_lines [s] = s"
| "join_lines (s # ss) = s @ newline # join_lines ss"

definition do_validate ::
  "cli_host \<Rightarrow> (string \<Rightarrow> json \<Rightarrow> (string, json) result) \<Rightarrow> string \<Rightarrow> string option \<Rightarrow> nat \<times> printed" where
  "do_validate H ev workflow config =
     (case config_resolve H config of
        Inl e \<Rightarrow> (2, [], cli_error_display e @ [newline])
      | Inr cfg \<Rightarrow>
          (case ch_read H workflow of
             Inl e \<Rightarrow> (2, [], ''failed to read workflow: '' @ e @ [newline])
           | Inr txt \<Rightarrow>
               (case ch_parse_workflow H txt of
                  Inl e \<Rightarrow> (2, [], ''workflow parse error: '' @ e @ [newline])
                | Inr d \<Rightarrow>
                    let errs = validate ev d cfg
                    in if errs = [] then (0, ''valid'' @ [newline], [])
                       else (1, [], concat (map (\<lambda>e. cross_mark @ '' '' @ e @ [newline]) errs)))))"

text \<open>\<open>Path::file_name\<close> and \<open>file_stem\<close>; slashes and single dots at the end do not count.\<close>

fun drop_dots :: "string \<Rightarrow> string" where
  "drop_dots s =
     (case s of
        [] \<Rightarrow> []
      | c # r \<Rightarrow>
          if c = CHR ''/'' then drop_dots r
          else if c = CHR ''.'' \<and> r \<noteq> [] \<and> hd r = CHR ''/'' then drop_dots r
          else s)"

declare drop_dots.simps [simp del]

definition file_name :: "string \<Rightarrow> string option" where
  "file_name p =
     (let n = rev (takeWhile (\<lambda>c. c \<noteq> CHR ''/'') (drop_dots (rev p)))
      in if n = [] \<or> n = ''.'' \<or> n = ''..'' then None else Some n)"

definition file_stem :: "string \<Rightarrow> string option" where
  "file_stem p =
     map_option (\<lambda>n.
       let before = rev (drop 1 (dropWhile (\<lambda>c. c \<noteq> CHR ''.'') (rev n)))
       in if before = [] then n else before) (file_name p)"

definition build_submit ::
  "cli_host \<Rightarrow> (string \<Rightarrow> json \<Rightarrow> (string, json) result) \<Rightarrow> string \<Rightarrow> string option \<Rightarrow> string \<Rightarrow> string
     \<Rightarrow> string option \<Rightarrow> (cli_error, submit_request) result" where
  "build_submit H ev workflow config workdir input capabilities =
     (case config_resolve H config of
        Inl e \<Rightarrow> Inl e
      | Inr cfg \<Rightarrow>
          (case load_workflow H workflow of
             Inl e \<Rightarrow> Inl e
           | Inr d \<Rightarrow>
               let errs = validate ev d cfg
               in if errs \<noteq> [] then Inl (CliValidation (join_lines errs))
                  else
                    (case (case capabilities of
                             None \<Rightarrow> Inr None
                           | Some path \<Rightarrow>
                               (case load_capabilities (ch_read H) (ch_parse_caps H) path of
                                  Inl e \<Rightarrow> Inl (CliConfig e) | Inr c \<Rightarrow> Inr (Some c))) of
                       Inl e \<Rightarrow> Inl e
                     | Inr caps \<Rightarrow>
                         Inr \<lparr>sq_workflow = d, sq_workdir = workdir, sq_input = input, sq_capabilities = caps,
                              sq_workflow_name = (case file_stem workflow of Some n \<Rightarrow> n | None \<Rightarrow> ''workflow'')\<rparr>)))"

text \<open>Formatting pads with spaces to a number of characters.\<close>

definition pad_to :: "nat \<Rightarrow> string \<Rightarrow> string" where
  "pad_to n s = s @ replicate (n - length (filter (\<lambda>c. \<not> continuation c) s)) (CHR '' '')"

definition job_row :: "job_summary \<Rightarrow> string" where
  "job_row j = pad_to 38 (js_job_id j) @ '' '' @ pad_to 18 (js_workflow_name j) @ '' '' @
     pad_to 12 (status_debug (js_status j)) @ '' '' @ js_workdir j @ [newline]"

definition job_table :: "job_summary list \<Rightarrow> string" where
  "job_table jobs =
     (if jobs = [] then ''no jobs'' @ [newline]
      else pad_to 38 ''JOB'' @ '' '' @ pad_to 18 ''WORKFLOW'' @ '' '' @ pad_to 12 ''STATUS'' @ '' WORKDIR'' @ [newline] @
           concat (map job_row jobs))"

definition status_line :: "status_info \<Rightarrow> string" where
  "status_line s =
     ''pid '' @ show_nat (unat (si_pid s)) @ '' '' @ middle_dot @ '' up '' @ show_nat (unat (si_uptime_secs s)) @
     ''s '' @ middle_dot @ '' running '' @ show_nat (unat (si_running s)) @ '' '' @ middle_dot @ '' suspended '' @
     show_nat (unat (si_suspended s)) @ '' '' @ middle_dot @ '' finished '' @ show_nat (unat (si_finished s)) @
     '' '' @ middle_dot @ '' failed '' @ show_nat (unat (si_failed s)) @ [newline]"

text \<open>The rest of the host: the daemon in this process, and the background start's files and child.\<close>

record 'd main_host =
  mh_cli :: cli_host
  mh_eval :: "string \<Rightarrow> json \<Rightarrow> (string, json) result"
  mh_client :: "'d client_world"
  mh_serve :: "october_config \<Rightarrow> 'd \<Rightarrow> ((cli_error, unit) result \<times> 'd) option"
  mh_create_dir_all :: "string \<Rightarrow> string option"
  mh_open_log :: "string \<Rightarrow> string option"
  mh_current_exe :: "(string, string) result"
  mh_spawn :: "string \<Rightarrow> string list \<Rightarrow> string \<Rightarrow> 'd \<Rightarrow> (string, 'd) result"

definition spawn_background_daemon ::
  "'d main_host \<Rightarrow> string \<Rightarrow> string option \<Rightarrow> 'd \<Rightarrow> (cli_error, unit) result \<times> 'd" where
  "spawn_background_daemon M state_dir config d =
     (let log_file = join_path state_dir ''daemon.log''
      in case mh_create_dir_all M state_dir of
           Some e \<Rightarrow> (Inl (CliIo e), d)
         | None \<Rightarrow>
             (case mh_open_log M log_file of
                Some e \<Rightarrow> (Inl (CliIo e), d)
              | None \<Rightarrow>
                  (case mh_current_exe M of
                     Inl e \<Rightarrow> (Inl (CliIo e), d)
                   | Inr exe \<Rightarrow>
                       (case mh_spawn M exe
                               ([''daemon'', ''start''] @ (case config of None \<Rightarrow> [] | Some c \<Rightarrow> [''--config'', c]))
                               log_file d of
                          Inl e \<Rightarrow> (Inl (CliExecutor e), d)
                        | Inr d1 \<Rightarrow> (Inr (), d1)))))"

text \<open>A client command against the state directory of its configuration, and what it says on success.\<close>

definition on_daemon ::
  "'d main_host \<Rightarrow> string option \<Rightarrow> (string \<Rightarrow> 'd \<Rightarrow> ('d, 'r) client_step) \<Rightarrow> ('r \<Rightarrow> string) \<Rightarrow> 'd
     \<Rightarrow> ('d, nat) client_step \<times> printed" where
  "on_daemon M config act say d =
     (case resolve_state_dir (mh_cli M) config of
        Inl e \<Rightarrow> (Some (Inl e, d), [], [])
      | Inr root \<Rightarrow>
          (case act root d of
             None \<Rightarrow> (None, [], [])
           | Some (Inl e, d1) \<Rightarrow> (Some (Inl e, d1), [], [])
           | Some (Inr r, d1) \<Rightarrow> (Some (Inr 0, d1), say r, [])))"

definition cli_dispatch :: "'d main_host \<Rightarrow> command \<Rightarrow> 'd \<Rightarrow> ('d, nat) client_step \<times> printed" where
  "cli_dispatch M cmd d =
     (let H = mh_cli M; W = mh_client M
      in case cmd of
           Validate workflow config \<Rightarrow>
             (case do_validate H (mh_eval M) workflow config of (code, p) \<Rightarrow> (Some (Inr code, d), p))
         | Run workflow config workdir input capabilities detach \<Rightarrow>
             (case resolve_state_dir H config of
                Inl e \<Rightarrow> (Some (Inl e, d), [], [])
              | Inr root \<Rightarrow>
                  (case build_submit H (mh_eval M) workflow config workdir input capabilities of
                     Inl e \<Rightarrow> (Some (Inl e, d), [], [])
                   | Inr req \<Rightarrow>
                       if detach
                       then (case client_submit W root req d of
                               None \<Rightarrow> (None, [], [])
                             | Some (Inl e, d1) \<Rightarrow> (Some (Inl e, d1), [], [])
                             | Some (Inr job, d1) \<Rightarrow> (Some (Inr 0, d1), ''job '' @ job @ [newline], []))
                       else (case run_attached W root req d of (r, out) \<Rightarrow> (r, out, []))))
         | DaemonStart config background \<Rightarrow>
             (case config_resolve H config of
                Inl e \<Rightarrow> (Some (Inl e, d), [], [])
              | Inr cfg \<Rightarrow>
                  let state_dir = st_state_dir (oc_storage cfg)
                  in if background
                     then (case spawn_background_daemon M state_dir config d of
                             (Inl e, d1) \<Rightarrow> (Some (Inl e, d1), [], [])
                           | (Inr _, d1) \<Rightarrow>
                               (Some (Inr 0, d1),
                                ''daemon started in background ('' @ state_dir @ ''/daemon.log)'' @ [newline], []))
                     else (case mh_serve M cfg d of
                             None \<Rightarrow> (None, [], [])
                           | Some (Inl e, d1) \<Rightarrow> (Some (Inl e, d1), [], [])
                           | Some (Inr _, d1) \<Rightarrow> (Some (Inr 0, d1), [], [])))
         | DaemonStop config drain \<Rightarrow>
             on_daemon M config (\<lambda>root. client_shutdown W root drain) (\<lambda>_. ''daemon stopped'' @ [newline]) d
         | DaemonStatus config \<Rightarrow> on_daemon M config (client_status W) status_line d
         | JobList config \<Rightarrow> on_daemon M config (client_list W) job_table d
         | JobLogs job follow config \<Rightarrow>
             (case resolve_state_dir H config of
                Inl e \<Rightarrow> (Some (Inl e, d), [], [])
              | Inr root \<Rightarrow>
                  (case client_logs W root job follow d of
                     (None, out) \<Rightarrow> (None, out, [])
                   | (Some (Inl e, d1), out) \<Rightarrow> (Some (Inl e, d1), out, [])
                   | (Some (Inr _, d1), out) \<Rightarrow> (Some (Inr 0, d1), out, [])))
         | JobStop job config \<Rightarrow>
             on_daemon M config (\<lambda>root. client_stop W root job) (\<lambda>_. ''stopped'' @ [newline]) d
         | JobResume job msg config \<Rightarrow>
             on_daemon M config (\<lambda>root. client_resume W root job msg) (\<lambda>_. ''resumed'' @ [newline]) d
         | JobRemove job config \<Rightarrow>
             on_daemon M config (\<lambda>root. client_remove W root job) (\<lambda>_. ''removed'' @ [newline]) d)"

text \<open>\<open>main\<close>: the exit code, and what was printed.\<close>

definition cli_main :: "'d main_host \<Rightarrow> command \<Rightarrow> 'd \<Rightarrow> (nat \<times> printed \<times> 'd) option" where
  "cli_main M cmd d =
     (case cli_dispatch M cmd d of
        (None, _) \<Rightarrow> None
      | (Some (Inr code, d1), p) \<Rightarrow> Some (code, p, d1)
      | (Some (Inl e, d1), out, err) \<Rightarrow> Some (1, (out, err @ cli_error_display e @ [newline]), d1))"

end
