(* ===== verification/Daemon_Properties.thy ===== *)
theory Daemon_Properties
  imports Command_Line Daemon_Recovery
begin

text \<open>
  The command line against the daemon: a request over the socket is the answer of the supervisor,
  logs as far as they arrive, drains, and what a resumed job looks like from outside.
\<close>

subsection \<open>Logs over a connection that may be cut\<close>

lemma log_loop_frame:
  assumes "length bs < 2 ^ 32" "de bs = Inr (RspLogFrame job t)"
  shows "log_loop de \<lparr>rd_bytes = frame bs @ rest, rd_fault = f\<rparr> =
    (case log_loop de \<lparr>rd_bytes = rest, rd_fault = f\<rparr> of (out, r) \<Rightarrow> (t @ out, r))"
  by (subst log_loop.simps) (simp add: read_frame_frame [of bs de, OF assms])

lemma log_loop_frames:
  assumes "\<forall>(t, bs)\<in>set fs. length bs < 2 ^ 32 \<and> de bs = Inr (RspLogFrame job t)"
  shows "log_loop de \<lparr>rd_bytes = concat (map (frame \<circ> snd) fs) @ rest, rd_fault = f\<rparr> =
    (case log_loop de \<lparr>rd_bytes = rest, rd_fault = f\<rparr> of (out, r) \<Rightarrow> (concat (map fst fs) @ out, r))"
  using assms
proof (induction fs)
  case (Cons x fs)
  obtain t bs where x: "x = (t, bs)" by fastforce
  with Cons show ?case by (simp add: log_loop_frame [of bs de job t] split: prod.splits)
qed simp

lemma log_loop_end:
  assumes "length bs < 2 ^ 32" "de bs = Inr RspEnd"
  shows "log_loop de \<lparr>rd_bytes = frame bs @ rest, rd_fault = f\<rparr> = ([], Inr ())"
  by (subst log_loop.simps) (simp add: read_frame_frame [of bs de, OF assms])

lemma log_loop_torn:
  assumes "length bs < 2 ^ 32" "k < length (frame bs)"
  shows "log_loop de \<lparr>rd_bytes = take k (frame bs), rd_fault = None\<rparr> =
    ([], if k < 4 then Inr () else Inl (CliExecutor ''early eof''))"
  by (subst log_loop.simps) (simp add: read_frame_torn [of bs k de, OF assms])

text \<open>C38. The log a client prints, when the connection ends anywhere in the stream: the text of every frame
  that arrived whole, in order, and nothing else. A cut inside a frame's length, or between two
  frames, is taken for the end of the log; a cut inside a frame's body is an error.\<close>

theorem logs_cut:
  assumes frames: "\<forall>(t, bs)\<in>set fs. length bs < 2 ^ 32 \<and> de bs = Inr (RspLogFrame job t)"
    and finish: "length last_bs < 2 ^ 32" "de last_bs = Inr RspEnd"
  shows "log_loop de \<lparr>rd_bytes = concat (map frame (map snd fs @ [last_bs])), rd_fault = None\<rparr> =
      (concat (map fst fs), Inr ()) \<and>
    (\<forall>n k. n \<le> length fs \<longrightarrow> k < length (frame ((map snd fs @ [last_bs]) ! n)) \<longrightarrow>
      log_loop de \<lparr>rd_bytes = concat (map frame (take n (map snd fs))) @ take k (frame ((map snd fs @ [last_bs]) ! n)),
                   rd_fault = None\<rparr> =
      (concat (map fst (take n fs)), if k < 4 then Inr () else Inl (CliExecutor ''early eof'')))"
proof (intro conjI allI impI)
  show "log_loop de \<lparr>rd_bytes = concat (map frame (map snd fs @ [last_bs])), rd_fault = None\<rparr> =
      (concat (map fst fs), Inr ())"
    using log_loop_frames [OF frames, of "frame last_bs" None] log_loop_end [of last_bs de "[]" None, OF finish]
    by (simp add: comp_def)
next
  fix n k
  assume n: "n \<le> length fs" and k: "k < length (frame ((map snd fs @ [last_bs]) ! n))"
  let ?b = "(map snd fs @ [last_bs]) ! n"
  have len: "length ?b < 2 ^ 32"
  proof -
    have "\<forall>b\<in>set (map snd fs @ [last_bs]). length b < 2 ^ 32" using finish frames by auto
    moreover have "?b \<in> set (map snd fs @ [last_bs])" using n by (intro nth_mem) simp
    ultimately show ?thesis by blast
  qed
  have pre: "\<forall>(t, bs)\<in>set (take n fs). length bs < 2 ^ 32 \<and> de bs = Inr (RspLogFrame job t)"
    using frames by (auto dest: in_set_takeD)
  from log_loop_frames [OF pre, of "take k (frame ?b)" None] log_loop_torn [of ?b k de, OF len k]
  show "log_loop de \<lparr>rd_bytes = concat (map frame (take n (map snd fs))) @ take k (frame ?b), rd_fault = None\<rparr> =
      (concat (map fst (take n fs)), if k < 4 then Inr () else Inl (CliExecutor ''early eof''))"
    by (simp add: comp_def take_map)
qed

text \<open>A log of two frames, the second torn: the first is printed, and the end looks clean.\<close>

definition demo_log_de :: "string \<Rightarrow> (string, daemon_response) result" where
  "demo_log_de bs = (if bs = ''E'' then Inr RspEnd else Inr (RspLogFrame ''j'' bs))"

theorem logs_cut_witness:
  "log_loop demo_log_de \<lparr>rd_bytes = frame ''ab'' @ take 3 (frame ''cd''), rd_fault = None\<rparr> = (''ab'', Inr ())"
proof -
  have "\<forall>(t, bs)\<in>set [(''ab'', ''ab''), (''cd'', ''cd'')].
      length bs < 2 ^ 32 \<and> demo_log_de bs = Inr (RspLogFrame ''j'' t)"
    by (simp add: demo_log_de_def)
  moreover have "length ''E'' < 2 ^ 32" "demo_log_de ''E'' = Inr RspEnd" by (simp_all add: demo_log_de_def)
  ultimately have "\<forall>n k. n \<le> 2 \<longrightarrow> k < length (frame (([''ab'', ''cd''] @ [''E'']) ! n)) \<longrightarrow>
      log_loop demo_log_de \<lparr>rd_bytes = concat (map frame (take n [''ab'', ''cd''])) @
          take k (frame (([''ab'', ''cd''] @ [''E'']) ! n)), rd_fault = None\<rparr> =
      (concat (map fst (take n [(''ab'', ''ab''), (''cd'', ''cd'')])), if k < 4 then Inr () else Inl (CliExecutor ''early eof''))"
    using logs_cut [of "[(''ab'', ''ab''), (''cd'', ''cd'')]" demo_log_de "''j''" "''E''"] by simp
  from spec [OF spec [OF this, of 1], of 3] show ?thesis by (simp add: frame_def)
qed

subsection \<open>The socket between client and supervisor\<close>

text \<open>
  What the daemon answers to a request that is not for logs, as a call: the specification the socket,
  its frames and both codecs have to meet. None is a drain without end.
\<close>

definition daemon_answer :: "('j, 'b) daemon_env \<Rightarrow> daemon_request \<Rightarrow> 'j daemon \<Rightarrow> (daemon_response \<times> 'j daemon) option" where
  "daemon_answer E req d =
     (case req of
        ReqSubmit s \<Rightarrow>
          (case ask E (Submit (submit_spec E s d) (de_now E d)) d of
             (outs, d1) \<Rightarrow> Some (case reply_id outs of Some i \<Rightarrow> RspSubmitted i | None \<Rightarrow> RspError ''submit failed'', d1))
      | ReqList \<Rightarrow> (case list_jobs E d of (jobs, d1) \<Rightarrow> Some (RspJobList jobs, d1))
      | ReqStatus \<Rightarrow>
          (case list_jobs E d of (jobs, d1) \<Rightarrow> Some (RspStatus (status_of (de_pid E) (de_uptime E d1) jobs), d1))
      | ReqStop job \<Rightarrow> Some (RspAck, snd (ask E (StopById job) d))
      | ReqResume job msg \<Rightarrow> Some (RspAck, snd (ask E (ResumeById job msg) d))
      | ReqRemove job \<Rightarrow>
          (case ask E (RemoveById job) d of
             (outs, d1) \<Rightarrow>
               Some (case reply_removed outs of
                       Some (Inr _) \<Rightarrow> RspAck | Some (Inl msg) \<Rightarrow> RspError msg | None \<Rightarrow> RspError ''remove failed'', d1))
      | ReqLogs job follow \<Rightarrow> None
      | ReqShutdown drain \<Rightarrow>
          map_option (\<lambda>d1. (RspAck, (snd (ask E ShutdownAll d1))\<lparr>dm_shutdown := True\<rparr>))
            (if drain then drain_running E 0 d else Some d))"

text \<open>The client's world when the daemon is what serves its socket.\<close>

definition daemon_world ::
  "('j, 'b) daemon_env \<Rightarrow> (daemon_request \<Rightarrow> (string, string) result)
     \<Rightarrow> (string \<Rightarrow> (string, daemon_response) result) \<Rightarrow> 'j daemon client_world" where
  "daemon_world E ser de =
     \<lparr>cw_connect = (\<lambda>_ d. \<not> dm_shutdown d), cw_room = (\<lambda>_. None),
      cw_serve = (\<lambda>bytes d. map_option (\<lambda>(w, d1). (\<lparr>rd_bytes = wr_bytes w, rd_fault = None\<rparr>, d1))
        (handle_conn E \<lparr>rd_bytes = bytes, rd_fault = None\<rparr> \<lparr>wr_bytes = [], wr_room = None\<rparr> d)),
      cw_request = ser, cw_response = de\<rparr>"

text \<open>A value the one side's encoder writes in a frame's size and the other side's decoder reads back.\<close>

definition carried :: "('a \<Rightarrow> (string, string) result) \<Rightarrow> (string \<Rightarrow> (string, 'a) result) \<Rightarrow> 'a \<Rightarrow> bool" where
  "carried ser de v \<longleftrightarrow> (case ser v of Inl _ \<Rightarrow> False | Inr bs \<Rightarrow> length bs < 2 ^ 32 \<and> de bs = Inr v)"

lemma carriedE:
  assumes "carried ser de v"
  obtains bs where "ser v = Inr bs" "length bs < 2 ^ 32" "de bs = Inr v"
  using assms by (auto simp: carried_def split: sum.splits)

lemma respond_carried:
  assumes "carried (de_response E) de rsp"
  obtains bs where "respond E rsp \<lparr>wr_bytes = [], wr_room = None\<rparr> = (True, \<lparr>wr_bytes = frame bs, wr_room = None\<rparr>)"
    and "length bs < 2 ^ 32" "de bs = Inr rsp"
proof -
  from assms obtain bs where bs: "de_response E rsp = Inr bs" "length bs < 2 ^ 32" "de bs = Inr rsp" by (rule carriedE)
  show thesis
    by (rule that [OF _ bs(2,3)]) (simp add: respond_def write_frame_room [of "de_response E" rsp bs, OF bs(1,2)])
qed

text \<open>The connection writes exactly the answer.\<close>

lemma handle_conn_answer:
  assumes "length bs < 2 ^ 32" "de_request E bs = Inr req" "\<And>job follow. req \<noteq> ReqLogs job follow"
  shows "handle_conn E \<lparr>rd_bytes = frame bs, rd_fault = f\<rparr> w d =
    map_option (\<lambda>(rsp, d1). (snd (respond E rsp w), d1)) (daemon_answer E req d)"
proof -
  have "fst (read_frame (de_request E) \<lparr>rd_bytes = frame bs, rd_fault = f\<rparr>) = Inr (Some req)"
    using read_frame_frame [of bs "de_request E" req "[]" f, OF assms(1,2)] by simp
  with assms(3) show ?thesis
    by (cases req)
      (auto simp: handle_conn_def daemon_answer_def write_ack_def write_err_def split: prod.splits option.splits sum.splits)
qed

text \<open>C15. Calling the daemon through its socket is calling the supervisor: for every request but logs, the
  client gets exactly the answer, and the daemon's state is what the answer leaves, as long as the
  request and the answer survive their encoders; a shut down daemon cannot be reached.\<close>

theorem request_is_answer:
  assumes "\<And>job follow. req \<noteq> ReqLogs job follow" and "\<not> dm_shutdown d"
    and "carried ser (de_request E) req"
    and "\<And>rsp d1. daemon_answer E req d = Some (rsp, d1) \<Longrightarrow> carried (de_response E) de rsp"
  shows "request (daemon_world E ser de) root req d =
    map_option (\<lambda>(rsp, d1). (Inr rsp, d1)) (daemon_answer E req d)"
proof -
  from assms(3) obtain bs where bs: "ser req = Inr bs" "length bs < 2 ^ 32" "de_request E bs = Inr req" by (rule carriedE)
  have w: "write_frame ser req \<lparr>wr_bytes = [], wr_room = None\<rparr> = (Inr (), \<lparr>wr_bytes = frame bs, wr_room = None\<rparr>)"
    by (simp add: write_frame_room [of ser req bs, OF bs(1,2)])
  note conn = handle_conn_answer [OF bs(2,3) assms(1)]
  show ?thesis
  proof (cases "daemon_answer E req d")
    case None
    with w conn assms(2) show ?thesis
      by (simp add: request_def open_request_def daemon_world_def)
  next
    case (Some x)
    then obtain rsp d1 where a: "daemon_answer E req d = Some (rsp, d1)" by (cases x) auto
    from assms(4) [OF a] obtain rb where rb:
      "respond E rsp \<lparr>wr_bytes = [], wr_room = None\<rparr> = (True, \<lparr>wr_bytes = frame rb, wr_room = None\<rparr>)"
      "length rb < 2 ^ 32" "de rb = Inr rsp" by (rule respond_carried)
    from a w conn assms(2) rb(1) read_frame_frame [of rb de rsp "[]" None, OF rb(2,3)] show ?thesis
      by (simp add: request_def open_request_def daemon_world_def)
  qed
qed

subsection \<open>Draining\<close>

text \<open>The daemon as the drain finds it at its n-th poll.\<close>

primrec poll :: "('j, 'b) daemon_env \<Rightarrow> 'j daemon \<Rightarrow> nat \<Rightarrow> nat \<Rightarrow> 'j daemon" where
  "poll E d k 0 = d"
| "poll E d k (Suc n) = de_meanwhile E (k + n) (snd (list_jobs E (poll E d k n)))"

definition idle :: "('j, 'b) daemon_env \<Rightarrow> 'j daemon \<Rightarrow> bool" where
  "idle E d \<longleftrightarrow> (\<forall>j\<in>set (fst (list_jobs E d)). js_status j \<noteq> JobRunning)"

lemma poll_shift: "poll E d k (Suc n) = poll E (de_meanwhile E k (snd (list_jobs E d))) (Suc k) n"
  by (induction n) simp_all

lemma drain_running_step:
  "drain_running E k d =
     (if idle E d then Some (snd (list_jobs E d))
      else drain_running E (Suc k) (de_meanwhile E k (snd (list_jobs E d))))"
  by (subst drain_running.simps) (auto simp: idle_def filter_empty_conv split: prod.splits)

lemma drain_running_idle: "idle E (poll E d k n) \<Longrightarrow> \<exists>d'. drain_running E k d = Some d'"
proof (induction n arbitrary: d k)
  case 0
  then show ?case by (simp add: drain_running_step [of E k d])
next
  case (Suc n)
  then show ?case by (subst drain_running_step) (auto simp: poll_shift simp del: poll.simps)
qed

lemma drain_running_returned:
  assumes "drain_running E k d = Some d'"
  shows "\<exists>n. idle E (poll E d k n)"
proof (rule drain_running.raw_induct [of "\<lambda>E k d _. \<exists>n. idle E (poll E d k n)", OF _ assms])
  fix rec :: "('a, 'b) daemon_env \<Rightarrow> nat \<Rightarrow> 'a daemon \<Rightarrow> 'a daemon option" and E k d d'
  assume rec: "\<And>E k d d'. rec E k d = Some d' \<Longrightarrow> \<exists>n. idle E (poll E d k n)"
    and body: "(case list_jobs E d of (jobs, d1) \<Rightarrow>
       if length (filter (\<lambda>j. js_status j = JobRunning) jobs) = 0 then Some d1
       else rec E (k + 1) (de_meanwhile E k d1)) = Some d'"
  show "\<exists>n. idle E (poll E d k n)"
  proof (cases "idle E d")
    case True
    then have "idle E (poll E d k 0)" by simp
    then show ?thesis ..
  next
    case False
    obtain jobs d1 where l: "list_jobs E d = (jobs, d1)" by fastforce
    with body False have "rec E (k + 1) (de_meanwhile E k d1) = Some d'"
      by (auto simp: idle_def filter_empty_conv split: if_splits)
    from rec [OF this] obtain n where "idle E (poll E (de_meanwhile E k d1) (Suc k) n)" by auto
    then have "idle E (poll E d k (Suc n))" using l by (simp add: poll_shift del: poll.simps)
    then show ?thesis ..
  qed
qed

text \<open>A drain returns exactly when one of its polls finds no job running; as long as each finds one, the
  shutdown that asked for it never ends.\<close>

lemma drain_returns_iff:
  "(\<exists>d'. drain_running E 0 d = Some d') \<longleftrightarrow> (\<exists>n. idle E (poll E d 0 n))"
  using drain_running_idle drain_running_returned by blast

subsection \<open>Questions and their effects\<close>

lemma ask_open:
  assumes "\<not> lv_stopped (dm_supervisor d)"
    and "supervisor_handle_command (lv_actor (dm_supervisor d)) (lv_state (dm_supervisor d)) cmd = (a, outs, EffNone)"
  shows "ask E cmd d = (outs, d\<lparr>dm_supervisor := (dm_supervisor d)\<lparr>lv_actor := a, lv_out := outs\<rparr>\<rparr>)"
  using assms by (simp add: ask_def run_command_def supervisor_ops_def Let_def)

lemma list_jobs_open:
  assumes "\<not> lv_stopped (dm_supervisor d)"
  shows "fst (list_jobs E d) = map (\<lambda>(job, r). summary job r) (lv_state (dm_supervisor d))"
proof -
  have "ask E ListJobs d = ([ReplyJobs (map (\<lambda>(job, r). summary job r) (lv_state (dm_supervisor d)))],
      d\<lparr>dm_supervisor := (dm_supervisor d)\<lparr>lv_actor := lv_actor (dm_supervisor d),
        lv_out := [ReplyJobs (map (\<lambda>(job, r). summary job r) (lv_state (dm_supervisor d)))]\<rparr>\<rparr>)"
    by (rule ask_open [OF assms]) (simp add: supervisor_handle_command_def)
  then show ?thesis by (simp add: list_jobs_def)
qed

text \<open>A question whose one event the journal takes.\<close>

lemma ask_records:
  assumes "ser_event (de_codec E) ev = Inr b"
    and "jo_persist (de_journal E) (lv_journal (dm_supervisor d)) supervisor_pid [b] = (j', Inr ())"
    and "\<not> lv_stopped (dm_supervisor d)"
    and "supervisor_handle_command (lv_actor (dm_supervisor d)) (lv_state (dm_supervisor d)) cmd = (a, outs, Persist [ev])"
    and "ask E cmd d = (os, d1)"
  shows "os = outs" "lv_state (dm_supervisor d1) = supervisor_apply_event (lv_state (dm_supervisor d)) ev"
    "lv_actor (dm_supervisor d1) = a" "\<not> lv_stopped (dm_supervisor d1)" "dm_shutdown d1 = dm_shutdown d"
    "lv_journal (dm_supervisor d1) = j'"
  using assms by (auto simp: ask_def run_command_def supervisor_ops_def lv_persist_def persist_events_def Let_def)

text \<open>A suspended job that is resumed goes on working while the registry still shows it suspended: the
  resume changes no status, so a drain does not wait for the job, and a restart leaves it dormant.\<close>

lemma resumed_job_not_drained:
  assumes "\<not> lv_stopped (dm_supervisor d)"
    and "bt_get (lv_state (dm_supervisor d)) job = Some r"
    and "jr_status r = JobSuspendedStatus \<or> jr_status r = JobAwaitingUserInput"
    and "bt_get (sa_children (lv_actor (dm_supervisor d))) job = Some c"
    and "\<forall>(q, rec)\<in>set (lv_state (dm_supervisor d)). jr_status rec \<noteq> JobRunning"
    and "ja_workflow ja = None \<Longrightarrow> ja_launch ja (ja_launches ja) = Inr ()"
  shows "\<exists>d1 d2 ja' out.
    ask E (ResumeById job msg) d = ([TellJob c (ResumeJob msg)], d1) \<and>
    job_handle_command ja (ResumeJob msg) = (ja', [out], EffNone) \<and> ja_workflow ja' \<noteq> None \<and>
    (out = Launch (ja_launches ja) (KickResume msg) \<or> (\<exists>w. out = TellWorkflow w (ResumeWorkflow msg))) \<and>
    lv_state (dm_supervisor d1) = lv_state (dm_supervisor d) \<and>
    drain_running E k d1 = Some d2 \<and>
    job_on_recovery_complete ja1 (Some (jr_status r)) = (ja1, [])"
proof -
  let ?d1 = "d\<lparr>dm_supervisor := (dm_supervisor d)\<lparr>lv_out := [TellJob c (ResumeJob msg)]\<rparr>\<rparr>"
  have ask: "ask E (ResumeById job msg) d = ([TellJob c (ResumeJob msg)], ?d1)"
    using ask_open [OF assms(1), of "ResumeById job msg" "lv_actor (dm_supervisor d)" "[TellJob c (ResumeJob msg)]" E] assms(4)
    by (simp add: supervisor_handle_command_def tell_child_def)
  have "idle E ?d1"
    using assms(1,5) by (auto simp: idle_def list_jobs_open summary_def)
  then obtain d2 where drain: "drain_running E k ?d1 = Some d2" by (simp add: drain_running_step)
  obtain ja' out where job: "job_handle_command ja (ResumeJob msg) = (ja', [out], EffNone)" "ja_workflow ja' \<noteq> None"
      "out = Launch (ja_launches ja) (KickResume msg) \<or> (\<exists>w. out = TellWorkflow w (ResumeWorkflow msg))"
    using assms(6) by (cases "ja_workflow ja") (auto simp: job_handle_command_def launch_workflow_def Let_def)
  have "job_on_recovery_complete ja1 (Some (jr_status r)) = (ja1, [])"
    using assms(3) by (auto simp: job_on_recovery_complete_def)
  with ask drain job show ?thesis by (intro exI [of _ ?d1] exI [of _ d2] exI [of _ ja'] exI [of _ out]) simp
qed

subsection \<open>What a client sees of its jobs\<close>

lemma client_answer:
  assumes "\<And>job follow. req \<noteq> ReqLogs job follow" and "\<not> dm_shutdown d"
    and "carried ser (de_request E) req" and "daemon_answer E req d = Some (rsp, d1)" and "carried (de_response E) de rsp"
  shows "expect f (request (daemon_world E ser de) root req d) =
    Some ((case f rsp of Some r \<Rightarrow> Inr r | None \<Rightarrow> Inl (unexpected rsp)), d1)"
proof -
  from assms(3) obtain bs where bs: "ser req = Inr bs" "length bs < 2 ^ 32" "de_request E bs = Inr req" by (rule carriedE)
  have w: "write_frame ser req \<lparr>wr_bytes = [], wr_room = None\<rparr> = (Inr (), \<lparr>wr_bytes = frame bs, wr_room = None\<rparr>)"
    by (simp add: write_frame_room [of ser req bs, OF bs(1,2)])
  from assms(5) obtain rb where rb:
      "respond E rsp \<lparr>wr_bytes = [], wr_room = None\<rparr> = (True, \<lparr>wr_bytes = frame rb, wr_room = None\<rparr>)"
      "length rb < 2 ^ 32" "de rb = Inr rsp" by (rule respond_carried)
  from w handle_conn_answer [OF bs(2,3) assms(1)] assms(2,4) rb(1) read_frame_frame [of rb de rsp "[]" None, OF rb(2,3)]
  show ?thesis by (simp add: expect_def request_def open_request_def daemon_world_def)
qed

text \<open>C29. A job submitted over the socket is in the list the client asks for next, running, under the id it was
  given; the supervisor has spawned its actor and told it to start. The specification the actor gets and the
  registry keeps is the request's, with the user's home put into the path of each grant, of the request's
  capabilities or else of the daemon's defaults. This holds on any journal, with any serializer, as long as the
  event of the submission can be written.\<close>

theorem submitted_job_listed:
  assumes "\<not> lv_stopped (dm_supervisor d)" and "\<not> dm_shutdown d"
    and job: "job = sa_new_id (lv_actor (dm_supervisor d)) (sa_drawn (lv_actor (dm_supervisor d)))"
    and caps: "caps = (case sq_capabilities s of Some c \<Rightarrow> c | None \<Rightarrow> dm_default_caps d)"
    and spec: "spec = \<lparr>jp_workflow = sq_workflow s, jp_workflow_name = sq_workflow_name s, jp_workdir = sq_workdir s,
      jp_input = sq_input s,
      jp_capabilities = \<lparr>cs_network = cs_network caps, cs_grants = map (resolve_grant (de_env E ''HOME'')) (cs_grants caps)\<rparr>\<rparr>"
    and rec: "rec = \<lparr>jr_spec = spec, jr_status = JobRunning, jr_submitted_at = de_now E d\<rparr>"
    and "ser_event (de_codec E) (JobSubmitted job spec (de_now E d)) = Inr b"
    and "jo_persist (de_journal E) (lv_journal (dm_supervisor d)) supervisor_pid [b] = (j', Inr ())"
    and "carried ser (de_request E) (ReqSubmit s)" "carried ser (de_request E) ReqList"
    and "carried (de_response E) de (RspSubmitted job)"
    and "carried (de_response E) de
      (RspJobList (map (\<lambda>(q, r). summary q r) (bt_insert job rec (lv_state (dm_supervisor d)))))"
  shows "\<exists>d1 d2 jobs c. client_submit (daemon_world E ser de) root s d = Some (Inr job, d1) \<and>
    ask E (Submit spec (de_now E d)) d = ([SpawnJob c job spec, TellJob c StartJob, ReplyId job], d1) \<and>
    lv_journal (dm_supervisor d1) = j' \<and>
    bt_get (lv_state (dm_supervisor d1)) job = Some rec \<and>
    bt_get (sa_children (lv_actor (dm_supervisor d1))) job = Some c \<and>
    client_list (daemon_world E ser de) root d1 = Some (Inr jobs, d2) \<and> summary job rec \<in> set jobs"
proof -
  let ?a = "lv_actor (dm_supervisor d)" and ?s = "lv_state (dm_supervisor d)"
  have sub: "submit_spec E s d = spec"
    by (simp add: submit_spec_def spec caps resolve_user_paths_def resolve_user_paths_with_def)
  obtain a' c where h: "supervisor_handle_command ?a ?s (Submit spec (de_now E d)) =
      (a', [SpawnJob c job spec, TellJob c StartJob, ReplyId job], Persist [JobSubmitted job spec (de_now E d)])"
      "bt_get (sa_children a') job = Some c"
    by (simp add: supervisor_handle_command_def spawn_job_def tell_child_def job Let_def)
  obtain d1 where ask: "ask E (Submit spec (de_now E d)) d = ([SpawnJob c job spec, TellJob c StartJob, ReplyId job], d1)"
    using ask_records(1) [OF assms(7,8,1) h(1)] by (cases "ask E (Submit spec (de_now E d)) d") auto
  note d1 = ask_records(2-6) [OF assms(7,8,1) h(1) ask]
  have s1: "lv_state (dm_supervisor d1) = bt_insert job rec ?s" using d1(1) by (simp add: rec)
  have submit: "client_submit (daemon_world E ser de) root s d = Some (Inr job, d1)"
    unfolding client_submit_def
    by (subst client_answer [OF _ assms(2,9) _ assms(11), of d1]) (simp_all add: daemon_answer_def sub ask)
  obtain d2 where l: "list_jobs E d1 = (map (\<lambda>(q, r). summary q r) (bt_insert job rec ?s), d2)"
    using list_jobs_open [OF d1(3), of E] s1 by (cases "list_jobs E d1") auto
  have lst: "client_list (daemon_world E ser de) root d1 = Some (Inr (map (\<lambda>(q, r). summary q r) (bt_insert job rec ?s)), d2)"
    unfolding client_list_def
    by (subst client_answer [OF _ _ assms(10) _ assms(12), of d1 d2]) (use assms(2) d1(4) in \<open>simp_all add: daemon_answer_def l\<close>)
  have "bt_get (bt_insert job rec ?s) job = Some rec" by simp
  then have "(job, rec) \<in> set (bt_insert job rec ?s)" by (rule map_of_SomeD)
  then have "summary job rec \<in> set (map (\<lambda>(q, r). summary q r) (bt_insert job rec ?s))" by force
  with submit ask lst h(2) d1(2,5) s1 show ?thesis by auto
qed

lemma status_of_word:
  "si_running (foldl (\<lambda>i j. count_status i (js_status j)) i jobs) =
     si_running i + word_of_nat (length (filter (\<lambda>j. js_status j \<in> {JobRunning}) jobs))"
  "si_suspended (foldl (\<lambda>i j. count_status i (js_status j)) i jobs) =
     si_suspended i + word_of_nat (length (filter (\<lambda>j. js_status j \<in> {JobSuspendedStatus, JobAwaitingUserInput}) jobs))"
  "si_finished (foldl (\<lambda>i j. count_status i (js_status j)) i jobs) =
     si_finished i + word_of_nat (length (filter (\<lambda>j. js_status j \<in> {JobFinished}) jobs))"
  "si_failed (foldl (\<lambda>i j. count_status i (js_status j)) i jobs) =
     si_failed i + word_of_nat (length (filter (\<lambda>j. js_status j \<in> {JobFailedStatus}) jobs))"
proof (induction jobs arbitrary: i)
  case (Cons j jobs)
  case 1 from Cons(1) show ?case by (cases "js_status j") simp_all
  case 2 from Cons(2) show ?case by (cases "js_status j") simp_all
  case 3 from Cons(3) show ?case by (cases "js_status j") simp_all
  case 4 from Cons(4) show ?case by (cases "js_status j") simp_all
qed simp_all

lemma status_of_counts:
  assumes "\<And>P. length (filter P jobs) < 2 ^ 32"
  shows "unat (si_running (status_of pid up jobs)) = length (filter (\<lambda>j. js_status j \<in> {JobRunning}) jobs)"
    and "unat (si_suspended (status_of pid up jobs)) = length (filter (\<lambda>j. js_status j \<in> {JobSuspendedStatus, JobAwaitingUserInput}) jobs)"
    and "unat (si_finished (status_of pid up jobs)) = length (filter (\<lambda>j. js_status j \<in> {JobFinished}) jobs)"
    and "unat (si_failed (status_of pid up jobs)) = length (filter (\<lambda>j. js_status j \<in> {JobFailedStatus}) jobs)"
  using assms
  by (simp_all add: status_of_def status_of_word unat_of_nat take_bit_nat_eq_self del: insert_iff)

lemma statuses_partition:
  "length (filter (\<lambda>j. js_status j \<in> {JobRunning}) jobs) +
   length (filter (\<lambda>j. js_status j \<in> {JobSuspendedStatus, JobAwaitingUserInput}) jobs) +
   length (filter (\<lambda>j. js_status j \<in> {JobFinished}) jobs) +
   length (filter (\<lambda>j. js_status j \<in> {JobFailedStatus}) jobs) = length jobs"
proof (induction jobs)
  case (Cons j jobs)
  then show ?case by (cases "js_status j") simp_all
qed simp

text \<open>The counts of \<open>october daemon status\<close> are those of the registry: each job in exactly one of them, those
  that await the user among the suspended, as long as there are fewer than \<open>2 ^ 32\<close> jobs.\<close>

lemma status_counts:
  assumes "\<not> lv_stopped (dm_supervisor d)" and "length (lv_state (dm_supervisor d)) < 2 ^ 32"
  shows "let jobs = fst (list_jobs E d); i = status_of pid uptime jobs;
             count = (\<lambda>sts. length (filter (\<lambda>(q, r). jr_status r \<in> sts) (lv_state (dm_supervisor d))))
         in unat (si_running i) = count {JobRunning} \<and>
            unat (si_suspended i) = count {JobSuspendedStatus, JobAwaitingUserInput} \<and>
            unat (si_finished i) = count {JobFinished} \<and> unat (si_failed i) = count {JobFailedStatus} \<and>
            unat (si_running i) + unat (si_suspended i) + unat (si_finished i) + unat (si_failed i) = length jobs"
proof -
  let ?jobs = "map (\<lambda>(q, r). summary q r) (lv_state (dm_supervisor d))"
  have len: "length (filter P ?jobs) < 2 ^ 32" for P
    by (rule le_less_trans [OF length_filter_le]) (use assms(2) in simp)
  note counts = status_of_counts [OF len]
  have sum: "length (filter (\<lambda>j. js_status j \<in> {JobRunning}) ?jobs) + length (filter (\<lambda>j. js_status j \<in> {JobSuspendedStatus, JobAwaitingUserInput}) ?jobs) +
      length (filter (\<lambda>j. js_status j \<in> {JobFinished}) ?jobs) + length (filter (\<lambda>j. js_status j \<in> {JobFailedStatus}) ?jobs) = length ?jobs"
    by (rule statuses_partition)
  show ?thesis
    unfolding list_jobs_open [OF assms(1)] Let_def counts sum
    by (simp add: filter_map comp_def split_def summary_def)
qed

subsection \<open>A sample daemon\<close>

definition wire_request :: "daemon_request \<Rightarrow> (string, string) result" where
  "wire_request req =
     (case req of ReqList \<Rightarrow> Inr ''L'' | ReqStop job \<Rightarrow> Inr (''P'' @ job) | ReqSubmit s \<Rightarrow> Inr (''S'' @ sq_input s)
      | _ \<Rightarrow> Inl ''unused'')"

definition sample_submit :: "string \<Rightarrow> submit_request" where
  "sample_submit input = \<lparr>sq_workflow = \<lparr>wd_start = ''a'', wd_agents = []\<rparr>, sq_workdir = ''/w'', sq_input = input,
     sq_capabilities = None, sq_workflow_name = ''w''\<rparr>"

definition sample_env_on :: "('j, 'b) journal_ops \<Rightarrow> (supervisor_event, supervisor_state, 'b) codec \<Rightarrow> ('j, 'b) daemon_env" where
  "sample_env_on J K =
     \<lparr>de_journal = J, de_codec = K,
      de_request = (\<lambda>b. if b = ''L'' then Inr ReqList
        else (case strip_prefix ''P'' b of Some job \<Rightarrow> Inr (ReqStop job)
          | None \<Rightarrow> (case strip_prefix ''S'' b of Some input \<Rightarrow> Inr (ReqSubmit (sample_submit input)) | None \<Rightarrow> Inl ''bad''))),
      de_response = (\<lambda>r. case r of RspAck \<Rightarrow> Inr ''A'' | RspSubmitted i \<Rightarrow> Inr (''I'' @ i)
        | RspJobList js \<Rightarrow> Inr (''J'' @ concat (map js_job_id js)) | _ \<Rightarrow> Inl ''unused''),
      de_env = [''HOME'' \<mapsto> ''/h''], de_now = (\<lambda>_. 7), de_pid = 1, de_uptime = (\<lambda>_. 0), de_history = (\<lambda>_ _. []),
      de_tail = (\<lambda>_ _. None), de_meanwhile = (\<lambda>_ d. d)\<rparr>"

definition sample_daemon :: "'j \<Rightarrow> 'j daemon" where
  "sample_daemon j =
     \<lparr>dm_supervisor = \<lparr>lv_actor = demo_supervisor, lv_state = [], lv_seq = 0, lv_journal = j, lv_out = [], lv_stopped = False\<rparr>,
      dm_default_caps = \<lparr>cs_network = Block, cs_grants = [DirGrant ''~/x'' Read]\<rparr>, dm_shutdown = False\<rparr>"

text \<open>What its registry keeps of the submission: the default grant, below the user's home.\<close>

definition sample_spec :: job_spec where
  "sample_spec = \<lparr>jp_workflow = \<lparr>wd_start = ''a'', wd_agents = []\<rparr>, jp_workflow_name = ''w'', jp_workdir = ''/w'',
     jp_input = ''go'', jp_capabilities = \<lparr>cs_network = Block, cs_grants = [DirGrant ''/h/x'' Read]\<rparr>\<rparr>"

definition sample_record :: job_record where
  "sample_record = \<lparr>jr_spec = sample_spec, jr_status = JobRunning, jr_submitted_at = 7\<rparr>"

definition wire_response :: "string \<Rightarrow> (string, daemon_response) result" where
  "wire_response b =
     (if b = ''A'' then Inr RspAck
      else (case strip_prefix ''I'' b of Some i \<Rightarrow> Inr (RspSubmitted i)
        | None \<Rightarrow> if b = ''Jj'' then Inr (RspJobList [summary ''j'' sample_record]) else Inl ''bad''))"

lemma sample_carried:
  "carried wire_request (de_request (sample_env_on J K)) ReqList"
  "carried wire_request (de_request (sample_env_on J K)) (ReqSubmit (sample_submit ''go''))"
  "carried wire_request (de_request (sample_env_on J K)) (ReqStop ''j'')"
  "carried (de_response (sample_env_on J K)) wire_response RspAck"
  "carried (de_response (sample_env_on J K)) wire_response (RspSubmitted ''j'')"
  "carried (de_response (sample_env_on J K)) wire_response (RspJobList [summary ''j'' sample_record])"
  by (simp_all add: carried_def wire_request_def sample_env_on_def wire_response_def sample_submit_def summary_def)

lemma sample_open: "\<not> lv_stopped (dm_supervisor (sample_daemon j))" "\<not> dm_shutdown (sample_daemon j)"
    "lv_state (dm_supervisor (sample_daemon j)) = []"
    "lv_actor (dm_supervisor (sample_daemon j)) = demo_supervisor"
  by (simp_all add: sample_daemon_def)

theorem request_is_answer_witness:
  "fst (the (request (daemon_world (sample_env_on in_memory_ops direct_codec) wire_request wire_response) ''/r''
     (ReqStop ''j'') (sample_daemon Map.empty))) = Inr RspAck"
proof -
  let ?E = "sample_env_on in_memory_ops direct_codec"
  have a: "daemon_answer ?E (ReqStop ''j'') (sample_daemon Map.empty) =
      Some (RspAck, snd (ask ?E (StopById ''j'') (sample_daemon Map.empty)))"
    by (simp add: daemon_answer_def)
  have "request (daemon_world ?E wire_request wire_response) ''/r'' (ReqStop ''j'') (sample_daemon Map.empty) =
      map_option (\<lambda>(rsp, d1). (Inr rsp, d1)) (daemon_answer ?E (ReqStop ''j'') (sample_daemon Map.empty))"
    by (rule request_is_answer) (use a in \<open>auto simp: sample_open sample_carried\<close>)
  with a show ?thesis by simp
qed

text \<open>On the file journal.\<close>

theorem submitted_job_listed_witness:
  "let E = sample_env_on (file_ops nibble_codec) (table_codec [JobSubmitted ''j'' sample_spec 7]);
       d = sample_daemon \<lparr>fj_files = Map.empty, fj_faults = []\<rparr>
   in \<exists>d1 d2 jobs. client_submit (daemon_world E wire_request wire_response) ''/r'' (sample_submit ''go'') d = Some (Inr ''j'', d1) \<and>
        fj_files (lv_journal (dm_supervisor d1)) supervisor_pid \<noteq> None \<and>
        client_list (daemon_world E wire_request wire_response) ''/r'' d1 = Some (Inr jobs, d2) \<and>
        summary ''j'' sample_record \<in> set jobs"
proof -
  let ?E = "sample_env_on (file_ops nibble_codec) (table_codec [JobSubmitted ''j'' sample_spec 7])"
  let ?j = "\<lparr>fj_files = Map.empty, fj_faults = []\<rparr>"
  let ?d = "sample_daemon ?j"
  have id: "''j'' = sa_new_id (lv_actor (dm_supervisor ?d)) (sa_drawn (lv_actor (dm_supervisor ?d)))"
    by (simp add: sample_daemon_def demo_supervisor_def)
  have caps: "\<lparr>cs_network = Block, cs_grants = [DirGrant ''~/x'' Read]\<rparr> =
      (case sq_capabilities (sample_submit ''go'') of Some c \<Rightarrow> c | None \<Rightarrow> dm_default_caps ?d)"
    by (simp add: sample_submit_def sample_daemon_def)
  have home: "resolve_grant (Some ''/h'') (DirGrant ''~/x'' Read) = DirGrant ''/h/x'' Read" by code_simp
  have spec: "sample_spec = \<lparr>jp_workflow = sq_workflow (sample_submit ''go''), jp_workflow_name = sq_workflow_name (sample_submit ''go''),
      jp_workdir = sq_workdir (sample_submit ''go''), jp_input = sq_input (sample_submit ''go''),
      jp_capabilities = \<lparr>cs_network = cs_network \<lparr>cs_network = Block, cs_grants = [DirGrant ''~/x'' Read]\<rparr>,
        cs_grants = map (resolve_grant (de_env ?E ''HOME'')) (cs_grants \<lparr>cs_network = Block, cs_grants = [DirGrant ''~/x'' Read]\<rparr>)\<rparr>\<rparr>"
    using home by (simp add: sample_spec_def sample_submit_def sample_env_on_def)
  have row: "sample_record = \<lparr>jr_spec = sample_spec, jr_status = JobRunning, jr_submitted_at = de_now ?E ?d\<rparr>"
    by (simp add: sample_record_def sample_env_on_def)
  have ser: "ser_event (de_codec ?E) (JobSubmitted ''j'' sample_spec (de_now ?E ?d)) = Inr []"
    by (simp add: sample_env_on_def table_codec_def)
  obtain j' where j': "jo_persist (de_journal ?E) (lv_journal (dm_supervisor ?d)) supervisor_pid [[]] = (j', Inr ())"
      "fj_files j' supervisor_pid \<noteq> None"
    by (simp add: sample_env_on_def sample_daemon_def file_ops_def fj_persist_def next_write_def append_file_def Let_def)
  have lst: "carried (de_response ?E) wire_response
      (RspJobList (map (\<lambda>(q, r). summary q r) (bt_insert ''j'' sample_record (lv_state (dm_supervisor ?d)))))"
    using sample_carried(6) by (simp add: sample_open)
  from submitted_job_listed [OF sample_open(1,2) id caps spec row ser j'(1) sample_carried(2,1,5) lst, of "''/r''"] j'(2)
  show ?thesis unfolding Let_def by blast
qed

end
