(* ===== verification/Config_Properties.thy ===== *)
theory Config_Properties
  imports Daemon_Properties
begin

text \<open>
  What the configuration's checks are worth: the registry of providers, a validated workflow at run
  time, the paths, and the commands that refuse an invalid workflow.
\<close>

subsection \<open>The registry\<close>

lemma build_models_keys:
  assumes "build_models B env cfg ms reg = Inr reg'"
  shows "dom reg' = dom reg \<union> fst ` set ms"
  using assms
proof (induction B env cfg ms reg rule: build_models.induct)
  case (2 B env cfg k mc ms reg)
  then obtain pc p where "map_of (oc_providers cfg) (mc_provider mc) = Some pc" "build_provider B env mc pc = Inr p"
      "build_models B env cfg ms (reg(k \<mapsto> p)) = Inr reg'"
    by (auto split: option.splits sum.splits)
  with 2(1) [OF this(1,2,3)] show ?case by auto
qed simp

text \<open>A registry that builds has a provider for each configured model and for nothing else.\<close>

lemma build_registry_keys:
  "build_registry B env cfg = Inr reg \<Longrightarrow> reg m \<noteq> None \<longleftrightarrow> map_of (oc_models cfg) m \<noteq> None"
  using build_models_keys [of B env cfg "oc_models cfg" Map.empty reg]
  by (auto simp: build_registry_def domIff map_of_eq_None_iff)

subsection \<open>Validation\<close>

definition transition_valid :: "(string \<Rightarrow> json \<Rightarrow> (string, json) result) \<Rightarrow> string list \<Rightarrow> workflow_transition \<Rightarrow> bool" where
  "transition_valid ev names t \<longleftrightarrow>
     tr_to t \<in> set names \<and> (\<forall>c. tr_condition t = Some c \<longrightarrow> (\<exists>v. ev c (JObject []) = Inr v))"

lemma validate_transition_nil: "validate_transition ev names a t = [] \<longleftrightarrow> transition_valid ev names t"
  by (cases "tr_condition t")
    (auto simp: validate_transition_def transition_valid_def split: sum.splits)

lemma validate_agent_nil:
  "validate_agent ev names cfg a = [] \<longleftrightarrow>
     map_of (oc_models cfg) (ad_model a) \<noteq> None \<and>
     (\<forall>ts. ad_transitions a = Some ts \<longrightarrow> (\<forall>t\<in>set ts. transition_valid ev names t))"
  by (cases "ad_transitions a") (auto simp: validate_agent_def validate_transition_nil)

lemma validate_model_nil:
  "validate_model cfg (k, mc) = [] \<longleftrightarrow> map_of (oc_providers cfg) (mc_provider mc) \<noteq> None"
  by (simp add: validate_model_def)

lemma validate_nil:
  "validate ev d cfg = [] \<longleftrightarrow>
     wd_start d \<in> ad_name ` set (wd_agents d) \<and>
     (\<forall>a\<in>set (wd_agents d). validate_agent ev (map ad_name (wd_agents d)) cfg a = []) \<and>
     (\<forall>(m, mc)\<in>set (oc_models cfg). map_of (oc_providers cfg) (mc_provider mc) \<noteq> None)"
  by (auto simp: validate_def Let_def validate_model_nil)

lemma agent_def_declared: "name \<in> ad_name ` set (wd_agents (wa_def a)) \<Longrightarrow> \<exists>d. agent_def a name = Some d"
  by (auto simp: agent_def_def find_None_iff simp flip: not_None_eq)

lemma agent_def_in: "agent_def a name = Some d \<Longrightarrow> d \<in> set (wd_agents (wa_def a)) \<and> ad_name d = name"
  by (auto simp: agent_def_def find_Some_iff)

lemma next_transition_target:
  "find_next_transition ev ts out = Some (to, c) \<Longrightarrow> \<exists>t\<in>set ts. tr_to t = to"
  by (auto simp: find_next_transition_find find_Some_iff)

text \<open>A workflow whose agents are all declared and whose models are all registered.\<close>

definition runnable :: "workflow_actor \<Rightarrow> bool" where
  "runnable a \<longleftrightarrow>
     wd_start (wa_def a) \<in> ad_name ` set (wd_agents (wa_def a)) \<and>
     (\<forall>d\<in>set (wd_agents (wa_def a)). ad_model d \<in> set (wa_models a) \<and>
        (\<forall>ts. ad_transitions d = Some ts \<longrightarrow> (\<forall>t\<in>set ts. tr_to t \<in> ad_name ` set (wd_agents (wa_def a)))))"

lemma runnable_spawn:
  "runnable a \<Longrightarrow> agent_def a name = Some d \<Longrightarrow> wa_models a' = wa_models a \<Longrightarrow>
     spawn_agent a' d sid = Inr (wa_spawned a', a'\<lparr>wa_spawned := wa_spawned a' + 1\<rparr>, SpawnAgent (wa_spawned a') sid d)"
  by (auto simp: runnable_def spawn_agent_def dest!: agent_def_in)

lemma runnable_start: "runnable a \<Longrightarrow> \<exists>d. agent_def a (wd_start (wa_def a)) = Some d"
  by (rule agent_def_declared) (simp add: runnable_def)

lemma runnable_target:
  assumes "runnable a" and "agent_def a name = Some d" and "ad_transitions d = Some ts"
    and "find_next_transition ev ts out = Some (to, c)"
  shows "\<exists>to_def. agent_def a to = Some to_def"
proof (rule agent_def_declared)
  from next_transition_target [OF assms(4)] obtain t where "t \<in> set ts" "tr_to t = to" by blast
  with assms(1,3) agent_def_in [OF assms(2)] show "to \<in> ad_name ` set (wd_agents (wa_def a))"
    by (auto simp: runnable_def)
qed

lemma runnable_concluded:
  assumes "runnable a" and "on_concluded a s sid out = (a', outs, eff)"
  shows "WorkflowFailed err r \<notin> set (effect_events eff)"
proof (cases "is_current s sid \<and> (\<exists>name d ts to c. ws_current_agent s = Some name \<and> agent_def a name = Some d \<and>
    ad_transitions d = Some ts \<and> find_next_transition (wa_eval a) ts out = Some (to, c))")
  case True
  then obtain name d ts to c where h: "is_current s sid" "ws_current_agent s = Some name" "agent_def a name = Some d"
      "ad_transitions d = Some ts" "find_next_transition (wa_eval a) ts out = Some (to, c)" by blast
  obtain to_def where to: "agent_def a to = Some to_def" using runnable_target [OF assms(1) h(3-5)] by blast
  obtain to_sid a1 where n: "new_session a = (to_sid, a1)" by fastforce
  from runnable_spawn [OF assms(1) to, of a1 to_sid] new_session_sel [OF n]
  have "spawn_agent a1 to_def to_sid = Inr (wa_spawned a1, a1\<lparr>wa_spawned := wa_spawned a1 + 1\<rparr>, SpawnAgent (wa_spawned a1) to_sid to_def)"
    by simp
  with assms(2) h to n show ?thesis by (auto simp: on_concluded_def Let_def)
next
  case False
  with assms(2) show ?thesis
    by (auto simp: on_concluded_def finish_workflow_def Let_def split: if_splits option.splits)
qed

lemma runnable_resume:
  assumes "runnable a" and "on_resume a s msg = (a', outs, eff)"
  shows "WorkflowFailed err r \<notin> set (effect_events eff)"
proof -
  have "resume_child a name sid \<noteq> Inl (Some e)" for name sid e
    using runnable_spawn [OF assms(1)]
    by (auto simp: resume_child_def split: option.splits sum.splits)
  with assms(2) show ?thesis
    by (auto simp: on_resume_def fail_workflow_def split: workflow_status.splits option.splits sum.splits)
qed

text \<open>C9. A workflow that validates against a configuration, run with the registry built from it, records a
  failure only when an agent reports one, or when a fork finds no snapshot: whatever the command and
  the state, it never fails over an undeclared agent or a model without a provider.\<close>

theorem validated_workflow_runs:
  assumes "validate ev (wa_def a) cfg = []" and "build_registry B env cfg = Inr reg"
    and "set (wa_models a) = dom reg"
    and "workflow_handle_command J a s cmd j = (j', a', outs, eff)"
    and "WorkflowFailed err r \<in> set (effect_events eff)"
  shows "r = False \<and> ((\<exists>sid. cmd = AgentFailed sid err False) \<or>
    (\<exists>src msg sid e. cmd = ForkWorkflow src msg \<and>
       snd (jo_copy_snapshot J j (agent_pid src) (agent_pid sid)) = Inl e \<and>
       err = ''fork failed: '' @ journal_error_display e))"
proof -
  have run: "runnable a"
    using assms(1,3) build_registry_keys [OF assms(2)]
    by (auto simp: runnable_def validate_nil validate_agent_nil transition_valid_def domIff)
  show ?thesis
  proof (cases cmd)
    case (StartWorkflow input)
    obtain d where d: "agent_def a (wd_start (wa_def a)) = Some d" using runnable_start [OF run] by blast
    obtain sid a1 where n: "new_session a = (sid, a1)" by fastforce
    from assms(4,5) StartWorkflow d n runnable_spawn [OF run d, of a1 sid] new_session_sel [OF n]
    show ?thesis by (auto simp: workflow_handle_command_def on_start_def Let_def)
  next
    case (ResumeWorkflow msg)
    with runnable_resume [OF run] assms(4,5) show ?thesis by (auto simp: workflow_handle_command_def)
  next
    case (AgentConcluded sid out)
    with runnable_concluded [OF run] assms(4,5) show ?thesis by (auto simp: workflow_handle_command_def)
  next
    case (ForkWorkflow src msg)
    with assms(4) have f: "on_fork J a s src msg j = (j', a', outs, eff)" by (simp add: workflow_handle_command_def)
    have "\<exists>sid e. snd (jo_copy_snapshot J j (agent_pid src) (agent_pid sid)) = Inl e \<and>
        err = ''fork failed: '' @ journal_error_display e \<and> r = False"
      using f assms(5) runnable_spawn [OF run]
      by (auto simp: on_fork_def new_session_def split: if_splits option.splits sum.splits prod.splits)
        (metis snd_conv)
    with ForkWorkflow show ?thesis by blast
  qed (use assms(4,5) in \<open>auto simp: workflow_handle_command_def split: if_splits\<close>)
qed

subsection \<open>The commands\<close>

text \<open>C39. \<open>october run\<close> reaches the daemon only with a workflow \<open>october validate\<close> accepts with the same
  configuration: otherwise it exits with 1 and leaves the daemon as it was.\<close>

theorem run_gated:
  assumes "cli_main M (Run workflow config workdir input caps detach) d = Some (code, p, d')"
  shows "fst (do_validate (mh_cli M) (mh_eval M) workflow config) = 0 \<or> (code = 1 \<and> d' = d)"
proof (cases "build_submit (mh_cli M) (mh_eval M) workflow config workdir input caps")
  case (Inl e)
  with assms show ?thesis
    by (auto simp: cli_main_def cli_dispatch_def Let_def split: sum.splits)
next
  case (Inr req)
  then have "fst (do_validate (mh_cli M) (mh_eval M) workflow config) = 0"
    by (auto simp: build_submit_def do_validate_def load_workflow_def Let_def split: sum.splits if_splits)
  then show ?thesis ..
qed

text \<open>A relative working directory goes to the daemon as it is, whose own directory it is then relative to.\<close>

lemma workdir_not_resolved:
  "build_submit H ev workflow config workdir input caps = Inr req \<Longrightarrow> jp_workdir (submit_spec E req d) = workdir"
  by (auto simp: build_submit_def submit_spec_def Let_def split: sum.splits if_splits)

text \<open>The supervisor is spawned, and resumes its jobs, before the start has anything left that can fail.\<close>

lemma supervisor_spawned_before_failure:
  assumes "sh_create_dir_all H (st_state_dir (oc_storage cfg)) = None" "sh_create_dir_all H (st_data_dir (oc_storage cfg)) = None"
    and "\<not> sh_alive H (daemon_socket_path (st_state_dir (oc_storage cfg)))"
    and "build_registry (sh_builder H) (ch_env (sh_cli H)) cfg = Inr reg" and "resolve_default_caps H cfg = Inl e"
  shows "\<exists>bin. serve_start H cfg = (Inl e, [CreatedDir (st_state_dir (oc_storage cfg)), CreatedDir (st_data_dir (oc_storage cfg)),
     SpawnedSupervisor bin (st_state_dir (oc_storage cfg)) (st_data_dir (oc_storage cfg))])"
  using assms by (simp add: serve_start_def Let_def)

subsection \<open>Home-relative paths\<close>

text \<open>A home directory that expansion leaves alone, and a path whose expansion does.\<close>

definition plain_home :: "string \<Rightarrow> bool" where
  "plain_home h0 \<longleftrightarrow> (let h = trim_end_char (CHR ''/'') h0 in h \<noteq> [] \<and> hd h = CHR ''/'' \<and> CHR ''$'' \<notin> set h)"

definition plain_path :: "string \<Rightarrow> bool" where
  "plain_path p \<longleftrightarrow> (starts_with ''~'' p \<longrightarrow> CHR ''$'' \<notin> set p)"

lemma no_dollar_absent: "CHR ''$'' \<notin> set s \<Longrightarrow> \<not> str_contains (CHR ''$'' # ps) s"
  by (auto simp: str_contains_sublist sublist_def)

lemma expand_home_settled:
  assumes "\<not> starts_with ''~'' p" "\<not> str_contains ''$HOME'' p" "\<not> str_contains ''${HOME}'' p"
  shows "expand_home p home = p"
proof -
  have "strip_prefix ''~/'' p = None" "p \<noteq> ''~''"
    using assms(1) by (cases p; simp)+
  with assms(2,3) show ?thesis
    by (simp add: expand_home_def Let_def replace_all_absent split: option.split)
qed

lemma plain_home_no_dollar: "plain_home h \<Longrightarrow> CHR ''$'' \<notin> set (trim_end_char (CHR ''/'') h)"
  by (simp add: plain_home_def Let_def)

lemma starts_with_home:
  "h \<noteq> [] \<Longrightarrow> hd h = CHR ''/'' \<Longrightarrow> \<not> starts_with ''~'' (h @ s)"
  by (cases h) auto

lemma expand_home_twice:
  assumes "plain_home h0" "plain_path p"
  shows "expand_home (expand_home p (Some h0)) (Some h0) = expand_home p (Some h0)"
proof -
  let ?h = "trim_end_char (CHR ''/'') h0"
  have h: "?h \<noteq> []" "hd ?h = CHR ''/''" "CHR ''$'' \<notin> set ?h" using assms(1) by (simp_all add: plain_home_def Let_def)
  consider "p = ''~''" | rest where "p = ''~/'' @ rest" | "p \<noteq> ''~''" "strip_prefix ''~/'' p = None"
    by (cases "strip_prefix ''~/'' p") auto
  then show ?thesis
  proof cases
    case 1
    then have "expand_home p (Some h0) = ?h" by (simp add: expand_home_def Let_def)
    moreover have "expand_home ?h (Some h0) = ?h"
      by (rule expand_home_settled) (use h starts_with_home [OF h(1,2), of "[]"] in \<open>auto simp: no_dollar_absent\<close>)
    ultimately show ?thesis by simp
  next
    case 2
    then have "expand_home p (Some h0) = ?h @ ''/'' @ rest" by (simp add: expand_home_def Let_def)
    moreover have "CHR ''$'' \<notin> set (?h @ ''/'' @ rest)" using assms(2) h(3) 2 by (simp add: plain_path_def)
    then have "expand_home (?h @ ''/'' @ rest) (Some h0) = ?h @ ''/'' @ rest"
      by (intro expand_home_settled starts_with_home [OF h(1,2)] no_dollar_absent)
    ultimately show ?thesis by simp
  next
    case 3
    let ?r = "replace_all ''$HOME'' ?h (replace_all ''${HOME}'' ?h p)"
    have eq: "expand_home p (Some h0) = ?r" using 3 by (simp add: expand_home_def Let_def)
    show ?thesis
    proof (cases "starts_with ''~'' p")
      case True
      with assms(2) have "CHR ''$'' \<notin> set p" by (simp add: plain_path_def)
      then have "?r = p" by (simp add: replace_all_absent no_dollar_absent)
      with eq show ?thesis by simp
    next
      case False
      then have "\<not> starts_with ''~'' ?r"
        using starts_with_replaced [of "''~''" "''$HOME''" ?h] starts_with_replaced [of "''~''" "''${HOME}''" ?h p] h
        by auto
      moreover have "\<not> str_contains ''$HOME'' ?r"
        by (rule replaced_absent) (use h in auto)
      moreover have "\<not> str_contains ''${HOME}'' (replace_all ''${HOME}'' ?h p)"
        by (rule replaced_absent) (use h in auto)
      then have "\<not> str_contains ''${HOME}'' ?r"
        by (intro replaced_absent) (use h in auto)
      ultimately show ?thesis unfolding eq by (rule expand_home_settled)
    qed
  qed
qed

fun grant_plain :: "grant \<Rightarrow> bool" where
  "grant_plain (DirGrant p _) = plain_path p"
| "grant_plain (FileGrant p _) = plain_path p"
| "grant_plain (WorkingDirGrant _) = True"

text \<open>The default capabilities are expanded when the daemon starts and again at each submission; that
  grants what one expansion grants, when the home directory is absolute and neither it nor a path
  that starts with a tilde has a dollar sign.\<close>

lemma default_caps_expanded_once:
  assumes "\<And>h0. env ''HOME'' = Some h0 \<Longrightarrow> plain_home h0" and "\<forall>g\<in>set (cs_grants spec). grant_plain g"
    and "dm_default_caps d = resolve_user_paths env spec" and "sq_capabilities s = None" and "de_env E = env"
  shows "jp_capabilities (submit_spec E s d) = resolve_user_paths env spec"
proof -
  have "resolve_grant (env ''HOME'') (resolve_grant (env ''HOME'') g) = resolve_grant (env ''HOME'') g"
    if "g \<in> set (cs_grants spec)" for g
  proof (cases "env ''HOME''")
    case None
    then show ?thesis by (cases g) (simp_all add: expand_home_def)
  next
    case (Some h0)
    have "grant_plain g" using assms(2) that by blast
    with Some expand_home_twice [OF assms(1) [OF Some]] show ?thesis by (cases g) simp_all
  qed
  then show ?thesis
    using assms(3-5) by (simp add: submit_spec_def resolve_user_paths_def resolve_user_paths_with_def)
qed

text \<open>Where it is not: a second expansion of a path that already names the home directory literally.\<close>

lemma expanded_twice_differs:
  "expand_home ''~/$HOME'' (Some ''/u'') = ''/u/$HOME''"
  "expand_home (expand_home ''~/$HOME'' (Some ''/u'')) (Some ''/u'') = ''/u//u''"
  by (simp_all add: expand_home_def trim_end_char_def Let_def)

text \<open>A variable whose name only begins with HOME is expanded too.\<close>

lemma longer_variable_expanded: "expand_home ''$HOMEBREW/bin'' (Some ''/u'') = ''/uBREW/bin''"
  by (simp add: expand_home_def trim_end_char_def Let_def)

text \<open>With an empty \<open>HOME\<close> the configuration is looked for in the current directory.\<close>

lemma empty_home_relative_config:
  "user_config_path_from None (Some []) = Some ''.config/october/config.json''"
  by (simp add: user_config_path_from_def join_path_def)

subsection \<open>A sample configuration\<close>

definition sample_builder :: "(unit, unit) client_builder" where
  "sample_builder = \<lparr>cb_header_ok = (\<lambda>_. True), cb_http = (\<lambda>_. Inr ()), cb_client = (\<lambda>_ _ _. Inr ())\<rparr>"

definition sample_config :: october_config where
  "sample_config =
     \<lparr>oc_providers = [(''p'', AnthropicConfig (Some ''k'') None None)],
      oc_models = [(''m'', \<lparr>mc_provider = ''p'', mc_model_id = ''id'', mc_max_tokens = None\<rparr>)],
      oc_capabilities_file = None, oc_storage = \<lparr>st_state_dir = ''/s'', st_data_dir = ''/d''\<rparr>, oc_runtime_bin = None\<rparr>"

definition sample_workflow :: workflow_actor where
  "sample_workflow = demo_workflow\<lparr>wa_def := \<lparr>wd_start = ''a'', wd_agents = [demo_agent_def ''a'' None]\<rparr>\<rparr>"

definition sample_cli_host :: cli_host where
  "sample_cli_host =
     \<lparr>ch_read = (\<lambda>p. if p = ''/c'' then Inr ''c'' else Inl ''no such file''), ch_exists = (\<lambda>_. False), ch_env = Map.empty,
      ch_parse_config = (\<lambda>_. Inr sample_config), ch_parse_workflow = (\<lambda>_. Inl ''bad''),
      ch_parse_caps = (\<lambda>_. Inl ''bad'')\<rparr>"

definition sample_main :: "nat main_host" where
  "sample_main =
     \<lparr>mh_cli = sample_cli_host, mh_eval = (\<lambda>_ _. Inl ''unsupported''),
      mh_client = \<lparr>cw_connect = (\<lambda>_ _. True), cw_room = (\<lambda>_. None), cw_serve = (\<lambda>_ _. None),
        cw_request = (\<lambda>_. Inl ''unused''), cw_response = (\<lambda>_. Inl ''unused'')\<rparr>,
      mh_serve = (\<lambda>_ _. None), mh_create_dir_all = (\<lambda>_. None), mh_open_log = (\<lambda>_. None),
      mh_current_exe = Inl ''unknown'', mh_spawn = (\<lambda>_ _ _ d. Inr d)\<rparr>"

theorem validated_workflow_runs_witness:
  "\<exists>sid. AgentFailed ''s'' ''boom'' False = AgentFailed sid ''boom'' False \<and>
     validate (\<lambda>_ _. Inl ''unsupported'') (wa_def sample_workflow) sample_config = []"
proof -
  have v: "validate (\<lambda>_ _. Inl ''unsupported'') (wa_def sample_workflow) sample_config = []"
    by (simp add: validate_def validate_agent_def validate_model_def sample_workflow_def sample_config_def demo_agent_def_def)
  obtain reg where r: "build_registry sample_builder Map.empty sample_config = Inr reg" "dom reg = {''m''}"
    by (simp add: build_registry_def sample_config_def build_provider_def resolve_key_def with_api_key_def
        anthropic_with_key_def build_client_def sample_builder_def env_base_url_def)
  have m: "set (wa_models sample_workflow) = dom reg" by (simp add: r sample_workflow_def demo_workflow_def)
  have h: "workflow_handle_command in_memory_ops sample_workflow demo_running (AgentFailed ''s'' ''boom'' False)
      (Map.empty :: nat in_memory) =
    (Map.empty, sample_workflow, [Notify (NotifyFailed ''boom'')], PersistAndStop [WorkflowFailed ''boom'' False])"
    by (simp add: workflow_handle_command_def is_current_def demo_running_def)
  from validated_workflow_runs [OF v r(1) m h, of "''boom''" False] v show ?thesis by auto
qed

theorem run_gated_witness:
  "cli_main sample_main (Run ''/w'' (Some ''/c'') ''.'' ''go'' None False) 5 =
     Some (1, ([], ''io error: no such file'' @ [newline]), 5)"
proof -
  let ?run = "cli_main sample_main (Run ''/w'' (Some ''/c'') ''.'' ''go'' None False) 5"
  have r: "?run = Some (1, ([], ''io error: no such file'' @ [newline]), 5)"
    by (simp add: cli_main_def cli_dispatch_def sample_main_def sample_cli_host_def resolve_state_dir_def
        config_resolve_def resolve_with_def config_load_def build_submit_def load_workflow_def)
  have "fst (do_validate (mh_cli sample_main) (mh_eval sample_main) ''/w'' (Some ''/c'')) = 2"
    by (simp add: do_validate_def sample_main_def sample_cli_host_def config_resolve_def resolve_with_def config_load_def)
  with run_gated [OF r] r show ?thesis by simp
qed

end
