(* ===== verification/Server.thy ===== *)
theory Server
  imports Runtime_Link
begin

text \<open>
  The server of distributed mode: its registry of executors (\<open>src/server/src/registry.rs\<close>) and its
  connections (\<open>server.rs\<close>), the executor's loop at the other end (\<open>Executor::run\<close> in
  \<open>src/executor/src/executor.rs\<close>), and the relay that shares such a connection
  (\<open>src/executor-client/src/ws_transport.rs\<close>). Connections are numbered as they are accepted; a sink accepts
  a message or says why not; JSON is a parameter.
\<close>

subsection \<open>WebSocket messages\<close>

datatype ws_msg = WsText string | WsBinary | WsPing | WsPong | WsFrame | WsClose | WsError

datatype server_error =
    ExecutorNotFound string
  | ServerSendFailed string
  | BindFailed string
  | ServerSerialization string

fun server_error_display :: "server_error \<Rightarrow> string" where
  "server_error_display (ExecutorNotFound i) = ''executor not found: '' @ i"
| "server_error_display (ServerSendFailed e) = ''send failed: '' @ e"
| "server_error_display (BindFailed e) = ''bind failed: '' @ e"
| "server_error_display (ServerSerialization e) = ''serialization error: '' @ e"

subsection \<open>The registry of executors\<close>

record executor_conn =
  ec_executor_id :: string
  ec_sink :: nat

type_synonym executor_registry = "string \<rightharpoonup> executor_conn"

definition register_executor :: "executor_registry \<Rightarrow> executor_conn \<Rightarrow> executor_registry" where
  "register_executor r conn = r(ec_executor_id conn \<mapsto> conn)"

definition remove_executor :: "executor_registry \<Rightarrow> string \<Rightarrow> executor_registry" where
  "remove_executor r i = r(i := None)"

text \<open>\<open>sk_encode\<close> is the JSON of a message, \<open>sk_send\<close> why the sink of a connection refuses.\<close>

record sinks =
  sk_encode :: "string \<times> executor_command \<Rightarrow> (string, string) result"
  sk_send :: "nat \<Rightarrow> string \<Rightarrow> string option"

definition sink_send :: "sinks \<Rightarrow> nat \<Rightarrow> string \<times> executor_command \<Rightarrow> (server_error, nat \<times> string) result" where
  "sink_send K sink msg =
     (case sk_encode K msg of
        Inl e \<Rightarrow> Inl (ServerSerialization e)
      | Inr js \<Rightarrow> (case sk_send K sink js of Some e \<Rightarrow> Inl (ServerSendFailed e) | None \<Rightarrow> Inr (sink, js)))"

definition conn_send_command ::
  "sinks \<Rightarrow> executor_conn \<Rightarrow> string \<Rightarrow> executor_command \<Rightarrow> (server_error, nat \<times> string) result" where
  "conn_send_command K conn req cmd = sink_send K (ec_sink conn) (req, cmd)"

text \<open>What is sent, and over which connection.\<close>

definition registry_send_command ::
  "sinks \<Rightarrow> executor_registry \<Rightarrow> string \<Rightarrow> string \<Rightarrow> executor_command \<Rightarrow> (server_error, nat \<times> string) result" where
  "registry_send_command K r i req cmd =
     (case r i of Some conn \<Rightarrow> conn_send_command K conn req cmd | None \<Rightarrow> Inl (ExecutorNotFound i))"

subsection \<open>The server\<close>

text \<open>Each connection's task: before its handshake, serving an executor, or over.\<close>

datatype conn_phase = Handshaking | Serving string | ConnOver

record server =
  sv_registry :: executor_registry
  sv_phases :: "nat \<rightharpoonup> conn_phase"
  sv_accepted :: nat
  sv_accepting :: bool
  sv_events :: "(string \<times> string \<times> executor_event) list"

definition server_bind :: "string option \<Rightarrow> (server_error, server) result" where
  "server_bind bind_error =
     (case bind_error of
        Some e \<Rightarrow> Inl (BindFailed e)
      | None \<Rightarrow> Inr \<lparr>sv_registry = Map.empty, sv_phases = Map.empty, sv_accepted = 0, sv_accepting = True, sv_events = []\<rparr>)"

text \<open>The accept loop: a socket and whether its WebSocket handshake succeeds; an accept that fails ends it.\<close>

fun server_accept :: "(string, bool) result \<Rightarrow> server \<Rightarrow> server" where
  "server_accept (Inl e) S = S\<lparr>sv_accepting := False\<rparr>"
| "server_accept (Inr upgraded) S =
     (if \<not> sv_accepting S then S
      else S\<lparr>sv_phases := (sv_phases S)(sv_accepted S \<mapsto> (if upgraded then Handshaking else ConnOver)),
             sv_accepted := sv_accepted S + 1\<rparr>)"

definition conn_over :: "nat \<Rightarrow> server \<Rightarrow> server" where
  "conn_over c S =
     (case sv_phases S c of
        Some (Serving i) \<Rightarrow>
          S\<lparr>sv_registry := remove_executor (sv_registry S) i, sv_phases := (sv_phases S)(c \<mapsto> ConnOver)\<rparr>
      | Some _ \<Rightarrow> S\<lparr>sv_phases := (sv_phases S)(c \<mapsto> ConnOver)\<rparr>
      | None \<Rightarrow> S)"

text \<open>A message on a connection, None when the stream has ended.\<close>

definition conn_receive ::
  "(string \<Rightarrow> (string \<times> executor_event) option) \<Rightarrow> nat \<Rightarrow> ws_msg option \<Rightarrow> server \<Rightarrow> server" where
  "conn_receive parse c msg S =
     (case sv_phases S c of
        Some Handshaking \<Rightarrow>
          (case msg of
             Some (WsText t) \<Rightarrow>
               (case parse t of
                  Some (_, Registered i) \<Rightarrow>
                    S\<lparr>sv_registry := register_executor (sv_registry S) \<lparr>ec_executor_id = i, ec_sink = c\<rparr>,
                      sv_phases := (sv_phases S)(c \<mapsto> Serving i)\<rparr>
                | _ \<Rightarrow> S)
           | _ \<Rightarrow> conn_over c S)
      | Some (Serving i) \<Rightarrow>
          (case msg of
             Some (WsText t) \<Rightarrow>
               (case parse t of
                  Some (req, ev) \<Rightarrow> S\<lparr>sv_events := sv_events S @ [(i, req, ev)]\<rparr>
                | None \<Rightarrow> S)
           | Some WsClose \<Rightarrow> conn_over c S
           | Some WsError \<Rightarrow> conn_over c S
           | None \<Rightarrow> conn_over c S
           | Some _ \<Rightarrow> S)
      | _ \<Rightarrow> S)"

definition server_create_runtime ::
  "sinks \<Rightarrow> string \<Rightarrow> string \<Rightarrow> string \<Rightarrow> string \<Rightarrow> server \<Rightarrow> (server_error, nat \<times> string) result" where
  "server_create_runtime K req executor_id runtime_id config S =
     registry_send_command K (sv_registry S) executor_id req (CreateRuntime runtime_id config)"

definition server_destroy_runtime ::
  "sinks \<Rightarrow> string \<Rightarrow> string \<Rightarrow> string \<Rightarrow> server \<Rightarrow> (server_error, nat \<times> string) result" where
  "server_destroy_runtime K req executor_id runtime_id S =
     registry_send_command K (sv_registry S) executor_id req (DestroyRuntime runtime_id)"

definition server_restart_runtime ::
  "sinks \<Rightarrow> string \<Rightarrow> string \<Rightarrow> string \<Rightarrow> server \<Rightarrow> (server_error, nat \<times> string) result" where
  "server_restart_runtime K req executor_id runtime_id S =
     registry_send_command K (sv_registry S) executor_id req (RestartRuntime runtime_id)"

definition server_query_runtimes ::
  "sinks \<Rightarrow> string \<Rightarrow> string \<Rightarrow> server \<Rightarrow> (server_error, nat \<times> string) result" where
  "server_query_runtimes K req executor_id S =
     registry_send_command K (sv_registry S) executor_id req QueryRuntimes"

text \<open>Any interleaving of accepts and of messages on the connections.\<close>

inductive server_reach :: "(string \<Rightarrow> (string \<times> executor_event) option) \<Rightarrow> server \<Rightarrow> bool"
  for parse :: "string \<Rightarrow> (string \<times> executor_event) option" where
  server_new: "server_bind None = Inr S \<Longrightarrow> server_reach parse S"
| server_accepts: "server_reach parse S \<Longrightarrow> server_reach parse (server_accept r S)"
| server_receives: "server_reach parse S \<Longrightarrow> server_reach parse (conn_receive parse c msg S)"

subsection \<open>The executor's loop\<close>

datatype executor_error =
    ExecutorConnection string
  | ExecutorSendFailed string
  | ExecutorSerialization string
  | ExecutorBindFailed string
  | ExecutorSpawnFailed string

datatype executor_input = FromServer "ws_msg option" | HealthTick | CancelSeen

record ('h, 't, 'w) executor =
  xr_provider :: "('h, 'w) runtime_provider"
  xr_transport :: "('t, 'w) transport_ops"
  xr_max_restarts :: u32
  xr_connected :: "'t connected option"
  xr_new_id :: "nat \<Rightarrow> string"
  xr_order :: "'h registry \<Rightarrow> string list"
  xr_parse :: "string \<Rightarrow> (string \<times> executor_command) option"

text \<open>The builder; the interval of the health checks is the timing of \<open>HealthTick\<close>.\<close>

definition executor_new ::
  "('h, 'w) runtime_provider \<Rightarrow> ('t, 'w) transport_ops \<Rightarrow> (nat \<Rightarrow> string) \<Rightarrow> ('h registry \<Rightarrow> string list)
     \<Rightarrow> (string \<Rightarrow> (string \<times> executor_command) option) \<Rightarrow> ('h, 't, 'w) executor" where
  "executor_new P T new_id order parse =
     \<lparr>xr_provider = P, xr_transport = T, xr_max_restarts = 3, xr_connected = None, xr_new_id = new_id,
      xr_order = order, xr_parse = parse\<rparr>"

definition with_max_restarts :: "u32 \<Rightarrow> ('h, 't, 'w) executor \<Rightarrow> ('h, 't, 'w) executor" where
  "with_max_restarts n X = X\<lparr>xr_max_restarts := n\<rparr>"

definition with_runtime_listener :: "'t connected \<Rightarrow> ('h, 't, 'w) executor \<Rightarrow> ('h, 't, 'w) executor" where
  "with_runtime_listener c X = X\<lparr>xr_connected := Some c\<rparr>"

text \<open>The loop and the health task, over their inputs: what was spawned, and whether it still runs.\<close>

fun executor_loop ::
  "('h, 't, 'w) executor \<Rightarrow> executor_input list \<Rightarrow> ('h, 'w) exec \<Rightarrow> bool \<times> 't tool_task list \<times> ('h, 'w) exec" where
  "executor_loop X [] x = (True, [], x)"
| "executor_loop X (CancelSeen # is) x = (False, [], x)"
| "executor_loop X (HealthTick # is) x =
     executor_loop X is (run_health_check (xr_provider X) (xr_max_restarts X) (xr_new_id X) (xr_order X (xe_registry x)) x)"
| "executor_loop X (FromServer msg # is) x =
     (case msg of
        Some (WsText t) \<Rightarrow>
          (case xr_parse X t of
             Some (req, cmd) \<Rightarrow>
               (case dispatch (xr_provider X) (xr_transport X) (xr_connected X) (xr_order X (xe_registry x)) req cmd x of
                  (tasks, x1) \<Rightarrow>
                    (case executor_loop X is x1 of (go, tasks2, x2) \<Rightarrow> (go, tasks @ tasks2, x2)))
           | None \<Rightarrow> executor_loop X is x)
      | Some WsClose \<Rightarrow> (False, [], x)
      | Some WsError \<Rightarrow> (False, [], x)
      | None \<Rightarrow> (False, [], x)
      | Some _ \<Rightarrow> executor_loop X is x)"

text \<open>\<open>run\<close>: connect, announce the id, then the loop on an empty registry.\<close>

definition executor_run ::
  "('h, 't, 'w) executor \<Rightarrow> string option \<Rightarrow> string option \<Rightarrow> string \<Rightarrow> string \<Rightarrow> executor_input list \<Rightarrow> 'w
     \<Rightarrow> (executor_error, unit) result \<times> 't tool_task list \<times> ('h, 'w) exec" where
  "executor_run X connect_error send_error executor_id req is w =
     (let x = \<lparr>xe_registry = Map.empty, xe_world = w, xe_sent = []\<rparr>
      in case connect_error of
           Some e \<Rightarrow> (Inl (ExecutorConnection e), [], x)
         | None \<Rightarrow>
             (case send_error of
                Some e \<Rightarrow> (Inl (ExecutorSendFailed e), [], x)
              | None \<Rightarrow>
                  (case executor_loop X is (send_event req (Registered executor_id) x) of
                     (_, tasks, x1) \<Rightarrow> (Inr (), tasks, x1))))"

subsection \<open>The relay\<close>

text \<open>
  The pending table of a shared connection: for each request id the channel its events go to, and
  whether its receiver is still held. Entries are never removed but by \<open>invoke\<close>.
\<close>

record relay =
  ry_pending :: "string \<rightharpoonup> executor_event list \<times> bool"
  ry_sent :: "(string \<times> executor_command) list"

text \<open>\<open>send_command\<close>: the entry is made before the message is encoded and sent.\<close>

definition relay_send_command ::
  "(string \<times> executor_command \<Rightarrow> (string, string) result) \<Rightarrow> (string \<Rightarrow> string option) \<Rightarrow> string \<Rightarrow> executor_command
     \<Rightarrow> relay \<Rightarrow> (client_error, unit) result \<times> relay" where
  "relay_send_command enc send req cmd R =
     (let R1 = R\<lparr>ry_pending := (ry_pending R)(req \<mapsto> ([], True))\<rparr>
      in case enc (req, cmd) of
           Inl e \<Rightarrow> (Inl (ClientSerialization e), R1\<lparr>ry_pending := (ry_pending R1)(req \<mapsto> ([], False))\<rparr>)
         | Inr js \<Rightarrow>
             (case send js of
                Some e \<Rightarrow> (Inl (ClientSendFailed e), R1\<lparr>ry_pending := (ry_pending R1)(req \<mapsto> ([], False))\<rparr>)
              | None \<Rightarrow> (Inr (), R1\<lparr>ry_sent := ry_sent R1 @ [(req, cmd)]\<rparr>)))"

text \<open>The reader: an event goes to the channel of its request, if someone holds the other end.\<close>

definition relay_route :: "string \<times> executor_event \<Rightarrow> relay \<Rightarrow> relay" where
  "relay_route msg R =
     (case msg of (req, ev) \<Rightarrow>
        (case ev of
           Registered _ \<Rightarrow> R
         | _ \<Rightarrow>
             (case ry_pending R req of
                Some (evs, True) \<Rightarrow> R\<lparr>ry_pending := (ry_pending R)(req \<mapsto> (evs @ [ev], True))\<rparr>
              | _ \<Rightarrow> R)))"

text \<open>The receiver of a request is dropped when its caller returns.\<close>

definition relay_drop_receiver :: "string \<Rightarrow> relay \<Rightarrow> relay" where
  "relay_drop_receiver req R =
     (case ry_pending R req of None \<Rightarrow> R | Some (evs, _) \<Rightarrow> R\<lparr>ry_pending := (ry_pending R)(req \<mapsto> (evs, False))\<rparr>)"

definition relay_invoke_done :: "string \<Rightarrow> relay \<Rightarrow> relay" where
  "relay_invoke_done call_id R = R\<lparr>ry_pending := (ry_pending R)(call_id := None)\<rparr>"

text \<open>\<open>invoke\<close> up to its receive loop, which is \<open>await_tool\<close> of theory Runtime_Link.\<close>

definition relay_invoke_start ::
  "(string \<times> executor_command \<Rightarrow> (string, string) result) \<Rightarrow> (string \<Rightarrow> string option) \<Rightarrow> string \<Rightarrow> string
     \<Rightarrow> runtime_call \<Rightarrow> relay \<Rightarrow> (transport_error, unit) result \<times> relay" where
  "relay_invoke_start enc send runtime_id call_id call R =
     (case relay_send_command enc send call_id (ExecToolCall runtime_id call_id call) R of
        (Inl e, R1) \<Rightarrow> (Inl (LinkSendFailed (client_error_display e)), R1)
      | (Inr _, R1) \<Rightarrow> (Inr (), R1))"

definition relay_cancel ::
  "(string \<times> executor_command \<Rightarrow> (string, string) result) \<Rightarrow> (string \<Rightarrow> string option) \<Rightarrow> string \<Rightarrow> string \<Rightarrow> string
     \<Rightarrow> relay \<Rightarrow> (transport_error, unit) result \<times> relay" where
  "relay_cancel enc send req runtime_id call_id R =
     (case relay_send_command enc send req (CancelToolCall runtime_id call_id) R of
        (Inl e, R1) \<Rightarrow> (Inl (LinkSendFailed (client_error_display e)), R1)
      | (Inr _, R1) \<Rightarrow> (Inr (), relay_drop_receiver req R1))"

end
