(* ===== verification/Server_Properties.thy ===== *)
theory Server_Properties
  imports Server Runtime_Link
begin

text \<open>Where the server's commands go, and that each of them is answered.\<close>

subsection \<open>Routing\<close>

definition server_ok :: "server \<Rightarrow> bool" where
  "server_ok S \<longleftrightarrow>
     (\<forall>i conn. sv_registry S i = Some conn \<longrightarrow>
        ec_executor_id conn = i \<and> sv_phases S (ec_sink conn) = Some (Serving i)) \<and>
     (\<forall>c. sv_phases S c \<noteq> None \<longrightarrow> c < sv_accepted S)"

lemma conn_over_ok: "server_ok S \<Longrightarrow> server_ok (conn_over c S)"
  by (auto simp: server_ok_def conn_over_def remove_executor_def split: option.splits conn_phase.splits)

lemma register_ok:
  assumes "server_ok S" "sv_phases S c = Some Handshaking"
  shows "server_ok (S\<lparr>sv_registry := register_executor (sv_registry S) \<lparr>ec_executor_id = i, ec_sink = c\<rparr>,
                      sv_phases := (sv_phases S)(c \<mapsto> Serving i)\<rparr>)"
  using assms by (auto simp: server_ok_def register_executor_def)

lemma conn_receive_ok: "server_ok S \<Longrightarrow> server_ok (conn_receive parse c msg S)"
  by (auto simp: conn_receive_def conn_over_ok register_ok
      split: option.splits conn_phase.splits ws_msg.splits executor_event.splits)
    (auto simp: server_ok_def)

lemma server_accept_ok: "server_ok S \<Longrightarrow> server_ok (server_accept r S)"
  by (cases r) (auto simp: server_ok_def split: if_splits, (metis less_irrefl less_SucI option.distinct(1))+)

lemma server_reach_ok: "server_reach parse S \<Longrightarrow> server_ok S"
proof (induction rule: server_reach.induct)
  case (server_new S)
  then show ?case by (auto simp: server_bind_def server_ok_def)
qed (simp_all add: server_accept_ok conn_receive_ok)

text \<open>C30. However connections come, register, talk and close, a command the server sends goes over an open
  connection whose executor announced the id it is addressed to, or fails.\<close>

theorem server_routes:
  assumes "server_reach parse S" and "registry_send_command K (sv_registry S) i req cmd = Inr (c, js)"
  shows "sv_phases S c = Some (Serving i) \<and> sk_encode K (req, cmd) = Inr js \<and> sk_send K c js = None"
  using server_reach_ok [OF assms(1)] assms(2)
  by (auto simp: registry_send_command_def conn_send_command_def sink_send_def server_ok_def
      split: option.splits sum.splits)

text \<open>
  Two connections of one executor: when the first closes, it removes the second's registration, and the
  executor, connected as it is, can no longer be reached.
\<close>

lemma reconnected_executor_lost:
  assumes "sv_phases S c = Some (Serving i)" "sv_phases S c' = Some Handshaking" "c \<noteq> c'" "parse t = Some (req, Registered i)"
  shows "let S2 = conn_receive parse c (Some WsClose) (conn_receive parse c' (Some (WsText t)) S)
         in sv_phases S2 c' = Some (Serving i) \<and>
            registry_send_command K (sv_registry S2) i req2 cmd = Inl (ExecutorNotFound i)"
  using assms
  by (auto simp: conn_receive_def conn_over_def register_executor_def remove_executor_def
      registry_send_command_def Let_def)

text \<open>A WebSocket ping before the announcement drops the connection.\<close>

lemma early_ping_drops:
  "sv_phases S c = Some Handshaking \<Longrightarrow> sv_phases (conn_receive parse c (Some WsPing) S) c = Some ConnOver"
  by (simp add: conn_receive_def conn_over_def)

subsection \<open>Answers\<close>

text \<open>The events that say how a command ended.\<close>

fun outcome :: "executor_command \<Rightarrow> executor_event \<Rightarrow> bool" where
  "outcome (CreateRuntime i _) ev \<longleftrightarrow> ev = RuntimeStateChanged i RsRunning \<or> (\<exists>m. ev = CommandFailed m)"
| "outcome (DestroyRuntime i) ev \<longleftrightarrow> ev = RuntimeStateChanged i RsStopped \<or> (\<exists>m. ev = CommandFailed m)"
| "outcome (RestartRuntime i) ev \<longleftrightarrow> ev = RuntimeStateChanged i RsRunning \<or> (\<exists>m. ev = CommandFailed m)"
| "outcome QueryRuntimes ev \<longleftrightarrow> (\<exists>rs. ev = RuntimesListed rs)"
| "outcome _ ev \<longleftrightarrow> False"

lemma send_event_sent [simp]: "xe_sent (send_event req ev x) = xe_sent x @ [(req, ev)]"
    "xe_registry (send_event req ev x) = xe_registry x"
  by (simp_all add: send_event_def)

lemma emit_state_sent [simp]: "xe_sent (emit_state req i st x) = xe_sent x @ [(req, RuntimeStateChanged i st)]"
    "xe_registry (emit_state req i st x) = xe_registry x"
  by (simp_all add: emit_state_def)

lemma stop_handle_sent [simp]: "xe_sent (stop_handle P h x) = xe_sent x" "xe_registry (stop_handle P h x) = xe_registry x"
  by (simp_all add: stop_handle_def split: option.split)

lemma create_core_sent: "create_core P i config x = (r, x') \<Longrightarrow> xe_sent x' = xe_sent x"
  by (auto simp: create_core_def split: prod.splits sum.splits)

text \<open>What a handler has sent: events under its request only, and the outcome last when it succeeds.\<close>

definition handled ::
  "executor_command \<Rightarrow> string \<Rightarrow> ('h, 'w) exec \<Rightarrow> (runtime_error, unit) result \<Rightarrow> ('h, 'w) exec \<Rightarrow> bool" where
  "handled cmd req x r x' \<longleftrightarrow>
     (\<exists>evs. xe_sent x' = xe_sent x @ map (Pair req) evs \<and>
        (\<forall>u. r = Inr u \<longrightarrow> evs \<noteq> [] \<and> outcome cmd (last evs)))"

lemma answeredI:
  "xe_sent x' = xe_sent x @ map (Pair req) evs \<Longrightarrow> (\<And>u. r = Inr u \<Longrightarrow> evs \<noteq> [] \<and> outcome cmd (last evs)) \<Longrightarrow>
     handled cmd req x r x'"
  by (auto simp: handled_def)

lemma do_create_answered: "do_create P req i config x = (r, x') \<Longrightarrow> handled (CreateRuntime i config) req x r x'"
proof -
  assume d: "do_create P req i config x = (r, x')"
  obtain r1 x1 where c: "create_core P i config (emit_state req i RsCreating x) = (r1, x1)" by fastforce
  from d c create_core_sent [OF c] show ?thesis
    by (cases r1; intro answeredI [where evs = "[RuntimeStateChanged i RsCreating, RuntimeStateChanged i
        (case r1 of Inl _ \<Rightarrow> RsFailed | Inr _ \<Rightarrow> RsRunning)]"]) (auto simp: do_create_def)
qed

lemma do_destroy_answered: "do_destroy P req i x = (r, x') \<Longrightarrow> handled (DestroyRuntime i) req x r x'"
  by (auto simp: do_destroy_def Let_def split: prod.splits sum.splits
      intro: answeredI [where evs = "[]"] answeredI [where evs = "[RuntimeStateChanged i RsStopping]"]
        answeredI [where evs = "[RuntimeStateChanged i RsStopping, RuntimeStateChanged i RsStopped]"])

lemma do_restart_answered: "do_restart P req i x = (r, x') \<Longrightarrow> handled (RestartRuntime i) req x r x'"
  by (auto simp: do_restart_def Let_def split: option.splits prod.splits sum.splits
      intro: answeredI [where evs = "[]"] answeredI [where evs = "[RuntimeStateChanged i RsCreating]"]
        answeredI [where evs = "[RuntimeStateChanged i RsCreating, RuntimeStateChanged i RsFailed]"]
        answeredI [where evs = "[RuntimeStateChanged i RsCreating, RuntimeStateChanged i RsRunning]"])

lemma outcome_failed: "(case cmd of CreateRuntime _ _ \<Rightarrow> True | DestroyRuntime _ \<Rightarrow> True | RestartRuntime _ \<Rightarrow> True | _ \<Rightarrow> False) \<Longrightarrow>
    outcome cmd (CommandFailed m)"
  by (cases cmd) auto

text \<open>C31. Every lifecycle command a server sends an executor is answered under its request id, and only under
  it: the last event says that the runtime reached the state asked for, lists the runtimes, or
  tells why the command failed.\<close>

theorem command_answered:
  assumes "dispatch P T conn order req cmd x = (tasks, x')"
    and "case cmd of ExecToolCall _ _ _ \<Rightarrow> False | CancelToolCall _ _ \<Rightarrow> False | _ \<Rightarrow> True"
  shows "tasks = [] \<and> (\<exists>evs. evs \<noteq> [] \<and> xe_sent x' = xe_sent x @ map (Pair req) evs \<and> outcome cmd (last evs))"
proof (cases "cmd = QueryRuntimes")
  case True
  with assms(1) show ?thesis
    by (auto simp: dispatch_def intro!: exI [of _ "[RuntimesListed (list_runtimes order (xe_registry x))]"])
next
  case False
  have "tasks = [] \<and> ((\<exists>e x1. handled cmd req x (Inl e) x1 \<and>
      x' = send_event req (CommandFailed (runtime_error_display e)) x1) \<or> handled cmd req x (Inr ()) x')"
    using assms False
    by (cases cmd)
      (auto simp: dispatch_def split: prod.splits sum.splits
        dest!: do_create_answered do_destroy_answered do_restart_answered)
  then show ?thesis
  proof (elim conjE disjE exE)
    fix e x1
    assume h: "tasks = []" "handled cmd req x (Inl e) x1" "x' = send_event req (CommandFailed (runtime_error_display e)) x1"
    then obtain evs where "xe_sent x1 = xe_sent x @ map (Pair req) evs" by (auto simp: handled_def)
    with h assms(2) False show ?thesis
      by (intro conjI exI [of _ "evs @ [CommandFailed (runtime_error_display e)]"])
        (auto intro: outcome_failed split: executor_command.splits)
  next
    assume "tasks = []" "handled cmd req x (Inr ()) x'"
    then show ?thesis by (auto simp: handled_def)
  qed
qed

subsection \<open>A sample server\<close>

definition sample_parse :: "string \<Rightarrow> (string \<times> executor_event) option" where
  "sample_parse t = (if t = ''hello'' then Some (''r'', Registered ''e'') else None)"

definition sample_sinks :: sinks where
  "sample_sinks = \<lparr>sk_encode = (\<lambda>(req, cmd). Inr req), sk_send = (\<lambda>_ _. None)\<rparr>"

theorem server_routes_witness:
  "\<exists>S. sv_phases S 0 = Some (Serving ''e'') \<and>
     server_query_runtimes sample_sinks ''q'' ''e'' S = Inr (0, ''q'')"
proof -
  let ?S0 = "\<lparr>sv_registry = Map.empty, sv_phases = Map.empty, sv_accepted = 0, sv_accepting = True, sv_events = []\<rparr>"
  let ?S = "conn_receive sample_parse 0 (Some (WsText ''hello'')) (server_accept (Inr True) ?S0)"
  have reach: "server_reach sample_parse ?S"
    by (intro server_receives server_accepts server_new) (simp add: server_bind_def)
  have send: "registry_send_command sample_sinks (sv_registry ?S) ''e'' ''q'' QueryRuntimes = Inr (0, ''q'')"
    by (simp add: conn_receive_def sample_parse_def register_executor_def registry_send_command_def
        conn_send_command_def sink_send_def sample_sinks_def)
  from server_routes [OF reach send] send show ?thesis by (auto simp: server_query_runtimes_def)
qed

theorem command_answered_witness:
  "\<exists>evs. evs \<noteq> [] \<and> xe_sent (snd (dispatch demo_executor demo_transport None [] ''q'' (RestartRuntime ''r'')
     \<lparr>xe_registry = Map.empty, xe_world = 0, xe_sent = []\<rparr>)) = map (Pair ''q'') evs \<and> outcome (RestartRuntime ''r'') (last evs)"
proof -
  let ?x = "\<lparr>xe_registry = Map.empty, xe_world = 0, xe_sent = []\<rparr> :: (nat, nat) exec"
  obtain tasks x' where d: "dispatch demo_executor demo_transport None [] ''q'' (RestartRuntime ''r'') ?x = (tasks, x')"
    by fastforce
  from command_answered [OF d] d show ?thesis by simp
qed

subsection \<open>The relay's table\<close>

text \<open>A lifecycle request, and each cancel, leaves its entry in the table for good.\<close>

lemma relay_cancel_leaks: "ry_pending (snd (relay_cancel enc send req i call_id R)) req \<noteq> None"
  by (auto simp: relay_cancel_def relay_send_command_def relay_drop_receiver_def Let_def
      split: sum.splits option.splits)

lemma relay_route_keeps: "ry_pending R req \<noteq> None \<Longrightarrow> ry_pending (relay_route msg R) req \<noteq> None"
  by (auto simp: relay_route_def split: prod.splits executor_event.splits option.splits bool.splits)

end
