(* ===== verification/Mock_Llm.thy ===== *)
theory Mock_Llm
  imports Models Text
begin

text \<open>
  The mock of the Anthropic API that stands in for the model, \<open>src/providers/mock-llm/src/server.rs\<close>:
  its queue of responses, its scenarios by session, and the event streams and JSON it answers with. The
  data of a server-sent event is the JSON value whose text is sent. Lock and HTTP are implicit: a
  handler is one step, but for a blocked response, which is taken in one step and answered in another.
  UUIDs, the text of a JSON value, the validity of a status code and the order in which a map iterates
  are parameters.
\<close>

subsection \<open>Text that is cut between bytes\<close>

text \<open>\<open>String::from_utf8_lossy\<close>: whether the text starts with a character, and of how many bytes; or with a
  broken one, of how many, which the replacement character stands for.\<close>

definition byte_at :: "string \<Rightarrow> nat \<Rightarrow> nat" where
  "byte_at s i = (if i < length s then of_char (s ! i) else 0)"

definition cont_byte :: "nat \<Rightarrow> bool" where
  "cont_byte n \<longleftrightarrow> 0x80 \<le> n \<and> n \<le> 0xBF"

definition utf8_unit :: "string \<Rightarrow> bool \<times> nat" where
  "utf8_unit s =
     (let b = byte_at s 0; n = byte_at s 1
      in if b < 0x80 then (True, 1)
         else if 0xC2 \<le> b \<and> b \<le> 0xDF then (if cont_byte n then (True, 2) else (False, 1))
         else if b = 0xE0 \<and> 0xA0 \<le> n \<and> n \<le> 0xBF \<or> 0xE1 \<le> b \<and> b \<le> 0xEC \<and> cont_byte n \<or>
                 b = 0xED \<and> 0x80 \<le> n \<and> n \<le> 0x9F \<or> 0xEE \<le> b \<and> b \<le> 0xEF \<and> cont_byte n
         then (if cont_byte (byte_at s 2) then (True, 3) else (False, 2))
         else if b = 0xF0 \<and> 0x90 \<le> n \<and> n \<le> 0xBF \<or> 0xF1 \<le> b \<and> b \<le> 0xF3 \<and> cont_byte n \<or>
                 b = 0xF4 \<and> 0x80 \<le> n \<and> n \<le> 0x8F
         then (if \<not> cont_byte (byte_at s 2) then (False, 2)
               else if cont_byte (byte_at s 3) then (True, 4) else (False, 3))
         else (False, 1))"

lemma utf8_unit_length: "0 < snd (utf8_unit s)"
  by (simp add: utf8_unit_def Let_def)

function utf8_lossy :: "string \<Rightarrow> string" where
  "utf8_lossy s =
     (if s = [] then []
      else (case utf8_unit s of
              (True, n) \<Rightarrow> take n s @ utf8_lossy (drop n s)
            | (False, n) \<Rightarrow> [CHR 0xEF, CHR 0xBF, CHR 0xBD] @ utf8_lossy (drop n s)))"
  by pat_completeness auto
termination
  by (relation "measure length") (use utf8_unit_length in \<open>auto simp: prod_eq_iff\<close>)

declare utf8_lossy.simps [simp del]

text \<open>\<open>chunks\<close>.\<close>

fun chunks_of :: "nat \<Rightarrow> 'a list \<Rightarrow> 'a list list" where
  "chunks_of n [] = []"
| "chunks_of n (x # xs) = (x # take (n - 1) xs) # chunks_of n (drop (n - 1) xs)"

subsection \<open>The state\<close>

datatype mock_response =
    MockText string
  | MockToolCall string json
  | MockError u16 string
  | MockTextStream "string list"
  | MockToolCallStream string string json
  | MockThinking string string

text \<open>A notification is named by its number.\<close>

record queue_entry =
  qe_response :: mock_response
  qe_reached :: "nat option"
  qe_gate :: "nat option"

definition immediate :: "mock_response \<Rightarrow> queue_entry" where
  "immediate r = \<lparr>qe_response = r, qe_reached = None, qe_gate = None\<rparr>"

record scenario =
  sc_description :: string
  sc_responses :: "mock_response list"

record scenario_state =
  sn_responses :: "mock_response list"
  sn_cursor :: nat

definition from_scenario :: "scenario \<Rightarrow> scenario_state" where
  "from_scenario s = \<lparr>sn_responses = sc_responses s, sn_cursor = 0\<rparr>"

definition next_response :: "scenario_state \<Rightarrow> mock_response option \<times> scenario_state" where
  "next_response s =
     (if sn_cursor s < length (sn_responses s)
      then (Some (sn_responses s ! sn_cursor s), s\<lparr>sn_cursor := sn_cursor s + 1\<rparr>) else (None, s))"

text \<open>\<open>ms_permits\<close> are the notifications that were signalled and not yet awaited; the last two count the
  notifications made and the UUIDs drawn.\<close>

record mock_state =
  ms_queue :: "queue_entry list"
  ms_scenarios :: "string \<rightharpoonup> scenario"
  ms_bindings :: "string \<rightharpoonup> string"
  ms_sessions :: "string \<rightharpoonup> scenario_state"
  ms_permits :: "nat set"
  ms_notifies :: nat
  ms_drawn :: nat

definition dequeue_entry :: "mock_state \<Rightarrow> queue_entry option \<times> mock_state" where
  "dequeue_entry st =
     (case ms_queue st of [] \<Rightarrow> (None, st) | e # es \<Rightarrow> (Some e, st\<lparr>ms_queue := es\<rparr>))"

definition enqueue :: "queue_entry \<Rightarrow> mock_state \<Rightarrow> mock_state" where
  "enqueue e st = st\<lparr>ms_queue := ms_queue st @ [e]\<rparr>"

subsection \<open>The builder\<close>

record mock_builder =
  mb_responses :: "mock_response list"
  mb_scenarios :: "string \<rightharpoonup> scenario"
  mb_bind_all :: bool
  mb_port :: "u16 option"

definition builder_empty :: mock_builder where
  "builder_empty = \<lparr>mb_responses = [], mb_scenarios = Map.empty, mb_bind_all = False, mb_port = None\<rparr>"

definition builder_push :: "mock_response \<Rightarrow> mock_builder \<Rightarrow> mock_builder" where
  "builder_push r b = b\<lparr>mb_responses := mb_responses b @ [r]\<rparr>"

definition builder_response :: "string \<Rightarrow> mock_builder \<Rightarrow> mock_builder" where
  "builder_response txt = builder_push (MockText txt)"

definition builder_tool_call :: "string \<Rightarrow> json \<Rightarrow> mock_builder \<Rightarrow> mock_builder" where
  "builder_tool_call name input = builder_push (MockToolCall name input)"

definition builder_error :: "u16 \<Rightarrow> string \<Rightarrow> mock_builder \<Rightarrow> mock_builder" where
  "builder_error status msg = builder_push (MockError status msg)"

definition builder_response_stream :: "string list \<Rightarrow> mock_builder \<Rightarrow> mock_builder" where
  "builder_response_stream cs = builder_push (MockTextStream cs)"

definition builder_tool_call_stream :: "string \<Rightarrow> string \<Rightarrow> json \<Rightarrow> mock_builder \<Rightarrow> mock_builder" where
  "builder_tool_call_stream uuid name input = builder_push (MockToolCallStream name (''toolu_'' @ uuid) input)"

definition builder_thinking :: "string \<Rightarrow> string \<Rightarrow> mock_builder \<Rightarrow> mock_builder" where
  "builder_thinking txt signature = builder_push (MockThinking txt signature)"

definition builder_with_scenarios :: "(string \<rightharpoonup> scenario) \<Rightarrow> mock_builder \<Rightarrow> mock_builder" where
  "builder_with_scenarios config b = b\<lparr>mb_scenarios := config\<rparr>"

definition builder_bind_all_interfaces :: "mock_builder \<Rightarrow> mock_builder" where
  "builder_bind_all_interfaces b = b\<lparr>mb_bind_all := True\<rparr>"

definition builder_port :: "u16 \<Rightarrow> mock_builder \<Rightarrow> mock_builder" where
  "builder_port n b = b\<lparr>mb_port := Some n\<rparr>"

text \<open>\<open>build\<close>: the address it binds and its first state.\<close>

definition builder_build :: "mock_builder \<Rightarrow> string \<times> mock_state" where
  "builder_build b =
     (let n = show_nat (unat (case mb_port b of Some n \<Rightarrow> n | None \<Rightarrow> 0))
      in (if mb_bind_all b then ''0.0.0.0:'' @ n else ''127.0.0.1:'' @ n,
          \<lparr>ms_queue = map immediate (mb_responses b), ms_scenarios = mb_scenarios b, ms_bindings = Map.empty,
           ms_sessions = Map.empty, ms_permits = {}, ms_notifies = 0, ms_drawn = 0\<rparr>))"

subsection \<open>The server in process\<close>

definition queued_count :: "mock_state \<Rightarrow> nat" where
  "queued_count st = length (ms_queue st)"

definition queue_response :: "string \<Rightarrow> mock_state \<Rightarrow> mock_state" where
  "queue_response txt = enqueue (immediate (MockText txt))"

definition queue_tool_call :: "string \<Rightarrow> json \<Rightarrow> mock_state \<Rightarrow> mock_state" where
  "queue_tool_call name input = enqueue (immediate (MockToolCall name input))"

text \<open>The handle is the gate's number and that of the notification that the request was received.\<close>

definition blocking_response :: "string \<Rightarrow> mock_state \<Rightarrow> (nat \<times> nat) \<times> mock_state" where
  "blocking_response txt st =
     (let gate = ms_notifies st; reached = gate + 1
      in ((gate, reached),
          enqueue \<lparr>qe_response = MockText txt, qe_reached = Some reached, qe_gate = Some gate\<rparr>
            (st\<lparr>ms_notifies := gate + 2\<rparr>)))"

definition release :: "nat \<times> nat \<Rightarrow> mock_state \<Rightarrow> mock_state" where
  "release h st = st\<lparr>ms_permits := insert (fst h) (ms_permits st)\<rparr>"

text \<open>None while the notification has not come.\<close>

definition wait_until_received :: "nat \<times> nat \<Rightarrow> mock_state \<Rightarrow> mock_state option" where
  "wait_until_received h st =
     (if snd h \<in> ms_permits st then Some (st\<lparr>ms_permits := ms_permits st - {snd h}\<rparr>) else None)"

text \<open>A configuration is the list of its scenarios, one for each name.\<close>

definition load_scenarios :: "(string \<times> scenario) list \<Rightarrow> mock_state \<Rightarrow> mock_state" where
  "load_scenarios config st = st\<lparr>ms_scenarios := foldl (\<lambda>m (n, s). m(n \<mapsto> s)) (ms_scenarios st) config\<rparr>"

definition register_session :: "string \<Rightarrow> string \<Rightarrow> mock_state \<Rightarrow> mock_state" where
  "register_session session_id name st =
     (case ms_scenarios st name of
        Some s \<Rightarrow>
          st\<lparr>ms_sessions := (ms_sessions st)(session_id \<mapsto> from_scenario s),
             ms_bindings := (ms_bindings st)(session_id \<mapsto> name)\<rparr>
      | None \<Rightarrow> st)"

subsection \<open>Event streams\<close>

abbreviation JNat :: "u64 \<Rightarrow> json" where
  "JNat n \<equiv> JNumber (PosInt n)"

text \<open>A length in tokens, as a \<open>u32\<close> that saturates.\<close>

definition token_count :: "string \<Rightarrow> u32" where
  "token_count txt = (let n = length txt div 4 in if n < 2 ^ 32 then word_of_nat n else -1)"

definition message_start :: "string \<Rightarrow> u64 \<Rightarrow> string \<times> json" where
  "message_start mid out =
     (''message_start'',
      JObject [(''type'', JString ''message_start''),
        (''message'', JObject [(''id'', JString mid), (''type'', JString ''message''),
          (''role'', JString ''assistant''), (''content'', JArray []), (''model'', JString ''mock-model''),
          (''stop_reason'', JNull),
          (''usage'', JObject [(''input_tokens'', JNat 10), (''output_tokens'', JNat out)])])])"

definition block_started :: "json \<Rightarrow> string \<times> json" where
  "block_started block =
     (''content_block_start'',
      JObject [(''type'', JString ''content_block_start''), (''index'', JNat 0), (''content_block'', block)])"

definition text_block :: json where
  "text_block = JObject [(''type'', JString ''text''), (''text'', JString [])]"

definition tool_block :: "string \<Rightarrow> string \<Rightarrow> json" where
  "tool_block tool_id name =
     JObject [(''type'', JString ''tool_use''), (''id'', JString tool_id), (''name'', JString name),
       (''input'', JObject [])]"

definition thinking_block :: json where
  "thinking_block =
     JObject [(''type'', JString ''thinking''), (''thinking'', JString []), (''signature'', JString [])]"

definition delta_event :: "string \<Rightarrow> string \<Rightarrow> string \<Rightarrow> string \<times> json" where
  "delta_event kind field txt =
     (''content_block_delta'',
      JObject [(''type'', JString ''content_block_delta''), (''index'', JNat 0),
        (''delta'', JObject [(''type'', JString kind), (field, JString txt)])])"

definition message_end :: "string \<Rightarrow> u64 \<Rightarrow> (string \<times> json) list" where
  "message_end stop out =
     [(''content_block_stop'', JObject [(''type'', JString ''content_block_stop''), (''index'', JNat 0)]),
      (''message_delta'',
       JObject [(''type'', JString ''message_delta''),
         (''delta'', JObject [(''stop_reason'', JString stop), (''stop_sequence'', JNull)]),
         (''usage'', JObject [(''output_tokens'', JNat out)])]),
      (''message_stop'', JObject [(''type'', JString ''message_stop'')])]"

definition text_sse :: "string \<Rightarrow> string \<Rightarrow> (string \<times> json) list" where
  "text_sse mid txt =
     [message_start mid 1, block_started text_block, delta_event ''text_delta'' ''text'' txt] @
     message_end ''end_turn'' (ucast (token_count txt))"

definition tool_sse :: "(json \<Rightarrow> string) \<Rightarrow> string \<Rightarrow> string \<Rightarrow> string \<Rightarrow> json \<Rightarrow> (string \<times> json) list" where
  "tool_sse to_text mid tool_id name input =
     [message_start mid 1, block_started (tool_block tool_id name),
      delta_event ''input_json_delta'' ''partial_json'' (to_text input)] @
     message_end ''tool_use'' 20"

definition thinking_sse :: "string \<Rightarrow> string \<Rightarrow> string \<Rightarrow> (string \<times> json) list" where
  "thinking_sse mid txt signature =
     [message_start mid 1, block_started thinking_block, delta_event ''thinking_delta'' ''thinking'' txt,
      delta_event ''signature_delta'' ''signature'' signature] @
     message_end ''end_turn'' 5"

definition text_stream_sse :: "string \<Rightarrow> string list \<Rightarrow> (string \<times> json) list" where
  "text_stream_sse mid chunks =
     [message_start mid 0, block_started text_block] @ map (delta_event ''text_delta'' ''text'') chunks @
     message_end ''end_turn'' (word_of_nat (length chunks))"

text \<open>The input is cut every ten bytes, also inside a character.\<close>

definition input_fragments :: "string \<Rightarrow> string list" where
  "input_fragments txt = map utf8_lossy (chunks_of 10 txt)"

definition tool_call_stream_sse ::
  "(json \<Rightarrow> string) \<Rightarrow> string \<Rightarrow> string \<Rightarrow> string \<Rightarrow> json \<Rightarrow> (string \<times> json) list" where
  "tool_call_stream_sse to_text mid name tool_id input =
     [message_start mid 0, block_started (tool_block tool_id name)] @
     map (delta_event ''input_json_delta'' ''partial_json'') (input_fragments (to_text input)) @
     message_end ''tool_use'' 20"

subsection \<open>JSON responses\<close>

definition message_json :: "string \<Rightarrow> json \<Rightarrow> string \<Rightarrow> u64 \<Rightarrow> json" where
  "message_json mid block stop out =
     JObject [(''type'', JString ''message''), (''id'', JString mid), (''role'', JString ''assistant''),
       (''content'', JArray [block]), (''model'', JString ''mock-model''), (''stop_reason'', JString stop),
       (''usage'', JObject [(''input_tokens'', JNat 10), (''output_tokens'', JNat out)])]"

definition text_json :: "string \<Rightarrow> string \<Rightarrow> json" where
  "text_json mid txt =
     message_json mid (JObject [(''type'', JString ''text''), (''text'', JString txt)]) ''end_turn''
       (word_of_nat (length txt div 4))"

definition tool_json :: "string \<Rightarrow> string \<Rightarrow> string \<Rightarrow> json \<Rightarrow> json" where
  "tool_json mid tool_id name input =
     message_json mid
       (JObject [(''type'', JString ''tool_use''), (''id'', JString tool_id), (''name'', JString name), (''input'', input)])
       ''tool_use'' 20"

definition thinking_json :: "string \<Rightarrow> string \<Rightarrow> string \<Rightarrow> json" where
  "thinking_json mid txt signature =
     message_json mid
       (JObject [(''type'', JString ''thinking''), (''thinking'', JString txt), (''signature'', JString signature)])
       ''end_turn'' 5"

definition error_json :: "string \<Rightarrow> json" where
  "error_json msg =
     JObject [(''type'', JString ''error''),
       (''error'', JObject [(''type'', JString ''api_error''), (''message'', JString msg)])]"

subsection \<open>The messages endpoint\<close>

datatype response_kind = KindJson json | KindSse "(string \<times> json) list" | KindHttpError u16 json

record mock_env =
  me_uuid :: "nat \<Rightarrow> string"
  me_to_text :: "json \<Rightarrow> string"
  me_valid_status :: "u16 \<Rightarrow> bool"
  me_keys :: "(string \<rightharpoonup> scenario) \<Rightarrow> string list"

definition msg_id_at :: "mock_env \<Rightarrow> nat \<Rightarrow> string" where
  "msg_id_at E n = ''msg_'' @ me_uuid E n"

definition tool_id_at :: "mock_env \<Rightarrow> nat \<Rightarrow> string" where
  "tool_id_at E n = ''toolu_'' @ me_uuid E n"

text \<open>The first half of \<open>handle_messages\<close>: the entry that answers the request, of the session's scenario or
  of the queue, and the notification that it was received.\<close>

definition take_entry :: "string option \<Rightarrow> mock_state \<Rightarrow> queue_entry option \<times> mock_state" where
  "take_entry sid st =
     (case sid of
        None \<Rightarrow> dequeue_entry st
      | Some i \<Rightarrow>
          (case ms_sessions st i of
             None \<Rightarrow> dequeue_entry st
           | Some sn \<Rightarrow>
               (case next_response sn of
                  (r, sn1) \<Rightarrow> (map_option immediate r, st\<lparr>ms_sessions := (ms_sessions st)(i \<mapsto> sn1)\<rparr>))))"

definition messages_received :: "string option \<Rightarrow> mock_state \<Rightarrow> queue_entry option \<times> mock_state" where
  "messages_received sid st =
     (case take_entry sid st of
        (e, st1) \<Rightarrow>
          (e, case Option.bind e qe_reached of
                None \<Rightarrow> st1
              | Some n \<Rightarrow> st1\<lparr>ms_permits := insert n (ms_permits st1)\<rparr>))"

definition respond_stream :: "mock_env \<Rightarrow> nat \<Rightarrow> mock_response option \<Rightarrow> (string \<times> json) list" where
  "respond_stream E n r =
     (let mid = msg_id_at E n; tool_id = tool_id_at E (n + 1)
      in case r of
           Some (MockText txt) \<Rightarrow> text_sse mid txt
         | Some (MockToolCall name input) \<Rightarrow> tool_sse (me_to_text E) mid tool_id name input
         | Some (MockThinking txt signature) \<Rightarrow> thinking_sse mid txt signature
         | Some (MockError _ msg) \<Rightarrow>
             [(''error'', JObject [(''type'', JString ''overloaded_error''), (''message'', JString msg)])]
         | Some (MockTextStream chunks) \<Rightarrow> text_stream_sse mid chunks
         | Some (MockToolCallStream name tool input) \<Rightarrow> tool_call_stream_sse (me_to_text E) mid name tool input
         | None \<Rightarrow> text_sse mid ''No mock response queued'')"

definition respond_json :: "mock_env \<Rightarrow> nat \<Rightarrow> mock_response option \<Rightarrow> response_kind" where
  "respond_json E n r =
     (let mid = msg_id_at E n
      in case r of
           Some (MockText txt) \<Rightarrow> KindJson (text_json mid txt)
         | Some (MockToolCall name input) \<Rightarrow> KindJson (tool_json mid (tool_id_at E (n + 1)) name input)
         | Some (MockThinking txt signature) \<Rightarrow> KindJson (thinking_json mid txt signature)
         | Some (MockError status msg) \<Rightarrow>
             KindHttpError (if me_valid_status E status then status else 500) (error_json msg)
         | Some (MockTextStream chunks) \<Rightarrow> KindSse (text_stream_sse mid chunks)
         | Some (MockToolCallStream name tool input) \<Rightarrow>
             KindSse (tool_call_stream_sse (me_to_text E) mid name tool input)
         | None \<Rightarrow> KindJson (text_json mid ''No mock response queued''))"

text \<open>How many UUIDs an answer draws.\<close>

definition uuids_drawn :: "bool \<Rightarrow> mock_response option \<Rightarrow> nat" where
  "uuids_drawn is_stream r =
     (case r of
        Some (MockTextStream _) \<Rightarrow> 1
      | Some (MockToolCallStream _ _ _) \<Rightarrow> 1
      | Some (MockToolCall _ _) \<Rightarrow> 2
      | Some (MockError _ _) \<Rightarrow> if is_stream then 2 else 0
      | _ \<Rightarrow> if is_stream then 2 else 1)"

text \<open>The second half: None while the entry's gate has not been released.\<close>

definition messages_answered ::
  "mock_env \<Rightarrow> bool \<Rightarrow> queue_entry option \<Rightarrow> mock_state \<Rightarrow> (response_kind \<times> mock_state) option" where
  "messages_answered E is_stream e st =
     (let r = map_option qe_response e; n = ms_drawn st;
          answer = (if is_stream then KindSse (respond_stream E n r) else respond_json E n r);
          drawn = n + uuids_drawn is_stream r
      in case Option.bind e qe_gate of
           None \<Rightarrow> Some (answer, st\<lparr>ms_drawn := drawn\<rparr>)
         | Some g \<Rightarrow>
             if g \<in> ms_permits st
             then Some (answer, st\<lparr>ms_permits := ms_permits st - {g}, ms_drawn := drawn\<rparr>) else None)"

definition handle_messages ::
  "mock_env \<Rightarrow> string option \<Rightarrow> bool \<Rightarrow> mock_state \<Rightarrow> (response_kind \<times> mock_state) option" where
  "handle_messages E sid is_stream st =
     (case messages_received sid st of (e, st1) \<Rightarrow> messages_answered E is_stream e st1)"

subsection \<open>The other endpoints\<close>

record queue_request =
  qr_type :: string
  qr_content :: "string option"
  qr_tool_name :: "string option"
  qr_tool_input :: "json option"

record status_response =
  sr_status :: string
  sr_message :: "string option"

definition handle_queue :: "queue_request \<Rightarrow> mock_state \<Rightarrow> status_response \<times> mock_state" where
  "handle_queue q st =
     (let r = (if qr_type q = ''text'' then MockText (case qr_content q of Some c \<Rightarrow> c | None \<Rightarrow> [])
               else if qr_type q = ''tool_call''
               then MockToolCall (case qr_tool_name q of Some n \<Rightarrow> n | None \<Rightarrow> [])
                      (case qr_tool_input q of Some v \<Rightarrow> v | None \<Rightarrow> JObject [])
               else MockText ''Unknown type'')
      in (\<lparr>sr_status = ''queued'', sr_message = None\<rparr>, enqueue (immediate r) st))"

definition handle_load_scenarios :: "(string \<times> scenario) list \<Rightarrow> mock_state \<Rightarrow> status_response \<times> mock_state" where
  "handle_load_scenarios config st =
     (\<lparr>sr_status = ''loaded'', sr_message = Some (show_nat (length config) @ '' scenarios loaded'')\<rparr>,
      load_scenarios config st)"

definition handle_list_scenarios :: "mock_env \<Rightarrow> mock_state \<Rightarrow> string list" where
  "handle_list_scenarios E st = me_keys E (ms_scenarios st)"

definition handle_register_session ::
  "string \<Rightarrow> string \<Rightarrow> mock_state \<Rightarrow> (u16 \<times> status_response, status_response) result \<times> mock_state" where
  "handle_register_session name session_id st =
     (case ms_scenarios st name of
        Some _ \<Rightarrow>
          (Inr \<lparr>sr_status = ''registered'',
                sr_message = Some (''Session '' @ session_id @ '' bound to scenario '' @ name)\<rparr>,
           register_session session_id name st)
      | None \<Rightarrow>
          (Inl (404, \<lparr>sr_status = ''error'', sr_message = Some (''Scenario '' @ quoted name @ '' not found'')\<rparr>), st))"

end
