(* ===== verification/Mock_Properties.thy ===== *)
theory Mock_Properties
  imports Mock_Llm Anthropic_Properties
begin

text \<open>
  The mock against the provider that talks to it: what is queued is what a completion returns, queued
  errors are retried, and each session plays its own scenario.
\<close>

subsection \<open>Text in fragments\<close>

lemma chunks_of_concat: "0 < n \<Longrightarrow> concat (chunks_of n xs) = xs"
  by (induction n xs rule: chunks_of.induct) auto

lemma chunks_of_set: "0 < n \<Longrightarrow> \<Union> (set ` set (chunks_of n xs)) = set xs"
  by (metis chunks_of_concat set_concat)

definition ascii :: "string \<Rightarrow> bool" where
  "ascii s \<longleftrightarrow> (\<forall>c\<in>set s. of_char c < (0x80 :: nat))"

lemma utf8_lossy_ascii: "ascii s \<Longrightarrow> utf8_lossy s = s"
proof (induction s)
  case (Cons c s)
  then have "utf8_unit (c # s) = (True, 1)" by (simp add: utf8_unit_def byte_at_def ascii_def)
  with Cons show ?case by (simp add: utf8_lossy.simps [of "c # s"] ascii_def)
qed (simp add: utf8_lossy.simps)

lemma input_fragments_ascii: "ascii s \<Longrightarrow> concat (input_fragments s) = s"
proof -
  assume a: "ascii s"
  have "utf8_lossy c = c" if "c \<in> set (chunks_of 10 s)" for c
    using that a chunks_of_set [of 10 s] by (intro utf8_lossy_ascii) (auto simp: ascii_def)
  then show ?thesis by (simp add: input_fragments_def chunks_of_concat cong: map_cong)
qed

text \<open>A character cut by a fragment's end becomes two replacement characters.\<close>

lemma fragments_break_characters:
  "concat (input_fragments (''{\"city\":\"'' @ [CHR 0xC3, CHR 0xBC] @ ''\"}'')) \<noteq>
     ''{\"city\":\"'' @ [CHR 0xC3, CHR 0xBC] @ ''\"}''"
  by code_simp

subsection \<open>The API's stream format\<close>

text \<open>The documented format of a stream's events, as far as the provider's events show it.\<close>

definition u32_of :: "json \<Rightarrow> u32 option" where
  "u32_of j = (case json_as_u64 j of None \<Rightarrow> None | Some n \<Rightarrow> if n < 2 ^ 32 then Some (ucast n) else None)"

definition block_of :: "json \<Rightarrow> block_start option" where
  "block_of b =
     (let kind = json_as_str (json_index b ''type'')
      in if kind = Some ''text'' then Some StartText
         else if kind = Some ''thinking'' then Some StartThinking
         else if kind = Some ''tool_use''
         then (case (json_as_str (json_index b ''id''), json_as_str (json_index b ''name'')) of
                 (Some i, Some n) \<Rightarrow> Some (StartToolUse i n)
               | _ \<Rightarrow> None)
         else None)"

definition delta_of :: "json \<Rightarrow> block_delta option" where
  "delta_of d =
     (let kind = json_as_str (json_index d ''type'')
      in if kind = Some ''text_delta'' then map_option TextDelta (json_as_str (json_index d ''text''))
         else if kind = Some ''input_json_delta''
         then map_option InputJsonDelta (json_as_str (json_index d ''partial_json''))
         else if kind = Some ''thinking_delta'' then map_option ThinkingDelta (json_as_str (json_index d ''thinking''))
         else if kind = Some ''signature_delta''
         then map_option SignatureDelta (json_as_str (json_index d ''signature''))
         else None)"

definition event_of :: "json \<Rightarrow> stream_event option" where
  "event_of j =
     (let kind = json_as_str (json_index j ''type''); i = json_as_u64 (json_index j ''index'')
      in if kind = Some ''message_start''
         then map_option (\<lambda>n. StreamStart (Some (Some n)))
                (u32_of (json_index (json_index (json_index j ''message'') ''usage'') ''input_tokens''))
         else if kind = Some ''content_block_start''
         then Option.bind i (\<lambda>k. map_option (BlockStart (unat k)) (block_of (json_index j ''content_block'')))
         else if kind = Some ''content_block_delta''
         then Option.bind i (\<lambda>k. map_option (BlockDelta (unat k)) (delta_of (json_index j ''delta'')))
         else if kind = Some ''content_block_stop'' then map_option (\<lambda>k. BlockStop (unat k)) i
         else if kind = Some ''message_delta''
         then map_option (\<lambda>n. StreamDelta (json_as_str (json_index (json_index j ''delta'') ''stop_reason'')) (Some (Some n)))
                (u32_of (json_index (json_index j ''usage'') ''output_tokens''))
         else if kind = Some ''message_stop'' then Some StreamStop
         else None)"

text \<open>What the code relies on in the crate: it decodes the events of the format, and an error event of the
  type \<open>overloaded_error\<close> is an error that says so.\<close>

definition decodes_format :: "(string \<times> json \<Rightarrow> (api_error, stream_event) result) \<Rightarrow> bool" where
  "decodes_format dec \<longleftrightarrow> (\<forall>t j ev. event_of j = Some ev \<longrightarrow> dec (t, j) = Inr ev)"

definition reports_overload ::
  "(string \<times> json \<Rightarrow> (api_error, stream_event) result) \<Rightarrow> (api_error \<Rightarrow> string) \<Rightarrow> bool" where
  "reports_overload dec display \<longleftrightarrow>
     (\<forall>msg. \<exists>e. dec (''error'', JObject [(''type'', JString ''overloaded_error''), (''message'', JString msg)]) = Inl e \<and>
        str_contains ''overloaded_error'' (display e))"

lemma event_of_message_start [simp]: "event_of (snd (message_start i n)) = Some (StreamStart (Some (Some 10)))"
  by (simp add: event_of_def message_start_def json_index_def u32_of_def)

lemma event_of_block_started [simp]:
  "event_of (snd (block_started text_block)) = Some (BlockStart 0 StartText)"
  "event_of (snd (block_started (tool_block i n))) = Some (BlockStart 0 (StartToolUse i n))"
  "event_of (snd (block_started thinking_block)) = Some (BlockStart 0 StartThinking)"
  by (simp_all add: event_of_def block_started_def json_index_def block_of_def text_block_def tool_block_def
      thinking_block_def)

lemma event_of_delta [simp]:
  "event_of (snd (delta_event ''text_delta'' ''text'' t)) = Some (BlockDelta 0 (TextDelta t))"
  "event_of (snd (delta_event ''input_json_delta'' ''partial_json'' t)) = Some (BlockDelta 0 (InputJsonDelta t))"
  "event_of (snd (delta_event ''thinking_delta'' ''thinking'' t)) = Some (BlockDelta 0 (ThinkingDelta t))"
  "event_of (snd (delta_event ''signature_delta'' ''signature'' t)) = Some (BlockDelta 0 (SignatureDelta t))"
  by (simp_all add: event_of_def delta_event_def json_index_def delta_of_def)

lemma decoded: "decodes_format dec \<Longrightarrow> event_of (snd p) = Some ev \<Longrightarrow> dec p = Inr ev"
  by (cases p) (simp add: decodes_format_def)

lemma decoded_end:
  assumes "decodes_format dec" and "n < 2 ^ 32"
  shows "map dec (message_end stop n) =
    [Inr (BlockStop 0), Inr (StreamDelta (Some stop) (Some (Some (ucast n)))), Inr StreamStop]"
  using assms
  by (simp add: message_end_def decoded event_of_def json_index_def u32_of_def)

subsection \<open>The provider against the mock\<close>

text \<open>A queued response as the blocks of its stream, and the completion it stands for.\<close>

fun mock_blocks :: "mock_env \<Rightarrow> nat \<Rightarrow> mock_response \<Rightarrow> streamed list" where
  "mock_blocks E n (MockText t) = [SText [t]]"
| "mock_blocks E n (MockToolCall name v) = [STool (tool_id_at E (n + 1)) name [me_to_text E v]]"
| "mock_blocks E n (MockError _ _) = []"
| "mock_blocks E n (MockTextStream cs) = [SText cs]"
| "mock_blocks E n (MockToolCallStream name i v) = [STool i name (input_fragments (me_to_text E v))]"
| "mock_blocks E n (MockThinking t g) = [SThinking [t] [g]]"

fun mock_parts :: "string \<Rightarrow> mock_response \<Rightarrow> content_part list" where
  "mock_parts tool_id (MockText t) = (if t = [] then [] else [TextPart t])"
| "mock_parts tool_id (MockToolCall name v) = [ToolCallPart \<lparr>tc_id = tool_id, tc_name = name, tc_input = v\<rparr>]"
| "mock_parts tool_id (MockError _ _) = []"
| "mock_parts tool_id (MockTextStream cs) = (if concat cs = [] then [] else [TextPart (concat cs)])"
| "mock_parts tool_id (MockToolCallStream name i v) = [ToolCallPart \<lparr>tc_id = i, tc_name = name, tc_input = v\<rparr>]"
| "mock_parts tool_id (MockThinking t g) =
     (if t = [] then [] else [ThinkingPart t (if g = [] then None else Some g)])"

fun calls_tool :: "mock_response \<Rightarrow> bool" where
  "calls_tool (MockToolCall _ _) = True"
| "calls_tool (MockToolCallStream _ _ _) = True"
| "calls_tool _ = False"

fun mock_tokens :: "mock_response \<Rightarrow> u32" where
  "mock_tokens (MockText t) = token_count t"
| "mock_tokens (MockTextStream cs) = word_of_nat (length cs)"
| "mock_tokens (MockThinking _ _) = 5"
| "mock_tokens _ = 20"

text \<open>What comes through: tool inputs that parse back, in ASCII where they are cut, and no error.\<close>

fun playable :: "mock_env \<Rightarrow> (string \<Rightarrow> json option) \<Rightarrow> mock_response \<Rightarrow> bool" where
  "playable E from_str (MockToolCall _ v) \<longleftrightarrow> from_str (me_to_text E v) = Some v"
| "playable E from_str (MockToolCallStream _ _ v) \<longleftrightarrow> from_str (me_to_text E v) = Some v \<and> ascii (me_to_text E v)"
| "playable E from_str (MockTextStream cs) \<longleftrightarrow> length cs < 2 ^ 32"
| "playable E from_str (MockError _ _) \<longleftrightarrow> False"
| "playable E from_str _ \<longleftrightarrow> True"

definition mock_stop :: "mock_response \<Rightarrow> string" where
  "mock_stop r = (if calls_tool r then ''tool_use'' else ''end_turn'')"

lemma mock_blocks_parts:
  "playable E from_str r \<Longrightarrow>
   concat (map (part_of from_str) (mock_blocks E n r)) = mock_parts (tool_id_at E (n + 1)) r \<and>
   mock_blocks E n r \<noteq> []"
  by (cases r) (simp_all add: input_fragments_ascii)

lemma ucast_32_64: "ucast (ucast (x :: u32) :: u64) = x" "(ucast (x :: u32) :: u64) < 2 ^ 32"
proof -
  show "ucast (ucast x :: u64) = x" by transfer simp
  have "unat (ucast x :: u64) = unat x" by transfer (simp add: take_bit_take_bit)
  moreover have "unat x < 2 ^ 32" using unsigned_less [of x] by simp
  ultimately show "(ucast x :: u64) < 2 ^ 32" by (simp add: word_less_nat_alt)
qed

lemma played_stream:
  assumes "decodes_format dec" and "playable E from_str r"
  shows "map dec (respond_stream E n (Some r)) =
    map Inr (message_stream 10 (mock_blocks E n r) (Some (mock_stop r)) (mock_tokens r))"
proof -
  note d = decoded [OF assms(1)] decoded_end [OF assms(1)]
  note defs = respond_stream_def message_stream_def block_stream_def mock_stop_def Let_def
  show ?thesis
  proof (cases r)
    case (MockText t)
    then show ?thesis
      using decoded_end [OF assms(1) ucast_32_64(2) [of "token_count t"]]
      by (simp add: defs text_sse_def d(1) ucast_32_64(1))
  next
    case (MockTextStream cs)
    with assms(2) have n: "(word_of_nat (length cs) :: u64) < 2 ^ 32"
      by (simp add: word_less_nat_alt unat_of_nat)
    have "ucast (word_of_nat (length cs) :: u64) = (word_of_nat (length cs) :: u32)"
      by (rule bit_eqI) (simp add: bit_simps)
    with MockTextStream n show ?thesis by (simp add: defs text_stream_sse_def d comp_def)
  qed (use assms(2) in \<open>simp_all add: defs tool_sse_def thinking_sse_def tool_call_stream_sse_def d comp_def\<close>)
qed

text \<open>A client whose requests reach the mock, with the session of its header.\<close>

definition mock_wired ::
  "(string option, mock_state) api_client \<Rightarrow> mock_env \<Rightarrow> (string \<times> json \<Rightarrow> (api_error, stream_event) result) \<Rightarrow> bool" where
  "mock_wired C E dec \<longleftrightarrow>
     (\<forall>sid ar w pairs w'. handle_messages E sid True w = Some (KindSse pairs, w') \<longrightarrow>
        ac_stream C sid ar w = (map dec pairs, w')) \<and>
     (\<forall>d w. ac_sleep C d w = w)"

lemma handle_queued:
  assumes "ms_queue w = immediate r # es"
  shows "handle_messages E None True w =
    Some (KindSse (respond_stream E (ms_drawn w) (Some r)),
          w\<lparr>ms_queue := es, ms_drawn := ms_drawn w + uuids_drawn True (Some r)\<rparr>)"
  using assms
  by (simp add: handle_messages_def messages_received_def take_entry_def dequeue_entry_def messages_answered_def
      immediate_def Let_def)

lemma queued_played:
  assumes wired: "mock_wired C E dec" and fmt: "decodes_format dec" and over: "reports_overload dec (ac_display C)"
    and sid: "an_client p = None" and play: "playable E (ac_from_str C) r"
  shows "attempt + length errs \<le> 6 \<Longrightarrow> (attempt = 0 \<Longrightarrow> s = stream_empty) \<Longrightarrow>
    ms_queue w = map immediate (map (\<lambda>(st, m). MockError st m) errs @ r # rest) \<Longrightarrow>
    \<exists>err' s' evs w'. stream_attempts C p mid ar attempt err s w = (Inr (err', s'), evs, w') \<and> \<not> no_blocks s' \<and>
      assemble (ac_from_str C) s' =
        \<lparr>cp_parts = mock_parts (tool_id_at E (ms_drawn w + 2 * length errs + 1)) r,
         cp_stop_reason = stop_reason_of (Some (mock_stop r)),
         cp_usage = \<lparr>input_tokens = 10, output_tokens = mock_tokens r\<rparr>\<rparr> \<and>
      ms_queue w' = map immediate rest"
proof (induction errs arbitrary: attempt err s w)
  case Nil
  let ?bs = "mock_blocks E (ms_drawn w) r"
  obtain s' where s': "run_stream (ac_display C) mid
        (map Inr (message_stream 10 ?bs (Some (mock_stop r)) (mock_tokens r))) stream_empty =
        (StreamDone, s', blocks_shown mid 0 ?bs)"
      "no_blocks s' \<longleftrightarrow> ?bs = []"
      "assemble (ac_from_str C) s' =
         \<lparr>cp_parts = concat (map (part_of (ac_from_str C)) ?bs), cp_stop_reason = stop_reason_of (Some (mock_stop r)),
          cp_usage = \<lparr>input_tokens = 10, output_tokens = mock_tokens r\<rparr>\<rparr>"
    using run_message [of "ac_display C" mid 10 ?bs "Some (mock_stop r)" "mock_tokens r" "ac_from_str C"] by blast
  have q: "ms_queue w = immediate r # map immediate rest" using Nil.prems(3) by simp
  have st: "ac_stream C (an_client p) ar w =
      (map Inr (message_stream 10 ?bs (Some (mock_stop r)) (mock_tokens r)),
       w\<lparr>ms_queue := map immediate rest, ms_drawn := ms_drawn w + uuids_drawn True (Some r)\<rparr>)"
    using wired handle_queued [OF q, of E] played_stream [OF fmt play] by (simp add: mock_wired_def sid)
  have z: "ac_sleep C d w = w" for d using wired by (simp add: mock_wired_def)
  show ?case
    using Nil.prems(1,2) s' mock_blocks_parts [OF play, of "ms_drawn w"]
    by (subst stream_attempts.simps) (auto simp: MAX_STREAM_RETRIES_def st z Let_def)
next
  case (Cons e errs)
  obtain code msg where e: "e = (code, msg)" by fastforce
  let ?w = "w\<lparr>ms_queue := map immediate (map (\<lambda>(st, m). MockError st m) errs @ r # rest), ms_drawn := ms_drawn w + 2\<rparr>"
  obtain ae where ae: "dec (''error'', JObject [(''type'', JString ''overloaded_error''), (''message'', JString msg)]) = Inl ae"
      "str_contains ''overloaded_error'' (ac_display C ae)"
    using over by (auto simp: reports_overload_def)
  have q: "ms_queue w = immediate (MockError code msg) # map immediate (map (\<lambda>(st, m). MockError st m) errs @ r # rest)"
    using Cons.prems(3) by (simp add: e)
  have st: "ac_stream C (an_client p) ar w = ([Inl ae], ?w)"
    using wired handle_queued [OF q, of E] ae(1) by (simp add: mock_wired_def sid respond_stream_def uuids_drawn_def)
  have z: "ac_sleep C d w = w" for d using wired by (simp add: mock_wired_def)
  have r: "is_retryable (ac_display C ae)" "no_blocks stream_empty"
    using ae(2) by (simp_all add: is_retryable_def no_blocks_def stream_empty_def)
  have s1: "(if attempt > 0 then stream_empty else s) = stream_empty" using Cons.prems(2) by simp
  have "attempt + 1 + length errs \<le> 6" using Cons.prems(1) by simp
  from Cons.IH [OF this, of stream_empty ?w "Some (to_llm_error (ac_display C) ae)"] Cons.prems(1) r s1 show ?case
    by (subst stream_attempts.simps) (auto simp: MAX_STREAM_RETRIES_def st z Let_def split: prod.splits)
qed

text \<open>
  What a test queues is what the provider returns. A completion against the mock takes the queued
  errors, at most six, and retries over them; then it returns the first other response, its text, its
  thinking or its tool call as they were queued, and leaves the rest of the queue.
\<close>

lemma mock_script_played:
  assumes "mock_wired C E dec" and "decodes_format dec" and "reports_overload dec (ac_display C)"
    and "an_client p = None" and "build_request C p req = Inr ar"
    and "ms_queue w = map immediate (map (\<lambda>(st, m). MockError st m) errs @ r # rest)" and "length errs \<le> 6"
    and "playable E (ac_from_str C) r"
  shows "\<exists>evs w'. anthropic_complete C p req mid w =
      (Inr \<lparr>cp_parts = mock_parts (tool_id_at E (ms_drawn w + 2 * length errs + 1)) r,
            cp_stop_reason = (if calls_tool r then ToolUse else EndTurn),
            cp_usage = \<lparr>input_tokens = 10, output_tokens = mock_tokens r\<rparr>\<rparr>, evs, w') \<and>
    ms_queue w' = map immediate rest"
proof -
  have "stop_reason_of (Some (mock_stop r)) = (if calls_tool r then ToolUse else EndTurn)"
    by (simp add: mock_stop_def stop_reason_of.simps)
  with queued_played [OF assms(1-4) assms(8), of 0 errs stream_empty w rest mid ar None] assms(5-7) show ?thesis
    by (auto simp: anthropic_complete_def split: option.splits)
qed

definition wired_env :: mock_env where
  "wired_env =
     \<lparr>me_uuid = (\<lambda>n. replicate n (CHR ''u'')), me_to_text = (\<lambda>_. ''{}''), me_valid_status = (\<lambda>n. 100 \<le> n \<and> n < 1000),
      me_keys = (\<lambda>_. [])\<rparr>"

definition wired_decoder :: "string \<times> json \<Rightarrow> (api_error, stream_event) result" where
  "wired_decoder p = (case event_of (snd p) of Some ev \<Rightarrow> Inr ev | None \<Rightarrow> Inl (StreamError ''overloaded_error''))"

definition wired_client :: "(string option, mock_state) api_client" where
  "wired_client =
     \<lparr>ac_check_message = (\<lambda>_. None), ac_check_request = (\<lambda>_. None),
      ac_stream = (\<lambda>sid ar w. case handle_messages wired_env sid True w of
          Some (KindSse pairs, w') \<Rightarrow> (map wired_decoder pairs, w') | _ \<Rightarrow> ([Inl UnexpectedError], w)),
      ac_display = (\<lambda>e. case e of StreamError m \<Rightarrow> m | _ \<Rightarrow> []), ac_sleep = (\<lambda>_ w. w),
      ac_from_str = (\<lambda>t. if t = ''{}'' then Some (JObject []) else None)\<rparr>"

definition wired_provider :: "string option anthropic" where
  "wired_provider =
     \<lparr>an_client = None, an_model = ''m'', an_api_key = None, an_base_url = None, an_session_id = None,
      an_thinking_budget = None, an_max_tokens = None, an_retry_base_secs = 0\<rparr>"

definition wired_state :: "mock_response list \<Rightarrow> mock_state" where
  "wired_state rs = snd (builder_build (fold builder_push rs builder_empty))"

lemma wired_laws:
  "mock_wired wired_client wired_env wired_decoder" "decodes_format wired_decoder"
  "reports_overload wired_decoder (ac_display wired_client)"
proof -
  show "mock_wired wired_client wired_env wired_decoder" by (simp add: mock_wired_def wired_client_def)
  show "decodes_format wired_decoder" by (simp add: decodes_format_def wired_decoder_def)
  have "str_contains ''overloaded_error'' ''overloaded_error''" by code_simp
  then show "reports_overload wired_decoder (ac_display wired_client)"
    by (simp add: reports_overload_def wired_decoder_def wired_client_def event_of_def json_index_def)
qed

subsection \<open>Sessions\<close>

text \<open>What a test and its agents do with the mock, and the responses the requests take.\<close>

datatype mock_op =
    AskMock "string option"
  | QueueMock mock_response
  | LoadMock "(string \<times> scenario) list"
  | RegisterMock string string

fun mock_steps :: "mock_op list \<Rightarrow> mock_state \<Rightarrow> (string option \<times> mock_response option) list" where
  "mock_steps [] st = []"
| "mock_steps (AskMock i # ops) st =
     (case messages_received i st of (e, st1) \<Rightarrow> (i, map_option qe_response e) # mock_steps ops st1)"
| "mock_steps (QueueMock r # ops) st = mock_steps ops (enqueue (immediate r) st)"
| "mock_steps (LoadMock config # ops) st = mock_steps ops (load_scenarios config st)"
| "mock_steps (RegisterMock name i # ops) st = mock_steps ops (register_session i name st)"

abbreviation set_session :: "string \<Rightarrow> scenario_state \<Rightarrow> mock_state \<Rightarrow> mock_state" where
  "set_session i sn st \<equiv> st\<lparr>ms_sessions := (ms_sessions st)(i \<mapsto> sn)\<rparr>"

lemma session_asks:
  "ms_sessions st i = Some sn \<Longrightarrow>
   messages_received (Some i) st = (map_option immediate (fst (next_response sn)), set_session i (snd (next_response sn)) st)"
  by (cases "next_response sn", cases "fst (next_response sn)")
    (auto simp: messages_received_def take_entry_def immediate_def)

lemma other_asks:
  assumes "j \<noteq> Some i"
  shows "messages_received j (set_session i sn st) =
    (fst (messages_received j st), set_session i sn (snd (messages_received j st)))"
  using assms
  by (cases j) (auto simp: messages_received_def take_entry_def dequeue_entry_def fun_upd_twist
      split: prod.splits option.splits list.splits)

lemma other_asks_keeps:
  "j \<noteq> Some i \<Longrightarrow> ms_sessions (snd (messages_received j st)) i = ms_sessions st i"
  by (cases j) (auto simp: messages_received_def take_entry_def dequeue_entry_def split: prod.splits option.splits list.splits)

text \<open>What is left of a session's scenario, for its next requests.\<close>

definition scripted :: "scenario_state \<Rightarrow> nat \<Rightarrow> mock_response option list" where
  "scripted sn n =
     map (\<lambda>k. if sn_cursor sn + k < length (sn_responses sn) then Some (sn_responses sn ! (sn_cursor sn + k)) else None)
       [0..<n]"

lemma length_scripted [simp]: "length (scripted sn n) = n"
  by (simp add: scripted_def)

lemma scripted_Suc:
  "scripted sn (Suc n) = fst (next_response sn) # scripted (snd (next_response sn)) n"
proof -
  have "[0..<Suc n] = 0 # map Suc [0..<n]" by (simp add: map_Suc_upt upt_conv_Cons del: upt_Suc)
  then show ?thesis by (auto simp: scripted_def next_response_def comp_def simp del: upt_Suc)
qed

definition asked_by :: "string \<Rightarrow> (string option \<times> 'r) list \<Rightarrow> 'r list" where
  "asked_by i taken = map snd (filter (\<lambda>p. fst p = Some i) taken)"

definition not_asked_by :: "string \<Rightarrow> (string option \<times> 'r) list \<Rightarrow> (string option \<times> 'r) list" where
  "not_asked_by i taken = filter (\<lambda>p. fst p \<noteq> Some i) taken"

lemma session_scripted:
  "ms_sessions st i = Some sn \<Longrightarrow> \<forall>name. RegisterMock name i \<notin> set ops \<Longrightarrow>
   asked_by i (mock_steps ops st) = scripted sn (length (asked_by i (mock_steps ops st)))"
proof (induction ops st arbitrary: sn rule: mock_steps.induct)
  case (2 j ops st)
  show ?case
  proof (cases "j = Some i")
    case True
    with session_asks [OF "2.prems"(1)]
    have m: "messages_received j st = (map_option immediate (fst (next_response sn)), set_session i (snd (next_response sn)) st)"
      by simp
    from "2.IH" [OF m [symmetric], of "snd (next_response sn)"] "2.prems"(2) True m
    show ?thesis
      by (cases "fst (next_response sn)")
        (simp_all add: scripted_Suc asked_by_def immediate_def)
  next
    case False
    obtain e st1 where m: "messages_received j st = (e, st1)" by fastforce
    with other_asks_keeps [OF False, of st] "2.prems"(1) have "ms_sessions st1 i = Some sn" by simp
    from "2.IH" [OF m [symmetric] this] "2.prems"(2) False m show ?thesis by (simp add: asked_by_def)
  qed
qed (auto simp: asked_by_def scripted_def enqueue_def load_scenarios_def register_session_def split: option.splits)

lemma scripted_fresh:
  "scripted (from_scenario sc) n =
     take n (map Some (sc_responses sc)) @ replicate (n - length (sc_responses sc)) None"
  by (rule nth_equalityI) (auto simp: scripted_def from_scenario_def nth_append)

lemma session_unseen:
  "\<forall>name. RegisterMock name i \<notin> set ops \<Longrightarrow>
   not_asked_by i (mock_steps ops (set_session i sn st)) =
     mock_steps (filter (\<lambda>op. op \<noteq> AskMock (Some i)) ops) (set_session i sn' st)"
proof (induction ops arbitrary: st sn)
  case (Cons op ops)
  note nc = Cons.prems and IH = Cons.IH
  show ?case
  proof (cases op)
    case (AskMock j)
    show ?thesis
    proof (cases "j = Some i")
      case True
      have "messages_received (Some i) (set_session i sn st) =
          (map_option immediate (fst (next_response sn)), set_session i (snd (next_response sn)) st)"
        by (subst session_asks [of _ i sn]) simp_all
      with True AskMock IH [of st "snd (next_response sn)"] nc show ?thesis
        by (simp add: not_asked_by_def del: fun_upd_apply)
    next
      case False
      with AskMock IH [of "snd (messages_received j st)" sn] nc other_asks [OF False, of st sn]
        other_asks [OF False, of st sn'] show ?thesis
        by (simp add: not_asked_by_def split_beta del: fun_upd_apply)
    qed
  next
    case (QueueMock r)
    have "enqueue e (set_session i x st) = set_session i x (enqueue e st)" for e x by (simp add: enqueue_def)
    with QueueMock IH [of "enqueue (immediate r) st" sn] nc show ?thesis
      by (simp add: not_asked_by_def del: fun_upd_apply)
  next
    case (LoadMock config)
    have "load_scenarios config (set_session i x st) = set_session i x (load_scenarios config st)" for x
      by (simp add: load_scenarios_def)
    with LoadMock IH [of "load_scenarios config st" sn] nc show ?thesis
      by (simp add: not_asked_by_def del: fun_upd_apply)
  next
    case (RegisterMock name k)
    with nc have k: "k \<noteq> i" by auto
    have "register_session k name (set_session i x st) = set_session i x (register_session k name st)" for x
      using k by (simp add: register_session_def fun_upd_twist split: option.splits)
    with RegisterMock IH [of "register_session k name st" sn] nc show ?thesis
      by (simp add: not_asked_by_def del: fun_upd_apply)
  qed
qed (simp add: not_asked_by_def)

text \<open>
  A session plays its own scenario. However its requests interleave with those of other sessions, with
  the queue and with loads, they take the scenario's responses in order and then none; and the others
  take what they would take had this session asked nothing.
\<close>

lemma session_plays_scenario:
  assumes "ms_scenarios st name = Some sc" and "\<forall>n. RegisterMock n i \<notin> set ops"
  shows "let taken = mock_steps ops (register_session i name st); n = length (asked_by i taken)
    in asked_by i taken = take n (map Some (sc_responses sc)) @ replicate (n - length (sc_responses sc)) None \<and>
       not_asked_by i taken =
         mock_steps (filter (\<lambda>op. op \<noteq> AskMock (Some i)) ops) (register_session i name st)"
proof -
  let ?st = "register_session i name st"
  have s: "ms_sessions ?st i = Some (from_scenario sc)" using assms(1) by (simp add: register_session_def)
  then have "set_session i (from_scenario sc) ?st = ?st" by (simp add: fun_upd_idem)
  with session_unseen [OF assms(2), where st = ?st and sn = "from_scenario sc" and sn' = "from_scenario sc"] session_scripted [OF s assms(2)]
  show ?thesis by (simp add: Let_def scripted_fresh)
qed

text \<open>The status of a queued error is lost in a stream: each is an overload.\<close>

lemma stream_error_status: "respond_stream E n (Some (MockError a m)) = respond_stream E n (Some (MockError b m))"
  by (simp add: respond_stream_def)

text \<open>A blocked response answers once released, whatever happened before, and not earlier.\<close>

lemma blocked_until_released:
  assumes "qe_gate e = Some g"
  shows "(messages_answered E is_stream (Some e) st \<noteq> None) \<longleftrightarrow> g \<in> ms_permits st"
    and "messages_answered E is_stream (Some e) (release (g, r) st) \<noteq> None"
  using assms by (simp_all add: messages_answered_def release_def Let_def)

end
