(* ===== verification/Agent_Cost.thy ===== *)
theory Agent_Cost
  imports Agent_Recovery Anthropic_Properties
begin

text \<open>
  What a run costs. The locale \<open>provider_cost\<close> is what an agent relies on: a call of its provider moves a
  meter of the world by at most a fixed amount. Then a meter that nothing else moves goes up by at most
  that amount for each iteration, and over retries for each attempt. The Anthropic provider is an instance
  with the streams it opens, counted beside the world of any client.
\<close>

definition steady :: "'w services \<Rightarrow> 'w toolbox \<Rightarrow> ('w \<Rightarrow> nat) \<Rightarrow> bool" where
  "steady S tb meter \<longleftrightarrow>
     (\<forall>w. meter (snd (sv_uuid S w)) = meter w) \<and> (\<forall>w. meter (snd (sv_cancelled S w)) = meter w) \<and>
     (\<forall>name input w. meter (snd (tb_execute tb name input w)) = meter w)"

lemma poll_metered:
  "steady S tb meter \<Longrightarrow> poll_cancelled S st = (c, st') \<Longrightarrow> meter (rs_world st') = meter (rs_world st)"
  by (auto simp: poll_cancelled_def steady_def split: prod.splits) (metis snd_conv)

lemma execute_metered:
  assumes "steady S (ag_toolbox ag) meter"
  shows "meter (rs_world (fold (execute_call S ag) cs st)) = meter (rs_world st)"
proof (induction cs arbitrary: st)
  case (Cons c cs)
  have "meter (rs_world (execute_call S ag c st)) = meter (rs_world st)"
    using assms by (cases c) (auto simp: execute_call_def steady_def Let_def split: prod.splits, metis snd_conv)
  with Cons.IH show ?case by simp
qed simp

lemma turns_world:
  shows "end_turn ag rid parts st = (r, st') \<Longrightarrow> rs_world st' = rs_world st"
    and "handoff_turn ag rid name calls data st = (r, st') \<Longrightarrow> rs_world st' = rs_world st"
  by (auto simp: end_turn_def handoff_turn_def finish_def Let_def split: option.splits if_splits)

lemma tools_turn_metered:
  assumes "steady S (ag_toolbox ag) meter" and "tools_turn S ag calls st = (r, st')"
  shows "meter (rs_world st') = meter (rs_world st)"
  using assms(2)
  by (auto simp: tools_turn_def Let_def execute_metered [OF assms(1)] split: if_splits prod.splits
      dest!: poll_metered [OF assms(1)])

definition metered :: "'w agent \<Rightarrow> ('w \<Rightarrow> nat) \<Rightarrow> nat \<Rightarrow> nat \<Rightarrow> 'w run_state \<Rightarrow> bool" where
  "metered ag meter base k st \<longleftrightarrow>
     meter (rs_world st) \<le> base + k * unat (rs_iteration st) \<and> rs_iteration st \<le> max_iterations (ag_config ag)"

lemma attempt_builder_config:
  assumes "build S (attempt_builder p tb prompt handoff max_iter history) = Inr ag"
  shows "ag_provider ag = p" "ag_toolbox ag = tb"
    and "max_iterations (ag_config ag) = (case max_iter of None \<Rightarrow> 100 | Some n \<Rightarrow> n)"
  using assms
  by (auto simp: attempt_builder_def builder_new_def with_system_prompt_def with_handoff_tool_def
      with_config_def with_history_def default_config_def build_def Let_def split: if_splits sum.splits option.splits)

locale provider_cost =
  fixes p :: "'w provider" and meter :: "'w \<Rightarrow> nat" and k :: nat
  assumes cost: "meter (snd (snd (p req mid w))) \<le> meter w + k"
begin

lemma complete_turn_metered:
  assumes "steady S tb meter" and "ag_provider ag = p" and "complete_turn S ag st = (r, st')"
  shows "meter (rs_world st') \<le> meter (rs_world st) + k"
proof -
  obtain mid w where u: "sv_uuid S (rs_world st) = (mid, w)" by fastforce
  obtain res evs w' where c: "ag_provider ag (turn_request ag (rs_history st)) mid w = (res, evs, w')"
    using prod_cases3 by blast
  have "meter w = meter (rs_world st)" using assms(1) u by (auto simp: steady_def) (metis snd_conv)
  moreover have "meter w' \<le> meter w + k" using cost [of "turn_request ag (rs_history st)" mid w] assms(2) c by simp
  moreover have "rs_world st' = w'"
    using assms(3) u c by (auto simp: complete_turn_def Let_def split: sum.splits)
  ultimately show ?thesis by simp
qed

lemma run_step_metered:
  assumes "steady S (ag_toolbox ag) meter" and "ag_provider ag = p"
    and "run_step S ag rid st = (r, st')" and "metered ag meter base k st"
  shows "metered ag meter base k st'"
proof -
  obtain c st1 where p: "poll_cancelled S st = (c, st1)" by fastforce
  from counters_iteration [OF poll_cancelled_frame [OF p]] have i1: "rs_iteration st1 = rs_iteration st" .
  note m1 = poll_metered [OF assms(1) p]
  show ?thesis
  proof (cases "c \<or> rs_iteration st \<ge> max_iterations (ag_config ag)")
    case True
    with assms(3,4) p i1 m1 show ?thesis by (auto simp: run_step_def metered_def split: if_splits)
  next
    case False
    then have lt: "rs_iteration st < max_iterations (ag_config ag)" by (simp add: not_le)
    obtain x st2 where t: "complete_turn S ag (st1\<lparr>rs_iteration := rs_iteration st1 + 1\<rparr>) = (x, st2)" by fastforce
    from counters_iteration [OF complete_turn_frame [OF t]] i1 have i2: "rs_iteration st2 = rs_iteration st + 1" by simp
    have m2: "meter (rs_world st2) \<le> meter (rs_world st) + k"
      using complete_turn_metered [OF assms(1,2) t] m1 by simp
    have "rs_iteration st' = rs_iteration st2 \<and> meter (rs_world st') = meter (rs_world st2)"
      using assms(3) p t False i1
      by (auto simp: run_step_def Let_def dest: turn_iteration turns_world tools_turn_metered [OF assms(1)]
          split: if_splits option.splits sum.splits)
    with assms(4) i2 m2 unat_less_increases [OF lt] inc_le_bound [OF lt] show ?thesis by (simp add: metered_def)
  qed
qed

lemma run_metered:
  assumes "steady S (ag_toolbox ag) meter" and "ag_provider ag = p" and "run S ag input w = (r, st)"
  shows "meter (rs_world st) \<le> meter w + k * unat (max_iterations (ag_config ag))"
proof -
  obtain rid w1 where u: "sv_uuid S w = (rid, w1)" by fastforce
  have w1: "meter w1 = meter w" using assms(1) u by (auto simp: steady_def) (metis snd_conv)
  let ?P = "metered ag meter (meter w) k"
  have "?P (snd (agent_loop S ag rid (start_state ag input w1)))"
    by (rule agent_loop_rule [where P = ?P])
      (use run_step_metered [OF assms(1,2)] w1 in \<open>auto simp: metered_def start_state_def push_def emit_def\<close>)
  with assms(3) u have b: "meter (rs_world st) \<le> meter w + k * unat (rs_iteration st)"
      "rs_iteration st \<le> max_iterations (ag_config ag)"
    by (auto simp: run_def metered_def)
  from b(2) have "k * unat (rs_iteration st) \<le> k * unat (max_iterations (ag_config ag))"
    by (intro mult_le_mono2) (simp add: word_le_nat_alt)
  with b(1) show ?thesis by linarith
qed

lemma retry_loop_metered:
  fixes max_iter :: "u32 option"
  defines "n \<equiv> (case max_iter of None \<Rightarrow> 100 | Some n \<Rightarrow> n)"
  assumes "steady S tb meter" and "\<And>ms w. meter (sleep ms w) = meter w"
  shows "retry_loop S sleep (attempt_builder p tb prompt handoff max_iter history) m input attempt w =
      (out, attempts, w') \<Longrightarrow> meter w' \<le> meter w + k * unat n * length attempts"
proof (induction attempts arbitrary: attempt w out)
  case Nil
  then show ?case by (auto simp: retry_loop.simps [of S sleep _ m input attempt] split: sum.splits prod.splits if_splits)
next
  case (Cons evs attempts)
  let ?b = "attempt_builder p tb prompt handoff max_iter history"
  note eq = Cons.prems [unfolded retry_loop.simps [of S sleep ?b m input attempt]]
  obtain ag where b: "build S ?b = Inr ag" using eq by (cases "build S ?b") auto
  obtain r st where r: "run S ag input w = (r, st)" by fastforce
  have c: "meter (rs_world st) \<le> meter w + k * unat n"
    using run_metered [OF _ _ r] attempt_builder_config [OF b] assms by simp
  show ?case
  proof (cases "is_provider_error r \<and> attempt < m")
    case True
    obtain out1 evs1 w1 where rec: "retry_loop S sleep ?b m input (attempt + 1)
        (sleep (backoff_ms (attempt + 1)) (rs_world st)) = (out1, evs1, w1)"
      using prod_cases3 by blast
    with eq b r True have "evs1 = attempts" "w1 = w'" by simp_all
    with Cons.IH [OF rec [unfolded this]] c assms(3) show ?thesis by (simp add: algebra_simps)
  next
    case False
    with eq b r have "w' = rs_world st" by auto
    with c show ?thesis by (simp add: algebra_simps)
  qed
qed

end

subsection \<open>The streams of the Anthropic provider\<close>

text \<open>A client that counts its streams, and a world that carries the count.\<close>

definition count_streams :: "('c, 'w) api_client \<Rightarrow> ('c, 'w \<times> nat) api_client" where
  "count_streams C =
     \<lparr>ac_check_message = ac_check_message C, ac_check_request = ac_check_request C,
      ac_stream = (\<lambda>cl req (w, n). case ac_stream C cl req w of (xs, w') \<Rightarrow> (xs, (w', Suc n))),
      ac_display = ac_display C, ac_sleep = (\<lambda>d (w, n). (ac_sleep C d w, n)), ac_from_str = ac_from_str C\<rparr>"

definition services_beside :: "'w services \<Rightarrow> ('w \<times> nat) services" where
  "services_beside S =
     \<lparr>sv_uuid = (\<lambda>(w, n). case sv_uuid S w of (i, w') \<Rightarrow> (i, (w', n))),
      sv_cancelled = (\<lambda>(w, n). case sv_cancelled S w of (c, w') \<Rightarrow> (c, (w', n))),
      sv_show_json = sv_show_json S, sv_compile_schema = sv_compile_schema S\<rparr>"

definition toolbox_beside :: "'w toolbox \<Rightarrow> ('w \<times> nat) toolbox" where
  "toolbox_beside tb =
     \<lparr>tb_specs = tb_specs tb,
      tb_execute = (\<lambda>name input (w, n). case tb_execute tb name input w of (r, w') \<Rightarrow> (r, (w', n)))\<rparr>"

lemma steady_beside: "steady (services_beside S) (toolbox_beside tb) snd"
  by (auto simp: steady_def services_beside_def toolbox_beside_def split: prod.splits)

lemma completion_streams: "snd (snd (snd (anthropic_complete (count_streams C) p req mid w))) \<le> snd w + 7"
proof (cases "build_request (count_streams C) p req")
  case (Inr ar)
  obtain r evs w1 where at: "stream_attempts (count_streams C) p mid ar 0 None stream_empty w = (r, evs, w1)"
    using prod_cases3 by blast
  have "snd (snd (ac_stream (count_streams C) cl req w)) = Suc (snd w)"
      "snd (ac_sleep (count_streams C) d w) = snd w" for cl req w d
    by (simp_all add: count_streams_def split: prod.splits)
  from stream_attempts_bounded [where opened = snd and slept = "\<lambda>_. 0", OF this _ _ at] Inr at show ?thesis
    by (auto simp: anthropic_complete_def MAX_STREAM_RETRIES_def split: sum.splits)
qed (simp add: anthropic_complete_def)

interpretation an: provider_cost "anthropic_complete (count_streams C) p" snd 7 for C p
  by unfold_locales (rule completion_streams)

end
