(* ===== verification/Scripted_Run.thy ===== *)
theory Scripted_Run
  imports Mock_Properties Agent_Bounds
begin

text \<open>
  A whole run against the mock: the agent loop, its toolbox, the Anthropic provider and the mock's
  event streams composed. The world of such a run has three parts that do not share anything, the mock's
  state, the world of the loop's services and that of the tools; \<open>client_in\<close>, \<open>services_in\<close> and
  \<open>toolbox_in\<close> put each of them into it. A script is what a test queues: for each turn the errors to
  retry over and the response after them.
\<close>

subsection \<open>The parts of the world\<close>

type_synonym ('u, 'x) run_world = "mock_state \<times> 'u \<times> 'x"

definition client_in :: "('c, mock_state) api_client \<Rightarrow> ('c, ('u, 'x) run_world) api_client" where
  "client_in C =
     \<lparr>ac_check_message = ac_check_message C, ac_check_request = ac_check_request C,
      ac_stream = (\<lambda>cl req (w, u, x). case ac_stream C cl req w of (xs, w') \<Rightarrow> (xs, (w', u, x))),
      ac_display = ac_display C, ac_sleep = (\<lambda>d (w, u, x). (ac_sleep C d w, u, x)), ac_from_str = ac_from_str C\<rparr>"

definition services_in :: "'u services \<Rightarrow> ('u, 'x) run_world services" where
  "services_in S =
     \<lparr>sv_uuid = (\<lambda>(w, u, x). case sv_uuid S u of (i, u') \<Rightarrow> (i, (w, u', x))),
      sv_cancelled = (\<lambda>(w, u, x). case sv_cancelled S u of (c, u') \<Rightarrow> (c, (w, u', x))),
      sv_show_json = sv_show_json S, sv_compile_schema = sv_compile_schema S\<rparr>"

definition toolbox_in :: "'x toolbox \<Rightarrow> ('u, 'x) run_world toolbox" where
  "toolbox_in tb =
     \<lparr>tb_specs = tb_specs tb,
      tb_execute = (\<lambda>name input (w, u, x). case tb_execute tb name input x of (r, x') \<Rightarrow> (r, (w, u, x')))\<rparr>"

lemma client_in_sel [simp]:
  "ac_check_message (client_in C) = ac_check_message C" "ac_check_request (client_in C) = ac_check_request C"
  "ac_display (client_in C) = ac_display C" "ac_from_str (client_in C) = ac_from_str C"
  "ac_sleep (client_in C) d (w, u, x) = (ac_sleep C d w, u, x)"
  "ac_stream (client_in C) cl req (w, u, x) = (fst (ac_stream C cl req w), (snd (ac_stream C cl req w), u, x))"
  by (simp_all add: client_in_def split: prod.splits)

lemma message_to_api_in [simp]: "message_to_api (client_in C) = message_to_api C"
  by (rule ext) (simp add: message_to_api_def)

lemma build_request_in [simp]: "build_request (client_in C) p req = build_request C p req"
  unfolding build_request_def message_to_api_in client_in_sel ..

lemma stream_attempts_in:
  "stream_attempts (client_in C) p mid ar attempt err s (w, u, x) =
     (case stream_attempts C p mid ar attempt err s w of (r, evs, w') \<Rightarrow> (r, evs, (w', u, x)))"
proof (induction C p mid ar attempt err s w rule: stream_attempts.induct)
  case (1 C p mid ar attempt err s w)
  note unfolds = stream_attempts.simps [of C p mid ar attempt err s w]
    stream_attempts.simps [of "client_in C" p mid ar attempt err s "(w, u, x)"]
  let ?w1 = "if attempt > 0 then ac_sleep C (retry_delay p attempt) w else w"
  obtain xs w2 where st: "ac_stream C (an_client p) ar ?w1 = (xs, w2)" by fastforce
  obtain o1 s2 evs where r: "run_stream (ac_display C) mid xs (if attempt > 0 then stream_empty else s) = (o1, s2, evs)"
    using prod_cases3 by blast
  show ?case
  proof (cases "attempt > MAX_STREAM_RETRIES")
    case False
    from "1.IH" [OF False refl refl st [symmetric] r [symmetric]] st r False show ?thesis
      unfolding unfolds by (cases "attempt > 0") (auto simp: Let_def split: attempt_end.splits prod.splits)
  qed (simp add: unfolds)
qed

lemma complete_in:
  "anthropic_complete (client_in C) p req mid (w, u, x) =
     (case anthropic_complete C p req mid w of (r, evs, w') \<Rightarrow> (r, evs, (w', u, x)))"
  by (auto simp: anthropic_complete_def stream_attempts_in split: sum.splits prod.splits option.splits)

subsection \<open>Scripts\<close>

type_synonym scripted_turn = "(u16 \<times> string) list \<times> mock_response"

definition queued_turn :: "scripted_turn \<Rightarrow> mock_response list" where
  "queued_turn t = map (\<lambda>(st, m). MockError st m) (fst t) @ [snd t]"

definition turn_plays :: "mock_env \<Rightarrow> ('c, 'w) api_client \<Rightarrow> scripted_turn \<Rightarrow> bool" where
  "turn_plays E C t \<longleftrightarrow> length (fst t) \<le> 6 \<and> playable E (ac_from_str C) (snd t)"

text \<open>The call a response makes, and the result that ends a run.\<close>

fun called :: "mock_response \<Rightarrow> (string \<times> json) option" where
  "called (MockToolCall name v) = Some (name, v)"
| "called (MockToolCallStream name i v) = Some (name, v)"
| "called _ = None"

definition script_end :: "'w agent \<Rightarrow> mock_response \<Rightarrow> agent_result option" where
  "script_end ag r =
     (case called r of
        None \<Rightarrow> if ag_handoff_tool ag = None then Some (Completed (extract_text (mock_parts [] r))) else None
      | Some (name, v) \<Rightarrow>
          if ag_handoff_tool ag = Some name \<and>
             (case ag_handoff_validator ag of None \<Rightarrow> True | Some va \<Rightarrow> va_is_valid va v)
          then Some (Handoff name v) else None)"

text \<open>The tools' part of a run, and what the conversation shows of it.\<close>

fun run_tools :: "'x toolbox \<Rightarrow> (string \<times> json) list \<Rightarrow> 'x \<Rightarrow> (tool_call_error, json) result list \<times> 'x" where
  "run_tools tb [] x = ([], x)"
| "run_tools tb ((name, v) # cs) x =
     (case tb_execute tb name v x of
        (r, x') \<Rightarrow> (case run_tools tb cs x' of (rs, x'') \<Rightarrow> (r # rs, x'')))"

fun shown_result :: "'u services \<Rightarrow> (tool_call_error, json) result \<Rightarrow> string \<times> bool" where
  "shown_result S (Inr v) = (sv_show_json S v, False)"
| "shown_result S (Inl e) = (tool_call_error_display e, True)"

fun part_results :: "content_part list \<Rightarrow> (string \<times> bool) list" where
  "part_results [] = []"
| "part_results (ToolResultPart r # ps) = (tr_output r, tr_is_error r) # part_results ps"
| "part_results (_ # ps) = part_results ps"

definition tool_results :: "message list \<Rightarrow> (string \<times> bool) list" where
  "tool_results h = concat (map (\<lambda>m. part_results (msg_parts m)) h)"

definition call_print :: "'u services \<Rightarrow> string \<times> json \<Rightarrow> string" where
  "call_print S c = tool_fingerprint S [([], c)]"

lemma tool_results_simps [simp]:
  "tool_results [] = []" "tool_results (xs @ ys) = tool_results xs @ tool_results ys"
  "tool_results (m # ms) = part_results (msg_parts m) @ tool_results ms"
  by (simp_all add: tool_results_def)

lemma mock_parts_results [simp]: "part_results (mock_parts tid r) = []"
  by (cases r) simp_all

lemma mock_parts_calls:
  "extract_tool_calls (mock_parts tid r) = (case called r of None \<Rightarrow> [] | Some c \<Rightarrow> [(case r of MockToolCallStream n i v \<Rightarrow> i | _ \<Rightarrow> tid, c)])"
  by (cases r) simp_all

lemma mock_parts_text: "called r = None \<Longrightarrow> extract_text (mock_parts tid r) = extract_text (mock_parts tid' r)"
  by (cases r) simp_all

lemma fingerprint_id: "tool_fingerprint S' [(i, c)] = call_print S c" if "sv_show_json S' = sv_show_json S"
  using that by (cases c) (simp add: call_print_def tool_fingerprint_def)

subsection \<open>One turn\<close>

lemma scripted_turn:
  assumes "mock_wired C E dec" and "decodes_format dec" and "reports_overload dec (ac_display C)"
    and "an_client p = None" and "\<And>req. \<exists>ar. build_request C p req = Inr ar"
    and "ag_provider ag = anthropic_complete (client_in C) p"
    and "turn_plays E C t" and "rs_world st = (w, u, x)"
    and "ms_queue w = map immediate (queued_turn t @ rest)"
  shows "\<exists>mid tid st' w' u'. complete_turn (services_in S) ag st = (Inr (mock_parts tid (snd t)), st') \<and>
    rs_world st' = (w', u', x) \<and> ms_queue w' = map immediate rest \<and>
    rs_history st' = rs_history st @ [\<lparr>msg_id = mid, msg_role = Assistant, msg_parts = mock_parts tid (snd t)\<rparr>] \<and>
    rs_usage st' = add_usage (rs_usage st) \<lparr>input_tokens = 10, output_tokens = mock_tokens (snd t)\<rparr> \<and>
    counters st' = counters st"
proof -
  obtain mid u' where u: "sv_uuid S u = (mid, u')" by fastforce
  let ?req = "turn_request ag (rs_history st)"
  obtain ar where ar: "build_request C p ?req = Inr ar" using assms(5) by blast
  have q: "ms_queue w = map immediate (map (\<lambda>(st, m). MockError st m) (fst t) @ snd t # rest)"
    using assms(9) by (simp add: queued_turn_def)
  from mock_script_played [OF assms(1-4) ar q, of mid] assms(7) u assms(6,8) show ?thesis
    by (auto simp: turn_plays_def complete_turn_def complete_in services_in_def counters_def emit_def push_def Let_def
        split: prod.splits)
qed

text \<open>A call that does not repeat the one before it is executed, once.\<close>

lemma remember_other:
  assumes "recent \<noteq> [] \<Longrightarrow> last recent \<noteq> f" and "2 \<le> n" and "n < limit"
  shows "\<not> (n \<le> length (remember limit f recent) \<and> list_all (\<lambda>g. g = f) (remember limit f recent))"
    and "last (remember limit f recent) = f"
proof -
  have "\<not> list_all (\<lambda>g. g = f) (remember limit f recent)" if "n \<le> length (remember limit f recent)"
  proof -
    have ne: "recent \<noteq> []" using that assms(2) by (auto simp: remember_def Let_def split: if_splits)
    then obtain xs y where r: "recent = xs @ [y]" by (cases recent rule: rev_cases) auto
    with ne assms(1) have "y \<noteq> f" by simp
    moreover have "y \<in> set (remember limit f recent)"
      using r assms(2,3) by (cases xs) (auto simp: remember_def Let_def)
    ultimately show ?thesis by (auto simp: list_all_iff)
  qed
  then show "\<not> (n \<le> length (remember limit f recent) \<and> list_all (\<lambda>g. g = f) (remember limit f recent))" by blast
  show "last (remember limit f recent) = f"
    using assms(2,3) by (cases recent) (auto simp: remember_def Let_def)
qed

lemma call_executed:
  assumes "ag_toolbox ag = toolbox_in tb" and "\<And>u. \<not> fst (sv_cancelled S u)"
    and "2 \<le> nudge_threshold (ag_config ag)" and "nudge_threshold (ag_config ag) < stuck_threshold (ag_config ag)"
    and "rs_recent st \<noteq> [] \<Longrightarrow> last (rs_recent st) \<noteq> call_print S (name, v)"
    and "rs_world st = (w, u, x)" and "tb_execute tb name v x = (r, x')"
  shows "\<exists>u' m st'. tools_turn (services_in S) ag [(i, name, v)] st = (None, st') \<and> rs_world st' = (w, u', x') \<and>
    rs_history st' = rs_history st @ [m] \<and> part_results (msg_parts m) = [shown_result S r] \<and> msg_role m = Tool \<and>
    rs_usage st' = rs_usage st \<and> rs_iteration st' = rs_iteration st \<and>
    rs_recent st' \<noteq> [] \<and> last (rs_recent st') = call_print S (name, v)"
proof -
  let ?f = "call_print S (name, v)"
  let ?recent = "remember (stuck_threshold (ag_config ag)) ?f (rs_recent st)"
  have f: "tool_fingerprint (services_in S) [(i, name, v)] = ?f"
    by (rule fingerprint_id) (simp add: services_in_def)
  note ro = remember_other [OF assms(5) assms(3,4)]
  have ne: "?recent \<noteq> []"
    using assms(3,4) by (cases "rs_recent st") (auto simp: remember_def Let_def)
  have n1: "\<not> (nudge_threshold (ag_config ag) \<le> length ?recent \<and> list_all (\<lambda>g. g = ?f) ?recent)"
    using ro(1) by blast
  then have n2: "\<not> (stuck_threshold (ag_config ag) \<le> length ?recent \<and> list_all (\<lambda>g. g = ?f) ?recent)"
    using assms(4) by auto
  obtain c u' where c: "sv_cancelled S u = (c, u')" by fastforce
  with assms(2) [of u] have c: "sv_cancelled S u = (False, u')" by simp
  have "poll_cancelled (services_in S) (st\<lparr>rs_recent := ?recent\<rparr>) = (False, st\<lparr>rs_recent := ?recent, rs_world := (w, u', x)\<rparr>)"
    by (simp add: poll_cancelled_def services_in_def assms(6) c)
  then have t: "tools_turn (services_in S) ag [(i, name, v)] st =
      (None, execute_call (services_in S) ag (i, name, v) (st\<lparr>rs_recent := ?recent, rs_world := (w, u', x)\<rparr>))"
    using n1 n2 by (auto simp: tools_turn_def f Let_def)
  show ?thesis
    unfolding t using ne ro(2) assms(1,7)
    by (cases r) (auto simp: execute_call_def toolbox_in_def services_in_def Let_def emit_def push_def)
qed

lemma script_ends:
  assumes "script_end ag r = Some res"
  shows "\<exists>st'. (case extract_tool_calls (mock_parts tid r) of
            [] \<Rightarrow> end_turn ag rid (mock_parts tid r) st
          | calls \<Rightarrow> (case handoff_call ag calls of
              Some (name, data) \<Rightarrow> handoff_turn ag rid name calls data st
            | None \<Rightarrow> tools_turn S ag calls st)) =
          (Some (Inr \<lparr>out_result = res, out_usage = rs_usage st\<rparr>), st') \<and>
        rs_world st' = rs_world st \<and> rs_history st' = rs_history st"
proof (cases "called r")
  case None
  with assms mock_parts_text [OF None, of tid "[]"] show ?thesis
    by (auto simp: script_end_def mock_parts_calls end_turn_def finish_def split: if_splits)
next
  case (Some c)
  with assms show ?thesis
    by (cases c) (auto simp: script_end_def mock_parts_calls handoff_call_def handoff_turn_def validate_handoff_def
        finish_def split: if_splits option.splits)
qed

subsection \<open>The run\<close>

text \<open>What the composition needs of its parts.\<close>

definition run_composed ::
  "'u services \<Rightarrow> 'x toolbox \<Rightarrow> (string option, mock_state) api_client \<Rightarrow> mock_env
     \<Rightarrow> (string \<times> json \<Rightarrow> (api_error, stream_event) result) \<Rightarrow> string option anthropic
     \<Rightarrow> ('u, 'x) run_world agent \<Rightarrow> bool" where
  "run_composed S tb C E dec p ag \<longleftrightarrow>
     mock_wired C E dec \<and> decodes_format dec \<and> reports_overload dec (ac_display C) \<and> an_client p = None \<and>
     (\<forall>req. \<exists>ar. build_request C p req = Inr ar) \<and> (\<forall>u. \<not> fst (sv_cancelled S u)) \<and>
     ag_provider ag = anthropic_complete (client_in C) p \<and> ag_toolbox ag = toolbox_in tb \<and>
     2 \<le> nudge_threshold (ag_config ag) \<and> nudge_threshold (ag_config ag) < stuck_threshold (ag_config ag)"

lemma run_step_turn:
  assumes "run_composed S tb C E dec p ag" and "rs_iteration st < max_iterations (ag_config ag)"
    and "turn_plays E C t" and "rs_world st = (w, u, x)" and "ms_queue w = map immediate (queued_turn t @ rest)"
  shows "\<exists>m tid st' w' u'. run_step (services_in S) ag rid st =
      (case extract_tool_calls (mock_parts tid (snd t)) of
         [] \<Rightarrow> end_turn ag rid (mock_parts tid (snd t)) st'
       | calls \<Rightarrow> (case handoff_call ag calls of
           Some (name, data) \<Rightarrow> handoff_turn ag rid name calls data st'
         | None \<Rightarrow> tools_turn (services_in S) ag calls st')) \<and>
    rs_world st' = (w', u', x) \<and> ms_queue w' = map immediate rest \<and>
    rs_history st' = rs_history st @ [m] \<and> msg_role m = Assistant \<and> part_results (msg_parts m) = [] \<and>
    rs_usage st' = add_usage (rs_usage st) \<lparr>input_tokens = 10, output_tokens = mock_tokens (snd t)\<rparr> \<and>
    rs_iteration st' = rs_iteration st + 1 \<and> rs_recent st' = rs_recent st"
proof -
  note r = assms(1) [unfolded run_composed_def]
  obtain c u1 where c: "sv_cancelled S u = (c, u1)" by fastforce
  with r have "\<not> c" by (metis fst_conv)
  with c assms(4) have pc: "poll_cancelled (services_in S) st = (False, st\<lparr>rs_world := (w, u1, x)\<rparr>)"
    by (simp add: poll_cancelled_def services_in_def)
  let ?st = "st\<lparr>rs_world := (w, u1, x), rs_iteration := rs_iteration st + 1\<rparr>"
  have "\<And>req. \<exists>ar. build_request C p req = Inr ar" using r by blast
  from scripted_turn [of C E dec p ag t ?st w u1 x rest S, OF _ _ _ _ this] r assms(3,5)
  obtain mid tid st' w' u' where t: "complete_turn (services_in S) ag ?st = (Inr (mock_parts tid (snd t)), st')"
    "rs_world st' = (w', u', x)" "ms_queue w' = map immediate rest"
    "rs_history st' = rs_history st @ [\<lparr>msg_id = mid, msg_role = Assistant, msg_parts = mock_parts tid (snd t)\<rparr>]"
    "rs_usage st' = add_usage (rs_usage st) \<lparr>input_tokens = 10, output_tokens = mock_tokens (snd t)\<rparr>"
    "counters st' = counters ?st" by auto
  show ?thesis
    by (rule exI [of _ "\<lparr>msg_id = mid, msg_role = Assistant, msg_parts = mock_parts tid (snd t)\<rparr>"],
        rule exI [of _ tid], rule exI [of _ st'], rule exI [of _ w'], rule exI [of _ u'])
      (use t assms(2) in \<open>cases "extract_tool_calls (mock_parts tid (snd t))";
        auto simp: run_step_def pc counters_def Let_def\<close>)
qed

definition script_queue :: "scripted_turn list \<Rightarrow> mock_response list" where
  "script_queue ts = concat (map queued_turn ts)"

definition script_usage :: "scripted_turn list \<Rightarrow> usage" where
  "script_usage ts =
     \<lparr>input_tokens = sum_list (map (\<lambda>t. 10) ts), output_tokens = sum_list (map (\<lambda>t. mock_tokens (snd t)) ts)\<rparr>"

lemma add_usage_assoc: "add_usage (add_usage a b) c = add_usage a (add_usage b c)"
  by (simp add: add_usage_def)

lemma script_usage_Cons:
  "script_usage (t # ts) = add_usage \<lparr>input_tokens = 10, output_tokens = mock_tokens (snd t)\<rparr> (script_usage ts)"
  by (simp add: script_usage_def add_usage_def)

lemma script_usage_one: "script_usage [t] = \<lparr>input_tokens = 10, output_tokens = mock_tokens (snd t)\<rparr>"
  by (simp add: script_usage_def)

lemma run_step_ends:
  assumes "run_composed S tb C E dec p ag" and "rs_iteration st < max_iterations (ag_config ag)"
    and "turn_plays E C t" and "rs_world st = (w, u, x)" and "ms_queue w = map immediate (queued_turn t @ rest)"
    and "script_end ag (snd t) = Some res"
  shows "\<exists>m st' w' u'. run_step (services_in S) ag rid st =
      (Some (Inr \<lparr>out_result = res, out_usage = add_usage (rs_usage st) (script_usage [t])\<rparr>), st') \<and>
    rs_world st' = (w', u', x) \<and> ms_queue w' = map immediate rest \<and> rs_history st' = rs_history st @ [m] \<and>
    msg_role m = Assistant \<and> part_results (msg_parts m) = []"
proof -
  from run_step_turn [OF assms(1-5), of rid] obtain m tid st1 w' u' where s:
    "run_step (services_in S) ag rid st =
      (case extract_tool_calls (mock_parts tid (snd t)) of
         [] \<Rightarrow> end_turn ag rid (mock_parts tid (snd t)) st1
       | calls \<Rightarrow> (case handoff_call ag calls of
           Some (name, data) \<Rightarrow> handoff_turn ag rid name calls data st1
         | None \<Rightarrow> tools_turn (services_in S) ag calls st1))"
    "rs_world st1 = (w', u', x)" "ms_queue w' = map immediate rest" "rs_history st1 = rs_history st @ [m]"
    "msg_role m = Assistant" "part_results (msg_parts m) = []"
    "rs_usage st1 = add_usage (rs_usage st) \<lparr>input_tokens = 10, output_tokens = mock_tokens (snd t)\<rparr>" by blast
  from script_ends [OF assms(6), of rid tid st1 "services_in S"] obtain st' where
    "run_step (services_in S) ag rid st = (Some (Inr \<lparr>out_result = res, out_usage = rs_usage st1\<rparr>), st')"
    "rs_world st' = rs_world st1" "rs_history st' = rs_history st1" unfolding s(1) by blast
  with s(2-) show ?thesis by (auto simp: script_usage_one)
qed

lemma run_step_calls:
  assumes rc: "run_composed S tb C E dec p ag" and "rs_iteration st < max_iterations (ag_config ag)"
    and "turn_plays E C t" and "rs_world st = (w, u, x)" and "ms_queue w = map immediate (queued_turn t @ rest)"
    and "called (snd t) = Some (name, v)" and "ag_handoff_tool ag \<noteq> Some name"
    and "rs_recent st \<noteq> [] \<Longrightarrow> last (rs_recent st) \<noteq> call_print S (name, v)"
    and "tb_execute tb name v x = (r, x')"
  shows "\<exists>m m' st' w' u'. run_step (services_in S) ag rid st = (None, st') \<and>
    rs_world st' = (w', u', x') \<and> ms_queue w' = map immediate rest \<and> rs_history st' = rs_history st @ [m, m'] \<and>
    msg_role m = Assistant \<and> part_results (msg_parts m) = [] \<and>
    msg_role m' = Tool \<and> part_results (msg_parts m') = [shown_result S r] \<and>
    rs_usage st' = add_usage (rs_usage st) (script_usage [t]) \<and> rs_iteration st' = rs_iteration st + 1 \<and>
    last (rs_recent st') = call_print S (name, v)"
proof -
  from run_step_turn [OF assms(1-5), of rid] obtain m tid st1 w1 u1 where s:
    "run_step (services_in S) ag rid st =
      (case extract_tool_calls (mock_parts tid (snd t)) of
         [] \<Rightarrow> end_turn ag rid (mock_parts tid (snd t)) st1
       | calls \<Rightarrow> (case handoff_call ag calls of
           Some (name, data) \<Rightarrow> handoff_turn ag rid name calls data st1
         | None \<Rightarrow> tools_turn (services_in S) ag calls st1))"
    "rs_world st1 = (w1, u1, x)" "ms_queue w1 = map immediate rest" "rs_history st1 = rs_history st @ [m]"
    "msg_role m = Assistant" "part_results (msg_parts m) = []"
    "rs_usage st1 = add_usage (rs_usage st) \<lparr>input_tokens = 10, output_tokens = mock_tokens (snd t)\<rparr>"
    "rs_iteration st1 = rs_iteration st + 1" "rs_recent st1 = rs_recent st" by blast
  obtain i where i: "extract_tool_calls (mock_parts tid (snd t)) = [(i, name, v)]"
    by (simp add: mock_parts_calls assms(6))
  have no_handoff: "handoff_call ag [(i, name, v)] = None"
    using assms(7) by (auto simp: handoff_call_def split: option.splits)
  have "rs_recent st1 \<noteq> [] \<Longrightarrow> last (rs_recent st1) \<noteq> call_print S (name, v)" using assms(8) s(9) by simp
  from call_executed [OF _ _ _ _ this s(2) assms(9), where ag = ag and i = i] rc [unfolded run_composed_def] obtain u2 m2 st2 where e:
    "tools_turn (services_in S) ag [(i, name, v)] st1 = (None, st2)" "rs_world st2 = (w1, u2, x')"
    "rs_history st2 = rs_history st1 @ [m2]" "part_results (msg_parts m2) = [shown_result S r]" "msg_role m2 = Tool"
    "rs_usage st2 = rs_usage st1" "rs_iteration st2 = rs_iteration st1"
    "last (rs_recent st2) = call_print S (name, v)" by blast
  show ?thesis
    by (rule exI [of _ m], rule exI [of _ m2], rule exI [of _ st2], rule exI [of _ w1], rule exI [of _ u2])
      (use s e in \<open>simp add: i no_handoff script_usage_one\<close>)
qed

lemma loop_plays:
  assumes rc: "run_composed S tb C E dec p ag" and "list_all (turn_plays E C) (turns @ [t])"
    and "map (called \<circ> snd) turns = map Some calls" and "\<forall>c\<in>set calls. ag_handoff_tool ag \<noteq> Some (fst c)"
    and "distinct_adj (map (call_print S) calls)" and "script_end ag (snd t) = Some res"
    and "rs_recent st \<noteq> [] \<Longrightarrow> calls \<noteq> [] \<Longrightarrow> last (rs_recent st) \<noteq> call_print S (hd calls)"
    and "unat (rs_iteration st) + length turns < unat (max_iterations (ag_config ag))"
    and "rs_world st = (w, u, x)" and "ms_queue w = map immediate (script_queue (turns @ [t]) @ rest)"
  shows "\<exists>st' w' u' h. agent_loop (services_in S) ag rid st =
      (Inr \<lparr>out_result = res, out_usage = add_usage (rs_usage st) (script_usage (turns @ [t]))\<rparr>, st') \<and>
    rs_world st' = (w', u', snd (run_tools tb calls x)) \<and> ms_queue w' = map immediate rest \<and>
    rs_history st' = rs_history st @ h \<and> assistants h = length turns + 1 \<and>
    tool_results h = map (shown_result S) (fst (run_tools tb calls x))"
  using assms(2-)
proof (induction turns arbitrary: calls st w u x)
  case Nil
  have "rs_iteration st < max_iterations (ag_config ag)" "turn_plays E C t"
      "ms_queue w = map immediate (queued_turn t @ rest)"
    using Nil.prems(1,7,9) by (simp_all add: script_queue_def word_less_nat_alt)
  from run_step_ends [OF rc this(1,2) Nil.prems(8) this(3) Nil.prems(5), of rid] Nil.prems(2) show ?case
    by (subst agent_loop.simps) auto
next
  case (Cons t1 turns)
  obtain name v cs where calls: "calls = (name, v) # cs" "called (snd t1) = Some (name, v)"
    using Cons.prems(2) by (cases calls) auto
  obtain r x' where ex: "tb_execute tb name v x = (r, x')" by fastforce
  have lt: "rs_iteration st < max_iterations (ag_config ag)" using Cons.prems(7) by (simp add: word_less_nat_alt)
  have q: "turn_plays E C t1" "ms_queue w = map immediate (queued_turn t1 @ script_queue (turns @ [t]) @ rest)"
    using Cons.prems(1,9) by (simp_all add: script_queue_def)
  have "ag_handoff_tool ag \<noteq> Some name" "rs_recent st \<noteq> [] \<Longrightarrow> last (rs_recent st) \<noteq> call_print S (name, v)"
    using Cons.prems(3,6) by (simp_all add: calls)
  from run_step_calls [OF rc lt q(1) Cons.prems(8) q(2) calls(2) this ex, of rid] obtain m m' st2 w1 u2 where s:
    "run_step (services_in S) ag rid st = (None, st2)" "rs_world st2 = (w1, u2, x')"
    "ms_queue w1 = map immediate (script_queue (turns @ [t]) @ rest)" "rs_history st2 = rs_history st @ [m, m']"
    "msg_role m = Assistant" "part_results (msg_parts m) = []"
    "msg_role m' = Tool" "part_results (msg_parts m') = [shown_result S r]"
    "rs_usage st2 = add_usage (rs_usage st) (script_usage [t1])" "rs_iteration st2 = rs_iteration st + 1"
    "last (rs_recent st2) = call_print S (name, v)" by blast
  have it: "unat (rs_iteration st2) = Suc (unat (rs_iteration st))" using lt s(10) by (simp add: unat_less_increases)
  have d: "distinct_adj (map (call_print S) cs)"
      "cs \<noteq> [] \<Longrightarrow> last (rs_recent st2) \<noteq> call_print S (hd cs)"
    using Cons.prems(4) by (cases cs; simp add: calls s(11))+
  from Cons.IH [OF _ _ _ d(1) Cons.prems(5) d(2) _ s(2,3)] Cons.prems it obtain st' w' u' h where
    "agent_loop (services_in S) ag rid st2 =
      (Inr \<lparr>out_result = res, out_usage = add_usage (rs_usage st2) (script_usage (turns @ [t]))\<rparr>, st')"
    "rs_world st' = (w', u', snd (run_tools tb cs x'))" "ms_queue w' = map immediate rest"
    "rs_history st' = rs_history st2 @ h" "assistants h = length turns + 1"
    "tool_results h = map (shown_result S) (fst (run_tools tb cs x'))"
    by (auto simp: calls)
  with s show ?case
    by (subst agent_loop.simps)
      (auto simp: calls ex script_usage_Cons [of t1 "turns @ [t]"] script_usage_one add_usage_assoc split: prod.splits)
qed

lemma script_played:
  assumes "run_composed S tb C E dec p ag" and "list_all (turn_plays E C) (turns @ [t])"
    and "map (called \<circ> snd) turns = map Some calls" and "\<forall>c\<in>set calls. ag_handoff_tool ag \<noteq> Some (fst c)"
    and "distinct_adj (map (call_print S) calls)" and "script_end ag (snd t) = Some res"
    and "length turns < unat (max_iterations (ag_config ag))"
    and "ms_queue w = map immediate (script_queue (turns @ [t]) @ rest)"
  shows "\<exists>st w' u' h. run (services_in S) ag input (w, u, x) =
      (Inr \<lparr>out_result = res, out_usage = script_usage (turns @ [t])\<rparr>, st) \<and>
    rs_world st = (w', u', snd (run_tools tb calls x)) \<and> ms_queue w' = map immediate rest \<and>
    rs_history st = ag_history ag @ input_to_message input # h \<and> assistants h = length turns + 1 \<and>
    tool_results h = map (shown_result S) (fst (run_tools tb calls x))"
proof -
  obtain rid u1 where u: "sv_uuid S u = (rid, u1)" by fastforce
  let ?st = "start_state ag input (w, u1, x)"
  have s: "rs_recent ?st = []" "rs_iteration ?st = 0" "rs_world ?st = (w, u1, x)"
      "rs_history ?st = ag_history ag @ [input_to_message input]" "\<And>b. add_usage (rs_usage ?st) b = b"
    by (simp_all add: start_state_def add_usage_def)
  from loop_plays [OF assms(1-6) _ _ s(3) assms(8), of rid] assms(7) show ?thesis
    by (simp add: s run_def services_in_def u)
qed

text \<open>
  C4. A scripted agent does what its script says. The agent loop, its toolbox, the provider and the mock
  composed: for each turn the provider retries over the queued errors; the loop then executes the queued
  tool call, exactly once and in order, and shows its outcome to the model; and the run ends with the last
  response, its text as the completion or its input as the handoff, and with the tokens the mock reported.
\<close>

theorem scripted_agent:
  assumes "run_composed S tb C E dec p ag" and "list_all (turn_plays E C) (turns @ [t])"
    and "map (called \<circ> snd) turns = map Some calls" and "\<forall>c\<in>set calls. ag_handoff_tool ag \<noteq> Some (fst c)"
    and "distinct_adj (map (call_print S) calls)" and "script_end ag (snd t) = Some res"
    and "length turns < unat (max_iterations (ag_config ag))"
    and "ms_queue w = map immediate (script_queue (turns @ [t]) @ rest)"
  shows "\<exists>st w' u' h. run (services_in S) ag input (w, u, x) =
      (Inr \<lparr>out_result = res, out_usage = script_usage (turns @ [t])\<rparr>, st) \<and>
    rs_world st = (w', u', snd (run_tools tb calls x)) \<and> ms_queue w' = map immediate rest \<and>
    rs_history st = ag_history ag @ input_to_message input # h \<and> assistants h = length turns + 1 \<and>
    tool_results h = map (shown_result S) (fst (run_tools tb calls x))"
  by (rule script_played [OF assms])

definition tally_services :: "nat services" where
  "tally_services =
     \<lparr>sv_uuid = (\<lambda>n. (replicate n (CHR ''i''), Suc n)), sv_cancelled = (\<lambda>n. (False, n)),
      sv_show_json = (\<lambda>v. if v = JNull then ''null'' else ''{}''),
      sv_compile_schema = (\<lambda>_. Inr \<lparr>va_is_valid = (\<lambda>_. True), va_errors = (\<lambda>_. [])\<rparr>)\<rparr>"

definition tally_toolbox :: "nat toolbox" where
  "tally_toolbox =
     \<lparr>tb_specs = [\<lparr>ts_name = ''bash'', ts_description = [], ts_input_schema = JNull\<rparr>],
      tb_execute = (\<lambda>name v n. if name = ''bash'' then (Inr JNull, Suc n) else (Inl (no_tool_named name), n))\<rparr>"

definition tally_agent :: "(nat, nat) run_world agent" where
  "tally_agent =
     \<lparr>ag_provider = anthropic_complete (client_in wired_client) wired_provider, ag_system_prompt = [],
      ag_toolbox = toolbox_in tally_toolbox, ag_handoff_tool = None, ag_handoff_validator = None,
      ag_config = default_config, ag_history = []\<rparr>"

lemma tally_composed:
  "run_composed tally_services tally_toolbox wired_client wired_env wired_decoder wired_provider tally_agent"
proof -
  have "\<exists>ar. build_request wired_client wired_provider req = Inr ar" for req
  proof -
    have "\<exists>ms'. collect_results (map (message_to_api wired_client) ms) = Inr ms'" for ms
      by (induction ms) (auto simp: message_to_api_def wired_client_def)
    then obtain ms' where "collect_results (map (message_to_api wired_client) (cr_messages req)) = Inr ms'" by blast
    moreover have "ac_check_request wired_client ar = None" for ar by (simp add: wired_client_def)
    ultimately show ?thesis by (simp add: build_request_def Let_def)
  qed
  then show ?thesis
    using wired_laws
    by (simp add: run_composed_def wired_provider_def tally_services_def tally_agent_def default_config_def)
qed

lemma scripted_agent_witness:
  "\<exists>st w' u' h. run (services_in tally_services) tally_agent (input_user_message ''i'' ''go'')
      (wired_state [MockError 529 ''busy'', MockToolCall ''bash'' (JObject []), MockText ''done''], 0, 7) =
      (Inr \<lparr>out_result = Completed ''done'', out_usage = \<lparr>input_tokens = 20, output_tokens = 20 + token_count ''done''\<rparr>\<rparr>, st) \<and>
    rs_world st = (w', u', 8) \<and> ms_queue w' = [] \<and>
    rs_history st = input_to_message (input_user_message ''i'' ''go'') # h \<and> assistants h = 2 \<and> tool_results h = [(''null'', False)]"
proof -
  let ?w = "wired_state [MockError 529 ''busy'', MockToolCall ''bash'' (JObject []), MockText ''done'']"
  let ?t1 = "([(529, ''busy'')], MockToolCall ''bash'' (JObject [])) :: scripted_turn"
  let ?t = "([], MockText ''done'') :: scripted_turn"
  have q: "ms_queue ?w = map immediate (script_queue ([?t1] @ [?t]) @ [])"
    by (simp add: wired_state_def builder_build_def builder_push_def builder_empty_def script_queue_def queued_turn_def Let_def)
  have pl: "list_all (turn_plays wired_env wired_client) ([?t1] @ [?t])"
    by (simp add: turn_plays_def wired_env_def wired_client_def)
  have e: "script_end tally_agent (snd ?t) = Some (Completed ''done'')"
    by (simp add: script_end_def tally_agent_def)
  have l: "length [?t1] < unat (max_iterations (ag_config tally_agent))"
    by (simp add: tally_agent_def default_config_def)
  have h: "\<forall>c\<in>set [(''bash'', JObject [])]. ag_handoff_tool tally_agent \<noteq> Some (fst c)"
    by (simp add: tally_agent_def)
  have r: "run_tools tally_toolbox [(''bash'', JObject [])] 7 = ([Inr JNull], 8)"
    by (simp add: tally_toolbox_def)
  have sh: "sv_show_json tally_services JNull = ''null''" by (simp add: tally_services_def)
  have us: "script_usage ([?t1] @ [?t]) = \<lparr>input_tokens = 20, output_tokens = 20 + token_count ''done''\<rparr>"
    by (simp add: script_usage_def)
  have hi: "ag_history tally_agent = []" by (simp add: tally_agent_def)
  from scripted_agent [OF tally_composed pl _ h _ e l q, of "input_user_message ''i'' ''go''" 0 7, unfolded r us hi]
  show ?thesis by (simp add: sh numeral_2_eq_2)
qed

end
