(* ===== verification/Agent_Effects.thy ===== *)
theory Agent_Effects
  imports Scripted_Run Client_Tools Tool_Properties Workflow_Properties
begin

text \<open>
  From a model's tool call to a file: the toolbox of an agent (\<open>workflow/src/context.rs\<close>), the client and
  its tools (\<open>runtime-client/src\<close>), a transport, and the runtime that dispatches the request to its tools
  (\<open>runtime/src/tools\<close>), composed; then under the agent loop, the provider and the mock. What a transport
  has to do is \<open>serves\<close>: it returns what the runtime answers. The theories \<open>Runtime_Link\<close> and \<open>Executor\<close>
  say when the transports of the code do.
\<close>

definition serves :: "'w rt_transport \<Rightarrow> 'w runtime_env \<Rightarrow> string \<Rightarrow> bool" where
  "serves T R wd \<longleftrightarrow>
     (\<forall>w. snd (tp_uuid T w) = w) \<and>
     (\<forall>cid call w. tp_invoke T cid call w = (case tools_dispatch R wd call w of (r, w') \<Rightarrow> (Inr r, w')))"

definition edit_input :: "string \<Rightarrow> string \<Rightarrow> string \<Rightarrow> json" where
  "edit_input path old new =
     JObject [(''path'', JString path), (''old_text'', JString old), (''new_text'', JString new)]"

definition may_edit :: "workflow_agent_def \<Rightarrow> bool" where
  "may_edit d \<longleftrightarrow> (case ad_allowed_tools d of None \<Rightarrow> True | Some names \<Rightarrow> ''edit_file'' \<in> set names)"

lemma served_call:
  assumes "serves T R wd"
  shows "request_result T call w =
    (case tools_dispatch R wd call w of
       (ToolOk out, w') \<Rightarrow> (Inr (JString (to_stdout out)), w')
     | (ToolErr e, w') \<Rightarrow> (Inl (ExecutionFailed (''tool failed: '' @ e)), w'))"
proof -
  obtain cid where "tp_uuid T w = (cid, w)" using assms by (metis serves_def prod.collapse)
  with assms show ?thesis
    by (auto simp: request_result_def client_invoke_def serves_def split: prod.splits tool_result.splits)
qed

lemma edit_tool_found:
  "find (\<lambda>t. ts_name (tool_spec t) = ''edit_file'') (add_runtime_tools [] T) = Some (edit_file_tool T)"
  by (simp add: add_runtime_tools_simp runtime_tools)

lemma edit_tool_runs:
  assumes "serves T R wd" and "may_edit d"
  shows "tb_execute (for_agent (add_runtime_tools [] T) d) ''edit_file'' (edit_input path old new) w =
    (case exec_edit_file R wd path old new w of
       (ToolOk out, w') \<Rightarrow> (Inr (JString (to_stdout out)), w')
     | (ToolErr e, w') \<Rightarrow> (Inl (ExecutionFailed (''tool failed: '' @ e)), w'))"
proof -
  have "edit_file_call (edit_input path old new) = Inr (CallEditFile path old new)"
    by (simp add: edit_file_call_def edit_input_def required_str_def json_index_def)
  then have "tb_execute (toolbox_impl (add_runtime_tools [] T)) ''edit_file'' (edit_input path old new) w =
      request_result T (CallEditFile path old new) w"
    by (simp add: toolbox_impl_def edit_tool_found edit_file_tool_def runtime_tool_execute)
  moreover have "tb_execute (for_agent (add_runtime_tools [] T) d) ''edit_file'' i w =
      tb_execute (toolbox_impl (add_runtime_tools [] T)) ''edit_file'' i w" for i
  proof -
    have "ts_name c \<noteq> ''edit_file''" if "conclude_tool_spec (ad_output_schema d) (ad_allow_ask_user d) = Some c" for c
      using that by (auto simp: conclude_tool_spec_def CONCLUDE_TOOL_def Let_def split: option.splits if_splits)
    with assms(2) show ?thesis
      by (cases "ad_allowed_tools d"; cases "conclude_tool_spec (ad_output_schema d) (ad_allow_ask_user d)")
        (auto simp: for_agent_def agent_toolbox_def filtered_toolbox_def may_edit_def)
  qed
  ultimately show ?thesis by (simp add: served_call [OF assms(1)] tools_dispatch_def)
qed

text \<open>
  C5. An agent edits a file. When the model, here the script of the mock, calls \<open>edit_file\<close> and then
  ends its turn, the run of the agent over the provider, its toolbox, the client and the runtime's tools
  executes one edit. If it is reported as done, the leftmost occurrence of the old text is replaced in that
  file, and nothing else there; no other file changes in any case; and without an occurrence, or without
  the file, nothing is written, and the model is told so.
\<close>

theorem agent_edits_file:
  assumes "run_composed S (for_agent (add_runtime_tools [] T) d) C E dec p ag"
    and "serves T R wd" and "file_system R file_at" and "may_edit d"
    and "list_all (turn_plays E C) [call_turn, last_turn]"
    and "called (snd call_turn) = Some (''edit_file'', edit_input path old new)"
    and "ag_handoff_tool ag \<noteq> Some ''edit_file''" and "script_end ag (snd last_turn) = Some res"
    and "1 < max_iterations (ag_config ag)"
    and "ms_queue w = map immediate (script_queue [call_turn, last_turn] @ rest)"
  shows "\<exists>st w' u' x' h out err. run (services_in S) ag input (w, u, x) =
      (Inr \<lparr>out_result = res, out_usage = script_usage [call_turn, last_turn]\<rparr>, st) \<and>
    rs_world st = (w', u', x') \<and> ms_queue w' = map immediate rest \<and>
    rs_history st = ag_history ag @ input_to_message input # h \<and> tool_results h = [(out, err)] \<and>
    (\<forall>q. q \<noteq> join_path wd path \<longrightarrow> file_at x' q = file_at x q) \<and>
    (case file_at x (join_path wd path) of
       None \<Rightarrow> err \<and> file_at x' = file_at x
     | Some t \<Rightarrow>
         if sublist old t
         then \<exists>a b. t = a @ old @ b \<and> (\<forall>a' b'. t = a' @ old @ b' \<longrightarrow> length a \<le> length a') \<and>
                (\<not> err \<longrightarrow> file_at x' (join_path wd path) = Some (a @ new @ b))
         else err \<and> file_at x' = file_at x)"
proof -
  let ?tb = "for_agent (add_runtime_tools [] T) d"
  let ?c = "(''edit_file'', edit_input path old new)"
  obtain r x' where e: "exec_edit_file R wd path old new x = (r, x')" by fastforce
  let ?res = "case r of ToolOk out \<Rightarrow> Inr (JString (to_stdout out)) | ToolErr e \<Rightarrow> Inl (ExecutionFailed (''tool failed: '' @ e))"
  have tools: "run_tools ?tb [?c] x = ([?res], x')"
    using edit_tool_runs [OF assms(2,4), of path old new x] e by (simp split: tool_result.splits)
  have "\<forall>c\<in>set [?c]. ag_handoff_tool ag \<noteq> Some (fst c)" "map (called \<circ> snd) [call_turn] = map Some [?c]"
      "length [call_turn] < unat (max_iterations (ag_config ag))"
    using assms(6,7,9) by (simp_all add: word_less_nat_alt)
  from script_played [OF assms(1) _ this(2,1) _ assms(8) this(3), of w rest input u x] assms(5,10)
  obtain st w' u' h where run: "run (services_in S) ag input (w, u, x) =
      (Inr \<lparr>out_result = res, out_usage = script_usage [call_turn, last_turn]\<rparr>, st)"
    "rs_world st = (w', u', x')" "ms_queue w' = map immediate rest"
    "rs_history st = ag_history ag @ input_to_message input # h" "tool_results h = [shown_result S ?res]"
    unfolding tools by auto
  obtain out err where sh: "shown_result S ?res = (out, err)" "err \<longleftrightarrow> (\<exists>m. r = ToolErr m)"
    by (cases r) auto
  note eff = file_system.edit_effect [OF assms(3) e]
  have others: "\<forall>q. q \<noteq> join_path wd path \<longrightarrow> file_at x' q = file_at x q"
    using eff by (cases "file_at x (join_path wd path)") (auto split: if_splits)
  have edited: "case file_at x (join_path wd path) of
       None \<Rightarrow> err \<and> file_at x' = file_at x
     | Some t \<Rightarrow>
         if sublist old t
         then \<exists>a b. t = a @ old @ b \<and> (\<forall>a' b'. t = a' @ old @ b' \<longrightarrow> length a \<le> length a') \<and>
                (\<not> err \<longrightarrow> file_at x' (join_path wd path) = Some (a @ new @ b))
         else err \<and> file_at x' = file_at x"
  proof (cases "file_at x (join_path wd path)")
    case None
    with eff sh(2) show ?thesis by auto
  next
    case (Some t)
    with eff sh(2) show ?thesis by (cases r; cases "sublist old t") simp_all
  qed
  show ?thesis
    by (rule exI [of _ st], rule exI [of _ w'], rule exI [of _ u'], rule exI [of _ x'], rule exI [of _ h],
        rule exI [of _ out], rule exI [of _ err]) (intro conjI run(1-4) run(5) [unfolded sh(1)] others edited)
qed

definition mem_transport :: "mem_fs rt_transport" where
  "mem_transport =
     \<lparr>tp_uuid = (\<lambda>w. (''c'', w)),
      tp_invoke = (\<lambda>cid call w. case tools_dispatch mem_env ''/w'' call w of (r, w') \<Rightarrow> (Inr r, w'))\<rparr>"

definition edit_env :: mock_env where
  "edit_env = wired_env\<lparr>me_to_text := (\<lambda>_. ''e'')\<rparr>"

definition edit_client :: "(string option, mock_state) api_client" where
  "edit_client =
     wired_client\<lparr>ac_stream := (\<lambda>sid ar w. case handle_messages edit_env sid True w of
          Some (KindSse pairs, w') \<Rightarrow> (map wired_decoder pairs, w') | _ \<Rightarrow> ([Inl UnexpectedError], w)),
       ac_from_str := (\<lambda>t. if t = ''e'' then Some (edit_input ''a'' ''y'' ''z'') else None)\<rparr>"

definition edit_agent :: "(nat, mem_fs) run_world agent" where
  "edit_agent =
     \<lparr>ag_provider = anthropic_complete (client_in edit_client) wired_provider, ag_system_prompt = [],
      ag_toolbox = toolbox_in (for_agent (add_runtime_tools [] mem_transport) (demo_agent_def ''a'' None)),
      ag_handoff_tool = None, ag_handoff_validator = None, ag_config = default_config, ag_history = []\<rparr>"

lemma edit_composed:
  "run_composed tally_services (for_agent (add_runtime_tools [] mem_transport) (demo_agent_def ''a'' None))
     edit_client edit_env wired_decoder wired_provider edit_agent"
proof -
  have "\<exists>ar. build_request edit_client wired_provider req = Inr ar" for req
  proof -
    have "\<exists>ms'. collect_results (map (message_to_api edit_client) ms) = Inr ms'" for ms
      by (induction ms) (auto simp: message_to_api_def edit_client_def wired_client_def)
    then obtain ms' where "collect_results (map (message_to_api edit_client) (cr_messages req)) = Inr ms'" by blast
    moreover have "ac_check_request edit_client ar = None" for ar by (simp add: edit_client_def wired_client_def)
    ultimately show ?thesis by (simp add: build_request_def Let_def)
  qed
  moreover have "mock_wired edit_client edit_env wired_decoder"
    by (simp add: mock_wired_def edit_client_def wired_client_def)
  moreover have "ac_display edit_client = ac_display wired_client" by (simp add: edit_client_def)
  ultimately show ?thesis
    using wired_laws(2,3)
    by (simp add: run_composed_def wired_provider_def tally_services_def edit_agent_def default_config_def)
qed

lemma leftmost_y:
  assumes "''xyxy'' = a @ ''y'' @ b" and "\<forall>a' b'. ''xyxy'' = a' @ ''y'' @ b' \<longrightarrow> length a \<le> length a'"
  shows "a @ ''z'' @ b = ''xzxy''"
proof -
  have "length a \<le> length ''x''" using assms(2) [rule_format, of "''x''" "''xy''"] by simp
  with assms(1) show ?thesis by (cases a) (auto simp: Cons_eq_append_conv)
qed

lemma agent_edits_file_witness:
  "\<exists>st w' u' x' h out err. run (services_in tally_services) edit_agent (input_user_message ''i'' ''go'')
      (wired_state [MockToolCall ''edit_file'' (edit_input ''a'' ''y'' ''z''), MockText ''done''], 0, mem_demo) =
      (Inr \<lparr>out_result = Completed ''done'', out_usage = script_usage
         [([], MockToolCall ''edit_file'' (edit_input ''a'' ''y'' ''z'')), ([], MockText ''done'')]\<rparr>, st) \<and>
    rs_world st = (w', u', x') \<and> tool_results h = [(out, err)] \<and>
    mf_files x' ''/w/b'' = Some ''y'' \<and> (\<not> err \<longrightarrow> mf_files x' ''/w/a'' = Some ''xzxy'')"
proof -
  let ?v = "edit_input ''a'' ''y'' ''z''"
  let ?w = "wired_state [MockToolCall ''edit_file'' ?v, MockText ''done'']"
  let ?t1 = "([], MockToolCall ''edit_file'' ?v) :: scripted_turn" and ?t = "([], MockText ''done'') :: scripted_turn"
  have q: "ms_queue ?w = map immediate (script_queue [?t1, ?t] @ [])"
    by (simp add: wired_state_def builder_build_def builder_push_def builder_empty_def script_queue_def queued_turn_def Let_def)
  have sv: "serves mem_transport mem_env ''/w''" by (simp add: serves_def mem_transport_def)
  have me: "may_edit (demo_agent_def ''a'' None)" by (simp add: may_edit_def demo_agent_def_def)
  have pl: "list_all (turn_plays edit_env edit_client) [?t1, ?t]"
    by (simp add: turn_plays_def edit_env_def edit_client_def)
  have h: "ag_handoff_tool edit_agent \<noteq> Some ''edit_file''" by (simp add: edit_agent_def)
  have e: "script_end edit_agent (snd ?t) = Some (Completed ''done'')" by (simp add: script_end_def edit_agent_def)
  have m: "1 < max_iterations (ag_config edit_agent)" by (simp add: edit_agent_def default_config_def)
  have c: "called (snd ?t1) = Some (''edit_file'', edit_input ''a'' ''y'' ''z'')" by simp
  have p: "join_path ''/w'' ''a'' = ''/w/a''" by (simp add: join_path_def)
  have f: "mf_files mem_demo ''/w/a'' = Some ''xyxy''" "mf_files mem_demo ''/w/b'' = Some ''y''"
    by (simp_all add: mem_demo_def)
  have s: "sublist ''y'' ''xyxy''" by code_simp
  from agent_edits_file [OF edit_composed sv mem.file_system_axioms me pl c h e m q,
      of "input_user_message ''i'' ''go''" 0 mem_demo, unfolded p f(1) option.case if_P [OF s]]
  obtain st w' u' x' h out err a b where r:
    "run (services_in tally_services) edit_agent (input_user_message ''i'' ''go'') (?w, 0, mem_demo) =
      (Inr \<lparr>out_result = Completed ''done'', out_usage = script_usage [?t1, ?t]\<rparr>, st)"
    "rs_world st = (w', u', x')" "tool_results h = [(out, err)]"
    "\<forall>q. q \<noteq> ''/w/a'' \<longrightarrow> mf_files x' q = mf_files mem_demo q"
    "''xyxy'' = a @ ''y'' @ b" "\<forall>a' b'. ''xyxy'' = a' @ ''y'' @ b' \<longrightarrow> length a \<le> length a'"
    "\<not> err \<longrightarrow> mf_files x' ''/w/a'' = Some (a @ ''z'' @ b)"
    by (elim exE conjE) (rule that)
  have "mf_files x' ''/w/b'' = Some ''y''" using r(4) f(2) by simp
  moreover have "\<not> err \<longrightarrow> mf_files x' ''/w/a'' = Some ''xzxy''" using r(7) leftmost_y [OF r(5,6)] by simp
  ultimately show ?thesis using r(1-3) by (intro exI conjI)
qed

end
