(* ===== verification/Agent_Tests.thy ===== *)
theory Agent_Tests
  imports Agent Text
begin

text \<open>
  The unit tests of the agent core (\<open>mod tests\<close> of \<open>agent.rs\<close>, \<open>error.rs\<close> and \<open>tool.rs\<close> under
  \<open>src/agentcore/src/\<close>), run on the model.
  Each test of the crate is a closed boolean definition that builds the agent the test builds, runs
  it on the scripted provider and states what the test asserts; the lemma beside it evaluates the
  definition in the kernel. The fixtures (\<open>MockProvider\<close>, \<open>MockToolbox\<close>, \<open>RecordingProvider\<close>)
  are translated from the same module: \<open>mock_world\<close> holds their mutable cells, the counter behind
  the fresh UUIDs, and the cancellation token.
\<close>

subsection \<open>Fixtures\<close>

record mock_world =
  mw_index :: nat
  mw_seen :: "tool_choice option"
  mw_uuids :: nat
  mw_cancelled :: bool

definition fresh_world :: mock_world where
  "fresh_world = \<lparr>mw_index = 0, mw_seen = None, mw_uuids = 0, mw_cancelled = False\<rparr>"

text \<open>Compact JSON; the strings of the tests need no escapes.\<close>

fun compact_text :: "json \<Rightarrow> string" where
  "compact_text JNull = ''null''"
| "compact_text (JBool b) = (if b then ''true'' else ''false'')"
| "compact_text (JNumber (PosInt n)) = show_nat (unat n)"
| "compact_text (JNumber (NegInt n)) = ''-'' @ show_nat (nat (- n))"
| "compact_text (JNumber (Float t)) = t"
| "compact_text (JString s) = [CHR 0x22] @ s @ [CHR 0x22]"
| "compact_text (JArray vs) = ''['' @ join '','' (map compact_text vs) @ '']''"
| "compact_text (JObject kvs) =
     ''{'' @ join '','' (map (\<lambda>(k, v). [CHR 0x22] @ k @ [CHR 0x22] @ '':'' @ compact_text v) kvs) @ ''}''"

text \<open>
  A validator for the schemas of the tests, which ask for an object and its required fields.
\<close>

definition required_fields :: "json \<Rightarrow> string list" where
  "required_fields schema =
     (case json_get schema ''required'' of
        Some (JArray vs) \<Rightarrow> List.map_filter json_as_str vs
      | _ \<Rightarrow> [])"

definition required_validator :: "json \<Rightarrow> validator" where
  "required_validator schema =
     \<lparr>va_is_valid = (\<lambda>v. list_all (\<lambda>k. json_get v k \<noteq> None) (required_fields schema)),
      va_errors = (\<lambda>v. map (\<lambda>k. [CHR 0x22] @ k @ [CHR 0x22] @ '' is a required property'')
                        (filter (\<lambda>k. json_get v k = None) (required_fields schema)))\<rparr>"

definition test_services :: "mock_world services" where
  "test_services =
     \<lparr>sv_uuid = (\<lambda>w. (show_nat (mw_uuids w), w\<lparr>mw_uuids := Suc (mw_uuids w)\<rparr>)),
      sv_cancelled = (\<lambda>w. (mw_cancelled w, w)), sv_show_json = compact_text,
      sv_compile_schema = (\<lambda>schema. Inr (required_validator schema))\<rparr>"

definition tokens :: "u32 \<Rightarrow> u32 \<Rightarrow> usage" where
  "tokens i out = \<lparr>input_tokens = i, output_tokens = out\<rparr>"

definition text_response :: "string \<Rightarrow> usage \<Rightarrow> completion_response" where
  "text_response t u = \<lparr>cp_parts = [TextPart t], cp_stop_reason = EndTurn, cp_usage = u\<rparr>"

definition call_response :: "string \<Rightarrow> string \<Rightarrow> json \<Rightarrow> usage \<Rightarrow> completion_response" where
  "call_response cid name input u =
     \<lparr>cp_parts = [ToolCallPart \<lparr>tc_id = cid, tc_name = name, tc_input = input\<rparr>],
      cp_stop_reason = ToolUse, cp_usage = u\<rparr>"

text \<open>\<open>MockProvider\<close>: its responses in order, then again from the first.\<close>

definition mock_provider :: "completion_response list \<Rightarrow> mock_world provider" where
  "mock_provider responses req mid w =
     (Inr (responses ! (mw_index w mod length responses)), [], w\<lparr>mw_index := mw_index w + 1\<rparr>)"

definition mock_text :: "string \<Rightarrow> mock_world provider" where
  "mock_text t = mock_provider [text_response t (tokens 10 5)]"

definition mock_tool_then_text :: "string \<Rightarrow> string \<Rightarrow> json \<Rightarrow> string \<Rightarrow> mock_world provider" where
  "mock_tool_then_text cid name input reply =
     mock_provider [call_response cid name input (tokens 20 10), text_response reply (tokens 30 8)]"

text \<open>\<open>RecordingProvider\<close>: one response, and the \<open>tool_choice\<close> of the last request.\<close>

definition recording_provider :: "completion_response \<Rightarrow> mock_world provider" where
  "recording_provider response req mid w = (Inr response, [], w\<lparr>mw_seen := Some (cr_tool_choice req)\<rparr>)"

text \<open>\<open>MockToolbox\<close>: its handler gives the input back.\<close>

definition echo_toolbox :: "tool_spec \<Rightarrow> mock_world toolbox" where
  "echo_toolbox spec = \<lparr>tb_specs = [spec], tb_execute = (\<lambda>name input w. (Inr input, w))\<rparr>"

definition mock_echo :: "string \<Rightarrow> mock_world toolbox" where
  "mock_echo name =
     echo_toolbox \<lparr>ts_name = name, ts_description = ''echo tool'',
                   ts_input_schema = JObject [(''type'', JString ''object'')]\<rparr>"

definition run_built ::
  "mock_world agent_builder \<Rightarrow> agent_input \<Rightarrow> mock_world
     \<Rightarrow> (agent_build_error, run_result \<times> mock_world run_state) result" where
  "run_built b input w =
     (case build test_services b of Inl e \<Rightarrow> Inl e | Inr ag \<Rightarrow> Inr (run test_services ag input w))"

text \<open>\<open>run(..).await.unwrap()\<close> and \<open>unwrap_err()\<close>, with what the test asserts of the value.\<close>

definition run_gives ::
  "mock_world agent_builder \<Rightarrow> agent_input \<Rightarrow> (agent_output \<Rightarrow> mock_world run_state \<Rightarrow> bool) \<Rightarrow> bool" where
  "run_gives b input check =
     (case run_built b input fresh_world of Inr (Inr out, st) \<Rightarrow> check out st | _ \<Rightarrow> False)"

definition run_errs ::
  "mock_world agent_builder \<Rightarrow> agent_input \<Rightarrow> mock_world \<Rightarrow> (agent_error \<Rightarrow> bool) \<Rightarrow> bool" where
  "run_errs b input w check = (case run_built b input w of Inr (Inl e, st) \<Rightarrow> check e | _ \<Rightarrow> False)"

text \<open>The queries of \<open>CollectingEventSink\<close>, whose events are the run's.\<close>

definition message_complete_ids :: "agent_event list \<Rightarrow> string list" where
  "message_complete_ids =
     List.map_filter (\<lambda>e. case e of MessageComplete mid _ \<Rightarrow> Some mid | _ \<Rightarrow> None)"

definition first_input :: "agent_event list \<Rightarrow> (string \<times> agent_input) option" where
  "first_input evs =
     (case List.map_filter (\<lambda>e. case e of InputMessage mid i \<Rightarrow> Some (mid, i) | _ \<Rightarrow> None) evs of
        [] \<Rightarrow> None
      | p # _ \<Rightarrow> Some p)"

subsection \<open>Errors and toolboxes\<close>

text \<open>\<open>mod tests\<close> of \<open>error.rs\<close> and \<open>tool.rs\<close>, beside the agent's.\<close>

definition agent_error_cancelled_display :: bool where
  "agent_error_cancelled_display \<longleftrightarrow> agent_error_display Cancelled = ''cancelled''"

definition agent_error_max_iterations_display :: bool where
  "agent_error_max_iterations_display \<longleftrightarrow> str_contains ''50'' (agent_error_display (MaxIterationsExceeded 50))"

definition agent_error_stuck_display :: bool where
  "agent_error_stuck_display \<longleftrightarrow>
     (let t = agent_error_display (StuckInLoop ''search'' 5) in str_contains ''search'' t \<and> str_contains ''5'' t)"

definition tool_call_error_invalid_input_display :: bool where
  "tool_call_error_invalid_input_display \<longleftrightarrow>
     str_contains ''bad json'' (tool_call_error_display (InvalidInput ''bad json''))"

definition llm_error_api_error_display :: bool where
  "llm_error_api_error_display \<longleftrightarrow> str_contains ''429'' (llm_error_display (ApiError 429 ''rate limit''))"

definition echo_tool :: "unit tool" where
  "echo_tool =
     \<lparr>tool_spec = \<lparr>ts_name = ''echo'', ts_description = ''echoes input'',
                   ts_input_schema = JObject [(''type'', JString ''object'')]\<rparr>,
      tool_execute = (\<lambda>input w. (Inr input, w))\<rparr>"

definition toolbox_impl_routes_by_name :: bool where
  "toolbox_impl_routes_by_name \<longleftrightarrow>
     (let input = JObject [(''x'', JNumber (PosInt 1))]
      in fst (tb_execute (toolbox_impl (toolbox_add [] echo_tool)) ''echo'' input ()) = Inr input)"

definition toolbox_impl_unknown_tool_returns_error :: bool where
  "toolbox_impl_unknown_tool_returns_error =
     (case fst (tb_execute (toolbox_impl ([] :: unit tool list)) ''nope'' (JObject []) ()) of
        Inl (InvalidInput _) \<Rightarrow> True
      | _ \<Rightarrow> False)"

definition toolbox_impl_specs_returns_all :: bool where
  "toolbox_impl_specs_returns_all \<longleftrightarrow>
     map ts_name (tb_specs (toolbox_impl (toolbox_add [] echo_tool))) = [''echo'']"

lemma error_and_toolbox_tests:
  agent_error_cancelled_display agent_error_max_iterations_display agent_error_stuck_display
  tool_call_error_invalid_input_display llm_error_api_error_display
  toolbox_impl_routes_by_name toolbox_impl_unknown_tool_returns_error toolbox_impl_specs_returns_all
  by code_simp+

subsection \<open>Completions\<close>

definition test_simple_text_completion :: bool where
  "test_simple_text_completion =
     run_gives (builder_new (mock_text ''Hello, world!'') empty_toolbox)
       (input_user_message ''msg-1'' ''hi'')
       (\<lambda>out st. out_result out = Completed ''Hello, world!'' \<and> output_tokens (out_usage out) = 5)"

definition test_completion_emits_message_complete_events :: bool where
  "test_completion_emits_message_complete_events =
     run_gives (builder_new (mock_text ''done'') empty_toolbox) (input_user_message ''msg-1'' ''go'')
       (\<lambda>out st. message_complete_ids (rs_events st) \<noteq> [])"

definition test_input_message_event_emitted :: bool where
  "test_input_message_event_emitted =
     run_gives (builder_new (mock_text ''ok'') empty_toolbox) (input_user_message ''msg-1'' ''x'')
       (\<lambda>out st. case first_input (rs_events st) of
          Some (mid, UserMessage _ _) \<Rightarrow> mid = ''msg-1''
        | _ \<Rightarrow> False)"

definition test_run_complete_event_emitted :: bool where
  "test_run_complete_event_emitted =
     run_gives (builder_new (mock_text ''ok'') empty_toolbox) (input_user_message ''msg-1'' ''x'')
       (\<lambda>out st. length (filter (\<lambda>e. case e of RunComplete _ _ _ \<Rightarrow> True | _ \<Rightarrow> False) (rs_events st)) = 1)"

lemma completion_tests:
  "test_simple_text_completion" "test_completion_emits_message_complete_events"
  "test_input_message_event_emitted" "test_run_complete_event_emitted"
  by code_simp+

subsection \<open>Tool calls\<close>

definition test_tool_call_cycle :: bool where
  "test_tool_call_cycle =
     run_gives
       (builder_new
         (mock_tool_then_text ''tc1'' ''search'' (JObject [(''q'', JString ''rust'')]) ''found it'')
         (mock_echo ''search''))
       (input_user_message ''msg-1'' ''search rust'')
       (\<lambda>out st. out_result out = Completed ''found it'' \<and>
          list_ex (\<lambda>e. case e of ToolExecuting _ _ \<Rightarrow> True | _ \<Rightarrow> False) (rs_events st) \<and>
          list_ex (\<lambda>e. case e of ToolComplete _ _ _ _ \<Rightarrow> True | _ \<Rightarrow> False) (rs_events st))"

definition test_tool_result_message_id_is_derived_from_tool_call_id :: bool where
  "test_tool_result_message_id_is_derived_from_tool_call_id =
     run_gives
       (builder_new
         (mock_tool_then_text ''tc1'' ''calc'' (JObject [(''x'', JNumber (PosInt 1))]) ''result: 1'')
         (mock_echo ''calc''))
       (input_user_message ''msg-1'' ''calc'')
       (\<lambda>out st.
          case List.map_filter
                 (\<lambda>e. case e of ToolComplete mid cid _ _ \<Rightarrow> Some (mid, cid) | _ \<Rightarrow> None) (rs_events st) of
            (mid, cid) # _ \<Rightarrow> mid = ''result:'' @ cid
          | [] \<Rightarrow> False)"

lemma tool_call_tests:
  "test_tool_call_cycle" "test_tool_result_message_id_is_derived_from_tool_call_id"
  by code_simp+

subsection \<open>Handoffs\<close>

abbreviation answer_number :: "u64 \<Rightarrow> json" where
  "answer_number n \<equiv> JObject [(''answer'', JNumber (PosInt n))]"

definition test_handoff_tool_returns_handoff_result :: bool where
  "test_handoff_tool_returns_handoff_result =
     run_gives
       (with_handoff_tool ''handoff''
         (builder_new (mock_provider [call_response ''hc1'' ''handoff'' (answer_number 42) (tokens 10 5)])
           (mock_echo ''handoff'')))
       (input_user_message ''msg-1'' ''go'')
       (\<lambda>out st. case out_result out of
          Handoff name data \<Rightarrow> name = ''handoff'' \<and> json_index data ''answer'' = JNumber (PosInt 42)
        | Completed _ \<Rightarrow> False)"

definition test_build_fails_when_handoff_tool_missing :: bool where
  "test_build_fails_when_handoff_tool_missing =
     (case build test_services
             (with_handoff_tool ''nope'' (builder_new (mock_text ''x'') empty_toolbox)) of
        Inl (HandoffToolNotRegistered _) \<Rightarrow> True
      | _ \<Rightarrow> False)"

text \<open>The \<open>finish\<close> tool of the schema tests, whose input needs an \<open>answer\<close>.\<close>

definition finish_spec :: tool_spec where
  "finish_spec =
     \<lparr>ts_name = ''finish'', ts_description = ''finish'',
      ts_input_schema = JObject
        [(''type'', JString ''object''),
         (''required'', JArray [JString ''answer'']),
         (''properties'', JObject [(''answer'', JObject [(''type'', JString ''number'')])])]\<rparr>"

definition wrong_input :: json where
  "wrong_input = JObject [(''wrong'', JBool True)]"

definition test_handoff_schema_validation_retries_then_succeeds :: bool where
  "test_handoff_schema_validation_retries_then_succeeds =
     run_gives
       (with_handoff_tool ''finish''
         (builder_new
           (mock_provider
             [call_response ''h1'' ''finish'' wrong_input (tokens 1 1),
              call_response ''h2'' ''finish'' (answer_number 7) (tokens 1 1)])
           (echo_toolbox finish_spec)))
       (input_user_message ''m'' ''go'')
       (\<lambda>out st. case out_result out of
          Handoff _ data \<Rightarrow> json_index data ''answer'' = JNumber (PosInt 7)
        | Completed _ \<Rightarrow> False)"

definition one_retry :: agent_config where
  "one_retry = default_config\<lparr>handoff_max_retries := 1\<rparr>"

fun validation_failed :: "agent_error \<Rightarrow> bool" where
  "validation_failed (HandoffValidationFailed _ _) = True"
| "validation_failed _ = False"

definition test_handoff_validation_fails_after_max_retries :: bool where
  "test_handoff_validation_fails_after_max_retries =
     run_errs
       (with_config one_retry
         (with_handoff_tool ''finish''
           (builder_new (mock_provider [call_response ''h'' ''finish'' wrong_input (tokens 1 1)])
             (echo_toolbox finish_spec))))
       (input_user_message ''m'' ''go'') fresh_world validation_failed"

definition test_handoff_agent_errors_on_plain_text_completion :: bool where
  "test_handoff_agent_errors_on_plain_text_completion =
     run_errs
       (with_config one_retry
         (with_handoff_tool ''finish''
           (builder_new (mock_text ''just chatting, no tool'') (mock_echo ''finish''))))
       (input_user_message ''m'' ''go'') fresh_world validation_failed"

lemma handoff_tests:
  "test_handoff_tool_returns_handoff_result" "test_build_fails_when_handoff_tool_missing"
  "test_handoff_schema_validation_retries_then_succeeds"
  "test_handoff_validation_fails_after_max_retries"
  "test_handoff_agent_errors_on_plain_text_completion"
  by code_simp+

definition test_handoff_agent_forces_tool_choice_any :: bool where
  "test_handoff_agent_forces_tool_choice_any =
     run_gives
       (with_handoff_tool ''finish''
         (builder_new (recording_provider (call_response ''h1'' ''finish'' (JObject []) (tokens 1 1)))
           (mock_echo ''finish'')))
       (input_user_message ''m'' ''go'')
       (\<lambda>out st. mw_seen (rs_world st) = Some ToolAny)"

definition test_non_handoff_agent_uses_tool_choice_auto :: bool where
  "test_non_handoff_agent_uses_tool_choice_auto =
     run_gives (builder_new (recording_provider (text_response ''done'' (tokens 1 1))) empty_toolbox)
       (input_user_message ''m'' ''go'')
       (\<lambda>out st. mw_seen (rs_world st) = Some ToolAuto)"

lemma tool_choice_tests:
  "test_handoff_agent_forces_tool_choice_any" "test_non_handoff_agent_uses_tool_choice_auto"
  by code_simp+

subsection \<open>Resuming, limits and cancellation\<close>

definition test_resume_with_tool_result :: bool where
  "test_resume_with_tool_result =
     run_gives
       (with_history
         [\<lparr>msg_id = ''m0'', msg_role = User, msg_parts = [TextPart ''question'']\<rparr>,
          \<lparr>msg_id = ''m1'', msg_role = Assistant,
           msg_parts = [ToolCallPart \<lparr>tc_id = ''hc1'', tc_name = ''handoff'', tc_input = JObject []\<rparr>]\<rparr>]
         (builder_new (mock_text ''thanks for the answer'') empty_toolbox))
       (input_tool_result ''hc1'' ''42'' False)
       (\<lambda>out st.
          (case out_result out of Completed _ \<Rightarrow> True | _ \<Rightarrow> False) \<and>
          (case first_input (rs_events st) of
             Some (mid, ToolResultInput _ _ _) \<Rightarrow> mid = ''result:hc1''
           | _ \<Rightarrow> False))"

definition test_max_iterations_exceeded :: bool where
  "test_max_iterations_exceeded =
     run_errs
       (with_config
         (default_config\<lparr>max_iterations := 3, stuck_threshold := 10, nudge_threshold := 8, max_tokens := None\<rparr>)
         (builder_new (mock_provider [call_response ''t1'' ''loop_tool'' (JObject []) (tokens 5 2)])
           (mock_echo ''loop_tool'')))
       (input_user_message ''msg-1'' ''go'') fresh_world
       (\<lambda>e. e = MaxIterationsExceeded 3)"

definition test_stuck_detection :: bool where
  "test_stuck_detection =
     run_errs
       (with_config
         (default_config\<lparr>max_iterations := 20, stuck_threshold := 3, nudge_threshold := 2, max_tokens := None\<rparr>)
         (builder_new
           (mock_provider
             [call_response ''s1'' ''stuck_tool'' (JObject [(''x'', JNumber (PosInt 1))]) (tokens 5 2)])
           (mock_echo ''stuck_tool'')))
       (input_user_message ''msg-1'' ''go'') fresh_world
       (\<lambda>e. case e of StuckInLoop _ _ \<Rightarrow> True | _ \<Rightarrow> False)"

definition test_cancellation :: bool where
  "test_cancellation =
     run_errs
       (builder_new (mock_provider [call_response ''c1'' ''some_tool'' (JObject []) (tokens 5 2)])
         (mock_echo ''some_tool''))
       (input_user_message ''msg-1'' ''go'') (fresh_world\<lparr>mw_cancelled := True\<rparr>)
       (\<lambda>e. e = Cancelled)"

lemma limit_tests:
  "test_resume_with_tool_result" "test_max_iterations_exceeded" "test_stuck_detection" "test_cancellation"
  by code_simp+

end
