(* ===== verification/Actor_Tests.thy ===== *)
theory Actor_Tests
  imports File_Recovery
begin

text \<open>
  The unit tests of the actor crate (\<open>mod tests\<close> of \<open>journal.rs\<close>, \<open>file_journal.rs\<close> and
  \<open>runtime.rs\<close> under \<open>src/actor/src/\<close>), run on the model: a closed boolean definition per test,
  which states what the test asserts, and a lemma that evaluates it. A test's journal is the value
  its calls thread; a call it unwraps must succeed. The file tests take the codec, in place of
  base64 and JSON.
\<close>

subsection \<open>Journals\<close>

abbreviation test_pid :: "string \<Rightarrow> persistence_id" where
  "test_pid i \<equiv> mk_pid ''t'' i"

text \<open>\<open>drain\<close>: what a replay yields, every item unwrapped.\<close>

definition drain :: "('j, 'b) journal_ops \<Rightarrow> 'j \<Rightarrow> persistence_id \<Rightarrow> nat \<Rightarrow> 'b list option" where
  "drain J j p n = (case collect_results (jo_replay J j p n) of Inl _ \<Rightarrow> None | Inr bs \<Rightarrow> Some bs)"

text \<open>The calls of a test that it unwraps, in order.\<close>

fun all_ok :: "('j \<Rightarrow> 'j \<times> unit journal_result) list \<Rightarrow> 'j \<Rightarrow> 'j option" where
  "all_ok [] j = Some j"
| "all_ok (f # fs) j = (case f j of (j', Inr _) \<Rightarrow> all_ok fs j' | (_, Inl _) \<Rightarrow> None)"

definition after_ok ::
  "('j \<Rightarrow> 'j \<times> unit journal_result) list \<Rightarrow> 'j \<Rightarrow> ('j \<Rightarrow> bool) \<Rightarrow> bool" where
  "after_ok fs j check = (case all_ok fs j of None \<Rightarrow> False | Some j' \<Rightarrow> check j')"

abbreviation im_after :: "(bytes in_memory \<Rightarrow> bytes in_memory \<times> unit journal_result) list
    \<Rightarrow> (bytes in_memory \<Rightarrow> bool) \<Rightarrow> bool" where
  "im_after fs check \<equiv> after_ok fs (\<lambda>_. None) check"

abbreviation im_add :: "string \<Rightarrow> bytes list \<Rightarrow> bytes in_memory \<Rightarrow> bytes in_memory \<times> unit journal_result" where
  "im_add i bs j \<equiv> jo_persist in_memory_ops j (test_pid i) bs"

abbreviation im_drain :: "bytes in_memory \<Rightarrow> string \<Rightarrow> nat \<Rightarrow> bytes list option" where
  "im_drain j i n \<equiv> drain in_memory_ops j (test_pid i) n"

subsection \<open>The in-memory journal\<close>

definition persist_then_replay_returns_events_in_order :: bool where
  "persist_then_replay_returns_events_in_order =
     im_after [im_add ''a'' [[1], [2], [3]]] (\<lambda>j. im_drain j ''a'' 0 = Some [[1], [2], [3]])"

definition logs_are_namespaced_by_kind :: bool where
  "logs_are_namespaced_by_kind =
     im_after
       [\<lambda>j. jo_persist in_memory_ops j (mk_pid ''workflow'' ''x'') [[1]],
        \<lambda>j. jo_persist in_memory_ops j (mk_pid ''agent'' ''x'') [[2]]]
       (\<lambda>j. case (jo_replay in_memory_ops j (mk_pid ''workflow'' ''x'') 0,
                  jo_replay in_memory_ops j (mk_pid ''agent'' ''x'') 0) of
          (Inr b # _, Inr c # _) \<Rightarrow> b = [1] \<and> c = [2]
        | _ \<Rightarrow> False)"

definition in_memory_replay_skips_events :: bool where
  "in_memory_replay_skips_events =
     im_after [im_add ''a'' [[1], [2], [3]]] (\<lambda>j. im_drain j ''a'' 1 = Some [[2], [3]])"

definition snapshot_roundtrips_with_seq :: bool where
  "snapshot_roundtrips_with_seq =
     im_after [\<lambda>j. jo_save_snapshot in_memory_ops j (test_pid ''a'') [9, 9] 5]
       (\<lambda>j. jo_latest_snapshot in_memory_ops j (test_pid ''a'') = Inr (Some ([9, 9], 5)))"

definition delete_events_before_compacts :: bool where
  "delete_events_before_compacts =
     im_after
       [im_add ''a'' [[1], [2], [3]], \<lambda>j. jo_delete_events_before in_memory_ops j (test_pid ''a'') 2]
       (\<lambda>j. im_drain j ''a'' 0 = Some [[3]])"

definition persist_continues_numbering_after_compaction :: bool where
  "persist_continues_numbering_after_compaction =
     im_after
       [im_add ''a'' [[1], [2]], \<lambda>j. jo_delete_events_before in_memory_ops j (test_pid ''a'') 2,
        im_add ''a'' [[3]]]
       (\<lambda>j. im_drain j ''a'' 2 = Some [[3]])"

definition copy_snapshot_seeds_new_id :: bool where
  "copy_snapshot_seeds_new_id =
     im_after
       [im_add ''src'' [[1], [2]], \<lambda>j. jo_save_snapshot in_memory_ops j (test_pid ''src'') [7] 2,
        \<lambda>j. jo_copy_snapshot in_memory_ops j (test_pid ''src'') (test_pid ''dst'')]
       (\<lambda>j. jo_latest_snapshot in_memory_ops j (test_pid ''dst'') = Inr (Some ([7], 2)) \<and>
            im_drain j ''dst'' 2 = Some [] \<and>
            after_ok [im_add ''dst'' [[8]]] j (\<lambda>j'. im_drain j' ''dst'' 2 = Some [[8]]))"

definition copy_snapshot_without_source_errors :: bool where
  "copy_snapshot_without_source_errors =
     (case jo_copy_snapshot in_memory_ops (\<lambda>_. None :: bytes entry option)
             (test_pid ''missing'') (test_pid ''dst'') of
        (_, Inl (Backend _)) \<Rightarrow> True
      | _ \<Rightarrow> False)"

lemma in_memory_tests:
  persist_then_replay_returns_events_in_order logs_are_namespaced_by_kind
  in_memory_replay_skips_events snapshot_roundtrips_with_seq delete_events_before_compacts
  persist_continues_numbering_after_compaction copy_snapshot_seeds_new_id
  copy_snapshot_without_source_errors
  by code_simp+

subsection \<open>The file journal\<close>

definition no_files :: file_journal where
  "no_files = \<lparr>fj_files = (\<lambda>_. None), fj_faults = []\<rparr>"

abbreviation file_pid :: "string \<Rightarrow> persistence_id" where
  "file_pid i \<equiv> mk_pid ''test'' i"

abbreviation fj_after :: "(file_journal \<Rightarrow> file_journal \<times> unit journal_result) list
    \<Rightarrow> (file_journal \<Rightarrow> bool) \<Rightarrow> bool" where
  "fj_after fs check \<equiv> after_ok fs no_files check"

abbreviation fj_add ::
  "line_codec \<Rightarrow> string \<Rightarrow> bytes list \<Rightarrow> file_journal \<Rightarrow> file_journal \<times> unit journal_result" where
  "fj_add C i bs j \<equiv> jo_persist (file_ops C) j (file_pid i) bs"

abbreviation fj_drain :: "line_codec \<Rightarrow> file_journal \<Rightarrow> string \<Rightarrow> nat \<Rightarrow> bytes list option" where
  "fj_drain C j i n \<equiv> drain (file_ops C) j (file_pid i) n"

definition persist_then_replay_roundtrips_in_order :: "line_codec \<Rightarrow> bool" where
  "persist_then_replay_roundtrips_in_order C =
     fj_after [fj_add C ''r1'' [[1, 2], [3], [4, 5, 6]]]
       (\<lambda>j. fj_drain C j ''r1'' 0 = Some [[1, 2], [3], [4, 5, 6]])"

definition lays_out_under_actors_kind_id :: "line_codec \<Rightarrow> bool" where
  "lays_out_under_actors_kind_id C =
     fj_after
       [\<lambda>j. jo_persist (file_ops C) j (mk_pid ''workflow'' ''run1'') [[1]],
        \<lambda>j. jo_persist (file_ops C) j (mk_pid ''agent'' ''sess1'') [[2]]]
       (\<lambda>j. (\<forall>p \<in> {mk_pid ''workflow'' ''run1'', mk_pid ''agent'' ''sess1''}. fj_files j p \<noteq> None) \<and>
            journal_path ''dir'' (mk_pid ''workflow'' ''run1'') = ''dir/actors/workflow/run1/journal.jsonl'' \<and>
            journal_path ''dir'' (mk_pid ''agent'' ''sess1'') = ''dir/actors/agent/sess1/journal.jsonl'')"

definition file_replay_skips_events :: "line_codec \<Rightarrow> bool" where
  "file_replay_skips_events C =
     fj_after [fj_add C ''r1'' [[1]], fj_add C ''r1'' [[2], [3]]]
       (\<lambda>j. fj_drain C j ''r1'' 1 = Some [[2], [3]] \<and> fj_drain C j ''r1'' 2 = Some [[3]])"

definition append_across_calls_keeps_sequence :: "line_codec \<Rightarrow> bool" where
  "append_across_calls_keeps_sequence C =
     fj_after [fj_add C ''r1'' [[1]], fj_add C ''r1'' [[2], [3]]]
       (\<lambda>j. fj_drain C j ''r1'' 0 = Some [[1], [2], [3]])"

definition snapshots_are_noop_replay_is_full :: "line_codec \<Rightarrow> bool" where
  "snapshots_are_noop_replay_is_full C =
     fj_after [fj_add C ''r1'' [[1], [2]], \<lambda>j. jo_save_snapshot (file_ops C) j (file_pid ''r1'') [9, 9] 2]
       (\<lambda>j. jo_latest_snapshot (file_ops C) j (file_pid ''r1'') = Inr None \<and>
            after_ok [\<lambda>j. jo_delete_events_before (file_ops C) j (file_pid ''r1'') 2] j
              (\<lambda>j'. fj_drain C j' ''r1'' 0 = Some [[1], [2]]))"

definition empty_batch_writes_nothing :: "line_codec \<Rightarrow> bool" where
  "empty_batch_writes_nothing C =
     fj_after [fj_add C ''r1'' []] (\<lambda>j. fj_drain C j ''r1'' 0 = Some [])"

text \<open>Bytes appended behind the journal's back, without a newline.\<close>

definition torn_trailing_batch_is_dropped_whole :: "line_codec \<Rightarrow> bool" where
  "torn_trailing_batch_is_dropped_whole C =
     fj_after [fj_add C ''r1'' [[1], [2]]]
       (\<lambda>j. fj_drain C (append_file j (file_pid ''r1'') ''c29tZS1wYXJ0aWFs'') ''r1'' 0 = Some [[1], [2]])"

definition garbage_trailing_line_is_ignored :: "line_codec \<Rightarrow> bool" where
  "garbage_trailing_line_is_ignored C =
     fj_after [fj_add C ''r1'' [[7]]]
       (\<lambda>j. fj_drain C (append_file j (file_pid ''r1'') ''!!!not base64!!!'') ''r1'' 0 = Some [[7]])"

definition replay_missing_file_is_empty :: "line_codec \<Rightarrow> bool" where
  "replay_missing_file_is_empty C \<longleftrightarrow> fj_drain C no_files ''ghost'' 0 = Some []"

definition clear_removes_log :: "line_codec \<Rightarrow> bool" where
  "clear_removes_log C =
     fj_after [fj_add C ''r1'' [[1]], \<lambda>j. jo_clear (file_ops C) j (file_pid ''r1'')]
       (\<lambda>j. fj_drain C j ''r1'' 0 = Some [] \<and> after_ok [\<lambda>j. jo_clear (file_ops C) j (file_pid ''r1'')] j (\<lambda>_. True))"

definition handles_binary_payload_with_newline_bytes :: "line_codec \<Rightarrow> bool" where
  "handles_binary_payload_with_newline_bytes C =
     (let payload = [97, 10, 98, 0, 255, 10]
      in fj_after [fj_add C ''r1'' [payload]] (\<lambda>j. fj_drain C j ''r1'' 0 = Some [payload]))"

text \<open>They hold for every codec with the laws, base64 and JSON among them.\<close>

lemma drain_text:
  assumes "codec_laws C" and "newline \<notin> set t" and "file_content j p = lines_text C batches @ t"
  shows "drain (file_ops C) j p n = Some (drop n (concat batches))"
  using decode_after_text [OF assms] by (simp add: drain_def file_ops_def)

lemma drain_written:
  assumes "codec_laws C"
  shows "drain (file_ops C) (append_file no_files p (lines_text C bs)) p n = Some (drop n (concat bs))"
    and "newline \<notin> set t \<Longrightarrow>
      drain (file_ops C) (append_file no_files p (lines_text C bs @ t)) p n = Some (drop n (concat bs))"
    and "drain (file_ops C) no_files p n = Some []"
  using drain_text [OF assms, of "[]" "append_file no_files p (lines_text C bs)" p bs n]
    drain_text [OF assms, of t "append_file no_files p (lines_text C bs @ t)" p bs n]
    drain_text [OF assms, of "[]" no_files p "[]" n]
  by (simp_all add: file_content_def no_files_def append_file_def lines_text_def)

lemma append_file_simps [simp]:
  "append_file (append_file j p s) p t = append_file j p (s @ t)"
  "lines_text C bs @ lines_text C cs = lines_text C (bs @ cs)"
  "fj_faults no_files = []" "fj_faults (append_file j p t) = fj_faults j"
  "fj_files (append_file j p t) q = (if q = p then Some (file_content j p @ t) else fj_files j q)"
  by (simp_all add: append_file_def file_content_def lines_text_def no_files_def)

lemma fj_persist_no_fault:
  "fj_faults j = [] \<Longrightarrow>
     fj_persist C j p bs = (if bs = [] then j else append_file j p (lines_text C [bs]), Inr ())"
  by (simp add: fj_persist_def next_write_def lines_text_def)

lemma fj_clear_written [simp]:
  "fj_clear (append_file no_files p t) p = (no_files, Inr ())" "fj_clear no_files p = (no_files, Inr ())"
  by (simp_all add: fj_clear_def append_file_def no_files_def)

lemma file_journal_tests:
  assumes C: "codec_laws C"
  shows
    "persist_then_replay_roundtrips_in_order C"
    and "lays_out_under_actors_kind_id C"
    and "file_replay_skips_events C"
    and "append_across_calls_keeps_sequence C"
    and "snapshots_are_noop_replay_is_full C"
    and "empty_batch_writes_nothing C"
    and "torn_trailing_batch_is_dropped_whole C"
    and "garbage_trailing_line_is_ignored C"
    and "replay_missing_file_is_empty C"
    and "clear_removes_log C"
    and "handles_binary_payload_with_newline_bytes C"
  unfolding persist_then_replay_roundtrips_in_order_def
    lays_out_under_actors_kind_id_def file_replay_skips_events_def
    append_across_calls_keeps_sequence_def
    snapshots_are_noop_replay_is_full_def
    empty_batch_writes_nothing_def
    torn_trailing_batch_is_dropped_whole_def
    garbage_trailing_line_is_ignored_def
    replay_missing_file_is_empty_def
    clear_removes_log_def
    handles_binary_payload_with_newline_bytes_def
  by (simp_all add: after_ok_def file_ops_def [of C] fj_persist_no_fault
      drain_written [OF C, unfolded file_ops_def] newline_def
      journal_path_def mk_pid_def join_path_def)

subsection \<open>The actor runtime\<close>

text \<open>
  The actor \<open>Counter\<close>: its increments are events, \<open>Get\<close> sends the value, and on recovery it
  reports the value once when it was given a channel to. What it sends is its output.
\<close>

record counter =
  ct_id :: string
  ct_report :: bool

datatype counter_cmd = Inc u64 | TakeSnapshot | Get | StopCounter

datatype counter_event = Incremented u64

datatype counter_blob = EventBlob counter_event | StateBlob u64

definition counter_handle ::
  "counter \<Rightarrow> u64 \<Rightarrow> counter_cmd \<Rightarrow> 'j \<Rightarrow> counter \<times> 'j \<times> u64 list \<times> counter_event command_effect" where
  "counter_handle a s c j =
     (case c of
        Inc n \<Rightarrow> (a, j, [], Persist [Incremented n])
      | TakeSnapshot \<Rightarrow> (a, j, [], Snapshot)
      | Get \<Rightarrow> (a, j, [s], EffNone)
      | StopCounter \<Rightarrow> (a, j, [], Stop))"

definition counter_recovered :: "counter \<Rightarrow> u64 \<Rightarrow> counter \<times> u64 list" where
  "counter_recovered a s = (if ct_report a then (a\<lparr>ct_report := False\<rparr>, [s]) else (a, []))"

definition counter_ops :: "(counter, u64, counter_cmd, counter_event, 'j, u64) actor_ops" where
  "counter_ops =
     \<lparr>ao_persistence_id = (\<lambda>a. mk_pid ''counter'' (ct_id a)), ao_initial_state = 0,
      ao_apply_event = (\<lambda>s ev. case ev of Incremented n \<Rightarrow> s + n),
      ao_handle_command = counter_handle, ao_on_recovery_complete = counter_recovered\<rparr>"

definition counter_codec :: "(counter_event, u64, counter_blob) codec" where
  "counter_codec =
     \<lparr>ser_event = (\<lambda>ev. Inr (EventBlob ev)),
      de_event = (\<lambda>b. case b of EventBlob ev \<Rightarrow> Inr ev | StateBlob _ \<Rightarrow> Inl ''not an event''),
      ser_state = (\<lambda>s. Inr (StateBlob s)),
      de_state = (\<lambda>b. case b of StateBlob s \<Rightarrow> Inr s | EventBlob _ \<Rightarrow> Inl ''not a state'')\<rparr>"

text \<open>\<open>spawn_root\<close> on a shared in-memory journal, and the commands the test tells.\<close>

definition spawn_counter ::
  "counter \<Rightarrow> counter_blob in_memory \<Rightarrow> counter_cmd list \<Rightarrow> (u64 list \<times> counter_blob in_memory) option" where
  "spawn_counter a j cmds =
     (case run_actor in_memory_ops counter_ops counter_codec a j cmds of
        Inl _ \<Rightarrow> None
      | Inr l \<Rightarrow> Some (lv_out l, lv_journal l))"

abbreviation quiet :: "string \<Rightarrow> counter" where
  "quiet i \<equiv> \<lparr>ct_id = i, ct_report = False\<rparr>"

abbreviation reporting :: "string \<Rightarrow> counter" where
  "reporting i \<equiv> \<lparr>ct_id = i, ct_report = True\<rparr>"

definition persists_and_applies_events :: bool where
  "persists_and_applies_events =
     (case spawn_counter (quiet ''c1'') (\<lambda>_. None) [Inc 3, Inc 4, Get] of
        Some (out, _) \<Rightarrow> out = [7]
      | None \<Rightarrow> False)"

definition recovers_state_from_event_log_after_restart :: bool where
  "recovers_state_from_event_log_after_restart =
     (case spawn_counter (quiet ''c2'') (\<lambda>_. None) [Inc 5, Inc 10, Get, StopCounter] of
        Some (out, j) \<Rightarrow>
          out = [15] \<and>
          (case spawn_counter (reporting ''c2'') j [] of Some (out', _) \<Rightarrow> out' = [15] | None \<Rightarrow> False)
      | None \<Rightarrow> False)"

definition recovers_from_snapshot_after_compaction :: bool where
  "recovers_from_snapshot_after_compaction =
     (case spawn_counter (quiet ''c3'') (\<lambda>_. None) [Inc 2, Inc 2, TakeSnapshot, Inc 1, Get, StopCounter] of
        Some (out, j) \<Rightarrow>
          out = [5] \<and>
          map_option length (drain in_memory_ops j (mk_pid ''counter'' ''c3'') 0) = Some 1 \<and>
          (case spawn_counter (reporting ''c3'') j [] of Some (out', _) \<Rightarrow> out' = [5] | None \<Rightarrow> False)
      | None \<Rightarrow> False)"

text \<open>
  \<open>Parent\<close> spawns a counter and forwards to it. What a handler does through its context is its
  output: a child spawned, a command told to it. The child runs on the same journal, its mailbox
  the commands told, in order.
\<close>

datatype parent_cmd = Start | ChildValue

datatype parent_out = SpawnChild counter | TellChild counter_cmd

definition parent_handle ::
  "counter option \<Rightarrow> unit \<Rightarrow> parent_cmd \<Rightarrow> 'j
     \<Rightarrow> counter option \<times> 'j \<times> parent_out list \<times> unit command_effect" where
  "parent_handle child s c j =
     (case c of
        Start \<Rightarrow> (Some (quiet ''child''), j, [SpawnChild (quiet ''child''), TellChild (Inc 42)], EffNone)
      | ChildValue \<Rightarrow> (child, j, if child = None then [] else [TellChild Get], EffNone))"

definition parent_ops :: "(counter option, unit, parent_cmd, unit, 'j, parent_out) actor_ops" where
  "parent_ops =
     \<lparr>ao_persistence_id = (\<lambda>_. mk_pid ''parent'' ''parent''), ao_initial_state = (),
      ao_apply_event = (\<lambda>s _. s), ao_handle_command = parent_handle,
      ao_on_recovery_complete = (\<lambda>a s. (a, []))\<rparr>"

definition parent_codec :: "(unit, unit, counter_blob) codec" where
  "parent_codec =
     \<lparr>ser_event = (\<lambda>_. Inl ''unused''), de_event = (\<lambda>_. Inl ''unused''),
      ser_state = (\<lambda>_. Inl ''unused''), de_state = (\<lambda>_. Inl ''unused'')\<rparr>"

fun children :: "parent_out list \<Rightarrow> counter list" where
  "children [] = []"
| "children (SpawnChild a # os) = a # children os"
| "children (TellChild _ # os) = children os"

fun told :: "parent_out list \<Rightarrow> counter_cmd list" where
  "told [] = []"
| "told (SpawnChild _ # os) = told os"
| "told (TellChild c # os) = c # told os"

definition spawned_child_recovers_independently :: bool where
  "spawned_child_recovers_independently =
     (case run_actor in_memory_ops parent_ops parent_codec None (\<lambda>_. None) [Start, ChildValue] of
        Inr l \<Rightarrow>
          (case children (lv_out l) of
             [child] \<Rightarrow>
               (case spawn_counter child (lv_journal l) (told (lv_out l)) of
                  Some (out, _) \<Rightarrow> out = [42]
                | None \<Rightarrow> False)
           | _ \<Rightarrow> False)
      | Inl _ \<Rightarrow> False)"

lemma runtime_tests:
  persists_and_applies_events recovers_state_from_event_log_after_restart
  recovers_from_snapshot_after_compaction spawned_child_recovers_independently
  by code_simp+

text \<open>
  More than the test asserts: the counter satisfies the contract of an event-sourced actor, so every
  sequence of its commands recovers.
\<close>

interpretation counter: actor_contract in_memory_ops im_ok im_view counter_ops counter_codec p for p
proof
  fix a :: counter and s :: u64 and c :: counter_cmd and j :: "counter_blob in_memory" and a' j' out eff
  assume "im_ok j" and "ao_handle_command counter_ops a s c j = (a', j', out, eff)"
  then show "im_ok j' \<and> im_view j' p = im_view j p"
    by (cases c) (auto simp: counter_ops_def counter_handle_def)
qed (auto simp: counter_codec_def)

end
