(* ===== verification/Config_Json.thy ===== *)
theory Config_Json
  imports Config
begin

text \<open>
  The configuration file as JSON: what the derived \<open>Deserialize\<close> of the structs in
  \<open>src/cli/src/config.rs\<close> makes of a value, attribute by attribute. A field that may be absent has a
  default; one that is there twice, or of another type, is an error; one the struct does not name is
  ignored. A struct may also be an array of its fields in order, as \<open>serde_json\<close> reads it. The text of
  an error is not modelled: a decoder returns \<open>None\<close>. An object is the list of its entries.
\<close>

subsection \<open>Fields\<close>

definition field :: "(string \<times> json) list \<Rightarrow> string \<Rightarrow> (json \<Rightarrow> 'a option) \<Rightarrow> 'a option \<Rightarrow> 'a option" where
  "field kvs k d absent =
     (case filter (\<lambda>(k', _). k' = k) kvs of
        [] \<Rightarrow> absent
      | [(_, v)] \<Rightarrow> d v
      | _ \<Rightarrow> None)"

definition struct_fields :: "string list \<Rightarrow> json \<Rightarrow> (string \<times> json) list option" where
  "struct_fields names v =
     (case v of
        JObject kvs \<Rightarrow> Some kvs
      | JArray vs \<Rightarrow> if length vs \<le> length names then Some (zip names vs) else None
      | _ \<Rightarrow> None)"

definition de_option :: "(json \<Rightarrow> 'a option) \<Rightarrow> json \<Rightarrow> 'a option option" where
  "de_option d v = (case v of JNull \<Rightarrow> Some None | _ \<Rightarrow> map_option Some (d v))"

definition de_u32 :: "json \<Rightarrow> u32 option" where
  "de_u32 v =
     (case json_as_u64 v of
        Some n \<Rightarrow> if n < 0x100000000 then Some (ucast n) else None
      | None \<Rightarrow> None)"

text \<open>A \<open>HashMap\<close>: a later entry of a key replaces the earlier one.\<close>

fun de_entries :: "(json \<Rightarrow> 'a option) \<Rightarrow> (string \<times> json) list \<Rightarrow> (string \<times> 'a) list option" where
  "de_entries d [] = Some []"
| "de_entries d ((k, v) # kvs) =
     (case (d v, de_entries d kvs) of
        (Some x, Some xs) \<Rightarrow> Some (if k \<in> fst ` set xs then xs else (k, x) # xs)
      | _ \<Rightarrow> None)"

definition de_map :: "(json \<Rightarrow> 'a option) \<Rightarrow> json \<Rightarrow> (string \<times> 'a) list option" where
  "de_map d v = (case v of JObject kvs \<Rightarrow> de_entries d kvs | _ \<Rightarrow> None)"

subsection \<open>The configuration\<close>

text \<open>\<open>ProviderConfig\<close>, tagged by its \<open>type\<close>.\<close>

definition de_provider_config :: "json \<Rightarrow> provider_config option" where
  "de_provider_config v =
     (case struct_fields [''type'', ''api_key'', ''api_key_env'', ''base_url''] v of
        None \<Rightarrow> None
      | Some kvs \<Rightarrow>
          (case (field kvs ''type'' json_as_str None,
                 field kvs ''api_key'' (de_option json_as_str) (Some None),
                 field kvs ''api_key_env'' (de_option json_as_str) (Some None),
                 field kvs ''base_url'' (de_option json_as_str) (Some None)) of
             (Some t, Some key, Some var, Some url) \<Rightarrow>
               if t = ''anthropic'' then Some (AnthropicConfig key var url) else None
           | _ \<Rightarrow> None))"

definition de_model_config :: "json \<Rightarrow> model_config option" where
  "de_model_config v =
     (case struct_fields [''provider'', ''model_id'', ''max_tokens''] v of
        None \<Rightarrow> None
      | Some kvs \<Rightarrow>
          (case (field kvs ''provider'' json_as_str None, field kvs ''model_id'' json_as_str None,
                 field kvs ''max_tokens'' (de_option de_u32) (Some None)) of
             (Some p, Some m, Some t) \<Rightarrow> Some \<lparr>mc_provider = p, mc_model_id = m, mc_max_tokens = t\<rparr>
           | _ \<Rightarrow> None))"

definition de_sandbox_config :: "json \<Rightarrow> string option option" where
  "de_sandbox_config v =
     Option.bind (struct_fields [''capabilities_file''] v)
       (\<lambda>kvs. field kvs ''capabilities_file'' (de_option json_as_str) (Some None))"

definition de_storage_config :: "(string \<Rightarrow> string option) \<Rightarrow> json \<Rightarrow> storage_config option" where
  "de_storage_config env v =
     (case struct_fields [''state_dir'', ''data_dir''] v of
        None \<Rightarrow> None
      | Some kvs \<Rightarrow>
          (case (field kvs ''state_dir'' json_as_str (Some (default_state_dir env)),
                 field kvs ''data_dir'' json_as_str (Some (default_data_dir env))) of
             (Some s, Some d) \<Rightarrow> Some \<lparr>st_state_dir = s, st_data_dir = d\<rparr>
           | _ \<Rightarrow> None))"

definition de_runtime_config :: "json \<Rightarrow> string option option" where
  "de_runtime_config v =
     Option.bind (struct_fields [''bin''] v)
       (\<lambda>kvs. field kvs ''bin'' (de_option json_as_str) (Some None))"

definition config_of_json :: "(string \<Rightarrow> string option) \<Rightarrow> json \<Rightarrow> october_config option" where
  "config_of_json env v =
     (let dflt = october_default_config env
      in case struct_fields [''providers'', ''models'', ''sandbox'', ''storage'', ''runtime''] v of
           None \<Rightarrow> None
         | Some kvs \<Rightarrow>
             (case (field kvs ''providers'' (de_map de_provider_config) (Some []),
                    field kvs ''models'' (de_map de_model_config) (Some []),
                    field kvs ''sandbox'' de_sandbox_config (Some None),
                    field kvs ''storage'' (de_storage_config env) (Some (oc_storage dflt)),
                    field kvs ''runtime'' de_runtime_config (Some None)) of
                (Some ps, Some ms, Some caps, Some st, Some bin) \<Rightarrow>
                  Some \<lparr>oc_providers = ps, oc_models = ms, oc_capabilities_file = caps,
                        oc_storage = st, oc_runtime_bin = bin\<rparr>
              | _ \<Rightarrow> None))"

subsection \<open>What a file decodes to\<close>

text \<open>Keys the program does not know are ignored, and a file that says nothing is the default.\<close>

lemma field_other: "k' \<noteq> k \<Longrightarrow> field ((k', v) # kvs) k d absent = field kvs k d absent"
  by (simp add: field_def)

lemma field_absent [simp]: "k \<notin> fst ` set kvs \<Longrightarrow> field kvs k d absent = absent"
  by (induction kvs) (auto simp: field_def filter_empty_conv split: list.splits)

lemma unknown_key_ignored:
  assumes "k \<notin> {''providers'', ''models'', ''sandbox'', ''storage'', ''runtime''}"
  shows "config_of_json env (JObject ((k, v) # kvs)) = config_of_json env (JObject kvs)"
  using assms by (simp add: config_of_json_def struct_fields_def field_other)

lemma empty_file_is_default: "config_of_json env (JObject []) = Some (october_default_config env)"
  by (simp add: config_of_json_def struct_fields_def october_default_config_def)

text \<open>The models of a file have distinct keys, as a \<open>HashMap\<close>'s do.\<close>

lemma de_entries_distinct: "de_entries d kvs = Some xs \<Longrightarrow> distinct (map fst xs)"
  by (induction d kvs arbitrary: xs rule: de_entries.induct) (auto split: option.splits if_splits)

lemma field_map_distinct:
  "field kvs k (de_map d) (Some []) = Some xs \<Longrightarrow> distinct (map fst xs)"
  by (auto simp: field_def de_map_def dest: de_entries_distinct split: list.splits json.splits)

lemma config_of_json_distinct:
  "config_of_json env v = Some c \<Longrightarrow> distinct (map fst (oc_models c)) \<and> distinct (map fst (oc_providers c))"
  by (auto simp: config_of_json_def Let_def dest: field_map_distinct split: option.splits)

end
