(* ===== verification/Cli_Tests.thy ===== *)
theory Cli_Tests
  imports Config_Json Daemon
begin

text \<open>
  The unit tests of the command line (\<open>mod tests\<close> of \<open>config.rs\<close>, \<open>capabilities.rs\<close>, \<open>validate.rs\<close> and
  \<open>daemon/protocol.rs\<close> under \<open>src/cli/src/\<close>), run on the model: a closed boolean definition per test and
  a lemma that evaluates it. A JSON text is the value it stands for; where a test writes a file, the
  host of the model holds it. What depends on a crate that is a parameter takes it as an argument.
\<close>

subsection \<open>Configurations\<close>

text \<open>A process without the environment variables of the XDG directories.\<close>

definition bare_env :: "string \<Rightarrow> string option" where
  "bare_env = (\<lambda>_. None)"

definition parse_config :: "json \<Rightarrow> october_config option" where
  "parse_config = config_of_json bare_env"

definition parses_to :: "json \<Rightarrow> (october_config \<Rightarrow> bool) \<Rightarrow> bool" where
  "parses_to v check = (case parse_config v of None \<Rightarrow> False | Some c \<Rightarrow> check c)"

abbreviation str_fields :: "(string \<times> string) list \<Rightarrow> json" where
  "str_fields kvs \<equiv> JObject (map (\<lambda>(k, s). (k, JString s)) kvs)"

definition parses_sample_config :: bool where
  "parses_sample_config =
     parses_to
       (JObject
         [(''providers'', JObject [(''anthropic'', str_fields
             [(''type'', ''anthropic''), (''api_key_env'', ''ANTHROPIC_API_KEY''),
              (''base_url'', ''https://api.anthropic.com'')])]),
          (''models'', JObject [(''sonnet'', JObject
             [(''provider'', JString ''anthropic''), (''model_id'', JString ''claude-sonnet-4-6''),
              (''max_tokens'', JNumber (PosInt 8192))])]),
          (''sandbox'', JObject [(''capabilities_file'', JNull)]),
          (''storage'', str_fields [(''state_dir'', ''/var/state''), (''data_dir'', ''/var/data'')])])
       (\<lambda>c. map_of (oc_providers c) ''anthropic'' \<noteq> None \<and>
            map_option mc_model_id (map_of (oc_models c) ''sonnet'') = Some ''claude-sonnet-4-6'' \<and>
            st_state_dir (oc_storage c) = ''/var/state'' \<and> st_data_dir (oc_storage c) = ''/var/data'')"

text \<open>The providers and the model that the short configurations share.\<close>

definition one_model :: "(string \<times> string) list \<Rightarrow> (string \<times> json) list" where
  "one_model provider =
     [(''providers'', JObject [(''p'', str_fields ((''type'', ''anthropic'') # provider))]),
      (''models'', JObject [(''m'', str_fields [(''provider'', ''p''), (''model_id'', ''id'')])])]"

definition inline_api_key_builds_registry_without_env :: "('h, 'c) client_builder \<Rightarrow> bool" where
  "inline_api_key_builds_registry_without_env B =
     parses_to (JObject (one_model [(''api_key'', ''sk-inline''), (''base_url'', ''http://localhost:1'')]))
       (\<lambda>c. case build_registry B bare_env c of Inr reg \<Rightarrow> reg ''m'' \<noteq> None | Inl _ \<Rightarrow> False)"

definition empty_inline_api_key_is_rejected :: "('h, 'c) client_builder \<Rightarrow> bool" where
  "empty_inline_api_key_is_rejected B =
     parses_to (JObject (one_model [(''api_key'', '''')])) (\<lambda>c. \<not> is_ok (build_registry B bare_env c))"

definition parses_sandbox_capabilities_file :: bool where
  "parses_sandbox_capabilities_file =
     parses_to
       (JObject (one_model [(''base_url'', ''http://localhost:1'')] @
         [(''sandbox'', str_fields [(''capabilities_file'', ''/etc/october/caps.json'')])]))
       (\<lambda>c. oc_capabilities_file c = Some ''/etc/october/caps.json'')"

definition capabilities_file_defaults_to_none :: bool where
  "capabilities_file_defaults_to_none =
     parses_to (JObject (one_model [(''base_url'', ''http://localhost:1'')])) (\<lambda>c. oc_capabilities_file c = None)"

definition parses_runtime_bin :: bool where
  "parses_runtime_bin =
     parses_to (JObject [(''runtime'', str_fields [(''bin'', ''/opt/october/october-runtime'')])])
       (\<lambda>c. oc_runtime_bin c = Some ''/opt/october/october-runtime'')"

definition runtime_bin_defaults_to_none :: bool where
  "runtime_bin_defaults_to_none = parses_to (JObject []) (\<lambda>c. oc_runtime_bin c = None)"

definition default_config_is_empty_but_valid :: "(string \<Rightarrow> string option) \<Rightarrow> bool" where
  "default_config_is_empty_but_valid env =
     (let c = october_default_config env
      in oc_providers c = [] \<and> oc_models c = [] \<and> oc_capabilities_file c = None \<and>
         st_state_dir (oc_storage c) \<noteq> st_data_dir (oc_storage c))"

definition parses_config_with_no_providers_or_models :: bool where
  "parses_config_with_no_providers_or_models =
     parses_to (JObject []) (\<lambda>c. oc_providers c = [] \<and> oc_models c = [])"

definition storage_and_sandbox_default_when_absent :: bool where
  "storage_and_sandbox_default_when_absent =
     parses_to
       (JObject
         [(''providers'', JObject [(''m'', str_fields [(''type'', ''anthropic''), (''base_url'', ''http://localhost:1'')])]),
          (''models'', JObject [(''x'', str_fields [(''provider'', ''m''), (''model_id'', ''id'')])])])
       (\<lambda>c. st_state_dir (oc_storage c) \<noteq> st_data_dir (oc_storage c) \<and> oc_capabilities_file c = None \<and>
            map_option mc_max_tokens (map_of (oc_models c) ''x'') = Some None)"

lemma config_parse_tests:
  parses_sample_config parses_sandbox_capabilities_file capabilities_file_defaults_to_none
  parses_runtime_bin runtime_bin_defaults_to_none parses_config_with_no_providers_or_models
  storage_and_sandbox_default_when_absent
  by code_simp+

definition user_config_path_prefers_xdg :: bool where
  "user_config_path_prefers_xdg \<longleftrightarrow>
     user_config_path_from (Some ''/xdg'') (Some ''/home/u'') = Some ''/xdg/october/config.json''"

definition user_config_path_falls_back_to_home_dot_config :: bool where
  "user_config_path_falls_back_to_home_dot_config =
     list_all (\<lambda>xdg. user_config_path_from xdg (Some ''/home/u'') = Some ''/home/u/.config/october/config.json'')
       [None, Some []]"

definition user_config_path_none_without_env :: bool where
  "user_config_path_none_without_env \<longleftrightarrow>
     user_config_path_from None None = None \<and> user_config_path_from (Some []) None = None"

definition storage_dir_prefers_xdg :: bool where
  "storage_dir_prefers_xdg \<longleftrightarrow>
     storage_dir_from (Some ''/xdg/state'') (Some ''/home/u'') ''.local/state'' ''state'' = ''/xdg/state/october'' \<and>
     storage_dir_from (Some ''/xdg/data'') (Some ''/home/u'') ''.local/share'' ''data'' = ''/xdg/data/october''"

definition storage_dir_falls_back_to_home :: bool where
  "storage_dir_falls_back_to_home \<longleftrightarrow>
     list_all (\<lambda>xdg. storage_dir_from xdg (Some ''/home/u'') ''.local/state'' ''state'' = ''/home/u/.local/state/october'')
       [None, Some []] \<and>
     storage_dir_from None (Some ''/home/u'') ''.local/share'' ''data'' = ''/home/u/.local/share/october''"

definition storage_dir_falls_back_to_relative_without_env :: bool where
  "storage_dir_falls_back_to_relative_without_env =
     (let state = storage_dir_from None None ''.local/state'' ''state'';
          data = storage_dir_from (Some []) (Some []) ''.local/share'' ''data''
      in state = ''./.october/state'' \<and> data = ''./.october/data'' \<and> state \<noteq> data)"

lemma config_path_tests:
  user_config_path_prefers_xdg user_config_path_falls_back_to_home_dot_config
  user_config_path_none_without_env storage_dir_prefers_xdg storage_dir_falls_back_to_home
  storage_dir_falls_back_to_relative_without_env "default_config_is_empty_but_valid bare_env"
  by code_simp+

text \<open>
  Only without XDG variables: when both name one directory, the state and the data directory are
  the same, although the test's comment has them always apart.
\<close>

lemma storage_dirs_coincide:
  assumes "env ''XDG_STATE_HOME'' = Some x" "env ''XDG_DATA_HOME'' = Some x" "x \<noteq> []"
  shows "default_state_dir env = default_data_dir env"
  using assms by (simp add: default_state_dir_def default_data_dir_def storage_dir_from_def)

definition one_model_config :: "provider_config \<Rightarrow> october_config" where
  "one_model_config p =
     (october_default_config bare_env)
       \<lparr>oc_providers := [(''p'', p)],
        oc_models := [(''m'', \<lparr>mc_provider = ''p'', mc_model_id = ''id'', mc_max_tokens = None\<rparr>)]\<rparr>"

lemma one_model_parses:
  "parse_config (JObject (one_model [(''api_key'', ''sk-inline''), (''base_url'', ''http://localhost:1'')])) =
     Some (one_model_config (AnthropicConfig (Some ''sk-inline'') None (Some ''http://localhost:1'')))"
  "parse_config (JObject (one_model [(''api_key'', [])])) =
     Some (one_model_config (AnthropicConfig (Some []) None None))"
  by code_simp+

lemma registry_tests:
  assumes "cb_http B [] = Inr h" and "\<And>u k. \<exists>c. cb_client B h u k = Inr c"
  shows "inline_api_key_builds_registry_without_env B" and "empty_inline_api_key_is_rejected B"
proof -
  obtain c where "\<And>u k. cb_client B h u k = Inr (c u k)" using assms(2) by metis
  with assms(1) show "inline_api_key_builds_registry_without_env B"
    by (simp add: inline_api_key_builds_registry_without_env_def parses_to_def one_model_parses one_model_config_def
        build_registry_def build_provider_def resolve_key_def with_api_key_def anthropic_with_key_def
        build_client_def Let_def)
  show "empty_inline_api_key_is_rejected B"
    by (simp add: empty_inline_api_key_is_rejected_def parses_to_def one_model_parses one_model_config_def
        build_registry_def build_provider_def resolve_key_def)
qed

subsection \<open>Files\<close>

text \<open>A host that holds the given files; the text of a file is its name, which parses to its value.\<close>

definition json_host :: "(string \<times> json) list \<Rightarrow> cli_host" where
  "json_host files =
     \<lparr>ch_read = (\<lambda>p. if map_of files p = None then Inl ''No such file or directory (os error 2)'' else Inr p),
      ch_exists = (\<lambda>p. map_of files p \<noteq> None), ch_env = bare_env,
      ch_parse_config = (\<lambda>t. case Option.bind (map_of files t) parse_config of
                            None \<Rightarrow> Inl ''invalid config'' | Some c \<Rightarrow> Inr c),
      ch_parse_workflow = (\<lambda>_. Inl ''not a workflow''), ch_parse_caps = (\<lambda>_. Inl ''not a capability file'')\<rparr>"

definition one_model_file :: "string \<Rightarrow> json" where
  "one_model_file key =
     JObject [(''models'', JObject [(key, str_fields [(''provider'', ''p''), (''model_id'', ''id'')])])]"

definition has_model :: "string \<Rightarrow> (cli_error, october_config) result \<Rightarrow> bool" where
  "has_model key r = (case r of Inr c \<Rightarrow> map_of (oc_models c) key \<noteq> None | Inl _ \<Rightarrow> False)"

definition resolve_loads_explicit_path :: bool where
  "resolve_loads_explicit_path =
     has_model ''m'' (config_resolve (json_host [(''/tmp/cfg.json'', one_model_file ''m'')]) (Some ''/tmp/cfg.json''))"

definition resolve_errors_on_missing_explicit_path :: bool where
  "resolve_errors_on_missing_explicit_path \<longleftrightarrow> \<not> is_ok (config_resolve (json_host []) (Some ''/tmp/nope.json''))"

definition resolve_with_loads_existing_user_config :: bool where
  "resolve_with_loads_existing_user_config =
     has_model ''u'' (resolve_with (json_host [(''/tmp/user.json'', one_model_file ''u'')]) None (Some ''/tmp/user.json''))"

definition resolve_with_defaults_when_user_config_absent :: bool where
  "resolve_with_defaults_when_user_config_absent \<longleftrightarrow>
     (case resolve_with (json_host []) None (Some ''/tmp/absent.json'') of
        Inr c \<Rightarrow> oc_providers c = [] \<and> oc_models c = []
      | Inl _ \<Rightarrow> False) \<and>
     (case resolve_with (json_host []) None None of Inr c \<Rightarrow> oc_models c = [] | Inl _ \<Rightarrow> False)"

lemma config_file_tests:
  resolve_loads_explicit_path resolve_errors_on_missing_explicit_path
  resolve_with_loads_existing_user_config resolve_with_defaults_when_user_config_absent
  by code_simp+

subsection \<open>Capabilities\<close>

text \<open>\<open>capabilities/default.linux.json\<close>, as the value its text stands for.\<close>

definition default_linux_caps :: capability_spec where
  "default_linux_caps =
     \<lparr>cs_network = Block,
      cs_grants =
        [DirGrant ''/usr'' Read, DirGrant ''/bin'' Read, DirGrant ''/sbin'' Read, DirGrant ''/lib'' Read,
         DirGrant ''/lib64'' Read, DirGrant ''/etc'' Read, DirGrant ''/opt'' Read, DirGrant ''/proc'' Read,
         WorkingDirGrant ReadWrite, FileGrant ''/dev/null'' ReadWrite, FileGrant ''/dev/zero'' Read,
         FileGrant ''/dev/urandom'' Read, FileGrant ''/dev/random'' Read, FileGrant ''/dev/tty'' ReadWrite]\<rparr>"

text \<open>The built-in default on Linux, for a parser that reads the shipped text.\<close>

definition with_builtin :: "(capability_spec \<Rightarrow> bool) \<Rightarrow> bool" where
  "with_builtin check =
     (case builtin_default (\<lambda>_. Inr default_linux_caps) (Some ''default.linux.json'') of
        Inr spec \<Rightarrow> check spec
      | Inl _ \<Rightarrow> False)"

definition builtin_default_blocks_network_and_grants_working_dir_rw :: bool where
  "builtin_default_blocks_network_and_grants_working_dir_rw =
     with_builtin (\<lambda>spec. cs_network spec = Block \<and> WorkingDirGrant ReadWrite \<in> set (cs_grants spec))"

definition legacy_system_read_paths :: "string list" where
  "legacy_system_read_paths =
     [''/usr'', ''/bin'', ''/sbin'', ''/lib'', ''/lib64'', ''/etc'', ''/opt'', ''/proc'']"

definition legacy_device_files :: "(string \<times> bool) list" where
  "legacy_device_files =
     [(''/dev/null'', True), (''/dev/zero'', False), (''/dev/urandom'', False), (''/dev/random'', False),
      (''/dev/tty'', True)]"

definition builtin_default_matches_legacy_hardcoded_sets :: bool where
  "builtin_default_matches_legacy_hardcoded_sets =
     with_builtin (\<lambda>spec.
       list_all (\<lambda>p. DirGrant p Read \<in> set (cs_grants spec)) legacy_system_read_paths \<and>
       list_all (\<lambda>(dev, writable). FileGrant dev (if writable then ReadWrite else Read) \<in> set (cs_grants spec))
         legacy_device_files)"

definition expand_home_resolves_tilde_and_home_var :: bool where
  "expand_home_resolves_tilde_and_home_var \<longleftrightarrow>
     (let home = Some ''/home/u''
      in expand_home ''~/.ssh'' home = ''/home/u/.ssh'' \<and> expand_home ''~'' home = ''/home/u'' \<and>
         expand_home ''$HOME/.cargo'' home = ''/home/u/.cargo'' \<and>
         expand_home ''${HOME}/.rustup'' home = ''/home/u/.rustup'')"

definition expand_home_leaves_absolute_and_unmatched_paths_alone :: bool where
  "expand_home_leaves_absolute_and_unmatched_paths_alone \<longleftrightarrow>
     (let home = Some ''/home/u''
      in expand_home ''/usr/bin'' home = ''/usr/bin'' \<and> expand_home ''~backup/data'' home = ''~backup/data'')"

definition expand_home_is_a_noop_without_home :: bool where
  "expand_home_is_a_noop_without_home \<longleftrightarrow> expand_home ''~/.ssh'' None = ''~/.ssh''"

definition expand_home_trims_trailing_slash_on_home :: bool where
  "expand_home_trims_trailing_slash_on_home \<longleftrightarrow> expand_home ''~/.ssh'' (Some ''/home/u/'') = ''/home/u/.ssh''"

definition resolve_user_paths_expands_grants :: bool where
  "resolve_user_paths_expands_grants \<longleftrightarrow>
     resolve_user_paths_with
       \<lparr>cs_network = Allow,
        cs_grants = [DirGrant ''~/.ssh'' Read, FileGrant ''$HOME/.gitconfig'' Read, WorkingDirGrant ReadWrite]\<rparr>
       (Some ''/home/u'') =
     \<lparr>cs_network = Allow,
      cs_grants = [DirGrant ''/home/u/.ssh'' Read, FileGrant ''/home/u/.gitconfig'' Read, WorkingDirGrant ReadWrite]\<rparr>"

lemma capability_tests:
  builtin_default_blocks_network_and_grants_working_dir_rw builtin_default_matches_legacy_hardcoded_sets
  expand_home_resolves_tilde_and_home_var expand_home_leaves_absolute_and_unmatched_paths_alone
  expand_home_is_a_noop_without_home expand_home_trims_trailing_slash_on_home
  resolve_user_paths_expands_grants
  by code_simp+

text \<open>\<open>CapabilitySpec::load\<close> (\<open>mod tests\<close> of \<open>src/models/src/lib.rs\<close>).\<close>

definition capability_spec_load_parses_a_file :: bool where
  "capability_spec_load_parses_a_file =
     (case load_capabilities (\<lambda>p. Inr p)
             (\<lambda>_. Inr \<lparr>cs_network = Allow, cs_grants = [DirGrant ''/usr'' Read, WorkingDirGrant ReadWrite]\<rparr>)
             ''/tmp/caps.json'' of
        Inr spec \<Rightarrow>
          cs_network spec = Allow \<and>
          (case cs_grants spec of DirGrant p a # _ \<Rightarrow> p = ''/usr'' \<and> a = Read | _ \<Rightarrow> False)
      | Inl _ \<Rightarrow> False)"

definition capability_spec_load_rejects_missing_file ::
  "(string \<Rightarrow> (string, capability_spec) result) \<Rightarrow> string \<Rightarrow> bool" where
  "capability_spec_load_rejects_missing_file parse err =
     (case load_capabilities (\<lambda>_. Inl err) parse ''/nonexistent/october-caps.json'' of
        Inl e \<Rightarrow> str_contains ''read capability file'' e
      | Inr _ \<Rightarrow> False)"

lemma capability_load_tests:
  "capability_spec_load_parses_a_file" "capability_spec_load_rejects_missing_file parse err"
  by (simp_all add: capability_spec_load_parses_a_file_def capability_spec_load_rejects_missing_file_def
      load_capabilities_def)

subsection \<open>Validation\<close>

text \<open>The configuration of \<open>cfg\<close>, and workflows over its one model; \<open>ev\<close> is the evaluator.\<close>

definition local_config :: "october_config option" where
  "local_config =
     parse_config
       (JObject
         [(''providers'', JObject [(''local'', str_fields [(''type'', ''anthropic''), (''base_url'', ''http://localhost:1'')])]),
          (''models'', JObject [(''m'', str_fields [(''provider'', ''local''), (''model_id'', ''id'')])])])"

definition ghost_config :: "october_config option" where
  "ghost_config =
     parse_config
       (JObject
         [(''providers'', JObject []),
          (''models'', JObject [(''m'', str_fields [(''provider'', ''ghost''), (''model_id'', ''id'')])])])"

definition plain_agent :: "string \<Rightarrow> string \<Rightarrow> workflow_agent_def" where
  "plain_agent name model =
     \<lparr>ad_name = name, ad_system_prompt = None, ad_model = model,
      ad_output_schema = Some (JObject [(''type'', JString ''object'')]), ad_allow_ask_user = False,
      ad_transitions = None, ad_max_iterations = None, ad_max_retries = None, ad_allowed_tools = Some []\<rparr>"

definition going_to :: "string \<Rightarrow> string option \<Rightarrow> workflow_agent_def" where
  "going_to target cond =
     (plain_agent ''a'' ''m'')\<lparr>ad_transitions := Some [\<lparr>tr_to = target, tr_condition = cond\<rparr>]\<rparr>"

type_synonym evaluator = "string \<Rightarrow> json \<Rightarrow> (string, json) result"

definition validates :: "evaluator \<Rightarrow> october_config option \<Rightarrow> workflow_definition \<Rightarrow> bool" where
  "validates ev cfg d = (case cfg of None \<Rightarrow> False | Some c \<Rightarrow> validate ev d c = [])"

definition reports :: "evaluator \<Rightarrow> october_config option \<Rightarrow> workflow_definition \<Rightarrow> string \<Rightarrow> bool" where
  "reports ev cfg d t = (case cfg of None \<Rightarrow> False | Some c \<Rightarrow> list_ex (str_contains t) (validate ev d c))"

definition valid_workflow_has_no_errors :: "evaluator \<Rightarrow> bool" where
  "valid_workflow_has_no_errors ev =
     validates ev local_config \<lparr>wd_start = ''a'', wd_agents = [plain_agent ''a'' ''m'']\<rparr>"

definition unknown_start_is_reported :: "evaluator \<Rightarrow> bool" where
  "unknown_start_is_reported ev =
     reports ev local_config \<lparr>wd_start = ''missing'', wd_agents = [plain_agent ''a'' ''m'']\<rparr>
       (''start agent '' @ quoted ''missing'')"

definition unknown_transition_target_is_reported :: "evaluator \<Rightarrow> bool" where
  "unknown_transition_target_is_reported ev =
     reports ev local_config \<lparr>wd_start = ''a'', wd_agents = [going_to ''ghost'' None]\<rparr>
       (''undefined agent '' @ quoted ''ghost'')"

definition unknown_model_is_reported :: "evaluator \<Rightarrow> bool" where
  "unknown_model_is_reported ev =
     reports ev local_config \<lparr>wd_start = ''a'', wd_agents = [plain_agent ''a'' ''nope'']\<rparr>
       (''model '' @ quoted ''nope'')"

definition unknown_provider_is_reported :: "evaluator \<Rightarrow> bool" where
  "unknown_provider_is_reported ev =
     reports ev ghost_config \<lparr>wd_start = ''a'', wd_agents = [plain_agent ''a'' ''m'']\<rparr>
       (''unknown provider '' @ quoted ''ghost'')"

definition field_access_condition_does_not_false_positive :: "evaluator \<Rightarrow> bool" where
  "field_access_condition_does_not_false_positive ev =
     validates ev local_config
       \<lparr>wd_start = ''a'', wd_agents = [going_to ''b'' (Some ''output.score > 80''), plain_agent ''b'' ''m'']\<rparr>"

definition syntactically_broken_condition_is_reported :: "evaluator \<Rightarrow> bool" where
  "syntactically_broken_condition_is_reported ev =
     reports ev local_config
       \<lparr>wd_start = ''a'', wd_agents = [going_to ''b'' (Some ''output.score >>> ''), plain_agent ''b'' ''m'']\<rparr>
       ''failed to evaluate''"

text \<open>The evaluator only matters where a transition has a condition.\<close>

lemma validate_tests:
  "valid_workflow_has_no_errors ev" "unknown_start_is_reported ev" "unknown_transition_target_is_reported ev"
  "unknown_model_is_reported ev" "unknown_provider_is_reported ev"
  by (code_simp)+

lemma local_config_parsed:
  "local_config = Some
     ((october_default_config bare_env)
       \<lparr>oc_providers := [(''local'', AnthropicConfig None None (Some ''http://localhost:1''))],
        oc_models := [(''m'', \<lparr>mc_provider = ''local'', mc_model_id = ''id'', mc_max_tokens = None\<rparr>)]\<rparr>)"
  by code_simp

lemmas condition_defs = local_config_parsed validate_def validate_agent_def validate_transition_def
  going_to_def plain_agent_def validate_model_def

lemma condition_tests:
  "is_ok (ev ''output.score > 80'' (JObject [])) \<Longrightarrow> field_access_condition_does_not_false_positive ev"
  "\<not> is_ok (ev ''output.score >>> '' (JObject [])) \<Longrightarrow> syntactically_broken_condition_is_reported ev"
proof -
  show "is_ok (ev ''output.score > 80'' (JObject [])) \<Longrightarrow> field_access_condition_does_not_false_positive ev"
    by (auto simp: field_access_condition_does_not_false_positive_def validates_def condition_defs is_ok_def
        split: sum.splits)
  assume "\<not> is_ok (ev ''output.score >>> '' (JObject []))"
  then obtain e where e: "ev ''output.score >>> '' (JObject []) = Inl e" by (auto simp: is_ok_def split: sum.splits)
  then show "syntactically_broken_condition_is_reported ev"
    by (simp add: syntactically_broken_condition_is_reported_def reports_def condition_defs e
        quoted_def quote_char_def backtick_def)
qed

subsection \<open>Frames\<close>

definition frame_round_trips ::
  "(daemon_response \<Rightarrow> (string, string) result) \<Rightarrow> (string \<Rightarrow> (string, daemon_response) result) \<Rightarrow> bool" where
  "frame_round_trips ser de =
     (case write_frame ser (RspSubmitted ''x'') \<lparr>wr_bytes = [], wr_room = None\<rparr> of
        (Inl _, _) \<Rightarrow> False
      | (Inr _, w) \<Rightarrow>
          (case read_frame de \<lparr>rd_bytes = wr_bytes w, rd_fault = None\<rparr> of
             (Inr (Some (RspSubmitted j)), _) \<Rightarrow> j = ''x''
           | _ \<Rightarrow> False))"

definition clean_eof_returns_none :: "(string \<Rightarrow> (string, daemon_response) result) \<Rightarrow> bool" where
  "clean_eof_returns_none de \<longleftrightarrow> fst (read_frame de \<lparr>rd_bytes = [], rd_fault = None\<rparr>) = Inr None"

lemma frame_tests:
  "ser (RspSubmitted ''x'') = Inr bytes \<Longrightarrow> length bytes < 2 ^ 32 \<Longrightarrow> de bytes = Inr (RspSubmitted ''x'') \<Longrightarrow>
     frame_round_trips ser de"
  using read_frame_frame [of bytes de "RspSubmitted ''x''" "[]" None]
  by (simp add: frame_round_trips_def write_frame_room)

lemma clean_eof_test: "clean_eof_returns_none de"
  by (simp add: clean_eof_returns_none_def read_frame_def read_exact_def)

end
