(* ===== verification/Executor_Tests.thy ===== *)
theory Executor_Tests
  imports Server Confinement
begin

text \<open>
  The unit tests of the executor and of the server's registry (\<open>mod tests\<close> of \<open>registry.rs\<close>,
  \<open>connected_registry.rs\<close>, \<open>socket_transport.rs\<close> and \<open>env_scrub.rs\<close> under \<open>src/executor/src/\<close>, and of
  \<open>src/server/src/registry.rs\<close>), run on the model: a closed boolean definition per test and a lemma
  that evaluates it. A call that a test unwraps must succeed. A handle and a transport are the unit,
  since no test calls them.
\<close>

subsection \<open>The runtime registry\<close>

definition did :: "('e, 'a) result \<times> 's \<Rightarrow> bool \<times> 's" where
  "did p = (is_ok (fst p), snd p)"

fun unwrapped :: "('s \<Rightarrow> bool \<times> 's) list \<Rightarrow> 's \<Rightarrow> 's option" where
  "unwrapped [] s = Some s"
| "unwrapped (f # fs) s = (case f s of (True, s') \<Rightarrow> unwrapped fs s' | (False, _) \<Rightarrow> None)"

definition after_ops ::
  "(unit registry \<Rightarrow> bool \<times> unit registry) list \<Rightarrow> (unit registry \<Rightarrow> bool) \<Rightarrow> bool" where
  "after_ops fs check = (case unwrapped fs (\<lambda>_. None) of None \<Rightarrow> False | Some r \<Rightarrow> check r)"

abbreviation create :: "string \<Rightarrow> unit registry \<Rightarrow> bool \<times> unit registry" where
  "create i r \<equiv> did (begin_create r i ''/tmp'')"

abbreviation created :: "string \<Rightarrow> unit registry \<Rightarrow> bool \<times> unit registry" where
  "created i r \<equiv> did (complete_create r i ())"

definition test_begin_create_inserts_creating_entry :: bool where
  "test_begin_create_inserts_creating_entry =
     after_ops [create ''rt-1'']
       (\<lambda>r. map (\<lambda>i. (ri_runtime_id i, ri_state i)) (list_runtimes [''rt-1''] r) = [(''rt-1'', RsCreating)])"

definition test_begin_create_fails_on_duplicate :: bool where
  "test_begin_create_fails_on_duplicate =
     after_ops [create ''rt-1'']
       (\<lambda>r. case begin_create r ''rt-1'' ''/tmp'' of (Inl (AlreadyExists _), _) \<Rightarrow> True | _ \<Rightarrow> False)"

definition test_complete_create_transitions_to_running :: bool where
  "test_complete_create_transitions_to_running =
     after_ops [create ''rt-1'', created ''rt-1'']
       (\<lambda>r. map ri_state (list_runtimes [''rt-1''] r) = [RsRunning])"

definition test_begin_stop_transitions_to_stopping :: bool where
  "test_begin_stop_transitions_to_stopping =
     after_ops [create ''rt-1'', created ''rt-1'']
       (\<lambda>r. case begin_stop r ''rt-1'' of
          (Inr handle, r') \<Rightarrow>
            handle \<noteq> None \<and> map ri_state (list_runtimes [''rt-1''] r') = [RsStopping]
        | _ \<Rightarrow> False)"

definition test_begin_stop_from_creating_fails :: bool where
  "test_begin_stop_from_creating_fails =
     after_ops [create ''rt-1'']
       (\<lambda>r. case begin_stop r ''rt-1'' of (Inl (InvalidTransition _ _), _) \<Rightarrow> True | _ \<Rightarrow> False)"

definition test_complete_stop_removes_entry :: bool where
  "test_complete_stop_removes_entry =
     after_ops
       [create ''rt-1'', created ''rt-1'', \<lambda>r. did (begin_stop r ''rt-1''), \<lambda>r. did (complete_stop r ''rt-1'')]
       (\<lambda>r. list_runtimes [''rt-1''] r = [])"

definition test_begin_restart_increments_restart_count :: bool where
  "test_begin_restart_increments_restart_count =
     after_ops [create ''rt-1'', created ''rt-1'', \<lambda>r. did (begin_restart r ''rt-1'')]
       (\<lambda>r. get_restart_count r ''rt-1'' = Some 1 \<and> map ri_state (list_runtimes [''rt-1''] r) = [RsCreating])"

definition test_mark_failed_clears_handle :: bool where
  "test_mark_failed_clears_handle =
     after_ops [create ''rt-1'', created ''rt-1'', \<lambda>r. did (mark_failed r ''rt-1'')]
       (\<lambda>r. map ri_state (list_runtimes [''rt-1''] r) = [RsFailed] \<and> running_handles [''rt-1''] r = [])"

definition test_running_handles_returns_only_running :: bool where
  "test_running_handles_returns_only_running =
     after_ops [create ''rt-1'', created ''rt-1'', create ''rt-2'']
       (\<lambda>r. map fst (running_handles [''rt-1'', ''rt-2''] r) = [''rt-1''])"

lemma registry_unit_tests:
  test_begin_create_inserts_creating_entry test_begin_create_fails_on_duplicate
  test_complete_create_transitions_to_running test_begin_stop_transitions_to_stopping
  test_begin_stop_from_creating_fails test_complete_stop_removes_entry
  test_begin_restart_increments_restart_count test_mark_failed_clears_handle
  test_running_handles_returns_only_running
  by code_simp+

subsection \<open>Connected runtimes\<close>

definition no_runtimes :: "unit connected" where
  "no_runtimes = \<lparr>cn_transports = Map.empty, cn_pending = Map.empty\<rparr>"

text \<open>A waiter has a number; registering hands back the one that was waiting, which then fires.\<close>

definition register_resolves_pending_waiter_and_stores_transport :: bool where
  "register_resolves_pending_waiter_and_stores_transport =
     (let c = notify_when_ready no_runtimes ''rt-1'' 7
      in runtime_transport c ''rt-1'' = None \<and>
         (case register_transport c ''rt-1'' () of
            (c', waiter) \<Rightarrow> waiter = Some 7 \<and> runtime_transport c' ''rt-1'' \<noteq> None))"

definition runtime_transport_none_for_unknown :: bool where
  "runtime_transport_none_for_unknown \<longleftrightarrow> runtime_transport no_runtimes ''ghost'' = None"

definition remove_clears_transport :: bool where
  "remove_clears_transport \<longleftrightarrow>
     runtime_transport (remove_transport (fst (register_transport no_runtimes ''rt-1'' ())) ''rt-1'') ''rt-1'' = None"

lemma connected_unit_tests:
  register_resolves_pending_waiter_and_stores_transport runtime_transport_none_for_unknown
  remove_clears_transport
  by code_simp+

subsection \<open>The socket transport\<close>

text \<open>\<open>paired\<close>: a runtime that answers every tool call it is sent with \<open>ok\<close>.\<close>

fun fake_runtime :: "runtime_inbound \<Rightarrow> runtime_outbound list" where
  "fake_runtime (InToolCall cid call) =
     [OutResponse cid (ToolOk \<lparr>to_stdout = ''ok'', to_stderr = [], to_exit_code = 0\<rparr>)]"
| "fake_runtime (InCancelCall cid) = []"

definition answer_all :: "link \<Rightarrow> link" where
  "answer_all l = foldl link_step l (map LkMessage (concat (map fake_runtime (lk_written l))))"

definition invoke_correlates_response :: bool where
  "invoke_correlates_response =
     (let l = foldl link_step link_open [LkRegister ''c1'', LkSend 0 ''c1'' (CallBash ''x'') None]
      in case lk_results (answer_all l) 0 of
           Some (Inr (ToolOk out)) \<Rightarrow> to_stdout out = ''ok''
         | _ \<Rightarrow> False)"

text \<open>Eight calls that all wait before the first is answered.\<close>

definition concurrent_invokes_each_resolve :: bool where
  "concurrent_invokes_each_resolve =
     (let ids = map (\<lambda>i. ''c'' @ show_nat i) [0..<8];
          l = foldl link_step link_open
                (map LkRegister ids @ map (\<lambda>(i, cid). LkSend i cid (CallBash ''x'') None) (zip [0..<8] ids))
      in list_all (\<lambda>i. case lk_results (answer_all l) i of Some r \<Rightarrow> is_ok r | None \<Rightarrow> False) [0..<8])"

definition disconnect_resolves_pending_with_error :: bool where
  "disconnect_resolves_pending_with_error \<longleftrightarrow>
     lk_results (foldl link_step link_open [LkRegister ''c1'', LkSend 0 ''c1'' (CallBash ''x'') None, LkClose]) 0 =
       Some (Inl Disconnected)"

lemma transport_unit_tests:
  invoke_correlates_response concurrent_invokes_each_resolve disconnect_resolves_pending_with_error
  by (simp_all add: invoke_correlates_response_def concurrent_invokes_each_resolve_def
      disconnect_resolves_pending_with_error_def answer_all_def link_open_def drop_sender_def
      upt_conv_Cons show_nat.simps digit_char_def)

subsection \<open>The environment of a child\<close>

definition allowlist_excludes_secrets :: bool where
  "allowlist_excludes_secrets \<longleftrightarrow>
     ''ANTHROPIC_API_KEY'' \<notin> set SANDBOX_ENV_ALLOWLIST \<and>
     \<not> list_ex (\<lambda>k. str_contains ''KEY'' k \<or> str_contains ''TOKEN'' k \<or> str_contains ''SECRET'' k) SANDBOX_ENV_ALLOWLIST"

definition scrubbed_env_only_returns_allowlisted_keys :: "(string \<Rightarrow> string option) \<Rightarrow> bool" where
  "scrubbed_env_only_returns_allowlisted_keys env =
     list_all (\<lambda>(k, _). k \<in> set SANDBOX_ENV_ALLOWLIST) (scrubbed_env env)"

text \<open>After \<open>env_clear\<close> a child has what \<open>scrubbed_env\<close> of the daemon's environment gives it.\<close>

definition spawned_child_does_not_see_secret :: "(string \<Rightarrow> string option) \<Rightarrow> bool" where
  "spawned_child_does_not_see_secret env \<longleftrightarrow>
     map_of (scrubbed_env (env(''ANTHROPIC_API_KEY'' \<mapsto> ''leak-me''))) ''ANTHROPIC_API_KEY'' = None"

lemma environment_unit_tests:
  allowlist_excludes_secrets "scrubbed_env_only_returns_allowlisted_keys env"
  "spawned_child_does_not_see_secret env"
  by code_simp
    (auto simp: scrubbed_env_only_returns_allowlisted_keys_def list_all_iff scrubbed_env_keys
      spawned_child_does_not_see_secret_def scrubbed_env_lookup SANDBOX_ENV_ALLOWLIST_def)

subsection \<open>The server's registry of executors\<close>

text \<open>\<open>MockSink\<close> accepts every message; what it received is what the send returns.\<close>

definition mock_sinks :: sinks where
  "mock_sinks = \<lparr>sk_encode = (\<lambda>(req, cmd). Inr req), sk_send = (\<lambda>_ _. None)\<rparr>"

definition one_executor :: executor_registry where
  "one_executor = register_executor Map.empty \<lparr>ec_executor_id = ''ex-1'', ec_sink = 0\<rparr>"

definition test_register_and_send :: bool where
  "test_register_and_send \<longleftrightarrow>
     registry_send_command mock_sinks one_executor ''ex-1'' ''req-1'' QueryRuntimes = Inr (0, ''req-1'')"

definition test_send_to_unknown_executor_fails :: bool where
  "test_send_to_unknown_executor_fails =
     (case registry_send_command mock_sinks Map.empty ''ghost'' ''req-1'' QueryRuntimes of
        Inl (ExecutorNotFound _) \<Rightarrow> True
      | _ \<Rightarrow> False)"

definition test_remove_executor :: bool where
  "test_remove_executor =
     (case registry_send_command mock_sinks (remove_executor one_executor ''ex-1'') ''ex-1'' ''req-1'' QueryRuntimes of
        Inl (ExecutorNotFound _) \<Rightarrow> True
      | _ \<Rightarrow> False)"

lemma executor_registry_unit_tests:
  test_register_and_send test_send_to_unknown_executor_fails test_remove_executor
  by code_simp+

end
