(* ===== verification/Workflow_Tests.thy ===== *)
theory Workflow_Tests
  imports Client_Tools Supervisor
begin

text \<open>
  The unit tests of the actors (\<open>mod tests\<close> of \<open>context.rs\<close>, \<open>agent_actor.rs\<close> and \<open>workflow_actor.rs\<close>
  under \<open>src/workflow/src/\<close>, of \<open>job_actor.rs\<close> and \<open>supervisor_actor.rs\<close> under \<open>src/supervisor/src/\<close>), and of \<open>src/runtime-client/src/client.rs\<close>, run
  on the model: a closed boolean definition per test and a lemma that evaluates it. A fresh UUID is a
  fixed name, distinct from the others of its test; a test over the expression evaluator takes it.
\<close>

subsection \<open>The toolbox factory\<close>

text \<open>\<open>MockTransport\<close>: every call gets the canned result. The world only counts the UUIDs drawn.\<close>

definition mock_transport :: "tool_result \<Rightarrow> nat rt_transport" where
  "mock_transport r = \<lparr>tp_uuid = (\<lambda>w. (show_nat w, Suc w)), tp_invoke = (\<lambda>cid call w. (Inr r, w))\<rparr>"

definition mock_ok :: "string \<Rightarrow> nat rt_transport" where
  "mock_ok t = mock_transport (ToolOk \<lparr>to_stdout = t, to_stderr = [], to_exit_code = 0\<rparr>)"

definition mock_err :: "string \<Rightarrow> nat rt_transport" where
  "mock_err reason = mock_transport (ToolErr reason)"

definition client_returns_ok_output :: bool where
  "client_returns_ok_output =
     (case client_invoke (mock_ok ''hello'') (CallBash ''echo hello'') 0 of
        (Inr out, _) \<Rightarrow> to_stdout out = ''hello''
      | _ \<Rightarrow> False)"

definition client_returns_err_on_tool_failure :: bool where
  "client_returns_err_on_tool_failure =
     (case client_invoke (mock_err ''oops'') (CallBash ''bad'') 0 of (Inl (ToolFailed _), _) \<Rightarrow> True | _ \<Rightarrow> False)"

definition factory_def :: "string list option \<Rightarrow> json option \<Rightarrow> bool \<Rightarrow> workflow_agent_def" where
  "factory_def allowed output_schema ask =
     \<lparr>ad_name = ''a'', ad_system_prompt = None, ad_model = ''m'', ad_output_schema = output_schema,
      ad_allow_ask_user = ask, ad_transitions = None, ad_max_iterations = None, ad_max_retries = None,
      ad_allowed_tools = allowed\<rparr>"

definition conclude_not_registered_without_output_or_ask :: bool where
  "conclude_not_registered_without_output_or_ask \<longleftrightarrow> conclude_tool_spec None False = None"

definition conclude_output_only_uses_output_schema_as_input :: bool where
  "conclude_output_only_uses_output_schema_as_input =
     (let out = JObject [(''type'', JString ''object''),
                         (''properties'', JObject [(''answer'', JObject [(''type'', JString ''number'')])])]
      in map_option ts_input_schema (conclude_tool_spec (Some out) False) = Some out)"

text \<open>\<open>v[i]\<close> of an array.\<close>

definition json_at :: "json \<Rightarrow> nat \<Rightarrow> json" where
  "json_at v i = (case v of JArray vs \<Rightarrow> if i < length vs then vs ! i else JNull | _ \<Rightarrow> JNull)"

definition conclude_ask_only_requires_question :: bool where
  "conclude_ask_only_requires_question =
     (case conclude_tool_spec None True of
        Some spec \<Rightarrow> json_at (json_index (ts_input_schema spec) ''required'') 0 = JString ''question''
      | None \<Rightarrow> False)"

definition conclude_both_is_kind_tagged :: bool where
  "conclude_both_is_kind_tagged =
     (case conclude_tool_spec (Some (JObject [(''type'', JString ''object'')])) True of
        Some spec \<Rightarrow>
          json_at (json_index (json_index (json_index (ts_input_schema spec) ''properties'') ''kind'') ''enum'') 0 =
            JString ''submit''
      | None \<Rightarrow> False)"

definition factory_toolbox :: "workflow_agent_def \<Rightarrow> nat toolbox" where
  "factory_toolbox d = for_agent (add_runtime_tools [] (mock_ok [])) d"

definition toolbox_includes_conclude_and_filters_runtime_tools :: bool where
  "toolbox_includes_conclude_and_filters_runtime_tools \<longleftrightarrow>
     (let d = factory_def (Some [''bash'']) (Some (JObject [(''type'', JString ''object'')])) False;
          names = map ts_name (tb_specs (factory_toolbox d))
      in ''bash'' \<in> set names \<and> CONCLUDE_TOOL \<in> set names \<and> ''read_file'' \<notin> set names)"

definition conclude_tool_is_not_executable :: bool where
  "conclude_tool_is_not_executable =
     (let d = factory_def None (Some (JObject [(''type'', JString ''object'')])) False
      in case tb_execute (factory_toolbox d) CONCLUDE_TOOL (JObject []) 0 of
           (Inl (ExecutionFailed _), _) \<Rightarrow> True
         | _ \<Rightarrow> False)"

lemma toolbox_factory_unit_tests:
  client_returns_ok_output client_returns_err_on_tool_failure
  conclude_not_registered_without_output_or_ask conclude_output_only_uses_output_schema_as_input
  conclude_ask_only_requires_question conclude_both_is_kind_tagged
  toolbox_includes_conclude_and_filters_runtime_tools conclude_tool_is_not_executable
  by code_simp+

subsection \<open>The agent actor\<close>

definition user_msg :: "string \<Rightarrow> message" where
  "user_msg t = \<lparr>msg_id = ''u'', msg_role = User, msg_parts = [TextPart t]\<rparr>"

definition calling :: "(string \<times> string) list \<Rightarrow> message" where
  "calling cs =
     \<lparr>msg_id = ''a'', msg_role = Assistant,
      msg_parts = map (\<lambda>(cid, name). ToolCallPart \<lparr>tc_id = cid, tc_name = name, tc_input = JObject []\<rparr>) cs\<rparr>"

definition no_messages :: agent_state where
  "no_messages =
     ao_initial_state
       (agent_ops :: (agent_actor, agent_state, agent_command, agent_domain_event, unit, agent_out) actor_ops)"

definition apply_event_rebuilds_history_in_order :: bool where
  "apply_event_rebuilds_history_in_order \<longleftrightarrow>
     (let s = foldl agent_apply_event no_messages
        [EvInputMessage (user_msg ''hello''), EvMessageComplete (calling [(''tc1'', ''search'')]),
         EvToolComplete ''tc1'' ''result'' False, EvRunComplete \<lparr>input_tokens = 1, output_tokens = 1\<rparr> 1]
      in map msg_role s = [User, Assistant, Tool] \<and>
         (case msg_parts (s ! 2) of
            ToolResultPart r # _ \<Rightarrow> tr_call_id r = ''tc1'' \<and> tr_output r = ''result''
          | _ \<Rightarrow> False))"

definition run_cancelled_is_noop_on_state :: bool where
  "run_cancelled_is_noop_on_state \<longleftrightarrow>
     (let s = agent_apply_event no_messages (EvInputMessage (user_msg ''hi''))
      in length (agent_apply_event s EvRunCancelled) = length s)"

definition sanitize_appends_error_results_for_dangling_tool_calls :: bool where
  "sanitize_appends_error_results_for_dangling_tool_calls =
     (case msg_parts (last (sanitize_for_resume
             [user_msg ''do it'', calling [(''tc1'', ''bash''), (''tc2'', ''bash'')],
              message_tool_result ''tc1'' ''ok'' False])) of
        ToolResultPart r # _ \<Rightarrow> tr_call_id r = ''tc2'' \<and> tr_is_error r
      | _ \<Rightarrow> False)"

definition sanitize_leaves_well_formed_history_untouched :: bool where
  "sanitize_leaves_well_formed_history_untouched \<longleftrightarrow>
     (let history = [user_msg ''do it'', calling [(''tc1'', ''bash'')], message_tool_result ''tc1'' ''ok'' False]
      in length (sanitize_for_resume history) = length history)"

definition coarse_event_filters_streaming_noise_and_input :: bool where
  "coarse_event_filters_streaming_noise_and_input \<longleftrightarrow>
     coarse_event (TextChunk ''m'' 0 ''noise'') = None \<and>
     coarse_event (InputMessage ''m'' (input_user_message ''m'' ''hi'')) = None"

lemma agent_actor_unit_tests:
  apply_event_rebuilds_history_in_order run_cancelled_is_noop_on_state
  sanitize_appends_error_results_for_dangling_tool_calls
  sanitize_leaves_well_formed_history_untouched coarse_event_filters_streaming_noise_and_input
  by code_simp+

subsection \<open>The workflow actor\<close>

definition started_then_agent_started_sets_running :: bool where
  "started_then_agent_started_sets_running \<longleftrightarrow>
     (let s = workflow_initial; s1 = workflow_apply_event s WorkflowStarted;
          s2 = workflow_apply_event s1 (AgentStarted ''writer'' ''s1'' ''go'')
      in ws_status s = WPending \<and> ws_status s1 = WRunning \<and>
         ws_current_agent s2 = Some ''writer'' \<and> ws_current_session s2 = Some ''s1'')"

definition transition_moves_to_target_agent_and_session :: bool where
  "transition_moves_to_target_agent_and_session \<longleftrightarrow>
     (let s = foldl workflow_apply_event workflow_initial
        [AgentStarted ''a'' ''from'' ''x'', AgentTransitioned ''a'' ''b'' ''from'' ''to'' (Some ''output.score > 80'')]
      in ws_current_agent s = Some ''b'' \<and> ws_current_session s = Some ''to'' \<and> ws_status s = WRunning)"

definition pause_then_resume_round_trips_status :: bool where
  "pause_then_resume_round_trips_status \<longleftrightarrow>
     (let s = foldl workflow_apply_event workflow_initial
        [AgentStarted ''a'' ''s1'' ''x'', WorkflowPaused ''s1'' (Some ''tc'')]
      in ws_status s = WAwaitingUserInput \<and> ws_status (workflow_apply_event s WorkflowResumed) = WRunning)"

definition finished_and_failed_are_terminal_statuses :: bool where
  "finished_and_failed_are_terminal_statuses \<longleftrightarrow>
     ws_status (workflow_apply_event workflow_initial (WorkflowFinished (JString ''ok''))) = WFinished \<and>
     ws_status (workflow_apply_event workflow_initial (WorkflowFailed ''boom'' False)) = WFailed"

type_synonym condition_eval = "string \<Rightarrow> json \<Rightarrow> (string, json) result"

definition unconditional_transition_always_matches :: "condition_eval \<Rightarrow> bool" where
  "unconditional_transition_always_matches ev \<longleftrightarrow>
     find_next_transition ev [\<lparr>tr_to = ''next'', tr_condition = None\<rparr>] (JObject []) = Some (''next'', None)"

abbreviation score :: "u64 \<Rightarrow> json" where
  "score n \<equiv> JObject [(''score'', JNumber (PosInt n))]"

definition conditional_transition_matches_on_expression :: "condition_eval \<Rightarrow> bool" where
  "conditional_transition_matches_on_expression ev \<longleftrightarrow>
     (let ts = [\<lparr>tr_to = ''high'', tr_condition = Some ''output.score > 80''\<rparr>,
                \<lparr>tr_to = ''low'', tr_condition = None\<rparr>]
      in map_option fst (find_next_transition ev ts (score 95)) = Some ''high'' \<and>
         map_option fst (find_next_transition ev ts (score 10)) = Some ''low'')"

definition no_matching_transition_returns_none :: "condition_eval \<Rightarrow> bool" where
  "no_matching_transition_returns_none ev \<longleftrightarrow>
     find_next_transition ev [\<lparr>tr_to = ''only'', tr_condition = Some ''output.approved == true''\<rparr>]
       (JObject [(''approved'', JBool False)]) = None"

definition output_as_input_unwraps_json_string :: "workflow_actor \<Rightarrow> bool" where
  "output_as_input_unwraps_json_string a \<longleftrightarrow>
     (let obj = JObject [(''k'', JNumber (PosInt 1))]
      in output_as_input a (JString ''hello'') = ''hello'' \<and> output_as_input a obj = wa_show_json a obj)"

lemma workflow_event_unit_tests:
  started_then_agent_started_sets_running transition_moves_to_target_agent_and_session
  pause_then_resume_round_trips_status finished_and_failed_are_terminal_statuses
  by code_simp+

lemma transition_unit_tests:
  "unconditional_transition_always_matches ev"
  "ev ''output.score > 80'' (score 95) = Inr (JBool True) \<Longrightarrow>
   ev ''output.score > 80'' (score 10) = Inr (JBool False) \<Longrightarrow> conditional_transition_matches_on_expression ev"
  "ev ''output.approved == true'' (JObject [(''approved'', JBool False)]) = Inr (JBool False) \<Longrightarrow>
   no_matching_transition_returns_none ev"
  "output_as_input_unwraps_json_string a"
  by (simp_all add: unconditional_transition_always_matches_def conditional_transition_matches_on_expression_def
      no_matching_transition_returns_none_def output_as_input_unwraps_json_string_def output_as_input_def)

subsection \<open>The job actor and the supervisor\<close>

definition apply_event_sets_status :: bool where
  "apply_event_sets_status \<longleftrightarrow>
     (let s1 = job_apply_event None JobSuspended; s2 = job_apply_event s1 JobAwaitingInput;
          s3 = job_apply_event s2 (JobConcluded JNull)
      in s1 = Some JobSuspendedStatus \<and> s2 = Some JobAwaitingUserInput \<and> s3 = Some JobFinished)"

definition default_state_has_no_status :: bool where
  "default_state_has_no_status \<longleftrightarrow>
     ao_initial_state (job_ops :: (job_actor, job_state, job_command, job_event, unit, job_out) actor_ops) = None"

definition failed_event_is_terminal_status :: bool where
  "failed_event_is_terminal_status \<longleftrightarrow> job_apply_event None (JobFailed ''boom'') = Some JobFailedStatus"

definition render_event_filters_non_log_events :: bool where
  "render_event_filters_non_log_events \<longleftrightarrow> render_event (MessageStart ''m'' Assistant) = None"

definition supervisor_test_spec :: job_spec where
  "supervisor_test_spec =
     \<lparr>jp_workflow = \<lparr>wd_start = ''a'', wd_agents = []\<rparr>, jp_workflow_name = ''wf'', jp_workdir = ''/tmp'',
      jp_input = ''go'', jp_capabilities = \<lparr>cs_network = Block, cs_grants = []\<rparr>\<rparr>"

definition submit_then_status_updates_registry :: bool where
  "submit_then_status_updates_registry \<longleftrightarrow>
     (let s = supervisor_apply_event [] (JobSubmitted ''j1'' supervisor_test_spec 7);
          s' = supervisor_apply_event s (JobStatusChanged ''j1'' JobFinished)
      in length s = 1 \<and> map_option jr_status (bt_get s ''j1'') = Some JobRunning \<and>
         map_option jr_submitted_at (bt_get s ''j1'') = Some 7 \<and>
         map_option jr_status (bt_get s' ''j1'') = Some JobFinished)"

definition removed_job_drops_from_registry :: bool where
  "removed_job_drops_from_registry \<longleftrightarrow>
     foldl supervisor_apply_event [] [JobSubmitted ''j1'' supervisor_test_spec 0, JobRemoved ''j1''] = []"

definition summary_projects_record_fields :: bool where
  "summary_projects_record_fields \<longleftrightarrow>
     summary ''j9'' \<lparr>jr_spec = supervisor_test_spec, jr_status = JobAwaitingUserInput, jr_submitted_at = 42\<rparr> =
       \<lparr>js_job_id = ''j9'', js_workflow_name = ''wf'', js_status = JobAwaitingUserInput, js_submitted_at = 42,
        js_workdir = ''/tmp''\<rparr>"

lemma supervisor_unit_tests:
  apply_event_sets_status default_state_has_no_status failed_event_is_terminal_status
  render_event_filters_non_log_events submit_then_status_updates_registry
  removed_job_drops_from_registry summary_projects_record_fields
  by code_simp+

end
