(* ===== verification/Runtime_Tests.thy ===== *)
theory Runtime_Tests
  imports Tool_Properties Sandbox Anthropic Job_Actor
begin

text \<open>
  The unit tests of the runtime's tools and of its endpoint parser (\<open>mod tests\<close> of the files under
  \<open>src/runtime/src/\<close>), and of the Anthropic provider's conversions (\<open>src/providers/anthropic/src/lib.rs\<close>),
  run on the model: a closed boolean definition per test and a lemma that evaluates it. A temporary
  directory is \<open>/tmp/d\<close> in the in-memory file system \<open>mem_env\<close>; the tests of \<open>bash\<close> take the environment,
  whose shell is assumed to do what the commands of the tests do.
\<close>

subsection \<open>Files\<close>

definition temp_dir :: "(string \<times> string) list \<Rightarrow> mem_fs" where
  "temp_dir files =
     \<lparr>mf_files = map_of (map (\<lambda>(name, t). (join_path ''/tmp/d'' name, t)) files), mf_full = False\<rparr>"

definition temp_file :: "mem_fs \<Rightarrow> string \<Rightarrow> string option" where
  "temp_file w name = mf_files w (join_path ''/tmp/d'' name)"

fun is_tool_ok :: "tool_result \<Rightarrow> bool" where
  "is_tool_ok (ToolOk _) = True"
| "is_tool_ok (ToolErr _) = False"

definition prints :: "tool_result \<Rightarrow> (string \<Rightarrow> bool) \<Rightarrow> bool" where
  "prints r check = (case r of ToolOk out \<Rightarrow> check (to_stdout out) | ToolErr _ \<Rightarrow> False)"

abbreviation lines_of :: "string list \<Rightarrow> string" where
  "lines_of ls \<equiv> join [newline] ls"

definition read_full_file :: bool where
  "read_full_file \<longleftrightarrow>
     (let t = lines_of [''line1'', ''line2'', ''line3'']
      in prints (exec_read_file mem_env ''/tmp/d'' ''f.txt'' None None (temp_dir [(''f.txt'', t)])) (\<lambda>out. out = t))"

definition read_line_range :: bool where
  "read_line_range =
     prints (exec_read_file mem_env ''/tmp/d'' ''f.txt'' (Some 2) (Some 3)
               (temp_dir [(''f.txt'', lines_of [''a'', ''b'', ''c'', ''d''])]))
       (\<lambda>out. out = lines_of [''b'', ''c''])"

definition write_creates_file :: bool where
  "write_creates_file \<longleftrightarrow>
     temp_file (snd (exec_write_file mem_env ''/tmp/d'' ''out.txt'' ''hello'' (temp_dir []))) ''out.txt'' = Some ''hello''"

definition write_creates_parent_dirs :: bool where
  "write_creates_parent_dirs \<longleftrightarrow>
     temp_file (snd (exec_write_file mem_env ''/tmp/d'' ''a/b/c.txt'' ''x'' (temp_dir []))) ''a/b/c.txt'' \<noteq> None"

definition edit_replaces_text :: bool where
  "edit_replaces_text =
     (case exec_edit_file mem_env ''/tmp/d'' ''f.txt'' ''world'' ''rust'' (temp_dir [(''f.txt'', ''hello world'')]) of
        (r, w) \<Rightarrow> is_tool_ok r \<and> temp_file w ''f.txt'' = Some ''hello rust'')"

definition edit_returns_error_when_not_found :: bool where
  "edit_returns_error_when_not_found \<longleftrightarrow>
     \<not> is_tool_ok (fst (exec_edit_file mem_env ''/tmp/d'' ''f.txt'' ''missing'' ''x''
         (temp_dir [(''f.txt'', ''hello'')])))"

text \<open>The directory holds the file \<open>a.txt\<close> and the directory \<open>sub\<close>, read in either order.\<close>

definition list_files_shows_entries :: bool where
  "list_files_shows_entries =
     list_all
       (\<lambda>entries. prints
          (exec_list_files (mem_env\<lparr>en_read_dir := (\<lambda>p w. Inr (map Inr entries))\<rparr>) ''/tmp/d'' ''.'' (temp_dir []))
          (\<lambda>out. str_contains ''a.txt'' out \<and> str_contains ''sub'' out))
       [[(False, ''a.txt''), (True, ''sub'')], [(True, ''sub''), (False, ''a.txt'')]]"

definition grep_finds_match :: bool where
  "grep_finds_match =
     prints
       (exec_grep (mem_env\<lparr>en_glob := (\<lambda>pat w. Inr [Inr ''/tmp/d/f.txt''])\<rparr>) ''/tmp/d'' ''hello'' None None None
         (temp_dir [(''f.txt'', lines_of [''hello world'', ''foo bar''])]))
       (str_contains ''hello world'')"

lemma file_tool_unit_tests:
  read_full_file read_line_range write_creates_file write_creates_parent_dirs edit_replaces_text
  edit_returns_error_when_not_found list_files_shows_entries grep_finds_match
  by code_simp+

subsection \<open>Bash\<close>

definition bash_echo :: "'w runtime_env \<Rightarrow> 'w \<Rightarrow> bool" where
  "bash_echo E w = prints (fst (exec_bash E ''/tmp/d'' ''echo hello'' w)) (\<lambda>out. trim out = ''hello'')"

definition bash_nonzero_exit :: "'w runtime_env \<Rightarrow> 'w \<Rightarrow> bool" where
  "bash_nonzero_exit E w =
     (case fst (exec_bash E ''/tmp/d'' ''exit 42'' w) of ToolOk out \<Rightarrow> to_exit_code out = 42 | ToolErr _ \<Rightarrow> False)"

definition bash_uses_working_dir :: "'w runtime_env \<Rightarrow> 'w \<Rightarrow> bool" where
  "bash_uses_working_dir E w =
     prints (fst (exec_bash E ''/tmp/d'' ''cat sentinel.txt'' w)) (\<lambda>out. trim out = ''found'')"

lemma trim_output: "trim (''hello'' @ [newline]) = ''hello''" "trim ''found'' = ''found''"
  by code_simp+

lemma bash_unit_tests:
  "en_bash E ''/tmp/d'' ''echo hello'' w = (Inr (Some 0, ''hello'' @ [newline], []), w1) \<Longrightarrow> bash_echo E w"
  "en_bash E ''/tmp/d'' ''exit 42'' w = (Inr (Some 42, [], []), w2) \<Longrightarrow> bash_nonzero_exit E w"
  "en_bash E ''/tmp/d'' ''cat sentinel.txt'' w = (Inr (Some 0, ''found'', []), w3) \<Longrightarrow> bash_uses_working_dir E w"
  using trim_output
  by (simp_all add: bash_echo_def bash_nonzero_exit_def bash_uses_working_dir_def exec_bash_def prints_def)

subsection \<open>Endpoints\<close>

definition parse_endpoint_ws :: bool where
  "parse_endpoint_ws =
     list_all (\<lambda>s. case parse_endpoint s of Inr (Ws _) \<Rightarrow> True | _ \<Rightarrow> False)
       [''ws://localhost:8080'', ''wss://example.com/socket'']"

definition parse_endpoint_unix :: bool where
  "parse_endpoint_unix \<longleftrightarrow> parse_endpoint ''unix:/tmp/rt.sock'' = Inr (Unix ''/tmp/rt.sock'')"

definition parse_endpoint_bad_scheme :: bool where
  "parse_endpoint_bad_scheme =
     list_all (\<lambda>s. \<not> is_ok (parse_endpoint s)) [''http://localhost'', ''localhost:9000'']"

lemma endpoint_unit_tests:
  parse_endpoint_ws parse_endpoint_unix parse_endpoint_bad_scheme
  by code_simp+

subsection \<open>The Anthropic provider\<close>

definition test_to_api_role_user :: bool where
  "test_to_api_role_user \<longleftrightarrow> to_api_role User = ApiUser"

definition test_to_api_role_assistant :: bool where
  "test_to_api_role_assistant \<longleftrightarrow> to_api_role Assistant = ApiAssistant"

definition test_to_api_role_tool_maps_to_user :: bool where
  "test_to_api_role_tool_maps_to_user \<longleftrightarrow> to_api_role Tool = ApiUser"

definition test_parts_to_api_content_text :: bool where
  "test_parts_to_api_content_text =
     (case parts_to_api_content [TextPart ''hello''] of [ApiText t _] \<Rightarrow> t = ''hello'' | _ \<Rightarrow> False)"

definition test_parts_to_api_content_tool_result :: bool where
  "test_parts_to_api_content_tool_result =
     (case parts_to_api_content
             [ToolResultPart \<lparr>tr_call_id = ''tc1'', tr_output = ''result'', tr_is_error = False\<rparr>] of
        [ApiToolResult i _ _ _] \<Rightarrow> i = ''tc1''
      | _ \<Rightarrow> False)"

definition test_parts_to_api_content_thinking_echoes_signature :: bool where
  "test_parts_to_api_content_thinking_echoes_signature =
     (case parts_to_api_content [ThinkingPart ''think'' (Some ''sig123'')] of
        [ApiThinking t sig _] \<Rightarrow> t = ''think'' \<and> sig = ''sig123''
      | _ \<Rightarrow> False)"

definition test_empty_env_base_url_treated_as_unset :: "(string \<Rightarrow> string option) \<Rightarrow> bool" where
  "test_empty_env_base_url_treated_as_unset env \<longleftrightarrow>
     env_base_url (env(''ANTHROPIC_BASE_URL'' \<mapsto> [])) = None \<and>
     env_base_url (env(''ANTHROPIC_BASE_URL'' \<mapsto> ''https://example.com'')) = Some ''https://example.com'' \<and>
     env_base_url (env(''ANTHROPIC_BASE_URL'' := None)) = None"

lemma anthropic_unit_tests:
  test_to_api_role_user test_to_api_role_assistant test_to_api_role_tool_maps_to_user
  test_parts_to_api_content_text test_parts_to_api_content_tool_result
  test_parts_to_api_content_thinking_echoes_signature "test_empty_env_base_url_treated_as_unset env"
  by code_simp+

end
