(* ===== verification/Spec2Isabelle.thy ===== *)
theory Spec2Isabelle
  imports Agent_Bounds Recorded_Conversation Workflow_Properties Job_Life Event_Sinks Daemon_Recovery Executor_Properties
    Tool_Properties Client_Tools Anthropic_Properties Confinement Daemon_Properties Config_Properties
    Server_Properties Mock_Properties Agent_Cost Agent_Effects Agent_Tests Actor_Tests Cli_Tests Executor_Tests
    Workflow_Tests Runtime_Tests
begin

section \<open>October\<close>

text \<open>
  A model of October, a daemon that runs workflows of LLM agents whose tools execute in sandboxed
  runtimes, and the theorems about it. Names are those of the Rust sources under \<open>src/\<close>.

  The program. The command line (\<open>cli/src/main.rs\<close>, \<open>client.rs\<close>) talks to a daemon
  (\<open>cli/src/daemon/mod.rs\<close>) in frames over a socket. The daemon asks a supervisor actor
  (\<open>supervisor/src/supervisor_actor.rs\<close>), which keeps the registry of jobs and spawns a job actor for
  each (\<open>job_actor.rs\<close>); a job launches a runtime, a child process in a sandbox, and a workflow actor
  (\<open>workflow/src/workflow_actor.rs\<close>), which spawns one agent actor at a time (\<open>agent_actor.rs\<close>) and
  routes its output to the next agent, to the user, or to the end. An agent actor starts a background
  run of the agent loop (\<open>agentcore/src/agent.rs\<close>) against an LLM provider
  (\<open>providers/anthropic/src/lib.rs\<close>) and a toolbox (\<open>workflow/src/context.rs\<close>), and journals what the
  run reports. The actors are event sourced: the runtime of actors (\<open>actor/src/runtime.rs\<close>) replays an
  actor's journal (\<open>journal.rs\<close>, \<open>file_journal.rs\<close>) before it takes commands, and persists the events a
  command returns. Tools run in runtimes (\<open>runtime/src\<close>), which an executor (\<open>executor/src\<close>) creates,
  watches and restarts; in distributed mode a server (\<open>server/src\<close>) commands executors over sockets.

  The theories, in order of dependence.
  \<^item> \<open>Prelude\<close>: machine words, results, text; \<open>Text\<close>: the operations of \<open>str\<close> and \<open>Path\<close> the code uses;
    \<open>Models\<close>: the types of \<open>fluorite/*.fl\<close> and the constructors of \<open>models/src/lib.rs\<close>;
    \<open>Ordered_Map\<close>: \<open>BTreeMap\<close>.
  \<^item> \<open>Journal\<close>: the \<open>Journal\<close> trait as a record of operations over a journal state, the locale
    \<open>journal_contract\<close> of what an actor relies on, and the in-memory journal, which meets it;
    \<open>File_Journal\<close>: the file journal, whose writes may fail in three ways, which meets it as long as
    the writes that fail are those that cannot open the file.
  \<^item> \<open>Actor_Runtime\<close>: \<open>recover\<close>, \<open>persist_events\<close>, \<open>snapshot_state\<close> and the command loop over any
    actor; the locale \<open>actor_contract\<close> proves once that recovery gives the live state back.
  \<^item> \<open>Agentcore\<close>: errors, tools, toolboxes; the locale \<open>toolbox_contract\<close> says that a toolbox executes
    only what it advertises, and every toolbox of the code is an instance.
  \<^item> \<open>Agent\<close>: the agent loop, one turn per step, over a world that provider, tools and services
    share; \<open>Agent_Conversation\<close>: well-formed conversations and that runs keep them; \<open>Agent_Bounds\<close>:
    turn counts and the loop detector.
  \<^item> \<open>Anthropic\<close>: the provider, from a conversation to the API's request and from the events of a stream
    to a response; \<open>Anthropic_Properties\<close>: a message comes out of its stream whole, what retries show
    and cost, and that a response goes back as it came.
  \<^item> \<open>Agent_Cost\<close>: the locale \<open>provider_cost\<close>, what a run and its retries cost when a call has a bounded
    cost, and the Anthropic provider as an instance, with the streams it opens.
  \<^item> \<open>Mock_Llm\<close> (\<open>providers/mock-llm/src/server.rs\<close>): the mock of the API that tests run against;
    \<open>Mock_Properties\<close>: what is queued is what the provider returns, and sessions play their scenarios;
    \<open>Scripted_Run\<close>: a whole run of the agent loop against the mock; \<open>Agent_Effects\<close>: one whose tool
    calls go through the client to the runtime's tools and their file system.
  \<^item> \<open>Agent_Actor\<close>: the agent actor and its retries; \<open>Agent_Recovery\<close>: what its journal recovers, and
    what it loses; \<open>Recorded_Conversation\<close>: the recorded conversation against the one a run holds, over
    its retries, and when they agree on what is answered.
  \<^item> \<open>Workflow_Actor\<close> and \<open>Workflow_Properties\<close>: the workflow's state machine and its invariants,
    routing, pausing, recovery and forks.
  \<^item> \<open>Job_Actor\<close>, \<open>Supervisor\<close>: jobs, their history and the registry of jobs; \<open>Job_Status\<close>: workflow, job
    and supervisor as actors at work, and what the registry's status of a job is worth;
    \<open>Job_Life\<close>: what one job launches, releases and reports over its life;
    \<open>Event_Sinks\<close>: the sinks of a run's events.
  \<^item> \<open>File_Recovery\<close>: agents over the file journal, and torn writes; \<open>Daemon_Recovery\<close>: all actors of a
    daemon on the one journal they share, under any interleaving, and what starts when it starts again.
  \<^item> \<open>Executor\<close> and \<open>Executor_Properties\<close>: the registry of runtimes under any interleaving, the
    command handlers, the health check and the in-process client.
  \<^item> \<open>Runtime_Tools\<close> (\<open>runtime/src/tools/*.rs\<close>): the eight tools a runtime executes;
    \<open>Tool_Properties\<close>: the locale \<open>file_system\<close> says what reads and writes of a file system do, an
    in-memory one meets it, and edits, paged reads and searches do what they say.
  \<^item> \<open>Runtime_Link\<close>: the runtime's message loop (\<open>runtime/src/main.rs\<close>) and the transports that match
    answers to calls (\<open>socket_transport.rs\<close>, \<open>ws_transport.rs\<close>), as interleavings of their steps;
    \<open>Client_Tools\<close> (\<open>runtime-client/src\<close>): the tools an agent has for its runtime, and what an agent
    can make its runtime do.
  \<^item> \<open>Sandbox\<close> (\<open>cli/src/capabilities.rs\<close>, \<open>runtime/src/sandbox.rs\<close> and the start of
    \<open>runtime/src/main.rs\<close>): from a capability file to the confinement of a process;
    \<open>Process_Runtime\<close> (\<open>env_scrub.rs\<close>, \<open>process_provider.rs\<close>, \<open>runtime_listener.rs\<close>, the launch in
    \<open>job_actor.rs\<close>): runtimes as children over a world of processes, files and sockets;
    \<open>Confinement\<close>: what a child of a launch can see and touch, and that none outlives its job.
  \<^item> \<open>Server\<close> and \<open>Server_Properties\<close>: the server's executors and connections, the executor's loop at
    the other end, and the relay between them.
  \<^item> \<open>Protocol\<close> (\<open>fluorite/daemon.fl\<close>, \<open>cli/src/daemon/protocol.rs\<close>): frames; \<open>Config\<close>
    (\<open>cli/src/config.rs\<close>, \<open>validate.rs\<close>): configuration, the registry of providers, validation;
    \<open>Daemon\<close>: the daemon over the supervisor's live actor; \<open>Command_Line\<close>: the client and the
    commands; \<open>Daemon_Properties\<close> and \<open>Config_Properties\<close>: the two ends composed, logs cut short,
    drains, and what validation promises of the workflow it accepts; \<open>Config_Json\<close>: the derived decoders
    of the configuration file.
  \<^item> \<open>Actor_Tests\<close>, \<open>Agent_Tests\<close>, \<open>Workflow_Tests\<close>, \<open>Executor_Tests\<close>, \<open>Runtime_Tests\<close>, \<open>Cli_Tests\<close>:
    the unit tests of the crates (each file's \<open>mod tests\<close>), run on the model. A test is a definition under
    its name that states what the test asserts, and a lemma beside it evaluates it: the definitions agree
    with the code on every case its authors wrote down.

  How code becomes definitions. A handler is a function from the actor's fields, its state and a
  command to the fields, the messages it sends (in order) and its \<open>CommandEffect\<close>. \<open>Result\<close> is a sum,
  with \<open>Inl\<close> the error. Mutable locals of the agent loop are a record threaded through the turn.
  Integers that can wrap are words; sequence numbers, list lengths and thresholds (\<open>usize\<close>) are natural
  numbers, which they reach only after \<open>2 ^ 64\<close> events. Strings are their UTF-8 bytes. The agent loop, the
  retry loop and the attempts of a stream are total functions: the first decreases
  \<open>max_iterations - iteration\<close>, the second \<open>max_retries - attempt\<close>, the third \<open>MAX_STREAM_RETRIES - attempt\<close>;
  the client's log loop decreases the bytes that are left. So no fuel is needed. Only a drain may never
  return; it is a \<open>partial_function\<close> whose value is then None.

  Parameters. Code outside \<open>src/\<close> is an argument: the LLM API behind the crate \<open>async_anthropic\<close> (a stream
  of its events for each request), the effects of the tools in the agent loop, UUIDs, the cancellation
  token, \<open>serde_json\<close> (as \<open>codec\<close>, with the law that decoding inverts encoding), the JSON schema
  compiler, the expression evaluator of transitions, base64 (in \<open>line_codec\<close>), the operating system
  (spawning, files, sockets and what happens while the code waits), the sandbox crate \<open>nono\<close> (with the laws
  \<open>nono_laws\<close>), \<open>clap\<close>, and for the runtime's tools the file system, the shell and the crates \<open>regex\<close>
  and \<open>glob\<close> (in \<open>runtime_env\<close>). Each law has an instance in the witnesses.

  Not modelled: the bytes of the sockets beneath the WebSocket transports, the parsing of arguments,
  tracing, and the integration tests that start processes (\<open>tests/\<close> of each crate); of the unit tests, the
  one whose subject is a generated serializer. Task scheduling appears as the order in which commands reach
  a mailbox and, between actors and in the executor,
  the server and the runtime's link, as the interleaving of their steps; the intervals of timers are not
  measured.
\<close>

section \<open>Properties that span components\<close>

subsection \<open>A question, from the agent to the user and back\<close>

lemma attempt_builder_history:
  "build S (attempt_builder p tb prompt handoff max_iter history) = Inr ag \<Longrightarrow> ag_history ag = history"
  by (auto simp: attempt_builder_def builder_new_def with_system_prompt_def with_handoff_tool_def
      with_config_def with_history_def build_def Let_def split: if_splits sum.splits option.splits)

lemma attempt_builder_provider:
  "build S (attempt_builder p tb prompt handoff max_iter history) = Inr ag \<Longrightarrow> ag_provider ag = p"
  by (auto simp: attempt_builder_def builder_new_def with_system_prompt_def with_handoff_tool_def
      with_config_def with_history_def build_def Let_def split: if_splits sum.splits option.splits)

text \<open>A run that a command starts: over the recorded conversation, its input recorded as it starts.\<close>

lemma command_starts_run:
  "agent_handle_command a s cmd = (a', [StartRun t input history], eff) \<Longrightarrow>
   history = s \<and> effect_events eff = [EvInputMessage (input_to_message input)]"
  by (auto simp: agent_handle_command_def start_run_def handle_finished_def Let_def
      split: agent_command.splits prod.splits option.splits run_outcome.splits conclusion.splits)

lemma asked_from_conclusion:
  "handle_finished a out = (a', [TellParent (AgentAsked sid cid question)], eff) \<Longrightarrow>
   \<exists>data. out = OutConcluded data cid"
  by (auto simp: handle_finished_def interpret_conclude_def Let_def
      split: run_outcome.splits conclusion.splits if_splits bool.splits)

text \<open>The Anthropic provider streams chunks only: nothing it emits is journaled.\<close>

lemma stream_event_chunks: "coarse_events (snd (on_stream_event mid ev s)) = []"
proof (cases ev)
  case (BlockStart i b)
  then show ?thesis by (cases b) simp_all
next
  case (BlockDelta i d)
  then show ?thesis by (cases d) (auto split: option.splits)
qed (auto simp: Let_def split: option.splits)

lemma run_stream_chunks: "coarse_events (snd (snd (run_stream display mid xs s))) = []"
proof (induction display mid xs s rule: run_stream.induct)
  case (3 display mid ev xs s)
  with stream_event_chunks [of mid ev s] show ?case by (auto split: prod.splits)
qed auto

lemma stream_attempts_chunks: "coarse_events (fst (snd (stream_attempts C p mid req attempt err s w))) = []"
proof (induction C p mid req attempt err s w rule: stream_attempts.induct)
  case (1 C p mid req attempt err s w)
  let ?w = "if attempt > 0 then ac_sleep C (retry_delay p attempt) w else w"
  let ?s = "if attempt > 0 then stream_empty else s"
  obtain xs w2 where st: "ac_stream C (an_client p) req ?w = (xs, w2)" by fastforce
  obtain r s2 evs where rs: "run_stream (ac_display C) mid xs ?s = (r, s2, evs)" using prod_cases3 by blast
  with run_stream_chunks [of "ac_display C" mid xs ?s] have e: "coarse_events evs = []" by simp
  show ?case
  proof (cases "attempt > MAX_STREAM_RETRIES")
    case True
    then show ?thesis by (simp add: stream_attempts.simps [of C p mid req attempt])
  next
    case False
    have ih: "coarse_events (fst (snd (stream_attempts C p mid req (Suc attempt)
        (Some (to_llm_error (ac_display C) x)) s2 w2))) = []" if "r = StreamRetry x" for x
      using "1.IH" [OF False refl refl st [symmetric] rs [symmetric] that] that by simp
    show ?thesis
      using st rs e False ih
      by (subst stream_attempts.simps) (cases r; simp add: Let_def case_prod_beta)
  qed
qed

lemma anthropic_chunks_only: "chunks_only (anthropic_complete C p)"
  unfolding chunks_only_def
proof (intro allI)
  fix req mid w
  have "coarse_events (fst (snd (stream_attempts C p mid ar 0 None stream_empty w))) = []" for ar
    by (rule stream_attempts_chunks)
  then show "coarse_events (fst (snd (anthropic_complete C p req mid w))) = []"
    by (auto simp: anthropic_complete_def split: sum.splits prod.splits) (metis fst_conv snd_conv)+
qed

text \<open>
  C1. A question reaches the user and its answer reaches the call that asked it. When a run that a
  command started, over any number of retries, ends with the agent asking, the report names the
  one tool call its conversation leaves open, which is also the last message the agent has recorded
  (of a provider that emits chunks only, as the Anthropic one does); the workflow records that call and
  tells the user; and the user's reply, in the same process or in one that has recovered the workflow,
  goes as the result of exactly that call to the agent's session. There it starts a run over the
  recorded conversation, which the actor holds as its state, with the reply as its input. The reply
  closes that conversation exactly when every earlier call was recorded as answered, which holds when
  no attempt rejected a handoff or nudged the model.
  (An agent spawned anew has by then started a run of its own, \<open>respawned_for_reply_runs_twice\<close>.)
\<close>

theorem question_answered:
  assumes "agent_handle_command ag0 history cmd = (ag1, [StartRun t input history'], eff0)"
    and "closed (history' @ [input_to_message input])" and "chunks_only p"
    and "run_with_retries S sleep p tb prompt handoff max_iter max_retries history' input w = (out, attempts, w')"
    and "recorded = foldl agent_apply_event history (effect_events eff0 @ coarse_events (concat attempts))"
    and "handle_finished ag out = (ag', [TellParent (AgentAsked sid cid question)], eff)"
    and "is_current s sid" and "ws_current_agent s = Some name" and "agent_def wa name = Some d"
    and "workflow_handle_command J wa s (AgentAsked sid cid question) j = (j', wa', outs, weff)"
    and "wa_def wa2 = wa_def wa" and "ad_model d \<in> set (wa_models wa2)"
  shows "\<exists>i agent sts st before m a3 ag3.
           build S (attempt_builder p tb prompt handoff max_iter history') = Inr agent \<and>
           attempts = map rs_events (sts @ [st]) \<and>
           (\<forall>st'\<in>set (sts @ [st]). \<exists>w0 r. run S agent input w0 = (r, st')) \<and>
           cid = Some i \<and> conv [] (rs_history st) = Some [i] \<and>
           recorded = before @ [m] \<and> msg_role m = Assistant \<and>
           map call_id (extract_tool_calls (msg_parts m)) = [i] \<and>
           outs = [Notify (NotifyAwaiting question)] \<and>
           workflow_handle_command J wa2 (foldl workflow_apply_event s (effect_events weff)) (ResumeWorkflow reply) j2 =
             (j2, a3,
              (case wa_current_child wa2 of
                 Some child \<Rightarrow> [TellAgent child (InjectToolResult i reply)]
               | None \<Rightarrow> [SpawnAgent (wa_spawned wa2) sid d,
                          TellAgent (wa_spawned wa2) (InjectToolResult i reply)]),
              EffNone) \<and>
           agent_handle_command ag2 recorded (InjectToolResult i reply) =
             (ag3, [StartRun (aa_tokens ag2) (input_tool_result i reply False) recorded],
              Persist [EvInputMessage (input_to_message (input_tool_result i reply False))]) \<and>
           (closed (recorded @ [input_to_message (input_tool_result i reply False)]) \<longleftrightarrow> closed before) \<and>
           ((\<forall>st'\<in>set (sts @ [st]). rs_handoff_retries st' = 0 \<and> list_all (\<lambda>m. \<not> is_nudge m) (rs_history st')) \<longrightarrow>
              closed (recorded @ [input_to_message (input_tool_result i reply False)]))"
proof -
  note started = command_starts_run [OF assms(1)]
  obtain data where out: "out = OutConcluded data cid" using asked_from_conclusion [OF assms(6)] by blast
  note rl = assms(4) [unfolded run_with_retries_def out]
  obtain agent where b: "build S (attempt_builder p tb prompt handoff max_iter history') = Inr agent"
    using rl by (cases "build S (attempt_builder p tb prompt handoff max_iter history')")
      (auto simp: retry_loop.simps)
  note ag = attempt_builder_history [OF b] attempt_builder_provider [OF b]
  from retry_loop_runs [OF rl b] obtain sts st w0 r where sts: "attempts = map rs_events (sts @ [st])"
      "\<forall>st'\<in>set sts. \<exists>w1 e. run S agent input w1 = (Inl (Provider e), st')"
    and r: "run S agent input w0 = (r, st)" "run_report r (rs_events st) = OutConcluded data cid"
    by metis
  have cl: "closed (ag_history agent @ [input_to_message input])" and ch: "chunks_only (ag_provider agent)"
    using assms(2,3) ag by simp_all
  from handoff_id_answers [OF cl r] obtain i where i: "cid = Some i" "conv [] (rs_history st) = Some [i]" by blast
  from question_recorded [OF r] i(1) obtain es m where m: "persisted (rs_events st) = es @ [m]"
      "msg_role m = Assistant" "map call_id (extract_tool_calls (msg_parts m)) = [i]" by auto
  let ?base = "ag_history agent @ [input_to_message input]"
  let ?before = "?base @ persisted (concat (map rs_events sts)) @ es"
  have rec: "recorded = ?base @ persisted (concat (map rs_events (sts @ [st])))"
    using started ag(1) sts(1) assms(5) agent_apply_prefix [of "?base" "coarse_events (concat attempts)"]
    by (simp add: persisted_def)
  then have rec2: "recorded = ?before @ [m]" using m(1) by simp
  note closes = reply_closes [OF m(2,3), of ?before reply, folded rec2]
  have fine: "closed (recorded @ [input_to_message (input_tool_result i reply False)])"
    if "\<forall>st'\<in>set (sts @ [st]). rs_handoff_retries st' = 0 \<and> list_all (\<lambda>m. \<not> is_nudge m) (rs_history st')"
    by (rule reply_answers) (use attempts_record [OF cl ch _ sts(2) r(1) i(2)] that rec in \<open>simp add: answers_all_def\<close>)
  obtain ag3 where next_run: "agent_handle_command ag2 recorded (InjectToolResult i reply) =
      (ag3, [StartRun (aa_tokens ag2) (input_tool_result i reply False) recorded],
       Persist [EvInputMessage (input_to_message (input_tool_result i reply False))])"
    by (simp add: agent_handle_command_def start_run_def Let_def)
  obtain a3 where asked: "outs = [Notify (NotifyAwaiting question)]"
      "workflow_handle_command J wa2 (foldl workflow_apply_event s (effect_events weff)) (ResumeWorkflow reply) j2 =
        (j2, a3, (case wa_current_child wa2 of
           Some child \<Rightarrow> [TellAgent child (InjectToolResult i reply)]
         | None \<Rightarrow> [SpawnAgent (wa_spawned wa2) sid d, TellAgent (wa_spawned wa2) (InjectToolResult i reply)]),
         EffNone)"
    using asked_then_resumed [OF assms(7-9) assms(10) [unfolded i(1)] assms(11,12), of reply j2] by (auto simp: Let_def)
  have runs: "\<forall>st'\<in>set (sts @ [st]). \<exists>w0 r. run S agent input w0 = (r, st')" using sts(2) r(1) by fastforce
  show ?thesis
    by (intro exI [of _ i] exI [of _ agent] exI [of _ sts] exI [of _ st] exI [of _ ?before] exI [of _ m]
        exI [of _ a3] exI [of _ ag3] conjI impI b sts(1) runs i rec2 m(2,3) asked next_run closes fine)
qed

text \<open>An agent that reads a file and asks, in the sample workflow.\<close>

definition asking_actor :: agent_actor where
  "asking_actor =
     demo_actor\<lparr>aa_session_id := ''s'',
       aa_params := \<lparr>ap_system_prompt = None, ap_has_output_schema = False, ap_allow_ask_user = True,
                     ap_max_iterations = None, ap_max_retries = 1\<rparr>\<rparr>"

definition asking_toolbox :: "completion_response list toolbox" where
  "asking_toolbox =
     \<lparr>tb_specs = [\<lparr>ts_name = ''conclude'', ts_description = [], ts_input_schema = JNull\<rparr>],
      tb_execute = (\<lambda>_ _ w. (Inr JNull, w))\<rparr>"

definition asking_replies :: "completion_response list" where
  "asking_replies = [answer [call_part ''a'' ''read''], answer [call_part ''d'' ''conclude'']]"

lemma scripted_provider_chunks: "chunks_only scripted_provider"
  using scripted_chunks_only [of None] by (simp add: scripted_agent_def)

definition asking_run :: "run_outcome \<times> agent_event list list \<times> completion_response list" where
  "asking_run =
     run_with_retries scripted_services (\<lambda>_ w. w) scripted_provider asking_toolbox [] (Some ''conclude'')
       None 1 [] (UserMessage ''0'' ''hi'') asking_replies"

definition asking_record :: "message list" where
  "asking_record =
     foldl agent_apply_event [] ([EvInputMessage (message_user ''0'' ''hi'')] @ coarse_events (concat (fst (snd asking_run))))"

lemma question_answered_witness:
  "\<exists>a3. workflow_handle_command in_memory_ops demo_workflow
     (demo_running\<lparr>ws_status := WAwaitingUserInput, ws_pending_tool_call := Some ''d''\<rparr>)
     (ResumeWorkflow ''that'') (Map.empty :: nat in_memory) =
     (Map.empty, a3, [SpawnAgent 0 ''s'' (the (agent_def demo_workflow ''a'')),
                      TellAgent 0 (InjectToolResult ''d'' ''that'')], EffNone) \<and>
     closed (asking_record @ [message_tool_result ''d'' ''that'' False])"
proof -
  have o: "fst asking_run = OutConcluded JNull (Some ''d'')" and b: "closed (butlast asking_record)"
    by code_simp+
  from o obtain attempts w' where r: "asking_run = (OutConcluded JNull (Some ''d''), attempts, w')"
    by (metis prod.collapse)
  have n: "aa_new_id asking_actor (aa_drawn asking_actor) = ''0''" by code_simp
  have s: "agent_handle_command asking_actor [] (RunAgent ''hi'') =
      (asking_actor\<lparr>aa_drawn := 1, aa_running := Some 0, aa_tokens := 1\<rparr>,
       [StartRun 0 (UserMessage ''0'' ''hi'') []], Persist [EvInputMessage (message_user ''0'' ''hi'')])"
    using n by (simp add: agent_handle_command_def new_message_id_def start_run_def input_user_message_def
        asking_actor_def demo_actor_def)
  have c: "closed ([] @ [input_to_message (UserMessage ''0'' ''hi'')])" by (simp add: closed_def conv_step_def)
  have e: "asking_record = foldl agent_apply_event []
      (effect_events (Persist [EvInputMessage (message_user ''0'' ''hi'')]) @ coarse_events (concat attempts))"
    by (simp add: asking_record_def r)
  have f: "handle_finished asking_actor (OutConcluded JNull (Some ''d'')) =
      (asking_actor\<lparr>aa_running := None\<rparr>, [TellParent (AgentAsked ''s'' (Some ''d'') [])], Snapshot)"
    by (simp add: handle_finished_def interpret_conclude_def asking_actor_def extract_question_def)
  have h: "workflow_handle_command in_memory_ops demo_started demo_running (AgentAsked ''s'' (Some ''d'') [])
      (Map.empty :: nat in_memory) =
      (Map.empty, demo_started, [Notify (NotifyAwaiting [])], Persist [WorkflowPaused ''s'' (Some ''d'')])"
    by (simp add: workflow_handle_command_def is_current_def demo_running_def)
  let ?d = "demo_agent_def ''a'' (Some [\<lparr>tr_to = ''c'', tr_condition = Some ''no''\<rparr>, \<lparr>tr_to = ''b'', tr_condition = None\<rparr>])"
  have q: "is_current demo_running ''s''" "ws_current_agent demo_running = Some ''a''"
      "wa_def demo_workflow = wa_def demo_started" "ad_model ?d \<in> set (wa_models demo_workflow)"
      "wa_current_child demo_workflow = None" "wa_spawned demo_workflow = 0"
    by (simp_all add: is_current_def demo_running_def demo_started_def demo_workflow_def demo_agent_def_def)
  from question_answered [OF s c scripted_provider_chunks r [unfolded asking_run_def] e f q(1,2)
      demo_agent_found(2) [unfolded demo_agent_found(1)] h q(3,4), of "''that''" Map.empty asking_actor]
  obtain before m a3 where w: "workflow_handle_command in_memory_ops demo_workflow
       (foldl workflow_apply_event demo_running (effect_events (Persist [WorkflowPaused ''s'' (Some ''d'')])))
       (ResumeWorkflow ''that'') (Map.empty :: nat in_memory) =
     (Map.empty, a3, [SpawnAgent 0 ''s'' ?d, TellAgent 0 (InjectToolResult ''d'' ''that'')], EffNone)"
    and rec: "asking_record = before @ [m]"
    and reply: "closed (asking_record @ [message_tool_result ''d'' ''that'' False]) \<longleftrightarrow> closed before"
    by (auto simp: q(5,6) input_tool_result_def)
  have "closed before" using b unfolding rec by simp
  with w reply demo_agent_found(1) show ?thesis by (auto simp: demo_running_def)
qed

subsection \<open>What an agent costs the model\<close>

text \<open>
  C21. An agent opens at most seven streams for each iteration of each attempt. Whatever the API answers,
  whatever the tools do and however often the run is retried, a run with retries over the Anthropic
  provider opens at most \<open>7 * max_iterations * (max_retries + 1)\<close> streams, here counted beside the world.
\<close>

theorem agent_streams_bounded:
  "case run_with_retries (services_beside S) (\<lambda>ms (w, n). (sleep ms w, n)) (anthropic_complete (count_streams C) p)
          (toolbox_beside tb) prompt handoff max_iter max_retries history input (w, 0) of
     (out, attempts, w', n) \<Rightarrow>
       n \<le> 7 * unat (case max_iter of None \<Rightarrow> 100 | Some m \<Rightarrow> m) * (unat max_retries + 1)"
proof -
  let ?n = "unat (case max_iter of None \<Rightarrow> 100 | Some m \<Rightarrow> m)"
  obtain out attempts w' n where e: "run_with_retries (services_beside S) (\<lambda>ms (w, n). (sleep ms w, n))
      (anthropic_complete (count_streams C) p) (toolbox_beside tb) prompt handoff max_iter max_retries history
      input (w, 0) = (out, attempts, w', n)"
    using prod_cases4 by blast
  note r = e [unfolded run_with_retries_def]
  have "n \<le> 7 * ?n * length attempts"
    using an.retry_loop_metered [OF steady_beside _ r] by auto
  moreover have "length attempts \<le> unat max_retries + 1" using retry_loop_attempts [OF r] by simp
  ultimately have "n \<le> 7 * ?n * (unat max_retries + 1)" by (meson le_trans mult_le_mono2)
  with e show ?thesis by simp
qed

text \<open>An overloaded API and an agent that retries it once: two runs of one iteration, fourteen streams.\<close>

definition idle_services :: "unit services" where
  "idle_services =
     \<lparr>sv_uuid = (\<lambda>w. (''u'', w)), sv_cancelled = (\<lambda>w. (False, w)), sv_show_json = (\<lambda>_. []),
      sv_compile_schema = (\<lambda>_. Inl [])\<rparr>"

definition overloaded_client :: "(unit, unit) api_client" where
  "overloaded_client =
     \<lparr>ac_check_message = (\<lambda>_. None), ac_check_request = (\<lambda>_. None),
      ac_stream = (\<lambda>_ _ w. ([Inl (StreamError ''overloaded'')], w)),
      ac_display = (\<lambda>e. case e of StreamError m \<Rightarrow> m | _ \<Rightarrow> []), ac_sleep = (\<lambda>_ w. w),
      ac_from_str = (\<lambda>_. None)\<rparr>"

lemma overloaded_streams:
  "snd (snd (snd (run_with_retries (services_beside idle_services) (\<lambda>ms (w, n). (w, n))
     (anthropic_complete (count_streams overloaded_client) plain_provider) (toolbox_beside empty_toolbox)
     [] None (Some 4) 1 [] (UserMessage ''m'' ''hi'') ((), 0)))) = 14"
  by code_simp

end
